(* ===== verification/Prelude.thy ===== *)
theory Prelude
  imports Main "HOL-Library.AList"
begin

text \<open>
  Shared vocabulary of the development: the Python values the add-on handles, Python
  exceptions as values, the two small monads the components are written in (a fallible
  computation \<open>exn + 'a\<close> and a fallible computation over a state) with their inversion
  rules, the string primitives of the standard library the source uses, and insertion-ordered
  dictionaries as association lists.
\<close>

section \<open>Rule collections\<close>

named_theorems res_iff \<open>when a fallible computation returns, and what\<close>
named_theorems act_iff \<open>when a stateful fallible computation returns, and what\<close>

section \<open>Python strings\<close>

text \<open>
  A Python \<open>str\<close> is a sequence of Unicode code points, and \<open>len\<close>, slices and regular
  expressions count code points; so it is a list of code points here. \<open>py\<close> embeds the
  literals of the source.
\<close>

type_synonym pystr = "nat list"

definition py :: "string \<Rightarrow> pystr" where
  "py s = map of_char s"

lemma py_inject [simp]: "py s = py t \<longleftrightarrow> s = t"
  by (simp add: py_def inj_map_eq_map inj_of_char)

lemma py_Nil [simp]: "py [] = []"
  by (simp add: py_def)

lemma py_eq_Nil [simp]: "py s = [] \<longleftrightarrow> s = []" "[] = py s \<longleftrightarrow> s = []"
  by (auto simp: py_def)

lemma length_py [simp]: "length (py s) = length s"
  by (simp add: py_def)

text \<open>
  \<open>str.isspace\<close> and the class \<open>\s\<close> of a \<open>str\<close> pattern: the code points that are
  white space for Python (Unicode 16).
\<close>

definition is_space :: "nat \<Rightarrow> bool" where
  "is_space c \<longleftrightarrow> (9 \<le> c \<and> c \<le> 13) \<or> (28 \<le> c \<and> c \<le> 32) \<or> c = 133 \<or> c = 160 \<or> c = 5760
     \<or> (8192 \<le> c \<and> c \<le> 8202) \<or> c = 8232 \<or> c = 8233 \<or> c = 8239 \<or> c = 8287 \<or> c = 12288"

definition strip :: "pystr \<Rightarrow> pystr" where
  "strip s = rev (dropWhile is_space (rev (dropWhile is_space s)))"

definition startswith :: "'a list \<Rightarrow> 'a list \<Rightarrow> bool" where
  "startswith s p \<longleftrightarrow> take (length p) s = p"

text \<open>\<open>s.replace(a, b)\<close> for a one-character \<open>a\<close> and \<open>b\<close>.\<close>

definition replace_char :: "nat \<Rightarrow> nat \<Rightarrow> pystr \<Rightarrow> pystr" where
  "replace_char a b s = map (\<lambda>c. if c = a then b else c) s"

text \<open>The last \<open>n\<close> elements: the slice \<open>s[-n:]\<close> for a positive \<open>n\<close>.\<close>

definition last_n :: "nat \<Rightarrow> 'a list \<Rightarrow> 'a list" where
  "last_n n s = drop (length s - n) s"

text \<open>Decimal rendering of an integer, \<open>str(n)\<close>.\<close>

fun digits_of_nat :: "nat \<Rightarrow> pystr" where
  "digits_of_nat n = (if n < 10 then [48 + n] else digits_of_nat (n div 10) @ [48 + n mod 10])"

declare digits_of_nat.simps [simp del]

definition str_of_int :: "int \<Rightarrow> pystr" where
  "str_of_int i = (if i < 0 then 45 # digits_of_nat (nat (- i)) else digits_of_nat (nat i))"

lemma dropWhile_all_False:
  "\<forall>x \<in> set xs. \<not> P x \<Longrightarrow> dropWhile P xs = xs"
  by (cases xs) auto

lemma strip_id:
  assumes "\<forall>c \<in> set s. \<not> is_space c"
  shows "strip s = s"
  using assms by (simp add: strip_def dropWhile_all_False)

lemma set_strip: "set (strip s) \<subseteq> set s"
  by (auto simp: strip_def dest!: set_dropWhileD)

lemma dropWhile_Nil_or_hd: "dropWhile P xs = [] \<or> \<not> P (hd (dropWhile P xs))"
  by (cases "dropWhile P xs = []") (simp_all add: hd_dropWhile)

text \<open>Stripping leaves no white space at either end, so it is idempotent.\<close>

lemma dropWhile_hd_id: "xs = [] \<or> \<not> P (hd xs) \<Longrightarrow> dropWhile P xs = xs"
  by (cases xs) auto

lemma strip_ends:
  "strip s \<noteq> [] \<Longrightarrow> \<not> is_space (hd (strip s)) \<and> \<not> is_space (last (strip s))"
proof -
  let ?t = "dropWhile is_space s"
  let ?r = "dropWhile is_space (rev ?t)"
  assume ne: "strip s \<noteq> []"
  then have r: "?r \<noteq> []" by (simp add: strip_def)
  then have "\<not> is_space (hd ?r)" using dropWhile_Nil_or_hd [of is_space "rev ?t"] by blast
  then have last: "\<not> is_space (last (strip s))" by (simp add: strip_def last_rev)
  obtain ys where ys: "rev ?t = ys @ ?r"
    by (metis takeWhile_dropWhile_id)
  then have t: "?t = rev ?r @ rev ys" by (metis rev_append rev_rev_ident)
  have "hd ?t = hd (rev ?r @ rev ys)" using t by (rule arg_cong)
  then have "hd ?t = hd (rev ?r)" using r by (simp only: hd_append2 rev_is_Nil_conv not_False_eq_True)
  moreover have "?t \<noteq> []" using r by (metis dropWhile.simps(1) rev.simps(1))
  ultimately have "\<not> is_space (hd (strip s))"
    using dropWhile_Nil_or_hd [of is_space s] by (simp add: strip_def del: dropWhile_eq_Nil_conv)
  with last show ?thesis by simp
qed

lemma strip_strip [simp]: "strip (strip s) = strip s"
proof (cases "strip s = []")
  case True
  then show ?thesis by (simp add: strip_def [of "[]"])
next
  case False
  then have h: "\<not> is_space (hd (strip s))" and l: "\<not> is_space (last (strip s))"
    using strip_ends by blast+
  have "dropWhile is_space (strip s) = strip s"
    using h by (intro dropWhile_hd_id) simp
  moreover have "dropWhile is_space (rev (strip s)) = rev (strip s)"
    using l False by (intro dropWhile_hd_id) (simp add: hd_rev)
  ultimately show ?thesis by (simp add: strip_def [of "strip s"])
qed

section \<open>Python values\<close>

text \<open>
  The values that cross the add-on's boundaries: JSON documents (report filters, gateway
  requests and responses) and document fields. Floating point numbers do not occur in what the
  modelled code computes with. A dictionary is its list of items in insertion order.
\<close>

datatype pyval =
    PNone
  | PBool bool
  | PInt int
  | PStr pystr
  | PList "pyval list"
  | PDict "(pystr \<times> pyval) list"

text \<open>Truth value testing, \<open>bool(v)\<close>.\<close>

fun truthy :: "pyval \<Rightarrow> bool" where
  "truthy PNone = False"
| "truthy (PBool b) = b"
| "truthy (PInt i) = (i \<noteq> 0)"
| "truthy (PStr s) = (s \<noteq> [])"
| "truthy (PList xs) = (xs \<noteq> [])"
| "truthy (PDict d) = (d \<noteq> [])"

text \<open>\<open>a or b\<close>.\<close>

definition or_else :: "pyval \<Rightarrow> pyval \<Rightarrow> pyval" where
  "or_else a b = (if truthy a then a else b)"

text \<open>\<open>d.get(k)\<close> on the items of a dictionary; a missing key gives \<open>None\<close>.\<close>

definition dget :: "(pystr \<times> pyval) list \<Rightarrow> pystr \<Rightarrow> pyval" where
  "dget d k = (case map_of d k of None \<Rightarrow> PNone | Some v \<Rightarrow> v)"

text \<open>\<open>d[k] = v\<close>: an existing key keeps its position, a new one goes to the end.\<close>

definition dset :: "(pystr \<times> pyval) list \<Rightarrow> pystr \<Rightarrow> pyval \<Rightarrow> (pystr \<times> pyval) list" where
  "dset d k v = AList.update k v d"

lemma dget_dset [simp]: "dget (dset d k v) j = (if j = k then v else dget d j)"
  by (simp add: dget_def dset_def update_conv')

lemma dget_Nil [simp]: "dget [] k = PNone"
  by (simp add: dget_def)

lemma update_present: "map_of d k = Some v \<Longrightarrow> AList.update k v d = d"
  by (induction d) (auto split: if_splits)

lemma update_idem [simp]: "AList.update k v (AList.update k w d) = AList.update k v d"
  by (induction d) auto

text \<open>Storing what is already there changes nothing.\<close>

lemma dset_same: "dget d k = v \<Longrightarrow> v \<noteq> PNone \<Longrightarrow> dset d k v = d"
  by (auto simp: dget_def dset_def update_present split: option.splits)

text \<open>A text field of a document: \<open>None\<close> for anything that is not a string.\<close>

definition as_text :: "pyval \<Rightarrow> pystr option" where
  "as_text v = (case v of PStr s \<Rightarrow> Some s | _ \<Rightarrow> None)"

text \<open>\<open>list(dict.fromkeys(xs))\<close>: the first occurrence of every element, in order.\<close>

definition dict_fromkeys :: "'a list \<Rightarrow> 'a list" where
  "dict_fromkeys xs = rev (remdups (rev xs))"

lemma set_dict_fromkeys [simp]: "set (dict_fromkeys xs) = set xs"
  by (simp add: dict_fromkeys_def)

lemma distinct_dict_fromkeys [simp]: "distinct (dict_fromkeys xs)"
  by (simp add: dict_fromkeys_def)

section \<open>Exceptions\<close>

text \<open>
  An exception carries its class, its message and the attribute
  \<open>reconciliation_required\<close> that the gateway client sets on its own errors.
  \<open>frappe.throw\<close> raises \<open>ValidationError\<close> unless it is given a class;
  the permission checks raise \<open>PermissionError\<close>, which is not a \<open>ValidationError\<close>.
\<close>

datatype exn_class =
    ValidationError
  | PermissionError
  | DoesNotExistError
  | DuplicateEntryError
  | WhatsAppGatewayError
  | RuntimeError
  | AssertionError
  | TypeError
  | KeyError
  | AttributeError
  | ValueError
  | IndexError
  | SystemExit
  | QueueFull
  | TimeoutError
  | TimeoutExpired
  | ProcessLookupError
  | StopIteration

datatype exn = Exn (exn_class: exn_class) (exn_msg: pystr) (exn_reconcile: bool)

abbreviation raise :: "exn_class \<Rightarrow> string \<Rightarrow> exn + 'a" where
  "raise c m \<equiv> Inl (Exn c (py m) False)"

abbreviation throw :: "string \<Rightarrow> exn + 'a" where
  "throw m \<equiv> raise ValidationError m"

abbreviation deny :: "string \<Rightarrow> exn + 'a" where
  "deny m \<equiv> raise PermissionError m"

section \<open>Fallible computations\<close>

fun bindR :: "'e + 'a \<Rightarrow> ('a \<Rightarrow> 'e + 'b) \<Rightarrow> 'e + 'b" where
  "bindR (Inl e) f = Inl e"
| "bindR (Inr x) f = f x"

lemma bindR_Inr_iff [res_iff]: "bindR m f = Inr y \<longleftrightarrow> (\<exists>x. m = Inr x \<and> f x = Inr y)"
  by (cases m) auto

lemma bindR_Inl_iff: "bindR m f = Inl e \<longleftrightarrow> m = Inl e \<or> (\<exists>x. m = Inr x \<and> f x = Inl e)"
  by (cases m) auto

lemma if_throw_Inr_iff [res_iff]: "(if b then Inl e else m) = Inr y \<longleftrightarrow> \<not> b \<and> m = Inr y"
  by simp

lemma if_throw2_Inr_iff [res_iff]: "(if b then m else Inl e) = Inr y \<longleftrightarrow> b \<and> m = Inr y"
  by simp

lemma case_option_raise_iff [res_iff]:
  "(case x of None \<Rightarrow> Inl e | Some v \<Rightarrow> f v) = Inr y \<longleftrightarrow> (\<exists>v. x = Some v \<and> f v = Inr y)"
  by (cases x) auto

text \<open>A loop whose body may raise: the state is threaded and the first exception ends it.\<close>

fun foldR :: "('x \<Rightarrow> 's \<Rightarrow> 'e + 's) \<Rightarrow> 'x list \<Rightarrow> 's \<Rightarrow> 'e + 's" where
  "foldR f [] s = Inr s"
| "foldR f (x # xs) s = bindR (f x s) (foldR f xs)"

lemma foldR_invariant:
  assumes "foldR f xs s = Inr t" and "I s"
    and "\<And>x s t. x \<in> set xs \<Longrightarrow> I s \<Longrightarrow> f x s = Inr t \<Longrightarrow> I t"
  shows "I t"
  using assms by (induction xs arbitrary: s) (auto simp: res_iff)

section \<open>Fallible computations over a state\<close>

text \<open>
  A Python procedure that mutates the site and may raise: the state it leaves behind is part of
  its outcome also when it raises, because an exception undoes nothing by itself.
\<close>

type_synonym ('s, 'a) act = "'s \<Rightarrow> (exn + 'a) \<times> 's"

definition ret :: "'a \<Rightarrow> ('s, 'a) act" where
  "ret x s = (Inr x, s)"

definition fails :: "exn \<Rightarrow> ('s, 'a) act" where
  "fails e s = (Inl e, s)"

definition reads :: "('s \<Rightarrow> exn + 'a) \<Rightarrow> ('s, 'a) act" where
  "reads f s = (f s, s)"

definition bindA :: "('s, 'a) act \<Rightarrow> ('a \<Rightarrow> ('s, 'b) act) \<Rightarrow> ('s, 'b) act" where
  "bindA m f s = (case m s of (Inl e, t) \<Rightarrow> (Inl e, t) | (Inr x, t) \<Rightarrow> f x t)"

definition modifies :: "('s \<Rightarrow> 's) \<Rightarrow> ('s, unit) act" where
  "modifies f s = (Inr (), f s)"

fun foldA :: "('x \<Rightarrow> ('s, unit) act) \<Rightarrow> 'x list \<Rightarrow> ('s, unit) act" where
  "foldA f [] = ret ()"
| "foldA f (x # xs) = bindA (f x) (\<lambda>_. foldA f xs)"

lemma bindA_Inr_iff [act_iff]:
  "bindA m f s = (Inr y, t) \<longleftrightarrow> (\<exists>x s'. m s = (Inr x, s') \<and> f x s' = (Inr y, t))"
  by (auto simp: bindA_def split: prod.splits sum.splits)

lemma bindA_Inl_iff [act_iff]:
  "bindA m f s = (Inl e, t) \<longleftrightarrow>
     m s = (Inl e, t) \<or> (\<exists>x s'. m s = (Inr x, s') \<and> f x s' = (Inl e, t))"
  by (auto simp: bindA_def split: prod.splits sum.splits)

lemma ret_iff [act_iff]: "ret x s = (r, t) \<longleftrightarrow> r = Inr x \<and> t = s"
  by (auto simp: ret_def)

lemma fails_iff [act_iff]: "fails e s = (r, t) \<longleftrightarrow> r = Inl e \<and> t = s"
  by (auto simp: fails_def)

lemma reads_iff [act_iff]: "reads f s = (r, t) \<longleftrightarrow> f s = r \<and> t = s"
  by (auto simp: reads_def)

lemma modifies_iff [act_iff]: "modifies f s = (r, t) \<longleftrightarrow> r = Inr () \<and> t = f s"
  by (auto simp: modifies_def)

text \<open>
  The state an action leaves behind. What is true of the state before and kept by every part
  of a sequence, whatever the parts return, is true of the state after it.
\<close>

abbreviation after :: "('s, 'a) act \<Rightarrow> 's \<Rightarrow> 's" where
  "after m s \<equiv> snd (m s)"

abbreviation outcome :: "('s, 'a) act \<Rightarrow> 's \<Rightarrow> exn + 'a" where
  "outcome m s \<equiv> fst (m s)"

definition keeps :: "('s \<Rightarrow> 's \<Rightarrow> bool) \<Rightarrow> ('s, 'a) act \<Rightarrow> bool" where
  "keeps R m \<longleftrightarrow> (\<forall>s. R s (after m s))"

lemma keepsD: "keeps R m \<Longrightarrow> R s (after m s)"
  by (simp add: keeps_def)

lemma keeps_result: "keeps R m \<Longrightarrow> m s = (r, t) \<Longrightarrow> R s t"
  using keepsD [of R m s] by simp

lemma keepsI: "(\<And>s r t. m s = (r, t) \<Longrightarrow> R s t) \<Longrightarrow> keeps R m"
  unfolding keeps_def by (metis prod.collapse)

lemma keeps_ret [simp]: "reflp R \<Longrightarrow> keeps R (ret x)"
  by (simp add: keeps_def ret_def reflp_def)

lemma keeps_fails [simp]: "reflp R \<Longrightarrow> keeps R (fails e)"
  by (simp add: keeps_def fails_def reflp_def)

lemma keeps_reads [simp]: "reflp R \<Longrightarrow> keeps R (reads f)"
  by (simp add: keeps_def reads_def reflp_def)

lemma keeps_modifies: "(\<And>s. R s (f s)) \<Longrightarrow> keeps R (modifies f)"
  by (simp add: keeps_def modifies_def)

lemma keeps_bindA:
  assumes "transp R" and "keeps R m" and "\<And>x. keeps R (f x)"
  shows "keeps R (bindA m f)"
proof -
  have "R s (after (bindA m f) s)" for s
  proof (cases "m s")
    case (Pair r t)
    then have m: "R s t" using keepsD [OF assms(2), of s] by simp
    show ?thesis
    proof (cases r)
      case (Inl e)
      with Pair m show ?thesis by (simp add: bindA_def)
    next
      case (Inr x)
      have "R t (after (f x) t)" using assms(3) by (rule keepsD)
      with m have "R s (after (f x) t)" using assms(1) by (meson transpE)
      with Pair Inr show ?thesis by (simp add: bindA_def)
    qed
  qed
  then show ?thesis by (simp add: keeps_def)
qed

lemma keeps_foldA:
  assumes "reflp R" "transp R" and "\<And>x. x \<in> set xs \<Longrightarrow> keeps R (f x)"
  shows "keeps R (foldA f xs)"
  using assms(3) by (induction xs) (auto intro!: keeps_bindA assms(1,2) simp: assms(1))

text \<open>\<open>try: m except Exception as e: h(e)\<close> and \<open>try: m finally: f\<close>; an exception of the
  cleanup replaces the outcome.\<close>

definition catchA :: "('s, 'a) act \<Rightarrow> (exn \<Rightarrow> ('s, 'a) act) \<Rightarrow> ('s, 'a) act" where
  "catchA m h s = (case m s of (Inl e, t) \<Rightarrow> h e t | (Inr x, t) \<Rightarrow> (Inr x, t))"

definition finallyA :: "('s, 'a) act \<Rightarrow> ('s, unit) act \<Rightarrow> ('s, 'a) act" where
  "finallyA m f s = (case m s of (r, t) \<Rightarrow> (case f t of (Inl e, u) \<Rightarrow> (Inl e, u) | (Inr _, u) \<Rightarrow> (r, u)))"

lemma catchA_Inr_iff [act_iff]:
  "catchA m h s = (Inr y, t) \<longleftrightarrow>
     m s = (Inr y, t) \<or> (\<exists>e s'. m s = (Inl e, s') \<and> h e s' = (Inr y, t))"
  by (auto simp: catchA_def split: prod.splits sum.splits)

lemma catchA_Inl_iff [act_iff]:
  "catchA m h s = (Inl e, t) \<longleftrightarrow> (\<exists>e' s'. m s = (Inl e', s') \<and> h e' s' = (Inl e, t))"
  by (auto simp: catchA_def split: prod.splits sum.splits)

lemma finallyA_iff:
  "finallyA m f s = (r, u) \<longleftrightarrow>
     (\<exists>r' t. m s = (r', t) \<and>
        ((\<exists>e. f t = (Inl e, u) \<and> r = Inl e) \<or> (\<exists>x. f t = (Inr x, u) \<and> r = r')))"
  by (auto simp: finallyA_def split: prod.splits sum.splits)

lemma keeps_catchA:
  assumes trans: "transp R" and m: "keeps R m" and h: "\<And>e. keeps R (h e)"
  shows "keeps R (catchA m h)"
proof -
  have "R s (after (catchA m h) s)" for s
  proof (cases "m s")
    case (Pair r t)
    then have "R s t" using keepsD [OF m, of s] by simp
    moreover have "R t (after (h e) t)" for e using h by (rule keepsD)
    ultimately show ?thesis
      using Pair transpD [OF trans] by (cases r) (auto simp: catchA_def)
  qed
  then show ?thesis by (simp add: keeps_def)
qed

lemma after_finallyA: "after (finallyA m f) s = after f (after m s)"
  by (simp add: finallyA_def split: prod.splits sum.splits)

lemma keeps_finallyA:
  assumes "transp R" and "keeps R m" and "keeps R f"
  shows "keeps R (finallyA m f)"
  unfolding keeps_def after_finallyA
  using keepsD [OF assms(2)] keepsD [OF assms(3)] transpD [OF assms(1)] by blast

section \<open>Keyed rows\<close>

text \<open>
  A database table as the add-on sees it: rows under unique names, in the order the table
  lists them. Reading a row after a write gives what was written, and other rows are untouched;
  the names stay distinct.
\<close>

type_synonym 'r rows = "(pystr \<times> 'r) list"

definition row_get :: "'r rows \<Rightarrow> pystr \<Rightarrow> 'r option" where
  "row_get t k = map_of t k"

definition row_put :: "pystr \<Rightarrow> 'r \<Rightarrow> 'r rows \<Rightarrow> 'r rows" where
  "row_put k r t = AList.update k r t"

definition row_keys :: "'r rows \<Rightarrow> pystr list" where
  "row_keys t = map fst t"

definition row_wf :: "'r rows \<Rightarrow> bool" where
  "row_wf t \<longleftrightarrow> distinct (row_keys t)"

locale keyed_store =
  fixes get :: "'t \<Rightarrow> 'k \<Rightarrow> 'r option"
    and put :: "'k \<Rightarrow> 'r \<Rightarrow> 't \<Rightarrow> 't"
    and keys :: "'t \<Rightarrow> 'k list"
    and wf :: "'t \<Rightarrow> bool"
  assumes get_put_same: "get (put k r t) k = Some r"
    and get_put_other: "j \<noteq> k \<Longrightarrow> get (put k r t) j = get t j"
    and get_keys: "get t k \<noteq> None \<longleftrightarrow> k \<in> set (keys t)"
    and keys_put: "k \<in> set (keys t) \<Longrightarrow> keys (put k r t) = keys t"
    and wf_put: "wf t \<Longrightarrow> wf (put k r t)"
begin

lemma get_put: "get (put k r t) j = (if j = k then Some r else get t j)"
  by (simp add: get_put_same get_put_other)

text \<open>Rewriting rows in place neither creates nor loses one.\<close>

lemma keys_update: "get t k \<noteq> None \<Longrightarrow> keys (put k r t) = keys t"
  by (metis get_keys keys_put)

lemma put_invariant:
  assumes "\<And>j q. get t j = Some q \<Longrightarrow> I j q" and "I k r"
    and "get (put k r t) j = Some q"
  shows "I j q"
  using assms by (auto simp: get_put split: if_splits)

end

interpretation rows_store: keyed_store row_get row_put row_keys row_wf
proof
  fix t :: "'a rows" and j k :: pystr and r
  show "row_get (row_put k r t) k = Some r"
    by (simp add: row_get_def row_put_def update_conv')
  show "j \<noteq> k \<Longrightarrow> row_get (row_put k r t) j = row_get t j"
    by (simp add: row_get_def row_put_def update_conv')
  show "row_get t k \<noteq> None \<longleftrightarrow> k \<in> set (row_keys t)"
    by (force simp: row_get_def row_keys_def map_of_eq_None_iff)
  show "k \<in> set (row_keys t) \<Longrightarrow> row_keys (row_put k r t) = row_keys t"
    by (simp add: row_keys_def row_put_def update_keys)
  show "row_wf t \<Longrightarrow> row_wf (row_put k r t)"
    by (simp add: row_wf_def row_keys_def row_put_def distinct_update)
qed

lemmas row_get_put [simp] = rows_store.get_put

lemma row_get_Nil [simp]: "row_get [] k = None"
  by (simp add: row_get_def)

lemma row_put_same: "row_get t k = Some r \<Longrightarrow> row_put k r t = t"
  by (simp add: row_get_def row_put_def update_present)

end
