(* ===== verification/Phone.thy ===== *)
theory Phone
  imports Prelude
begin

text \<open>
  Recipient numbers and group identifiers: \<open>_normalize_number\<close> of \<open>api.py\<close>, the
  gateway's own \<open>normalizeInternationalNumber\<close> (\<open>gateway/src/core.mjs\<close>) that reads
  the number again on the other side of the socket, and \<open>group_id\<close> of
  \<open>company_groups.py\<close> with its regular expression as a recogniser.
\<close>

section \<open>Decimal digits\<close>

text \<open>
  The first digit of every block of ten decimal digits (general category Nd) of Unicode 16.
  The class \<open>\d\<close> of a Python \<open>str\<close> pattern is exactly these digits, not only the
  ASCII ones.
\<close>

definition nd_zeros :: "nat list" where
  "nd_zeros = [0x30, 0x660, 0x6F0, 0x7C0, 0x966, 0x9E6, 0xA66, 0xAE6, 0xB66, 0xBE6, 0xC66, 0xCE6,
     0xD66, 0xDE6, 0xE50, 0xED0, 0xF20, 0x1040, 0x1090, 0x17E0, 0x1810, 0x1946, 0x19D0, 0x1A80,
     0x1A90, 0x1B50, 0x1BB0, 0x1C40, 0x1C50, 0xA620, 0xA8D0, 0xA900, 0xA9D0, 0xA9F0, 0xAA50,
     0xABF0, 0xFF10, 0x104A0, 0x10D30, 0x10D40, 0x11066, 0x110F0, 0x11136, 0x111D0, 0x112F0,
     0x11450, 0x114D0, 0x11650, 0x116C0, 0x116D0, 0x116DA, 0x11730, 0x118E0, 0x11950, 0x11BF0,
     0x11C50, 0x11D50, 0x11DA0, 0x11F50, 0x16130, 0x16A60, 0x16AC0, 0x16B50, 0x16D70, 0x1CCF0,
     0x1D7CE, 0x1D7D8, 0x1D7E2, 0x1D7EC, 0x1D7F6, 0x1E140, 0x1E2F0, 0x1E4F0, 0x1E5F1, 0x1E950,
     0x1FBF0]"

definition is_decimal :: "nat \<Rightarrow> bool" where
  "is_decimal c \<longleftrightarrow> list_ex (\<lambda>z. z \<le> c \<and> c \<le> z + 9) nd_zeros"

definition is_ascii_digit :: "nat \<Rightarrow> bool" where
  "is_ascii_digit c \<longleftrightarrow> 48 \<le> c \<and> c \<le> 57"

lemma ascii_is_decimal: "is_ascii_digit c \<Longrightarrow> is_decimal c"
  by (simp add: is_ascii_digit_def is_decimal_def nd_zeros_def)

lemma is_decimal_ascii: "is_decimal c \<Longrightarrow> c < 128 \<Longrightarrow> is_ascii_digit c"
  by (auto simp: is_ascii_digit_def is_decimal_def nd_zeros_def)

text \<open>No digit is white space or one of the characters the normalisation removes.\<close>

definition is_separator :: "nat \<Rightarrow> bool" where
  "is_separator c \<longleftrightarrow> is_space c \<or> c \<in> set (py ''()+.-'')"

lemma separator_chars: "c \<in> set (py ''()+.-'') \<longleftrightarrow> c = 40 \<or> c = 41 \<or> c = 43 \<or> c = 46 \<or> c = 45"
  by (auto simp: py_def)

text \<open>A range that meets no block of digits holds no digit.\<close>

lemma digit_gap:
  "list_all (\<lambda>z. z + 9 < lo \<or> hi < z) nd_zeros \<Longrightarrow> lo \<le> c \<Longrightarrow> c \<le> hi \<Longrightarrow> \<not> is_decimal c"
  by (fastforce simp: is_decimal_def list_all_iff list_ex_iff)

lemma gaps_clear:
  "list_all (\<lambda>z. z + 9 < 0 \<or> 47 < z) nd_zeros"
  "list_all (\<lambda>z. z + 9 < 58 \<or> 1631 < z) nd_zeros"
  "list_all (\<lambda>z. z + 9 < 5760 \<or> 5760 < z) nd_zeros"
  "list_all (\<lambda>z. z + 9 < 8192 \<or> 12288 < z) nd_zeros"
  by (simp_all add: nd_zeros_def)

lemma digit_gaps:
  "c \<le> 47 \<Longrightarrow> \<not> is_decimal c"
  "58 \<le> c \<Longrightarrow> c \<le> 1631 \<Longrightarrow> \<not> is_decimal c"
  "c = 5760 \<Longrightarrow> \<not> is_decimal c"
  "8192 \<le> c \<Longrightarrow> c \<le> 12288 \<Longrightarrow> \<not> is_decimal c"
  using digit_gap [OF gaps_clear(1), of c] digit_gap [OF gaps_clear(2), of c]
    digit_gap [OF gaps_clear(3), of c] digit_gap [OF gaps_clear(4), of c] by simp_all

lemma separator_gap:
  "is_separator c \<Longrightarrow> c \<le> 47 \<or> (58 \<le> c \<and> c \<le> 1631) \<or> c = 5760 \<or> (8192 \<le> c \<and> c \<le> 12288)"
  unfolding is_separator_def is_space_def separator_chars by linarith

lemma decimal_not_separator: "is_decimal c \<Longrightarrow> \<not> is_separator c"
  using separator_gap digit_gaps by blast

lemma decimal_not_space: "is_decimal c \<Longrightarrow> \<not> is_space c"
  using decimal_not_separator by (auto simp: is_separator_def)

section \<open>The server's normalisation\<close>

text \<open>\<open>re.fullmatch(r"[1-9]\d{7,14}", digits)\<close>.\<close>

definition matches_number :: "pystr \<Rightarrow> bool" where
  "matches_number ds \<longleftrightarrow>
     (case ds of [] \<Rightarrow> False
      | c # cs \<Rightarrow> 49 \<le> c \<and> c \<le> 57 \<and> 7 \<le> length cs \<and> length cs \<le> 14 \<and> list_all is_decimal cs)"

definition normalize_number :: "pystr option \<Rightarrow> exn + pystr" where
  "normalize_number value =
     (let digits = filter (\<lambda>c. \<not> is_separator c)
                     (strip (case value of None \<Rightarrow> [] | Some s \<Rightarrow> s));
          digits = (if startswith digits (py ''00'') then drop 2 digits else digits)
      in if \<not> matches_number digits
         then throw ''Enter a valid international WhatsApp number including the country code.''
         else Inr (py ''+'' @ digits))"

lemma startswith_00: "startswith ds (py ''00'') \<longleftrightarrow> (\<exists>r. ds = 48 # 48 # r)"
proof -
  have "py ''00'' = [48, 48]" by (simp add: py_def)
  then show ?thesis
    by (cases ds; cases "tl ds") (auto simp: startswith_def)
qed

lemma py_plus: "py ''+'' = [43]"
  by (simp add: py_def)

lemma plus_not_space: "\<not> is_space 43"
  by (simp add: is_space_def)

lemma matches_number_all_decimal: "matches_number ds \<Longrightarrow> list_all is_decimal ds"
  by (auto simp: matches_number_def ascii_is_decimal is_ascii_digit_def split: list.splits)

lemma matches_number_length: "matches_number ds \<Longrightarrow> 8 \<le> length ds \<and> length ds \<le> 15"
  by (auto simp: matches_number_def split: list.splits)

lemma matches_number_first: "matches_number ds \<Longrightarrow> ds \<noteq> [] \<and> 49 \<le> hd ds \<and> hd ds \<le> 57"
  by (auto simp: matches_number_def split: list.splits)

text \<open>Every accepted number is a plus sign and a matching digit string, and conversely.\<close>

lemma normalize_number_Inr:
  "normalize_number v = Inr n \<Longrightarrow> \<exists>ds. n = 43 # ds \<and> matches_number ds"
  by (auto simp: normalize_number_def Let_def py_plus split: if_splits)

lemma filter_separators_decimal:
  "list_all is_decimal ds \<Longrightarrow> filter (\<lambda>c. \<not> is_separator c) ds = ds"
  by (induction ds) (auto simp: decimal_not_separator)

lemma strip_number: "list_all is_decimal ds \<Longrightarrow> strip (43 # ds) = 43 # ds"
  by (rule strip_id) (auto simp: list_all_iff decimal_not_space plus_not_space)

lemma normalize_number_canonical:
  assumes "matches_number ds"
  shows "normalize_number (Some (43 # ds)) = Inr (43 # ds)"
proof -
  have d: "list_all is_decimal ds" using assms by (rule matches_number_all_decimal)
  have "is_separator 43" by (simp add: is_separator_def separator_chars)
  moreover have "\<not> startswith ds (py ''00'')"
    using matches_number_first [OF assms] by (auto simp: startswith_00)
  ultimately show ?thesis
    using assms d by (simp add: normalize_number_def filter_separators_decimal strip_number py_plus)
qed

text \<open>
  Reading a digit string with an international prefix: \<open>+\<close>, \<open>00\<close> and no prefix at
  all give the same number.
\<close>

lemma normalize_number_prefixes:
  assumes "matches_number ds"
  shows "normalize_number (Some ds) = Inr (43 # ds)"
    and "normalize_number (Some (48 # 48 # ds)) = Inr (43 # ds)"
proof -
  have d: "list_all is_decimal ds" using assms by (rule matches_number_all_decimal)
  have z: "is_decimal 48" by (simp add: ascii_is_decimal is_ascii_digit_def)
  have s: "strip ds = ds" "strip (48 # 48 # ds) = 48 # 48 # ds"
    using d z by (auto intro!: strip_id simp: list_all_iff decimal_not_space)
  have n: "\<not> startswith ds (py ''00'')"
    using matches_number_first [OF assms] by (auto simp: startswith_00)
  have p: "startswith (48 # 48 # ds) (py ''00'')" by (simp add: startswith_00)
  show "normalize_number (Some ds) = Inr (43 # ds)"
    using assms d n s by (simp add: normalize_number_def filter_separators_decimal py_plus)
  show "normalize_number (Some (48 # 48 # ds)) = Inr (43 # ds)"
    using assms d p s z
    by (simp add: normalize_number_def filter_separators_decimal decimal_not_separator py_plus)
qed

lemma list_all_is_decimal_tl: "normalize_number v = Inr n \<Longrightarrow> list_all is_decimal (tl n)"
  by (auto dest!: normalize_number_Inr matches_number_all_decimal)

section \<open>The gateway's normalisation\<close>

text \<open>
  White space of JavaScript's \<open>trim\<close> and of \<open>\s\<close> in a regular expression, and the
  gateway's own reading of a number. Its \<open>\d\<close> is the ASCII digits.
\<close>

definition js_space :: "nat \<Rightarrow> bool" where
  "js_space c \<longleftrightarrow> (9 \<le> c \<and> c \<le> 13) \<or> c = 32 \<or> c = 160 \<or> c = 5760 \<or> (8192 \<le> c \<and> c \<le> 8202)
     \<or> c = 8232 \<or> c = 8233 \<or> c = 8239 \<or> c = 8287 \<or> c = 12288 \<or> c = 65279"

definition js_trim :: "pystr \<Rightarrow> pystr" where
  "js_trim s = rev (dropWhile js_space (rev (dropWhile js_space s)))"

definition normalizeInternationalNumber :: "pystr \<Rightarrow> exn + pystr" where
  "normalizeInternationalNumber value =
     (let digits = filter (\<lambda>c. \<not> (js_space c \<or> c \<in> set (py ''()+.-''))) (js_trim value);
          digits = (if startswith digits (py ''00'') then drop 2 digits else digits)
      in if \<not> (8 \<le> length digits \<and> length digits \<le> 15 \<and> list_all is_ascii_digit digits)
            \<or> startswith digits (py ''0'')
         then raise RuntimeError ''Enter a valid international WhatsApp number including the country code.''
         else Inr digits)"

lemma js_space_bounds: "js_space c \<Longrightarrow> \<not> is_ascii_digit c \<and> c \<noteq> 43"
  by (auto simp: js_space_def is_ascii_digit_def)

lemma js_trim_id: "\<forall>c \<in> set s. \<not> js_space c \<Longrightarrow> js_trim s = s"
  by (simp add: js_trim_def dropWhile_all_False)

lemma js_filter_digits:
  "list_all is_ascii_digit ds \<Longrightarrow>
     filter (\<lambda>c. \<not> js_space c \<and> c \<notin> set (py ''()+.-'')) ds = ds"
proof (induction ds)
  case Nil
  then show ?case by simp
next
  case (Cons c cs)
  then have "\<not> js_space c" using js_space_bounds by auto
  moreover have "c \<notin> set (py ''()+.-'')" using Cons.prems by (auto simp: separator_chars is_ascii_digit_def)
  ultimately show ?case using Cons by simp
qed

text \<open>What the server accepts and writes in ASCII, the gateway accepts and reads as the same digits.\<close>

lemma gateway_reads_ascii_number:
  assumes "matches_number ds" and "list_all is_ascii_digit ds"
  shows "normalizeInternationalNumber (43 # ds) = Inr ds"
proof -
  have "js_trim (43 # ds) = 43 # ds"
    using assms(2) by (intro js_trim_id) (auto simp: list_all_iff js_space_def is_ascii_digit_def)
  moreover have "\<not> startswith ds (py ''00'')" "\<not> startswith ds (py ''0'')"
    using matches_number_first [OF assms(1)] by (cases ds; auto simp: startswith_def py_def)+
  moreover have "(43::nat) \<in> set (py ''()+.-'')" by (simp add: separator_chars)
  ultimately show ?thesis
    using assms(2) matches_number_length [OF assms(1)]
    by (simp add: normalizeInternationalNumber_def js_filter_digits)
qed

section \<open>Group identifiers\<close>

text \<open>\<open>[0-9]{5,24}(?:-[0-9]{5,24})?@g\.us\<close>, matched in full.\<close>

definition digit_run :: "pystr \<Rightarrow> bool" where
  "digit_run ds \<longleftrightarrow> 5 \<le> length ds \<and> length ds \<le> 24 \<and> list_all is_ascii_digit ds"

definition matches_group :: "pystr \<Rightarrow> bool" where
  "matches_group s \<longleftrightarrow>
     (let a = takeWhile is_ascii_digit s; r = dropWhile is_ascii_digit s
      in digit_run a \<and>
         (r = py ''@g.us'' \<or>
          (startswith r (py ''-'') \<and>
           (let b = takeWhile is_ascii_digit (tl r)
            in digit_run b \<and> dropWhile is_ascii_digit (tl r) = py ''@g.us''))))"

definition group_id :: "pyval \<Rightarrow> exn + pystr" where
  "group_id value =
     (case value of
        PStr s \<Rightarrow> if matches_group s then Inr s else throw ''Select a valid joined WhatsApp group.''
      | _ \<Rightarrow> throw ''Select a valid joined WhatsApp group.'')"

lemma group_id_Inr_iff [res_iff]: "group_id v = Inr s \<longleftrightarrow> v = PStr s \<and> matches_group s"
  by (auto simp: group_id_def split: pyval.splits)

lemma group_suffix: "py ''@g.us'' = [64, 103, 46, 117, 115]"
  by (simp add: py_def)

text \<open>The recogniser accepts exactly the strings of the pattern.\<close>

lemma takeWhile_digits_append:
  "list_all is_ascii_digit a \<Longrightarrow> r \<noteq> [] \<Longrightarrow> \<not> is_ascii_digit (hd r) \<Longrightarrow>
     takeWhile is_ascii_digit (a @ r) = a \<and> dropWhile is_ascii_digit (a @ r) = r"
  by (induction a) (cases r, auto)+

lemma matches_group_iff:
  "matches_group s \<longleftrightarrow>
     (\<exists>a. digit_run a \<and> (s = a @ py ''@g.us'' \<or>
       (\<exists>b. digit_run b \<and> s = a @ py ''-'' @ b @ py ''@g.us'')))"
  (is "?L = ?R")
proof
  assume L: ?L
  let ?a = "takeWhile is_ascii_digit s" and ?r = "dropWhile is_ascii_digit s"
  have s: "s = ?a @ ?r" by simp
  have a: "digit_run ?a" using L by (simp add: matches_group_def Let_def)
  show ?R
  proof (cases "?r = py ''@g.us''")
    case True
    with a s show ?thesis by metis
  next
    case False
    let ?b = "takeWhile is_ascii_digit (tl ?r)"
    from L False have r: "startswith ?r (py ''-'')" and b: "digit_run ?b"
      and e: "dropWhile is_ascii_digit (tl ?r) = py ''@g.us''"
      by (simp_all add: matches_group_def Let_def)
    have "?r = py ''-'' @ tl ?r" using r
      by (cases ?r) (auto simp: startswith_def py_def)
    moreover have "tl ?r = ?b @ py ''@g.us''" by (metis e takeWhile_dropWhile_id)
    ultimately have "s = ?a @ py ''-'' @ ?b @ py ''@g.us''" using s by metis
    with a b show ?thesis by metis
  qed
next
  assume ?R
  then obtain a where a: "digit_run a" and
    "s = a @ py ''@g.us'' \<or> (\<exists>b. digit_run b \<and> s = a @ py ''-'' @ b @ py ''@g.us'')" by blast
  moreover have "s = a @ py ''@g.us'' \<Longrightarrow> ?L"
    using a by (simp add: matches_group_def takeWhile_digits_append digit_run_def group_suffix
        is_ascii_digit_def)
  moreover have "?L" if "digit_run b" "s = a @ py ''-'' @ b @ py ''@g.us''" for b
    using a that by (simp add: matches_group_def takeWhile_digits_append digit_run_def group_suffix
        is_ascii_digit_def startswith_def py_def [of "''-''"])
  ultimately show ?L by blast
qed

text \<open>A group identifier is never a phone number: no recipient of one kind is read as the other.\<close>

lemma group_not_number: "matches_group s \<Longrightarrow> \<not> matches_number (tl s) \<and> \<not> matches_number s"
proof -
  assume "matches_group s"
  then have "\<exists>r. s = r @ [64, 103, 46, 117, 115] \<and> r \<noteq> []"
    unfolding matches_group_iff group_suffix digit_run_def by (metis append.assoc append_is_Nil_conv
        list.size(3) not_numeral_le_zero)
  then obtain r where r: "s = r @ [64, 103, 46, 117, 115]" "r \<noteq> []" by blast
  have "\<not> is_decimal 64" by (simp add: is_decimal_def nd_zeros_def)
  moreover have "64 \<in> set (tl s)" "64 \<in> set s" using r by (cases r; simp)+
  ultimately show ?thesis
    using matches_number_all_decimal by (auto simp: list_all_iff)
qed

end
