(* ===== verification/Json.thy ===== *)
theory Json
  imports Prelude "HOL-Library.List_Lexorder"
begin

text \<open>
  \<open>json.dumps\<close> and \<open>json.loads\<close> of the standard library, on the values the add-on
  serialises: the delivery's report filters, the provider message identifiers, and the requests
  and responses of the gateway. The main result is the round trip: what is dumped, in either of
  the styles the source uses, is read back unchanged. Numbers with a fraction or an exponent are
  not in \<open>pyval\<close>; reading one fails here.
\<close>

section \<open>Writing\<close>

record json_style =
  item_sep :: pystr
  key_sep :: pystr
  ensure_ascii :: bool
  sort_keys :: bool

text \<open>\<open>json.dumps(x)\<close>.\<close>

definition default_style :: json_style where
  "default_style = \<lparr>item_sep = py '', '', key_sep = py '': '', ensure_ascii = True, sort_keys = False\<rparr>"

text \<open>\<open>json.dumps(x, separators=(",", ":"), ensure_ascii=False)\<close>.\<close>

definition compact_style :: json_style where
  "compact_style = \<lparr>item_sep = py '','', key_sep = py '':'', ensure_ascii = False, sort_keys = False\<rparr>"

text \<open>\<open>json.dumps(x, ensure_ascii=False, sort_keys=True)\<close>.\<close>

definition sorted_style :: json_style where
  "sorted_style = \<lparr>item_sep = py '', '', key_sep = py '': '', ensure_ascii = False, sort_keys = True\<rparr>"

definition hex_digit :: "nat \<Rightarrow> nat" where
  "hex_digit d = (if d < 10 then 48 + d else 87 + d)"

definition hex4 :: "nat \<Rightarrow> pystr" where
  "hex4 c = [hex_digit (c div 4096 mod 16), hex_digit (c div 256 mod 16), hex_digit (c div 16 mod 16),
     hex_digit (c mod 16)]"

definition u_escape :: "nat \<Rightarrow> pystr" where
  "u_escape c = 92 # 117 # hex4 c"

text \<open>One character of a JSON string. With \<open>ensure_ascii\<close> everything but printable ASCII
  is escaped, and a code point beyond the basic plane becomes a surrogate pair.\<close>

definition json_char :: "bool \<Rightarrow> nat \<Rightarrow> pystr" where
  "json_char ascii c =
     (if c = 34 then [92, 34]
      else if c = 92 then [92, 92]
      else if c = 10 then [92, 110]
      else if c = 13 then [92, 114]
      else if c = 9 then [92, 116]
      else if c = 12 then [92, 102]
      else if c = 8 then [92, 98]
      else if c < 32 then u_escape c
      else if ascii \<and> 126 < c
      then (if c < 65536 then u_escape c
            else u_escape (55296 + (c - 65536) div 1024) @ u_escape (56320 + (c - 65536) mod 1024))
      else [c])"

definition json_string :: "bool \<Rightarrow> pystr \<Rightarrow> pystr" where
  "json_string ascii s = [34] @ concat (map (json_char ascii) s) @ [34]"

fun join :: "'a list \<Rightarrow> 'a list list \<Rightarrow> 'a list" where
  "join sep [] = []"
| "join sep [x] = x"
| "join sep (x # y # xs) = x @ sep @ join sep (y # xs)"

fun json_dumps :: "json_style \<Rightarrow> pyval \<Rightarrow> pystr" where
  "json_dumps st PNone = py ''null''"
| "json_dumps st (PBool b) = (if b then py ''true'' else py ''false'')"
| "json_dumps st (PInt i) = str_of_int i"
| "json_dumps st (PStr s) = json_string (ensure_ascii st) s"
| "json_dumps st (PList xs) = [91] @ join (item_sep st) (map (json_dumps st) xs) @ [93]"
| "json_dumps st (PDict d) =
     (let items = map (\<lambda>(k, v). (k, json_dumps st v)) d;
          items = (if sort_keys st then sort_key fst items else items)
      in [123] @ join (item_sep st)
           (map (\<lambda>(k, t). json_string (ensure_ascii st) k @ key_sep st @ t) items) @ [125])"

section \<open>Reading\<close>

definition json_ws :: "nat \<Rightarrow> bool" where
  "json_ws c \<longleftrightarrow> c = 32 \<or> c = 9 \<or> c = 10 \<or> c = 13"

abbreviation skip_ws :: "pystr \<Rightarrow> pystr" where
  "skip_ws \<equiv> dropWhile json_ws"

definition hex_value :: "nat \<Rightarrow> nat option" where
  "hex_value c =
     (if 48 \<le> c \<and> c \<le> 57 then Some (c - 48)
      else if 97 \<le> c \<and> c \<le> 102 then Some (c - 87)
      else if 65 \<le> c \<and> c \<le> 70 then Some (c - 55)
      else None)"

definition hex4_value :: "nat \<Rightarrow> nat \<Rightarrow> nat \<Rightarrow> nat \<Rightarrow> nat option" where
  "hex4_value a b c d =
     (case (hex_value a, hex_value b, hex_value c, hex_value d) of
        (Some a, Some b, Some c, Some d) \<Rightarrow> Some (a * 4096 + b * 256 + c * 16 + d)
      | _ \<Rightarrow> None)"

definition short_escape :: "nat \<Rightarrow> nat option" where
  "short_escape e =
     (if e = 34 then Some 34 else if e = 92 then Some 92 else if e = 47 then Some 47
      else if e = 98 then Some 8 else if e = 102 then Some 12 else if e = 110 then Some 10
      else if e = 114 then Some 13 else if e = 116 then Some 9 else None)"

text \<open>
  What follows a backslash: a short escape, or \<open>\uXXXX\<close>, where a high surrogate joins
  a low one that follows it at once and stands alone otherwise.
\<close>

definition scan_unit :: "pystr \<Rightarrow> (nat \<times> pystr) option" where
  "scan_unit s =
     (if startswith s [92, 117] \<and> 6 \<le> length s
      then map_option (\<lambda>h. (h, drop 6 s)) (hex4_value (s ! 2) (s ! 3) (s ! 4) (s ! 5))
      else None)"

definition scan_escape :: "pystr \<Rightarrow> (nat \<times> pystr) option" where
  "scan_escape s =
     (case s of
        [] \<Rightarrow> None
      | e # t \<Rightarrow>
          (if e \<noteq> 117 then map_option (\<lambda>x. (x, t)) (short_escape e)
           else case scan_unit (92 # s) of
             None \<Rightarrow> None
           | Some (h, r) \<Rightarrow>
               (if 55296 \<le> h \<and> h \<le> 56319 \<and> startswith r [92, 117] \<and> 6 \<le> length r
                then (case scan_unit r of
                        None \<Rightarrow> None
                      | Some (l, q) \<Rightarrow>
                          (if 56320 \<le> l \<and> l \<le> 57343
                           then Some (65536 + (h - 55296) * 1024 + (l - 56320), q)
                           else Some (h, r)))
                else Some (h, r))))"

lemma scan_unit_shorter: "scan_unit s = Some (x, r) \<Longrightarrow> length r < length s"
  by (auto simp: scan_unit_def split: if_splits)

lemma scan_escape_shorter: "scan_escape s = Some (x, r) \<Longrightarrow> length r < length s"
proof (cases s)
  case Nil
  then show "scan_escape s = Some (x, r) \<Longrightarrow> ?thesis" by (simp add: scan_escape_def)
next
  case (Cons e t)
  assume "scan_escape s = Some (x, r)"
  then consider "r = t"
    | h where "scan_unit (92 # s) = Some (h, r)"
    | h q l where "scan_unit (92 # s) = Some (h, q)" "scan_unit q = Some (l, r)"
    by (auto simp: scan_escape_def Cons split: if_splits option.splits)
  then show ?thesis
  proof cases
    case 1
    then show ?thesis by (simp add: Cons)
  next
    case 2
    then show ?thesis by (auto simp: scan_unit_def Cons split: if_splits)
  next
    case 3
    then show ?thesis using scan_unit_shorter [OF 3(2)]
      by (auto simp: scan_unit_def Cons split: if_splits)
  qed
qed

definition emit :: "nat \<Rightarrow> (pystr \<times> pystr) option \<Rightarrow> (pystr \<times> pystr) option" where
  "emit c r = map_option (\<lambda>(s, t). (c # s, t)) r"

text \<open>\<open>scanstring\<close>: the characters up to the closing quote, and what follows it.\<close>

function scan_string :: "pystr \<Rightarrow> (pystr \<times> pystr) option" where
  "scan_string [] = None"
| "scan_string (c # s) =
     (if c = 34 then Some ([], s)
      else if c < 32 then None
      else if c \<noteq> 92 then emit c (scan_string s)
      else (case scan_escape s of
              None \<Rightarrow> None
            | Some (x, r) \<Rightarrow> emit x (scan_string r)))"
  by pat_completeness auto
termination
  by (relation "measure length") (auto dest: scan_escape_shorter)

definition is_digit :: "nat \<Rightarrow> bool" where
  "is_digit c \<longleftrightarrow> 48 \<le> c \<and> c \<le> 57"

definition nat_of_digits :: "pystr \<Rightarrow> nat" where
  "nat_of_digits ds = foldl (\<lambda>n c. n * 10 + (c - 48)) 0 ds"

text \<open>An integer literal: \<open>0\<close> or a digit string without a leading zero. A literal that
  goes on as a floating point number is rejected.\<close>

definition scan_nat :: "pystr \<Rightarrow> (nat \<times> pystr) option" where
  "scan_nat s =
     (let ds = takeWhile is_digit s;
          ds = (if take 1 ds = [48] then [48] else ds);
          r = drop (length ds) s
      in if ds = [] \<or> (r \<noteq> [] \<and> hd r \<in> {46, 69, 101}) then None
         else Some (nat_of_digits ds, r))"

definition scan_number :: "pystr \<Rightarrow> (pyval \<times> pystr) option" where
  "scan_number s =
     (case s of
        [] \<Rightarrow> None
      | c # t \<Rightarrow>
          (if c = 45 then map_option (\<lambda>(n, r). (PInt (- int n), r)) (scan_nat t)
           else map_option (\<lambda>(n, r). (PInt (int n), r)) (scan_nat s)))"

definition expect :: "pystr \<Rightarrow> 'a \<Rightarrow> pystr \<Rightarrow> ('a \<times> pystr) option" where
  "expect w v s = (if startswith s w then Some (v, drop (length w) s) else None)"

text \<open>\<open>dict(pairs)\<close>: a repeated key keeps its first position and takes the last value.\<close>

definition dict_of_pairs :: "(pystr \<times> pyval) list \<Rightarrow> (pystr \<times> pyval) list" where
  "dict_of_pairs ps = foldl (\<lambda>d (k, v). dset d k v) [] ps"

text \<open>The scanner. Every call spends one unit of fuel; \<open>json_loads\<close> gives it more than the
  text can use.\<close>

fun parse_value :: "nat \<Rightarrow> pystr \<Rightarrow> (pyval \<times> pystr) option"
  and parse_items :: "nat \<Rightarrow> pystr \<Rightarrow> (pyval list \<times> pystr) option"
  and parse_members :: "nat \<Rightarrow> pystr \<Rightarrow> ((pystr \<times> pyval) list \<times> pystr) option"
where
  "parse_value 0 s = None"
| "parse_value (Suc n) s =
     (case s of
        [] \<Rightarrow> None
      | c # t \<Rightarrow>
          (if c = 34 then map_option (\<lambda>(x, r). (PStr x, r)) (scan_string t)
           else if c = 123 then
             (let t = skip_ws t
              in if startswith t [125] then Some (PDict [], tl t)
                 else map_option (\<lambda>(ps, r). (PDict (dict_of_pairs ps), r)) (parse_members n t))
           else if c = 91 then
             (let t = skip_ws t
              in if startswith t [93] then Some (PList [], tl t)
                 else map_option (\<lambda>(xs, r). (PList xs, r)) (parse_items n t))
           else if c = 110 then expect (py ''null'') PNone s
           else if c = 116 then expect (py ''true'') (PBool True) s
           else if c = 102 then expect (py ''false'') (PBool False) s
           else scan_number s))"
| "parse_items 0 s = None"
| "parse_items (Suc n) s =
     (case parse_value n s of
        None \<Rightarrow> None
      | Some (x, r) \<Rightarrow>
          (let r = skip_ws r
           in if startswith r [93] then Some ([x], tl r)
              else if startswith r [44]
              then map_option (\<lambda>(xs, q). (x # xs, q)) (parse_items n (skip_ws (tl r)))
              else None))"
| "parse_members 0 s = None"
| "parse_members (Suc n) s =
     (if \<not> startswith s [34] then None
      else case scan_string (tl s) of
        None \<Rightarrow> None
      | Some (k, r) \<Rightarrow>
          (let r = skip_ws r
           in if \<not> startswith r [58] then None
              else case parse_value n (skip_ws (tl r)) of
                None \<Rightarrow> None
              | Some (v, q) \<Rightarrow>
                  (let q = skip_ws q
                   in if startswith q [125] then Some ([(k, v)], tl q)
                      else if startswith q [44]
                      then map_option (\<lambda>(ps, z). ((k, v) # ps, z)) (parse_members n (skip_ws (tl q)))
                      else None)))"

definition json_loads :: "pystr \<Rightarrow> exn + pyval" where
  "json_loads s =
     (case parse_value (2 * length s + 2) (skip_ws s) of
        None \<Rightarrow> raise ValueError ''Expecting value''
      | Some (v, r) \<Rightarrow> if skip_ws r = [] then Inr v else raise ValueError ''Extra data'')"

section \<open>The round trip\<close>

subsection \<open>Strings\<close>

lemma hex_value_digit: "d < 16 \<Longrightarrow> hex_value (hex_digit d) = Some d"
  by (auto simp: hex_value_def hex_digit_def)

lemma hex4_value_hex4:
  assumes "c < 65536"
  shows "hex4_value (hex_digit (c div 4096 mod 16)) (hex_digit (c div 256 mod 16))
     (hex_digit (c div 16 mod 16)) (hex_digit (c mod 16)) = Some c"
proof -
  define q where "q = c div 16"
  define p where "p = q div 16"
  have "c div 256 = p" "c div 4096 = p div 16"
    by (simp_all add: p_def q_def div_mult2_eq [symmetric])
  moreover have "p div 16 mod 16 = p div 16"
    using assms by (simp add: p_def q_def div_mult2_eq [symmetric] less_mult_imp_div_less)
  ultimately have e: "c div 4096 mod 16 = p div 16" "c div 256 mod 16 = p mod 16"
    "c div 16 mod 16 = q mod 16" by (simp_all add: q_def)
  have "c = q * 16 + c mod 16" "q = p * 16 + q mod 16" "p = p div 16 * 16 + p mod 16"
    by (simp_all add: p_def q_def)
  then have "c div 4096 mod 16 * 4096 + c div 256 mod 16 * 256 + c div 16 mod 16 * 16
      + c mod 16 = c"
    unfolding e by linarith
  with assms show ?thesis
    by (simp add: hex4_value_def hex_value_digit)
qed

lemma scan_unit_escape: "c < 65536 \<Longrightarrow> scan_unit (u_escape c @ r) = Some (c, r)"
  using hex4_value_hex4 [of c] by (simp add: scan_unit_def u_escape_def startswith_def hex4_def)

text \<open>Which code points survive: all of them without \<open>ensure_ascii\<close>; with it a lone
  surrogate may be joined with its neighbour.\<close>

definition char_ok :: "bool \<Rightarrow> nat \<Rightarrow> bool" where
  "char_ok ascii c \<longleftrightarrow> ascii \<longrightarrow> c < 1114112 \<and> \<not> (55296 \<le> c \<and> c \<le> 57343)"

lemma scan_string_escaped: "c < 65536 \<Longrightarrow> \<not> (55296 \<le> c \<and> c \<le> 56319) \<Longrightarrow>
    scan_string (u_escape c @ r) = emit c (scan_string r)"
  using scan_unit_escape [of c r] by (auto simp: u_escape_def scan_escape_def)

lemma scan_string_pair:
  assumes "65536 \<le> c" "c < 1114112"
  shows "scan_string (u_escape (55296 + (c - 65536) div 1024) @ u_escape (56320 + (c - 65536) mod 1024) @ r)
    = emit c (scan_string r)"
proof -
  let ?h = "55296 + (c - 65536) div 1024" and ?l = "56320 + (c - 65536) mod 1024"
  have h: "55296 \<le> ?h" "?h \<le> 56319" and l: "56320 \<le> ?l" "?l \<le> 57343"
    using assms by (auto simp: less_mult_imp_div_less)
  have hu: "scan_unit (u_escape ?h @ u_escape ?l @ r) = Some (?h, u_escape ?l @ r)"
    using h by (intro scan_unit_escape) simp
  have lu: "scan_unit (u_escape ?l @ r) = Some (?l, r)"
    using l by (intro scan_unit_escape) simp
  have "startswith (u_escape ?l @ r) [92, 117]" "6 \<le> length (u_escape ?l @ r)"
    by (simp_all add: u_escape_def hex4_def startswith_def)
  moreover have "65536 + (?h - 55296) * 1024 + (?l - 56320) = c" using assms by simp
  ultimately have "scan_escape (117 # hex4 ?h @ u_escape ?l @ r) = Some (c, r)"
    using hu lu h l by (simp add: scan_escape_def u_escape_def [of ?h])
  then show ?thesis by (simp add: u_escape_def [of ?h])
qed

lemma scan_string_short:
  "short_escape e = Some x \<Longrightarrow> scan_string (92 # e # r) = emit x (scan_string r)"
  by (auto simp: scan_escape_def short_escape_def split: if_splits)

lemma scan_string_char:
  assumes "char_ok ascii c"
  shows "scan_string (json_char ascii c @ r) = emit c (scan_string r)"
proof -
  consider "c \<in> {34, 92, 10, 13, 9, 12, 8}" | "c < 32" "c \<notin> {34, 92, 10, 13, 9, 12, 8}"
    | "32 \<le> c" "c \<notin> {34, 92}" "ascii \<and> 126 < c" | "32 \<le> c" "c \<notin> {34, 92}" "\<not> (ascii \<and> 126 < c)"
    by fastforce
  then show ?thesis
  proof cases
    case 1
    then show ?thesis
      by (auto simp: json_char_def short_escape_def scan_escape_def)
  next
    case 2
    then show ?thesis by (simp add: json_char_def scan_string_escaped)
  next
    case 3
    then show ?thesis using assms scan_string_pair [of c r]
      by (auto simp: json_char_def char_ok_def intro!: scan_string_escaped)
  next
    case 4
    then show ?thesis by (auto simp: json_char_def)
  qed
qed

lemma scan_string_json:
  "list_all (char_ok ascii) s \<Longrightarrow>
     scan_string (concat (map (json_char ascii) s) @ 34 # r) = Some (s, r)"
  by (induction s) (auto simp: scan_string_char emit_def)

subsection \<open>Numbers\<close>

text \<open>What may follow a value: the end, a comma or a closing bracket.\<close>

definition delim :: "pystr \<Rightarrow> bool" where
  "delim r \<longleftrightarrow> r = [] \<or> hd r \<in> {44, 93, 125}"

lemma digits_of_nat_digits: "list_all is_digit (digits_of_nat n) \<and> digits_of_nat n \<noteq> []"
proof (induction n rule: digits_of_nat.induct)
  case (1 n)
  then show ?case by (cases "n < 10") (simp_all add: digits_of_nat.simps [of n] is_digit_def)
qed

lemma digits_of_nat_lead: "0 < n \<Longrightarrow> hd (digits_of_nat n) \<noteq> 48"
proof (induction n rule: digits_of_nat.induct)
  case (1 n)
  show ?case
  proof (cases "n < 10")
    case True
    with "1.prems" show ?thesis by (simp add: digits_of_nat.simps [of n])
  next
    case False
    then have "hd (digits_of_nat (n div 10)) \<noteq> 48" using 1 by simp
    with False show ?thesis
      using digits_of_nat_digits [of "n div 10"] by (simp add: digits_of_nat.simps [of n])
  qed
qed

lemma nat_of_digits_of_nat: "nat_of_digits (digits_of_nat n) = n"
proof (induction n rule: digits_of_nat.induct)
  case (1 n)
  then show ?case
    by (cases "n < 10") (simp_all add: digits_of_nat.simps [of n] nat_of_digits_def)
qed

lemma takeWhile_dropWhile_prefix:
  "list_all P a \<Longrightarrow> r = [] \<or> \<not> P (hd r) \<Longrightarrow> takeWhile P (a @ r) = a \<and> dropWhile P (a @ r) = r"
  by (induction a) (cases r, auto)+

lemma scan_nat_digits:
  assumes "delim r"
  shows "scan_nat (digits_of_nat n @ r) = Some (n, r)"
proof -
  have "r = [] \<or> \<not> is_digit (hd r)" using assms by (auto simp: delim_def is_digit_def)
  then have t: "takeWhile is_digit (digits_of_nat n @ r) = digits_of_nat n"
    using takeWhile_dropWhile_prefix digits_of_nat_digits by blast
  have "(if take 1 (digits_of_nat n) = [48] then [48] else digits_of_nat n) = digits_of_nat n"
  proof (cases "n = 0")
    case True
    then show ?thesis by (simp add: digits_of_nat.simps)
  next
    case False
    then have "hd (digits_of_nat n) \<noteq> 48" by (simp add: digits_of_nat_lead)
    then show ?thesis using digits_of_nat_digits [of n] by (cases "digits_of_nat n") auto
  qed
  then show ?thesis
    using assms digits_of_nat_digits [of n]
    by (auto simp: scan_nat_def t delim_def nat_of_digits_of_nat)
qed

lemma digit_hd: "is_digit (hd (digits_of_nat n))"
  using digits_of_nat_digits [of n] by (cases "digits_of_nat n") auto

lemma scan_number_int:
  assumes "delim r"
  shows "scan_number (str_of_int i @ r) = Some (PInt i, r)"
proof (cases "i < 0")
  case True
  then show ?thesis by (simp add: scan_number_def str_of_int_def scan_nat_digits [OF assms])
next
  case False
  obtain c cs where c: "digits_of_nat (nat i) = c # cs"
    using digits_of_nat_digits by (cases "digits_of_nat (nat i)") auto
  then have "c \<noteq> 45" using digit_hd [of "nat i"] by (auto simp: is_digit_def)
  then show ?thesis
    using False c scan_nat_digits [OF assms, of "nat i"] by (simp add: scan_number_def str_of_int_def)
qed

subsection \<open>Values\<close>

fun json_ok :: "bool \<Rightarrow> pyval \<Rightarrow> bool" where
  "json_ok ascii (PStr s) = list_all (char_ok ascii) s"
| "json_ok ascii (PList xs) = list_all (json_ok ascii) xs"
| "json_ok ascii (PDict d) =
     (distinct (map fst d) \<and> list_all (\<lambda>(k, v). list_all (char_ok ascii) k \<and> json_ok ascii v) d)"
| "json_ok ascii v = True"

definition style_ok :: "json_style \<Rightarrow> bool" where
  "style_ok st \<longleftrightarrow> item_sep st \<in> {[44], [44, 32]} \<and> key_sep st \<in> {[58], [58, 32]} \<and> \<not> sort_keys st"

lemma style_ok_used: "style_ok default_style" "style_ok compact_style"
  by (simp_all add: style_ok_def default_style_def compact_style_def py_def)

lemma dict_of_pairs_distinct:
  assumes "distinct (map fst ps)"
  shows "dict_of_pairs ps = ps"
proof -
  have new: "k \<notin> fst ` set d \<Longrightarrow> dset d k v = d @ [(k, v)]" for d :: "(pystr \<times> pyval) list" and k v
    by (induction d) (auto simp: dset_def)
  have "distinct (map fst (d @ ps)) \<Longrightarrow> foldl (\<lambda>d (k, v). dset d k v) d ps = d @ ps" for d
  proof (induction ps arbitrary: d)
    case Nil
    then show ?case by simp
  next
    case (Cons p ps)
    obtain k v where p: "p = (k, v)" by (cases p)
    from Cons.prems have "k \<notin> fst ` set d" by (auto simp: p)
    moreover from Cons.prems have "distinct (map fst ((d @ [p]) @ ps))" by simp
    ultimately show ?case using Cons.IH [of "d @ [p]"] by (simp add: p new)
  qed
  from this [of "[]"] assms show ?thesis by (simp add: dict_of_pairs_def)
qed

text \<open>A dumped value starts neither with white space nor with a closing bracket.\<close>

lemma str_of_int_hd: "str_of_int i \<noteq> [] \<and> (hd (str_of_int i) = 45 \<or> is_digit (hd (str_of_int i)))"
  using digits_of_nat_digits digit_hd by (auto simp: str_of_int_def)

lemma json_dumps_hd:
  "json_dumps st v \<noteq> [] \<and> \<not> json_ws (hd (json_dumps st v)) \<and> hd (json_dumps st v) \<noteq> 93"
proof (cases v)
  case (PInt i)
  then show ?thesis using str_of_int_hd [of i] by (auto simp: json_ws_def is_digit_def)
qed (auto simp: json_ws_def py_def json_string_def Let_def)

lemma skip_ws_dumps: "skip_ws (json_dumps st v @ r) = json_dumps st v @ r"
  using json_dumps_hd [of st v] by (intro dropWhile_hd_id) auto

lemma skip_ws_sep: "style_ok st \<Longrightarrow> skip_ws (tl (item_sep st) @ json_dumps st v @ r) = json_dumps st v @ r"
  "style_ok st \<Longrightarrow> skip_ws (tl (key_sep st) @ json_dumps st v @ r) = json_dumps st v @ r"
  "style_ok st \<Longrightarrow> skip_ws (tl (item_sep st) @ 34 # r) = 34 # r"
  by (auto simp: style_ok_def skip_ws_dumps json_ws_def)

lemma sep_hd: "style_ok st \<Longrightarrow> item_sep st = 44 # tl (item_sep st) \<and> key_sep st = 58 # tl (key_sep st)"
  by (auto simp: style_ok_def)

lemma sep_length: "style_ok st \<Longrightarrow> 1 \<le> length (item_sep st)"
  by (auto simp: style_ok_def)

lemma json_dumps_length: "1 \<le> length (json_dumps st v)"
  using json_dumps_hd [of st v] by (cases "json_dumps st v") auto

text \<open>The scalars, and the elements of a non-empty list and of a non-empty dictionary.\<close>

definition reads_back :: "json_style \<Rightarrow> pyval \<Rightarrow> bool" where
  "reads_back st v \<longleftrightarrow> (\<forall>n r. 2 * length (json_dumps st v) \<le> n \<longrightarrow> delim r \<longrightarrow>
      parse_value n (json_dumps st v @ r) = Some (v, r))"

lemma parse_items_dumps:
  assumes st: "style_ok st" and "xs \<noteq> []" and "\<And>x. x \<in> set xs \<Longrightarrow> reads_back st x"
    and "2 * length (join (item_sep st) (map (json_dumps st) xs)) + 1 \<le> n"
  shows "parse_items n (join (item_sep st) (map (json_dumps st) xs) @ 93 # r) = Some (xs, r)"
  using assms(2-)
proof (induction xs arbitrary: n)
  case Nil
  then show ?case by simp
next
  case (Cons x xs)
  from Cons.prems obtain m where n: "n = Suc m" by (cases n) auto
  have x: "reads_back st x" using Cons.prems by simp
  show ?case
  proof (cases xs)
    case Nil
    then show ?thesis
      using x Cons.prems by (simp add: n reads_back_def delim_def json_ws_def startswith_def)
  next
    case (Cons y ys)
    let ?rest = "join (item_sep st) (map (json_dumps st) xs)"
    have len: "2 * length (json_dumps st x) \<le> m" "2 * length ?rest + 1 \<le> m"
      using Cons.prems(3) sep_hd [OF st] json_dumps_length [of st x] Cons by (auto simp: n)
    let ?tail = "tl (item_sep st) @ ?rest @ 93 # r"
    have "parse_value m (json_dumps st x @ 44 # ?tail) = Some (x, 44 # ?tail)"
      using x len by (simp add: reads_back_def delim_def)
    moreover have "json_dumps st x @ 44 # ?tail
        = join (item_sep st) (map (json_dumps st) (x # xs)) @ 93 # r"
      using sep_hd [OF st] Cons by (metis append.assoc append_Cons join.simps(3) list.simps(9))
    moreover have "skip_ws ?tail = ?rest @ 93 # r"
      using skip_ws_sep(1) [OF st, of y] Cons by (cases ys) auto
    moreover have "parse_items m (?rest @ 93 # r) = Some (xs, r)"
      using Cons.IH [of m] Cons.prems(2) len Cons by simp
    ultimately show ?thesis by (simp add: n startswith_def json_ws_def)
  qed
qed

definition member_text :: "json_style \<Rightarrow> pystr \<times> pyval \<Rightarrow> pystr" where
  "member_text st m = json_string (ensure_ascii st) (fst m) @ key_sep st @ json_dumps st (snd m)"

lemma json_dumps_dict:
  "\<not> sort_keys st \<Longrightarrow>
     json_dumps st (PDict d) = [123] @ join (item_sep st) (map (member_text st) d) @ [125]"
  by (simp add: member_text_def [abs_def] case_prod_beta o_def)

lemma parse_member_key:
  assumes st: "style_ok st" and k: "list_all (char_ok (ensure_ascii st)) k" and "reads_back st v"
    and "2 * length (json_dumps st v) \<le> n" and "delim r"
  shows "parse_members (Suc n) (member_text st (k, v) @ r) =
     (if startswith (skip_ws r) [125] then Some ([(k, v)], tl (skip_ws r))
      else if startswith (skip_ws r) [44]
      then map_option (\<lambda>(ps, z). ((k, v) # ps, z)) (parse_members n (skip_ws (tl (skip_ws r))))
      else None)"
proof -
  let ?t = "tl (key_sep st) @ json_dumps st v @ r"
  have "member_text st (k, v) @ r
      = 34 # concat (map (json_char (ensure_ascii st)) k) @ 34 # 58 # ?t"
    using sep_hd [OF st] by (simp add: member_text_def json_string_def)
  moreover have "scan_string (concat (map (json_char (ensure_ascii st)) k) @ 34 # 58 # ?t)
      = Some (k, 58 # ?t)" using k by (rule scan_string_json)
  moreover have "parse_value n (skip_ws ?t) = Some (v, r)"
    using assms by (simp add: skip_ws_sep(2) [OF st] reads_back_def)
  ultimately show ?thesis by (simp add: startswith_def json_ws_def Let_def)
qed

lemma parse_members_dumps:
  assumes st: "style_ok st" and "d \<noteq> []"
    and "\<And>k v. (k, v) \<in> set d \<Longrightarrow> list_all (char_ok (ensure_ascii st)) k \<and> reads_back st v"
    and "2 * length (join (item_sep st) (map (member_text st) d)) + 1 \<le> n"
  shows "parse_members n (join (item_sep st) (map (member_text st) d) @ 125 # r) = Some (d, r)"
  using assms(2-)
proof (induction d arbitrary: n)
  case Nil
  then show ?case by simp
next
  case (Cons p d)
  obtain k v where p: "p = (k, v)" by (cases p)
  from Cons.prems obtain m where n: "n = Suc m" by (cases n) auto
  have kv: "list_all (char_ok (ensure_ascii st)) k" "reads_back st v" using Cons.prems p by auto
  have mt: "length (json_dumps st v) \<le> length (member_text st p)" by (simp add: member_text_def p)
  show ?case
  proof (cases d)
    case Nil
    then show ?thesis
      using parse_member_key [OF st kv, of m "125 # r"] Cons.prems(3) mt
      by (simp add: n p delim_def json_ws_def startswith_def)
  next
    case (Cons q qs)
    let ?rest = "join (item_sep st) (map (member_text st) d)"
    let ?tail = "tl (item_sep st) @ ?rest @ 125 # r"
    have len: "2 * length (json_dumps st v) \<le> m" "2 * length ?rest + 1 \<le> m"
      using Cons.prems(3) sep_length [OF st] mt Cons by (auto simp: n)
    have "parse_members (Suc m) (member_text st (k, v) @ 44 # ?tail)
        = map_option (\<lambda>(ps, z). ((k, v) # ps, z)) (parse_members m (skip_ws ?tail))"
      using parse_member_key [OF st kv len(1), of "44 # ?tail"]
      by (simp add: delim_def json_ws_def startswith_def)
    moreover have "member_text st (k, v) @ 44 # ?tail
        = join (item_sep st) (map (member_text st) (p # d)) @ 125 # r"
      using sep_hd [OF st] Cons p by (metis append.assoc append_Cons join.simps(3) list.simps(9))
    moreover have "skip_ws ?tail = ?rest @ 125 # r"
    proof -
      have "\<exists>z. ?rest @ 125 # r = 34 # z"
        using Cons by (cases qs) (auto simp: member_text_def json_string_def)
      then show ?thesis using skip_ws_sep(3) [OF st] by metis
    qed
    moreover have "parse_members m (?rest @ 125 # r) = Some (d, r)"
      using len Cons by (intro Cons.IH Cons.prems(2)) auto
    ultimately show ?thesis by (simp add: n p)
  qed
qed

lemma parse_value_words:
  assumes "n \<noteq> 0"
  shows "parse_value n (110 # 117 # 108 # 108 # r) = Some (PNone, r)"
    and "parse_value n (116 # 114 # 117 # 101 # r) = Some (PBool True, r)"
    and "parse_value n (102 # 97 # 108 # 115 # 101 # r) = Some (PBool False, r)"
  using assms by (cases n; simp add: expect_def startswith_def py_def)+

lemma reads_back_all: "style_ok st \<Longrightarrow> json_ok (ensure_ascii st) v \<Longrightarrow> reads_back st v"
proof (induction v)
  case (PInt i)
  show ?case
    unfolding reads_back_def
  proof (intro allI impI)
    fix n r assume "2 * length (json_dumps st (PInt i)) \<le> n" and d: "delim r"
    then obtain m where n: "n = Suc m" using str_of_int_hd [of i] by (cases n) auto
    obtain c cs where c: "str_of_int i = c # cs" using str_of_int_hd by (cases "str_of_int i") auto
    then have "c = 45 \<or> (48 \<le> c \<and> c \<le> 57)" using str_of_int_hd [of i] by (auto simp: is_digit_def)
    then show "parse_value n (json_dumps st (PInt i) @ r) = Some (PInt i, r)"
      using scan_number_int [OF d, of i] c by (auto simp: n)
  qed
next
  case (PStr s)
  then show ?case
    by (auto simp: reads_back_def json_string_def scan_string_json Suc_le_D dest!: Suc_le_D)
next
  case (PList xs)
  have r: "reads_back st x" if "x \<in> set xs" for x
    using PList.IH [OF that] PList.prems that by (simp add: list_all_iff)
  show ?case
    unfolding reads_back_def
  proof (intro allI impI)
    fix n r assume len: "2 * length (json_dumps st (PList xs)) \<le> n" and d: "delim r"
    then obtain m where n: "n = Suc m" by (cases n) auto
    show "parse_value n (json_dumps st (PList xs) @ r) = Some (PList xs, r)"
    proof (cases xs)
      case Nil
      then show ?thesis by (simp add: n json_ws_def startswith_def)
    next
      case (Cons y ys)
      let ?t = "join (item_sep st) (map (json_dumps st) xs) @ 93 # r"
      have "\<exists>q. ?t = json_dumps st y @ q" using Cons by (cases ys) auto
      then have "skip_ws ?t = ?t \<and> \<not> startswith ?t [93]"
        using skip_ws_dumps json_dumps_hd [of st y]
        by (metis append_eq_Cons_conv hd_append2 list.sel(1) startswith_def length_Cons list.size(3)
            take_Suc_Cons take0 One_nat_def neq_Nil_conv append_is_Nil_conv)
      then show ?thesis
        using parse_items_dumps [OF PList.prems(1) _ r, of xs m r] Cons len
        by (simp add: n)
    qed
  qed
next
  case (PDict d)
  have r: "list_all (char_ok (ensure_ascii st)) k \<and> reads_back st v" if "(k, v) \<in> set d" for k v
    using PDict.IH [OF that] PDict.prems that by (auto simp: list_all_iff)
  have dd: "dict_of_pairs d = d" using PDict.prems by (intro dict_of_pairs_distinct) simp
  have dumped: "json_dumps st (PDict d) = [123] @ join (item_sep st) (map (member_text st) d) @ [125]"
    using PDict.prems(1) by (intro json_dumps_dict) (simp add: style_ok_def)
  show ?case
    unfolding reads_back_def dumped
  proof (intro allI impI)
    fix n r' assume len: "2 * length ([123] @ join (item_sep st) (map (member_text st) d) @ [125]) \<le> n"
      and "delim r'"
    then obtain m where n: "n = Suc m" by (cases n) auto
    show "parse_value n (([123] @ join (item_sep st) (map (member_text st) d) @ [125]) @ r')
        = Some (PDict d, r')"
    proof (cases d)
      case Nil
      then show ?thesis by (simp add: n json_ws_def startswith_def)
    next
      case (Cons p ps)
      let ?t = "join (item_sep st) (map (member_text st) d) @ 125 # r'"
      have "\<exists>z. ?t = 34 # z" using Cons by (cases ps) (auto simp: member_text_def json_string_def)
      then obtain z where "?t = 34 # z" by blast
      then have "skip_ws ?t = ?t \<and> \<not> startswith ?t [125]"
        by (simp add: json_ws_def startswith_def del: take_append)
      then show ?thesis
        using parse_members_dumps [OF PDict.prems(1) _ r, of d m r'] Cons len dd
        by (simp add: n)
    qed
  qed
qed (auto simp: reads_back_def py_def parse_value_words)

text \<open>What is dumped is read back, also with white space around it.\<close>

lemma json_loads_dumps:
  assumes "style_ok st" and "json_ok (ensure_ascii st) v"
  shows "json_loads (json_dumps st v) = Inr v"
proof -
  define n where "n = 2 * length (json_dumps st v) + 2"
  have "2 * length (json_dumps st v) \<le> n" "delim []" by (simp_all add: n_def delim_def)
  then have "parse_value n (json_dumps st v @ []) = Some (v, [])"
    using reads_back_all [OF assms] unfolding reads_back_def by blast
  moreover have "skip_ws (json_dumps st v) = json_dumps st v"
    using skip_ws_dumps [of st v "[]"] by simp
  ultimately show ?thesis unfolding json_loads_def n_def [symmetric] by simp
qed

end
