(* ===== verification/Pytext.thy ===== *)
theory Pytext
  imports Json
begin

text \<open>
  Text built from values: \<open>str\<close> and \<open>repr\<close> of Python values, and \<open>html.escape\<close>, with
  which \<open>api.py\<close> writes report values into the HTML of a statement. The main result is that
  escaped text cannot add or remove a tag: the tags of a document depend on its markup only.
\<close>

section \<open>str and repr\<close>

definition hex2 :: "nat \<Rightarrow> pystr" where
  "hex2 c = [hex_digit (c div 16 mod 16), hex_digit (c mod 16)]"

text \<open>One character of a \<open>repr\<close> with the given quote. Every code point from U+00A1 on counts
  as printable here.\<close>

definition repr_char :: "nat \<Rightarrow> nat \<Rightarrow> pystr" where
  "repr_char quote c =
     (if c = quote \<or> c = 92 then [92, c]
      else if c = 10 then [92, 110]
      else if c = 13 then [92, 114]
      else if c = 9 then [92, 116]
      else if c < 32 \<or> (127 \<le> c \<and> c \<le> 160) then [92, 120] @ hex2 c
      else [c])"

text \<open>Single quotes, unless the text has single quotes and no double ones.\<close>

definition repr_string :: "pystr \<Rightarrow> pystr" where
  "repr_string s =
     (let quote = (if 39 \<in> set s \<and> 34 \<notin> set s then 34 else 39)
      in [quote] @ concat (map (repr_char quote) s) @ [quote])"

fun py_repr :: "pyval \<Rightarrow> pystr" where
  "py_repr PNone = py ''None''"
| "py_repr (PBool b) = (if b then py ''True'' else py ''False'')"
| "py_repr (PInt i) = str_of_int i"
| "py_repr (PStr s) = repr_string s"
| "py_repr (PList xs) = [91] @ join (py '', '') (map py_repr xs) @ [93]"
| "py_repr (PDict d) =
     [123] @ join (py '', '') (map (\<lambda>(k, v). repr_string k @ py '': '' @ py_repr v) d) @ [125]"

definition py_str :: "pyval \<Rightarrow> pystr" where
  "py_str v = (case v of PStr s \<Rightarrow> s | _ \<Rightarrow> py_repr v)"

section \<open>HTML\<close>

text \<open>\<open>html.escape(s)\<close>, which also escapes quotes.\<close>

definition escape_char :: "nat \<Rightarrow> pystr" where
  "escape_char c =
     (if c = 38 then py ''&amp;''
      else if c = 60 then py ''&lt;''
      else if c = 62 then py ''&gt;''
      else if c = 34 then py ''&quot;''
      else if c = 39 then py ''&#x27;''
      else [c])"

definition html_escape :: "pystr \<Rightarrow> pystr" where
  "html_escape s = concat (map escape_char s)"

text \<open>The tags of a document: what stands between \<open><\<close> and the next \<open>>\<close>.\<close>

fun html_tags :: "pystr option \<Rightarrow> pystr \<Rightarrow> pystr list" where
  "html_tags st [] = []"
| "html_tags None (c # s) = (if c = 60 then html_tags (Some []) s else html_tags None s)"
| "html_tags (Some t) (c # s) =
     (if c = 62 then rev t # html_tags None s else html_tags (Some (c # t)) s)"

abbreviation tags :: "pystr \<Rightarrow> pystr list" where
  "tags \<equiv> html_tags None"

text \<open>Markup that leaves no tag open at its end.\<close>

fun closed_from :: "bool \<Rightarrow> pystr \<Rightarrow> bool" where
  "closed_from inside [] = (\<not> inside)"
| "closed_from inside (c # s) =
     (if inside then closed_from (c \<noteq> 62) s else closed_from (c = 60) s)"

abbreviation closed :: "pystr \<Rightarrow> bool" where
  "closed \<equiv> closed_from False"

lemma escape_char_no_markup: "set (escape_char c) \<inter> {60, 62, 34, 39} = {}"
  by (auto simp: escape_char_def py_def)

lemma html_escape_no_markup: "set (html_escape s) \<inter> {60, 62, 34, 39} = {}"
  using escape_char_no_markup by (fastforce simp: html_escape_def)

lemma html_tags_append:
  "closed_from (st \<noteq> None) a \<Longrightarrow> html_tags st (a @ b) = html_tags st a @ tags b"
  by (induction st a rule: html_tags.induct) (auto split: if_splits)

lemma closed_from_append: "closed_from i a \<Longrightarrow> closed_from i (a @ b) = closed b"
  by (induction i a rule: closed_from.induct) (auto split: if_splits)

lemma tags_append [simp]: "closed a \<Longrightarrow> tags (a @ b) = tags a @ tags b"
  using html_tags_append [of None] by simp

lemma closed_append [simp]: "closed a \<Longrightarrow> closed b \<Longrightarrow> closed (a @ b)"
  by (simp add: closed_from_append)

lemma plain_text: "60 \<notin> set s \<Longrightarrow> closed s \<and> tags s = []"
  by (induction s) auto

lemma escaped_closed [simp]: "closed (html_escape s)" "tags (html_escape s) = []"
  using plain_text html_escape_no_markup by auto

lemma tags_concat:
  "\<forall>x \<in> set xs. closed x \<Longrightarrow> tags (concat xs) = concat (map tags xs) \<and> closed (concat xs)"
  by (induction xs) auto

text \<open>What a browser shows is the text that was escaped.\<close>

fun html_unescape :: "nat \<Rightarrow> pystr \<Rightarrow> pystr" where
  "html_unescape 0 s = []"
| "html_unescape (Suc n) s =
     (if s = [] then []
      else if startswith s (py ''&amp;'') then 38 # html_unescape n (drop 5 s)
      else if startswith s (py ''&lt;'') then 60 # html_unescape n (drop 4 s)
      else if startswith s (py ''&gt;'') then 62 # html_unescape n (drop 4 s)
      else if startswith s (py ''&quot;'') then 34 # html_unescape n (drop 6 s)
      else if startswith s (py ''&#x27;'') then 39 # html_unescape n (drop 6 s)
      else hd s # html_unescape n (tl s))"

lemma unescape_char:
  "html_unescape (Suc n) (escape_char c @ r) = c # html_unescape n r"
  by (simp add: escape_char_def startswith_def py_def)

lemma unescape_escape: "length s \<le> n \<Longrightarrow> html_unescape n (html_escape s) = s"
proof (induction s arbitrary: n)
  case Nil
  then show ?case by (cases n) (simp_all add: html_escape_def)
next
  case (Cons c s)
  then obtain m where "n = Suc m" "length s \<le> m" by (cases n) auto
  with Cons.IH [of m] show ?case
    unfolding html_escape_def list.map concat.simps by (simp only: unescape_char)
qed

end
