(* ===== verification/Site.thy ===== *)
theory Site
  imports Phone Pytext
begin

text \<open>
  The site the add-on runs on. \<open>site\<close> is the state the add-on reads and writes: the delivery
  history, the private files, the message templates and the settings (the DocTypes of
  \<open>erpnext_whatsapp_connection/doctype\<close>), the queue of background jobs, the session user and
  the requests that left the process. \<open>frappe\<close> collects what the Frappe framework, ERPNext and
  the peer at the other end of the socket answer; none of it is in this repository, so every
  operation takes it as an argument and nothing is assumed about it here. Different operations of
  one history may be given different \<open>frappe\<close> values: roles, permissions and documents change
  between two jobs.
\<close>

section \<open>Records of the add-on's DocTypes\<close>

datatype delivery_status =
    Queued
  | Processing
  | Submitted_to_WhatsApp
  | Acknowledged_by_WhatsApp
  | Failed
  | Waiting_for_Primary
  | Other_Status pyval

datatype recipient_kind = Individual | Group

datatype reference_kind = Document | Report

text \<open>\<open>ERPNext WhatsApp Delivery History\<close>. Times are naive site datetimes in microseconds.
  The recipient is the decrypted password field.\<close>

record history =
  h_owner :: pystr
  h_status :: delivery_status
  h_provider :: pystr
  h_company :: "pystr option"
  h_recipient_type :: "recipient_kind option"
  h_copy_of :: "pystr option"
  h_reconciliation_required :: bool
  h_reference_type :: reference_kind
  h_reference_doctype :: "pystr option"
  h_reference_name :: "pystr option"
  h_report_name :: "pystr option"
  h_report_filters :: "pystr option"
  h_recipient_masked :: pystr
  h_recipient :: pystr
  h_message_template :: "pystr option"
  h_message_text :: pystr
  h_print_format :: "pystr option"
  h_pdf_file :: "pystr option"
  h_pdf_sha256 :: "pystr option"
  h_source_modified :: "pystr option"
  h_queued_at :: int
  h_attempted_at :: "int option"
  h_submitted_at :: "int option"
  h_acknowledged_at :: "int option"
  h_next_retry_at :: "int option"
  h_retry_count :: int
  h_max_retries :: int
  h_idempotency_key :: pystr
  h_provider_message_ids :: "pystr option"
  h_result_message :: pystr
  h_error_message :: pystr

text \<open>A row of \<open>ERPNext WhatsApp Company Group\<close>.\<close>

record company_group =
  g_company :: pystr
  g_enabled :: bool
  g_group_id :: pyval
  g_group_name :: pystr

text \<open>\<open>ERPNext WhatsApp Settings\<close>. An integer field that was never set is \<open>None\<close>.\<close>

record settings =
  st_enabled :: bool
  st_provider :: pystr
  st_connection_status :: pyval
  st_throttle_seconds :: "int option"
  st_maximum_retries :: "int option"
  st_require_submitted_documents :: bool
  st_last_connected_at :: pyval
  st_last_disconnected_at :: pyval
  st_last_error :: pyval
  st_last_event_id :: int
  st_official_phone_number_id :: pystr
  st_official_business_account_id :: pystr
  st_official_api_version :: pystr
  st_webhook_url :: pystr
  st_company_groups :: "company_group list"

text \<open>\<open>ERPNext WhatsApp Message Template\<close>; the row's name is its \<open>template_name\<close>.\<close>

record template =
  t_enabled :: bool
  t_is_default :: bool
  t_reference_type :: pystr
  t_document_type :: "pystr option"
  t_report_name :: "pystr option"
  t_company :: "pystr option"
  t_message_template :: pystr

text \<open>A \<open>File\<close> document, as far as the add-on uses it.\<close>

type_synonym bytes = "nat list"

record attached_file =
  f_file_name :: pystr
  f_attached_to_doctype :: pystr
  f_attached_to_name :: pystr
  f_is_private :: bool
  f_content :: bytes

text \<open>\<open>frappe.enqueue\<close> of the outbound worker.\<close>

record job =
  j_message_name :: pystr
  j_job_id :: pystr
  j_after_commit :: bool
  j_deduplicate :: bool

text \<open>A request on the gateway's socket, and a call of a transport another app provides.\<close>

record http_request =
  rq_path :: pystr
  rq_payload :: pyval
  rq_body :: bytes
  rq_timestamp :: pystr
  rq_nonce :: pystr
  rq_signature :: pystr

datatype wire = Http http_request | External pystr pystr

record site =
  s_user :: pystr
  s_settings :: settings
  s_history :: "history rows"
  s_files :: "attached_file rows"
  s_templates :: "template rows"
  s_roles :: "pystr list"
  s_jobs :: "job list"
  s_wire :: "wire list"
  s_ticks :: nat

section \<open>What the framework and the outside world answer\<close>

text \<open>A document of a DocType that is not the add-on's: its fields, its meta data and the text
  of its \<open>modified\<close> stamp.\<close>

record bizdoc =
  b_name :: pystr
  b_doctype :: pystr
  b_fields :: "(pystr \<times> pyval) list"
  b_meta_fields :: "pystr list"
  b_docstatus :: int
  b_submittable :: bool
  b_modified :: pystr

record print_format_row =
  pf_name :: pystr
  pf_doc_type :: pystr
  pf_disabled :: bool

text \<open>An adapter of \<open>adapters.py\<close>: a dictionary whose keys are optional.\<close>

record adapter =
  a_party_type_field :: "pystr option"
  a_required_party_type :: "pystr option"
  a_required_values :: "(pystr \<times> pyval) list"
  a_party_field :: "pystr option"
  a_party_name_field :: "pystr option"
  a_company_field :: "pystr option"
  a_date_field :: "pystr option"
  a_amount_field :: "pystr option"
  a_currency_field :: "pystr option"
  a_require_submitted :: bool
  a_customer_filter :: "pystr option"
  a_customer_filter_type :: "pystr option"
  a_party_type_filter :: "pystr option"
  a_company_filter :: "pystr option"
  a_pdf_renderer :: "pystr option"
  a_default_message :: "pystr option"

record transport =
  tr_send :: "pystr option"
  tr_gateway_provider :: "pystr option"

text \<open>What a provider hook of another app returns: it may raise, or return something that is
  not a dictionary (\<open>None\<close>).\<close>

type_synonym 'a provider = "pystr \<times> (exn + (pystr \<times> 'a) list option)"

datatype peer_result = Unavailable | Response int pystr

record frappe =
  fr_site :: pystr
  fr_roles :: "pystr \<Rightarrow> pystr list"
  fr_user_enabled :: "pystr \<Rightarrow> bool"
  fr_doc :: "pystr \<Rightarrow> pystr \<Rightarrow> bizdoc option"
  fr_can :: "pystr \<Rightarrow> pystr \<Rightarrow> pystr \<Rightarrow> pystr option \<Rightarrow> bool"
  fr_report_permitted :: "pystr \<Rightarrow> pystr \<Rightarrow> bool"
  fr_customer_contacts :: "pystr \<Rightarrow> pystr list"
  fr_print_format_rows :: "print_format_row list"
  fr_print_format_has_disabled :: bool
  fr_print :: "pystr \<Rightarrow> pystr \<Rightarrow> pystr option \<Rightarrow> exn + bytes"
  fr_money :: "pyval \<Rightarrow> pyval \<Rightarrow> pystr"
  fr_render :: "pystr \<Rightarrow> (pystr \<times> pyval) list \<Rightarrow> exn + pystr"
  fr_report_run :: "pystr \<Rightarrow> (pystr \<times> pyval) list \<Rightarrow> exn + (pyval list \<times> pyval list)"
  fr_renderer :: "pystr \<Rightarrow> pystr \<Rightarrow> (pystr \<times> pyval) list \<Rightarrow> exn + bytes option"
  fr_html_pdf :: "pystr \<Rightarrow> bytes"
  fr_document_providers :: "adapter provider list"
  fr_report_providers :: "adapter provider list"
  fr_transport_providers :: "transport provider list"
  fr_sender :: "pystr \<Rightarrow> nat \<Rightarrow> pystr \<Rightarrow> exn + pyval"
  fr_clock :: "nat \<Rightarrow> int"
  fr_epoch :: "nat \<Rightarrow> int"
  fr_nonce :: "nat \<Rightarrow> pystr"
  fr_hash :: "nat \<Rightarrow> pystr"
  fr_name :: "nat \<Rightarrow> pystr"
  fr_sha256 :: "bytes \<Rightarrow> pystr"
  fr_hmac :: "bytes \<Rightarrow> bytes \<Rightarrow> pystr"
  fr_key_file :: "bytes option"
  fr_peer :: "nat \<Rightarrow> http_request \<Rightarrow> peer_result"
  fr_enqueue :: "job \<Rightarrow> exn option"
  fr_listing :: "pystr list \<Rightarrow> pystr list"
  fr_zone :: "int \<Rightarrow> int"
  fr_escape :: "pystr \<Rightarrow> pystr"
  fr_cint :: "pystr \<Rightarrow> int"
  fr_file_name :: "pystr \<Rightarrow> pystr"
  fr_doctype_exists :: "pystr \<Rightarrow> bool"

text \<open>
  The answers that differ from call to call (clocks, random values, fresh names, the peer) are
  indexed by the site's tick, which every such call advances.
\<close>

definition tick :: "(nat \<Rightarrow> 'a) \<Rightarrow> (site, 'a) act" where
  "tick f s = (Inr (f (s_ticks s)), s\<lparr>s_ticks := Suc (s_ticks s)\<rparr>)"

lemma tick_iff [act_iff]:
  "tick f s = (r, t) \<longleftrightarrow> r = Inr (f (s_ticks s)) \<and> t = s\<lparr>s_ticks := Suc (s_ticks s)\<rparr>"
  by (auto simp: tick_def)

definition now_datetime :: "frappe \<Rightarrow> (site, int) act" where
  "now_datetime fr = tick (fr_clock fr)"

definition set_user :: "pystr \<Rightarrow> (site, unit) act" where
  "set_user u = modifies (\<lambda>s. s\<lparr>s_user := u\<rparr>)"

definition the_user :: "(site, pystr) act" where
  "the_user = reads (\<lambda>s. Inr (s_user s))"

section \<open>The document store\<close>

definition get_doc :: "frappe \<Rightarrow> pystr \<Rightarrow> pystr \<Rightarrow> exn + bizdoc" where
  "get_doc fr doctype name =
     (case fr_doc fr doctype name of None \<Rightarrow> raise DoesNotExistError ''not found'' | Some d \<Rightarrow> Inr d)"

definition field :: "bizdoc \<Rightarrow> pystr option \<Rightarrow> pyval" where
  "field d f = (case f of None \<Rightarrow> PNone | Some k \<Rightarrow> dget (b_fields d) k)"

definition text_field :: "bizdoc \<Rightarrow> pystr \<Rightarrow> pystr option" where
  "text_field d k = as_text (dget (b_fields d) k)"

definition has_field :: "bizdoc \<Rightarrow> pystr \<Rightarrow> bool" where
  "has_field d k \<longleftrightarrow> k \<in> set (b_meta_fields d)"

text \<open>\<open>doc.check_permission(ptype)\<close> for the session user.\<close>

definition check_permission :: "frappe \<Rightarrow> site \<Rightarrow> pystr \<Rightarrow> pystr \<Rightarrow> pystr \<Rightarrow> exn + unit" where
  "check_permission fr s ptype doctype name =
     (if fr_can fr (s_user s) ptype doctype (Some name) then Inr ()
      else deny ''not permitted'')"

lemma get_doc_Inr_iff [res_iff]: "get_doc fr dt n = Inr d \<longleftrightarrow> fr_doc fr dt n = Some d"
  by (auto simp: get_doc_def split: option.splits)

lemma check_permission_Inr_iff [res_iff]:
  "check_permission fr s p dt n = Inr u \<longleftrightarrow> fr_can fr (s_user s) p dt (Some n)"
  by (cases u) (simp add: check_permission_def)

section \<open>Delivery records\<close>

definition get_history :: "pystr \<Rightarrow> site \<Rightarrow> exn + history" where
  "get_history name s =
     (case row_get (s_history s) name of
        None \<Rightarrow> raise DoesNotExistError ''delivery not found''
      | Some h \<Rightarrow> Inr h)"

definition put_history :: "pystr \<Rightarrow> history \<Rightarrow> site \<Rightarrow> site" where
  "put_history name h s = s\<lparr>s_history := row_put name h (s_history s)\<rparr>"

text \<open>\<open>frappe.db.set_value\<close> on one row: no controller runs, and a missing row is left alone.\<close>

definition set_history :: "pystr \<Rightarrow> (history \<Rightarrow> history) \<Rightarrow> (site, unit) act" where
  "set_history name f =
     modifies (\<lambda>s. case row_get (s_history s) name of
                     None \<Rightarrow> s
                   | Some h \<Rightarrow> put_history name (f h) s)"

text \<open>\<open>frappe.get_all\<close> with a filter: the names of the matching rows, in the order in which the
  database lists the table.\<close>

definition history_names :: "frappe \<Rightarrow> (history \<Rightarrow> bool) \<Rightarrow> site \<Rightarrow> pystr list" where
  "history_names fr p s =
     [n \<leftarrow> dict_fromkeys (fr_listing fr (row_keys (s_history s))).
        case row_get (s_history s) n of None \<Rightarrow> False | Some h \<Rightarrow> p h]"

lemma history_names_row:
  "n \<in> set (history_names fr p s) \<Longrightarrow> \<exists>h. row_get (s_history s) n = Some h \<and> p h"
  by (auto simp: history_names_def split: option.splits)

text \<open>
  A job with \<open>enqueue_after_commit\<close> is handed over when the transaction is over: when that
  fails, the caller has long returned and the job is lost.
\<close>

definition enqueue :: "frappe \<Rightarrow> job \<Rightarrow> (site, unit) act" where
  "enqueue fr j s =
     (case fr_enqueue fr j of
        Some e \<Rightarrow> (if j_after_commit j then Inr () else Inl e, s)
      | None \<Rightarrow> (Inr (), s\<lparr>s_jobs := s_jobs s @ [j]\<rparr>))"

text \<open>\<open>frappe.utils.cint\<close>: what is not a number counts as 0.\<close>

definition cint :: "frappe \<Rightarrow> pyval \<Rightarrow> int" where
  "cint fr v =
     (case v of PInt i \<Rightarrow> i | PBool b \<Rightarrow> (if b then 1 else 0) | PStr t \<Rightarrow> fr_cint fr t | _ \<Rightarrow> 0)"

definition cint_opt :: "int option \<Rightarrow> int" where
  "cint_opt v = (case v of None \<Rightarrow> 0 | Some i \<Rightarrow> i)"

text \<open>
  A request or a background job: an exception that leaves it rolls the database back, together
  with the jobs that waited for the commit. What went over a socket is gone.
\<close>

definition transaction :: "(site, 'a) act \<Rightarrow> (site, 'a) act" where
  "transaction m s =
     (case m s of
        (Inr x, t) \<Rightarrow> (Inr x, t)
      | (Inl e, t) \<Rightarrow>
          (Inl e, s\<lparr>s_wire := s_wire t, s_ticks := s_ticks t,
             s_jobs := s_jobs s @ [j \<leftarrow> drop (length (s_jobs s)) (s_jobs t). \<not> j_after_commit j]\<rparr>))"

lemma get_history_Inr_iff [res_iff]: "get_history n s = Inr h \<longleftrightarrow> row_get (s_history s) n = Some h"
  by (auto simp: get_history_def split: option.splits)

lemma put_history_simps [simp]:
  "s_user (put_history n h s) = s_user s" "s_settings (put_history n h s) = s_settings s"
  "s_files (put_history n h s) = s_files s" "s_templates (put_history n h s) = s_templates s"
  "s_jobs (put_history n h s) = s_jobs s" "s_wire (put_history n h s) = s_wire s"
  "s_ticks (put_history n h s) = s_ticks s" "s_roles (put_history n h s) = s_roles s"
  "s_history (put_history n h s) = row_put n h (s_history s)"
  by (simp_all add: put_history_def)

lemma enqueue_cases:
  "enqueue fr j s = (r, t) \<Longrightarrow> t = s\<lparr>s_jobs := s_jobs s @ [j]\<rparr> \<and> r = Inr () \<or> t = s"
  by (auto simp: enqueue_def split: option.splits)

lemma enqueue_after_commit [simp]: "j_after_commit j \<Longrightarrow> outcome (enqueue fr j) s = Inr ()"
  by (simp add: enqueue_def split: option.splits)

section \<open>Views of the state that operations leave alone\<close>

text \<open>
  \<open>same v\<close> relates two states with the same view \<open>v\<close>; it is reflexive and transitive,
  so \<open>keeps (same v)\<close> goes through the combinators.
\<close>

definition same :: "('s \<Rightarrow> 'v) \<Rightarrow> 's \<Rightarrow> 's \<Rightarrow> bool" where
  "same v s t \<longleftrightarrow> v t = v s"

lemma same_preorder [simp]: "reflp (same v)" "transp (same v)"
  by (auto simp: same_def reflp_def transp_def)

lemma keeps_same_tick [simp]:
  "(\<And>s n. v (s\<lparr>s_ticks := n\<rparr>) = v s) \<Longrightarrow> keeps (same v) (tick f)"
  by (simp add: keeps_def same_def tick_def)

lemma keeps_same_enqueue [simp]:
  "(\<And>s js. v (s\<lparr>s_jobs := js\<rparr>) = v s) \<Longrightarrow> keeps (same v) (enqueue fr j)"
  by (simp add: keeps_def same_def enqueue_def split: option.splits)

end
