(* ===== verification/Permissions.thy ===== *)
theory Permissions
  imports Site
begin

text \<open>
  \<open>permissions.py\<close>: who manages the connection, who may send, and which delivery records a
  user sees, once as a SQL condition for lists and once as a decision on a single record.
\<close>

definition MANAGER_ROLES :: "pystr list" where
  "MANAGER_ROLES = [py ''System Manager'', py ''ERPNext WhatsApp Manager'']"

definition SENDER_ROLE :: pystr where
  "SENDER_ROLE = py ''ERPNext WhatsApp Sender''"

text \<open>\<open>frappe.get_roles(user)\<close> is about the session user when it is given \<open>None\<close>.\<close>

definition get_roles :: "frappe \<Rightarrow> site \<Rightarrow> pystr option \<Rightarrow> pystr list" where
  "get_roles fr s user = fr_roles fr (case user of None \<Rightarrow> s_user s | Some u \<Rightarrow> u)"

definition is_manager :: "frappe \<Rightarrow> site \<Rightarrow> pystr option \<Rightarrow> bool" where
  "is_manager fr s user \<longleftrightarrow> list_ex (\<lambda>r. r \<in> set MANAGER_ROLES) (get_roles fr s user)"

definition can_send :: "frappe \<Rightarrow> site \<Rightarrow> pystr option \<Rightarrow> bool" where
  "can_send fr s user \<longleftrightarrow> is_manager fr s user \<or> SENDER_ROLE \<in> set (get_roles fr s user)"

definition require_sender :: "frappe \<Rightarrow> site \<Rightarrow> exn + unit" where
  "require_sender fr s =
     (if s_user s = py ''Guest'' \<or> \<not> can_send fr s None
      then deny ''You do not have permission to send documents by WhatsApp.''
      else Inr ())"

text \<open>\<open>user or frappe.session.user\<close>.\<close>

definition effective_user :: "site \<Rightarrow> pystr option \<Rightarrow> pystr" where
  "effective_user s user = (case user of None \<Rightarrow> s_user s | Some u \<Rightarrow> if u = [] then s_user s else u)"

definition owner_condition :: "frappe \<Rightarrow> pystr \<Rightarrow> pystr" where
  "owner_condition fr u = py ''`tabERPNext WhatsApp Delivery History`.`owner` = '' @ fr_escape fr u"

definition outbound_message_query_conditions :: "frappe \<Rightarrow> site \<Rightarrow> pystr option \<Rightarrow> pystr" where
  "outbound_message_query_conditions fr s user =
     (let user = effective_user s user
      in if is_manager fr s (Some user) then []
         else if SENDER_ROLE \<in> set (get_roles fr s (Some user)) then owner_condition fr user
         else py ''1=0'')"

definition outbound_message_has_permission :: "frappe \<Rightarrow> site \<Rightarrow> history \<Rightarrow> pystr option \<Rightarrow> bool" where
  "outbound_message_has_permission fr s doc user =
     (let user = effective_user s user
      in if is_manager fr s (Some user) then True
         else SENDER_ROLE \<in> set (get_roles fr s (Some user)) \<and> h_owner doc = user)"

text \<open>
  The rows a condition admits: all of them for the empty condition; for a comparison of the
  owner with a literal, those whose owner is written as that literal.
\<close>

definition condition_admits :: "frappe \<Rightarrow> pystr \<Rightarrow> history \<Rightarrow> bool" where
  "condition_admits fr c h \<longleftrightarrow> c = [] \<or> c = owner_condition fr (h_owner h)"

lemma require_sender_Inr_iff [res_iff]:
  "require_sender fr s = Inr u \<longleftrightarrow> s_user s \<noteq> py ''Guest'' \<and> can_send fr s None"
  by (cases u) (auto simp: require_sender_def)

lemma is_manager_iff: "is_manager fr s user \<longleftrightarrow> set (get_roles fr s user) \<inter> set MANAGER_ROLES \<noteq> {}"
  by (auto simp: is_manager_def list_ex_iff)

lemma owner_condition_shape: "owner_condition fr u \<noteq> [] \<and> owner_condition fr u \<noteq> py ''1=0''"
  by (auto simp: owner_condition_def py_def)

lemma owner_condition_inj: "inj (fr_escape fr) \<Longrightarrow> owner_condition fr u = owner_condition fr v \<longleftrightarrow> u = v"
  by (auto simp: owner_condition_def inj_eq)

text \<open>The two guards of the history agree: a list shows exactly the records that can be opened.\<close>

lemma list_shows_what_opens:
  assumes "inj (fr_escape fr)"
  shows "condition_admits fr (outbound_message_query_conditions fr s user) h
     \<longleftrightarrow> outbound_message_has_permission fr s h user"
proof -
  have "py ''1=0'' \<noteq> owner_condition fr u" for u using owner_condition_shape by metis
  then show ?thesis
    using owner_condition_shape owner_condition_inj [OF assms]
    by (auto simp: condition_admits_def outbound_message_query_conditions_def
        outbound_message_has_permission_def Let_def)
qed

end
