(* ===== verification/Adapters.thy ===== *)
theory Adapters
  imports Site
begin

text \<open>
  \<open>adapters.py\<close>: the built-in document and report adapters, and the registries that other
  installed apps extend or override through hooks. The same overlay, written a second time, is the
  transport registry of \<open>transports.py\<close>; the locale states what every such registry promises.
\<close>

section \<open>The built-in adapters\<close>

definition no_adapter :: adapter where
  "no_adapter = \<lparr>a_party_type_field = None, a_required_party_type = None, a_required_values = [],
     a_party_field = None, a_party_name_field = None, a_company_field = None, a_date_field = None,
     a_amount_field = None, a_currency_field = None, a_require_submitted = False,
     a_customer_filter = None, a_customer_filter_type = None, a_party_type_filter = None,
     a_company_filter = None, a_pdf_renderer = None, a_default_message = None\<rparr>"

definition DEFAULT_DOCUMENT_ADAPTERS :: "(pystr \<times> adapter) list" where
  "DEFAULT_DOCUMENT_ADAPTERS =
     [(py ''Sales Invoice'', no_adapter\<lparr>
         a_party_field := Some (py ''customer''),
         a_party_name_field := Some (py ''customer_name''),
         a_company_field := Some (py ''company''),
         a_date_field := Some (py ''posting_date''),
         a_amount_field := Some (py ''grand_total''),
         a_currency_field := Some (py ''currency''),
         a_require_submitted := True,
         a_default_message := Some (py ''Dear {{ party_name }},\<newline>\<newline>Please find Sales Invoice {{ name }} dated {{ date }} for {{ formatted_amount }}.\<newline>\<newline>Regards,\<newline>{{ company }}'')\<rparr>),
      (py ''Payment Entry'', no_adapter\<lparr>
         a_party_type_field := Some (py ''party_type''),
         a_required_party_type := Some (py ''Customer''),
         a_required_values := [(py ''payment_type'', PStr (py ''Receive''))],
         a_party_field := Some (py ''party''),
         a_party_name_field := Some (py ''party_name''),
         a_company_field := Some (py ''company''),
         a_date_field := Some (py ''posting_date''),
         a_amount_field := Some (py ''paid_amount''),
         a_currency_field := Some (py ''paid_to_account_currency''),
         a_require_submitted := True,
         a_default_message := Some (py ''Dear {{ party_name }},\<newline>\<newline>Please find Payment Receipt {{ name }} dated {{ date }} for {{ formatted_amount }}.\<newline>\<newline>Regards,\<newline>{{ company }}'')\<rparr>)]"

definition DEFAULT_REPORT_ADAPTERS :: "(pystr \<times> adapter) list" where
  "DEFAULT_REPORT_ADAPTERS =
     [(py ''Accounts Receivable'', no_adapter\<lparr>
         a_customer_filter := Some (py ''party''),
         a_customer_filter_type := Some (py ''list''),
         a_party_type_filter := Some (py ''party_type''),
         a_required_party_type := Some (py ''Customer''),
         a_company_filter := Some (py ''company''),
         a_default_message := Some (py ''Dear {{ party_name }},\<newline>\<newline>Please find your Accounts Receivable statement attached.\<newline>\<newline>Regards,\<newline>{{ company }}'')\<rparr>),
      (py ''Accounts Receivable Summary'', no_adapter\<lparr>
         a_customer_filter := Some (py ''party''),
         a_customer_filter_type := Some (py ''list''),
         a_party_type_filter := Some (py ''party_type''),
         a_required_party_type := Some (py ''Customer''),
         a_company_filter := Some (py ''company''),
         a_default_message := Some (py ''Dear {{ party_name }},\<newline>\<newline>Please find your receivable summary attached.\<newline>\<newline>Regards,\<newline>{{ company }}'')\<rparr>),
      (py ''Customer Ledger Summary'', no_adapter\<lparr>
         a_customer_filter := Some (py ''party''),
         a_customer_filter_type := Some (py ''string''),
         a_company_filter := Some (py ''company''),
         a_default_message := Some (py ''Dear {{ party_name }},\<newline>\<newline>Please find your customer statement attached.\<newline>\<newline>Regards,\<newline>{{ company }}'')\<rparr>),
      (py ''General Ledger'', no_adapter\<lparr>
         a_customer_filter := Some (py ''party''),
         a_customer_filter_type := Some (py ''list''),
         a_party_type_filter := Some (py ''party_type''),
         a_required_party_type := Some (py ''Customer''),
         a_company_filter := Some (py ''company''),
         a_default_message := Some (py ''Dear {{ party_name }},\<newline>\<newline>Please find your customer ledger attached.\<newline>\<newline>Regards,\<newline>{{ company }}'')\<rparr>)]"

section \<open>Registries\<close>

definition not_a_dictionary :: "pystr \<Rightarrow> exn" where
  "not_a_dictionary dotted_path = Exn TypeError (dotted_path @ py '' must return a dictionary'') False"

text \<open>One hook: \<open>registry.update(values)\<close>, where a later dictionary overrides an earlier one.\<close>

definition register :: "'a provider \<Rightarrow> (pystr \<rightharpoonup> 'a) \<Rightarrow> exn + (pystr \<rightharpoonup> 'a)" where
  "register p registry =
     bindR (snd p) (\<lambda>values.
       case values of
         None \<Rightarrow> Inl (not_a_dictionary (fst p))
       | Some d \<Rightarrow> Inr (registry ++ map_of d))"

definition external_registry :: "'a provider list \<Rightarrow> exn + (pystr \<rightharpoonup> 'a)" where
  "external_registry hooks = foldR register hooks Map.empty"

definition document_adapters :: "frappe \<Rightarrow> exn + (pystr \<rightharpoonup> adapter)" where
  "document_adapters fr =
     bindR (external_registry (fr_document_providers fr)) (\<lambda>ext.
       Inr (map_of DEFAULT_DOCUMENT_ADAPTERS ++ ext))"

definition report_adapters :: "frappe \<Rightarrow> exn + (pystr \<rightharpoonup> adapter)" where
  "report_adapters fr =
     bindR (external_registry (fr_report_providers fr)) (\<lambda>ext.
       Inr (map_of DEFAULT_REPORT_ADAPTERS ++ ext))"

definition document_adapter :: "frappe \<Rightarrow> pystr \<Rightarrow> exn + adapter option" where
  "document_adapter fr doctype = bindR (document_adapters fr) (\<lambda>r. Inr (r doctype))"

definition report_adapter :: "frappe \<Rightarrow> pystr \<Rightarrow> exn + adapter option" where
  "report_adapter fr report_name = bindR (report_adapters fr) (\<lambda>r. Inr (r report_name))"

section \<open>What every registry promises\<close>

text \<open>\<open>overlays hooks base reg\<close>: every hook answered with a dictionary, and the entry of a key is
  the one of the last hook that has the key, or the base's.\<close>

definition overlays :: "'a provider list \<Rightarrow> (pystr \<rightharpoonup> 'a) \<Rightarrow> (pystr \<rightharpoonup> 'a) \<Rightarrow> bool" where
  "overlays hooks base reg \<longleftrightarrow>
     (\<forall>p \<in> set hooks. \<exists>d. snd p = Inr (Some d))
     \<and> (\<forall>k. reg k = foldl (\<lambda>v p. case snd p of
           Inr (Some d) \<Rightarrow> (case map_of d k of None \<Rightarrow> v | Some w \<Rightarrow> Some w) | _ \<Rightarrow> v) (base k) hooks)"

locale registry_overlay =
  fixes build :: "'a provider list \<Rightarrow> exn + (pystr \<rightharpoonup> 'a)"
    and base :: "pystr \<rightharpoonup> 'a"
  assumes build_Nil: "build [] = Inr base"
    and build_snoc: "build (hooks @ [p]) = bindR (build hooks) (register p)"
begin

text \<open>A registry is the base with every hook's dictionary laid over it in order.\<close>

lemma build_shape:
  "build hooks = Inr reg \<longleftrightarrow>
     (\<exists>ds. map snd hooks = map (\<lambda>d. Inr (Some d)) ds \<and> reg = fold (\<lambda>d m. m ++ map_of d) ds base)"
proof (induction hooks arbitrary: reg rule: rev_induct)
  case Nil
  then show ?case by (auto simp: build_Nil)
next
  case (snoc p hooks)
  have "build (hooks @ [p]) = Inr reg \<longleftrightarrow>
      (\<exists>m d. build hooks = Inr m \<and> snd p = Inr (Some d) \<and> reg = m ++ map_of d)"
    by (auto simp: build_snoc register_def res_iff)
  also have "\<dots> \<longleftrightarrow> (\<exists>ds. map snd (hooks @ [p]) = map (\<lambda>d. Inr (Some d)) ds
      \<and> reg = fold (\<lambda>d m. m ++ map_of d) ds base)" (is "?A \<longleftrightarrow> ?B")
  proof
    assume ?A
    then obtain d ds where "map snd hooks = map (\<lambda>d. Inr (Some d)) ds" "snd p = Inr (Some d)"
      "reg = fold (\<lambda>d m. m ++ map_of d) ds base ++ map_of d"
      by (auto simp: snoc.IH)
    then show ?B by (intro exI [of _ "ds @ [d]"]) simp
  next
    assume ?B
    then obtain es where es: "map snd (hooks @ [p]) = map (\<lambda>d. Inr (Some d)) es"
      and reg: "reg = fold (\<lambda>d m. m ++ map_of d) es base" by blast
    then obtain ds d where "es = ds @ [d]" by (cases es rule: rev_cases) auto
    with es reg show ?A by (auto simp: snoc.IH)
  qed
  finally show ?case .
qed

text \<open>No hook can remove a built-in entry.\<close>

lemma overlay_grows: "dom m \<subseteq> dom (fold (\<lambda>d m. m ++ map_of d) ds m)"
proof (induction ds arbitrary: m)
  case Nil
  then show ?case by simp
next
  case (Cons d ds)
  have "dom m \<subseteq> dom (m ++ map_of d)" by simp
  from subset_trans [OF this Cons.IH] show ?case unfolding fold_simps .
qed

lemma base_kept: "build hooks = Inr reg \<Longrightarrow> dom base \<subseteq> dom reg"
  unfolding build_shape using overlay_grows by metis

text \<open>An entry no hook mentions is the built-in one.\<close>

lemma unmentioned:
  assumes "build hooks = Inr reg"
    and "\<And>p d. p \<in> set hooks \<Longrightarrow> snd p = Inr (Some d) \<Longrightarrow> map_of d k = None"
  shows "reg k = base k"
proof -
  obtain ds where ds: "map snd hooks = map (\<lambda>d. Inr (Some d)) ds"
    and reg: "reg = fold (\<lambda>d m. m ++ map_of d) ds base" using assms(1) by (auto simp: build_shape)
  have "\<forall>d \<in> set ds. map_of d k = None"
  proof
    fix d assume "d \<in> set ds"
    then have "(Inr (Some d) :: exn + (pystr \<times> 'a) list option) \<in> set (map snd hooks)" by (simp add: ds)
    then show "map_of d k = None" using assms(2) by fastforce
  qed
  then have "fold (\<lambda>d m. m ++ map_of d) ds m k = m k" for m :: "pystr \<rightharpoonup> 'a"
    by (induction ds arbitrary: m) (auto simp: map_add_def)
  then show ?thesis by (simp add: reg)
qed

lemma overlay_law: "build hooks = Inr reg \<Longrightarrow> overlays hooks base reg"
proof (induction hooks arbitrary: reg rule: rev_induct)
  case Nil
  then show ?case by (simp add: build_Nil overlays_def)
next
  case (snoc p hooks)
  then obtain m d where m: "build hooks = Inr m" and d: "snd p = Inr (Some d)" and reg: "reg = m ++ map_of d"
    by (auto simp: build_snoc register_def res_iff)
  from snoc.IH [OF m] d show ?case
    by (auto simp: overlays_def reg map_add_def split: option.splits)
qed

text \<open>The last hook has the last word.\<close>

lemma last_wins:
  "build (hooks @ [(path, Inr (Some d))]) = Inr reg \<Longrightarrow> map_of d k = Some v \<Longrightarrow> reg k = Some v"
  by (auto simp: build_snoc register_def res_iff)

text \<open>A hook that does not return a dictionary makes the whole registry unavailable.\<close>

lemma fails_closed: "(path, Inr None) \<in> set hooks \<Longrightarrow> build hooks \<noteq> Inr reg"
proof
  assume "(path, Inr None) \<in> set hooks" and "build hooks = Inr reg"
  then obtain ds :: "(pystr \<times> 'a) list list" where "map snd hooks = map (\<lambda>d. Inr (Some d)) ds"
    by (auto simp: build_shape)
  moreover have "Inr None \<in> set (map snd hooks)" using \<open>(path, Inr None) \<in> set hooks\<close> by force
  ultimately show False by auto
qed

end

lemma foldR_snoc: "foldR f (xs @ [x]) s = bindR (foldR f xs s) (f x)"
proof (induction xs arbitrary: s)
  case Nil
  then show ?case by (cases "f x s") auto
next
  case (Cons y ys)
  then show ?case by (cases "f y s") auto
qed

lemma register_add:
  "bindR (register p m) (\<lambda>ext. Inr (b ++ ext)) = register p (b ++ m)"
  by (cases "snd p") (auto simp: register_def split: option.splits)

lemma overlay_snoc:
  "bindR (external_registry (hooks @ [p])) (\<lambda>ext. Inr (b ++ ext))
     = bindR (bindR (external_registry hooks) (\<lambda>ext. Inr (b ++ ext))) (register p)"
proof (cases "external_registry hooks")
  case (Inl e)
  then show ?thesis by (simp add: external_registry_def foldR_snoc)
next
  case (Inr m)
  then show ?thesis by (simp add: external_registry_def foldR_snoc register_add)
qed

interpretation document_registry: registry_overlay
  "\<lambda>hooks. bindR (external_registry hooks) (\<lambda>ext. Inr (map_of DEFAULT_DOCUMENT_ADAPTERS ++ ext))"
  "map_of DEFAULT_DOCUMENT_ADAPTERS"
  by unfold_locales (simp_all add: overlay_snoc, simp add: external_registry_def)

interpretation report_registry: registry_overlay
  "\<lambda>hooks. bindR (external_registry hooks) (\<lambda>ext. Inr (map_of DEFAULT_REPORT_ADAPTERS ++ ext))"
  "map_of DEFAULT_REPORT_ADAPTERS"
  by unfold_locales (simp_all add: overlay_snoc, simp add: external_registry_def)

lemma document_adapter_Inr_iff [res_iff]:
  "document_adapter fr dt = Inr a \<longleftrightarrow> (\<exists>r. document_adapters fr = Inr r \<and> r dt = a)"
  by (simp add: document_adapter_def res_iff)

lemma report_adapter_Inr_iff [res_iff]:
  "report_adapter fr n = Inr a \<longleftrightarrow> (\<exists>r. report_adapters fr = Inr r \<and> r n = a)"
  by (simp add: report_adapter_def res_iff)

end
