(* ===== verification/Sources.thy ===== *)
theory Sources
  imports Permissions Adapters
begin

text \<open>
  The server-side checks of \<open>api.py\<close> on what is sent and to whom: the numbers linked to a
  customer, the document and report guards, print formats and message templates. All of them only
  read the site; they either answer or raise.
\<close>

definition TEMPLATE_DOCTYPE :: pystr where
  "TEMPLATE_DOCTYPE = py ''ERPNext WhatsApp Message Template''"

definition enabled_settings :: "site \<Rightarrow> exn + settings" where
  "enabled_settings s =
     (if st_enabled (s_settings s) then Inr (s_settings s)
      else throw ''Enable the WhatsApp transport before sending.'')"

lemma enabled_settings_Inr_iff [res_iff]:
  "enabled_settings s = Inr st \<longleftrightarrow> st_enabled (s_settings s) \<and> st = s_settings s"
  by (auto simp: enabled_settings_def)

section \<open>The numbers of a customer\<close>

record recipient_choice =
  rc_value :: pystr
  rc_label :: pystr

type_synonym number_state = "recipient_choice list \<times> pystr set"

text \<open>\<open>_add_number\<close>: an empty value or one that does not normalise is skipped; the only
  exception normalisation raises is the \<open>ValidationError\<close> that is caught.\<close>

definition add_number :: "pystr option \<Rightarrow> pystr \<Rightarrow> number_state \<Rightarrow> number_state" where
  "add_number value source rs =
     (case value of
        None \<Rightarrow> rs
      | Some v \<Rightarrow>
          (if v = [] then rs
           else case normalize_number (Some v) of
             Inl _ \<Rightarrow> rs
           | Inr number \<Rightarrow>
               (if number \<in> snd rs then rs
                else (fst rs @ [\<lparr>rc_value = number, rc_label = number @ [32, 8212, 32] @ source\<rparr>],
                      insert number (snd rs)))))"

definition contact_source :: "bizdoc \<Rightarrow> pystr" where
  "contact_source contact =
     py ''Contact '' @ (case text_field contact (py ''full_name'') of None \<Rightarrow> py ''None'' | Some n \<Rightarrow> n)"

text \<open>The rows of a child table field, \<open>doc.get(field) or []\<close>.\<close>

definition child_rows :: "bizdoc \<Rightarrow> pystr \<Rightarrow> (pystr \<times> pyval) list list" where
  "child_rows d k =
     (case dget (b_fields d) k of
        PList rows \<Rightarrow> List.map_filter (\<lambda>r. case r of PDict m \<Rightarrow> Some m | _ \<Rightarrow> None) rows
      | _ \<Rightarrow> [])"

definition contact_numbers :: "bizdoc \<Rightarrow> number_state \<Rightarrow> number_state" where
  "contact_numbers contact rs =
     (let src = contact_source contact;
          rs = add_number (text_field contact (py ''mobile_no'')) src rs;
          rs = add_number (text_field contact (py ''phone'')) src rs
      in fold (\<lambda>row. add_number (as_text (dget row (py ''phone''))) src)
           (child_rows contact (py ''phone_nos'')) rs)"

definition add_contact :: "frappe \<Rightarrow> site \<Rightarrow> pystr \<Rightarrow> number_state \<Rightarrow> exn + number_state" where
  "add_contact fr s contact_name rs =
     bindR (get_doc fr (py ''Contact'') contact_name) (\<lambda>contact.
       Inr (if fr_can fr (s_user s) (py ''read'') (py ''Contact'') (Some contact_name)
            then contact_numbers contact rs else rs))"

definition customer_own_numbers :: "bizdoc \<Rightarrow> number_state" where
  "customer_own_numbers customer =
     fold (\<lambda>f rs. if has_field customer f
                   then add_number (text_field customer f) (py ''Customer'') rs else rs)
       [py ''mobile_no'', py ''phone'', py ''phone_no''] ([], {})"

text \<open>\<open>meta.has_field(f) and customer.f\<close>: the non-empty link, when there is one.\<close>

definition link_field :: "bizdoc \<Rightarrow> pystr \<Rightarrow> pystr option" where
  "link_field d f =
     (if has_field d f
      then (case text_field d f of None \<Rightarrow> None | Some v \<Rightarrow> if v = [] then None else Some v)
      else None)"

definition contact_names :: "frappe \<Rightarrow> pystr \<Rightarrow> bizdoc \<Rightarrow> pystr list" where
  "contact_names fr customer_name customer =
     (case link_field customer (py ''customer_primary_contact'') of None \<Rightarrow> [] | Some c \<Rightarrow> [c])
     @ fr_customer_contacts fr customer_name"

definition add_address :: "frappe \<Rightarrow> site \<Rightarrow> bizdoc \<Rightarrow> number_state \<Rightarrow> exn + number_state" where
  "add_address fr s customer rs =
     (case link_field customer (py ''customer_primary_address'') of
        None \<Rightarrow> Inr rs
      | Some a \<Rightarrow>
          bindR (get_doc fr (py ''Address'') a) (\<lambda>address.
            Inr (if fr_can fr (s_user s) (py ''read'') (py ''Address'') (Some a)
                 then add_number (text_field address (py ''phone'')) (py ''Customer Address'') rs
                 else rs)))"

definition customer_numbers :: "frappe \<Rightarrow> site \<Rightarrow> pystr \<Rightarrow> exn + recipient_choice list" where
  "customer_numbers fr s customer_name =
     bindR (get_doc fr (py ''Customer'') customer_name) (\<lambda>customer.
     bindR (check_permission fr s (py ''read'') (py ''Customer'') customer_name) (\<lambda>_.
     bindR (foldR (add_contact fr s) (dict_fromkeys (contact_names fr customer_name customer))
              (customer_own_numbers customer)) (\<lambda>rs.
     bindR (add_address fr s customer rs) (\<lambda>rs.
       Inr (fst rs)))))"

text \<open>
  What the loops maintain: the choices are exactly the numbers seen, each once, and all of them
  are normalised.
\<close>

definition numbers_ok :: "number_state \<Rightarrow> bool" where
  "numbers_ok rs \<longleftrightarrow> snd rs = rc_value ` set (fst rs) \<and> distinct (map rc_value (fst rs))
     \<and> (\<forall>c \<in> set (fst rs). normalize_number (Some (rc_value c)) = Inr (rc_value c))"

lemma add_number_ok: "numbers_ok rs \<Longrightarrow> numbers_ok (add_number v src rs)"
proof -
  assume ok: "numbers_ok rs"
  have "normalize_number (Some n) = Inr n" if "normalize_number v' = Inr n" for v' n
    using normalize_number_Inr [OF that] normalize_number_canonical by auto
  with ok show ?thesis
    by (auto simp: add_number_def numbers_ok_def split: option.splits sum.splits)
qed

lemma numbers_ok_Nil: "numbers_ok ([], {})"
  by (simp add: numbers_ok_def)

lemma fold_ok: "(\<And>x rs. numbers_ok rs \<Longrightarrow> numbers_ok (f x rs)) \<Longrightarrow> numbers_ok rs \<Longrightarrow> numbers_ok (fold f xs rs)"
  by (induction xs arbitrary: rs) auto

lemma contact_numbers_ok: "numbers_ok rs \<Longrightarrow> numbers_ok (contact_numbers c rs)"
  by (auto simp: contact_numbers_def Let_def intro!: fold_ok add_number_ok)

lemma add_contact_ok: "numbers_ok rs \<Longrightarrow> add_contact fr s c rs = Inr rs' \<Longrightarrow> numbers_ok rs'"
  by (auto simp: add_contact_def res_iff contact_numbers_ok split: if_splits)

lemma customer_own_numbers_ok: "numbers_ok (customer_own_numbers c)"
  unfolding customer_own_numbers_def
  using numbers_ok_Nil by (intro fold_ok) (simp_all add: add_number_ok)

lemma add_address_ok: "numbers_ok rs \<Longrightarrow> add_address fr s c rs = Inr rs' \<Longrightarrow> numbers_ok rs'"
  by (auto simp: add_address_def res_iff add_number_ok split: option.splits if_splits)

lemma customer_numbers_ok:
  assumes "customer_numbers fr s c = Inr cs"
  shows "\<exists>seen. numbers_ok (cs, seen)"
proof -
  from assms obtain d rs rs' where
    contacts: "foldR (add_contact fr s) (dict_fromkeys (contact_names fr c d)) (customer_own_numbers d)
      = Inr rs" and address: "add_address fr s d rs = Inr rs'" and cs: "cs = fst rs'"
    by (auto simp: customer_numbers_def res_iff)
  have "numbers_ok rs"
    using contacts customer_own_numbers_ok by (rule foldR_invariant) (rule add_contact_ok)
  then have "numbers_ok rs'" using address by (rule add_address_ok)
  then show ?thesis using cs by (metis prod.collapse)
qed

text \<open>Reading a customer's numbers needs Read on the customer.\<close>

lemma customer_numbers_read:
  "customer_numbers fr s c = Inr cs \<Longrightarrow> fr_can fr (s_user s) (py ''read'') (py ''Customer'') (Some c)"
  by (auto simp: customer_numbers_def res_iff)

section \<open>Documents\<close>

definition opt_value :: "pystr option \<Rightarrow> pyval" where
  "opt_value v = (case v of None \<Rightarrow> PNone | Some t \<Rightarrow> PStr t)"

definition required :: "string \<Rightarrow> pystr option \<Rightarrow> exn + pystr" where
  "required key v = (case v of None \<Rightarrow> raise KeyError key | Some t \<Rightarrow> Inr t)"

text \<open>\<open>if field\<close>: neither missing nor empty.\<close>

definition present :: "pystr option \<Rightarrow> bool" where
  "present v \<longleftrightarrow> v \<noteq> None \<and> v \<noteq> Some []"

definition not_registered_for :: "pystr \<Rightarrow> exn" where
  "not_registered_for doctype =
     Exn ValidationError (py ''WhatsApp sending is not registered for '' @ doctype @ py ''.'') False"

definition validate_document :: "frappe \<Rightarrow> site \<Rightarrow> pystr \<Rightarrow> pystr \<Rightarrow> exn + (bizdoc \<times> adapter)" where
  "validate_document fr s doctype name =
     bindR (document_adapter fr doctype) (\<lambda>found.
       case found of
         None \<Rightarrow> Inl (not_registered_for doctype)
       | Some adapter \<Rightarrow>
           (if adapter = no_adapter then Inl (not_registered_for doctype)
            else
              bindR (get_doc fr doctype name) (\<lambda>doc.
              bindR (check_permission fr s (py ''read'') doctype name) (\<lambda>_.
              if \<not> fr_can fr (s_user s) (py ''print'') doctype (Some name)
              then deny ''You do not have permission to print this document.''
              else if \<not> list_all (\<lambda>(f, required). field doc (Some f) = required) (a_required_values adapter)
              then throw ''This document is not an eligible customer receipt.''
              else if present (a_party_type_field adapter)
                   \<and> field doc (a_party_type_field adapter) \<noteq> opt_value (a_required_party_type adapter)
              then throw ''Only customer documents may be sent through this action.''
              else
                bindR (enabled_settings s) (\<lambda>st.
                if st_require_submitted_documents st \<and> a_require_submitted adapter
                   \<and> b_submittable doc \<and> b_docstatus doc \<noteq> 1
                then throw ''Submit the document before sending it by WhatsApp.''
                else Inr (doc, adapter))))))"

text \<open>
  A document that passes was read and printed by the session user, meets the adapter's conditions,
  and is submitted where the site asks for it.
\<close>

lemma validate_document_Inr:
  assumes "validate_document fr s doctype name = Inr (doc, adapter)"
  shows "fr_doc fr doctype name = Some doc"
    and "\<exists>reg. document_adapters fr = Inr reg \<and> reg doctype = Some adapter"
    and "fr_can fr (s_user s) (py ''read'') doctype (Some name)"
    and "fr_can fr (s_user s) (py ''print'') doctype (Some name)"
    and "\<forall>(f, v) \<in> set (a_required_values adapter). field doc (Some f) = v"
    and "present (a_party_type_field adapter) \<Longrightarrow>
           field doc (a_party_type_field adapter) = opt_value (a_required_party_type adapter)"
    and "st_enabled (s_settings s)"
    and "st_require_submitted_documents (s_settings s) \<Longrightarrow> a_require_submitted adapter \<Longrightarrow>
           b_submittable doc \<Longrightarrow> b_docstatus doc = 1"
  using assms
  by (auto simp: validate_document_def res_iff list_all_iff split: option.splits if_splits)

section \<open>Document context and templates\<close>

definition or_empty :: "pyval \<Rightarrow> pyval" where
  "or_empty v = or_else v (PStr [])"

definition document_context :: "frappe \<Rightarrow> bizdoc \<Rightarrow> adapter \<Rightarrow> exn + (pystr \<times> pyval) list" where
  "document_context fr doc adapter =
     bindR (required ''party_field'' (a_party_field adapter)) (\<lambda>party_field.
     let party_name = or_else (field doc (a_party_name_field adapter)) (field doc (Some party_field));
         amount = or_else (field doc (a_amount_field adapter)) (PInt 0);
         currency = or_empty (field doc (a_currency_field adapter))
     in Inr [(py ''name'', PStr (b_name doc)),
             (py ''doctype'', PStr (b_doctype doc)),
             (py ''party_name'', party_name),
             (py ''customer'', field doc (Some party_field)),
             (py ''company'', or_empty (field doc (a_company_field adapter))),
             (py ''date'', or_empty (field doc (a_date_field adapter))),
             (py ''amount'', amount),
             (py ''currency'', currency),
             (py ''formatted_amount'', PStr (fr_money fr amount currency)),
             (py ''doc'', PDict (b_fields doc))])"

record template_row =
  tr_name :: pystr
  tr_template_name :: pystr
  tr_is_default :: bool
  tr_message_template :: pystr

text \<open>The field a template's target is in.\<close>

definition template_target :: "pystr \<Rightarrow> template \<Rightarrow> pystr option" where
  "template_target reference_type t =
     (if reference_type = py ''Document'' then t_document_type t else t_report_name t)"

definition for_company :: "template \<Rightarrow> pyval \<Rightarrow> bool" where
  "for_company t company \<longleftrightarrow> \<not> present (t_company t) \<or> opt_value (t_company t) = company"

text \<open>
  \<open>_template_rows\<close>: the enabled templates of the target that are for every company or for this
  one, defaults first; the rows of the table are listed by name. Without any, the built-in message.
\<close>

definition template_rows :: "site \<Rightarrow> pystr \<Rightarrow> pystr \<Rightarrow> pyval \<Rightarrow> pystr \<Rightarrow> template_row list" where
  "template_rows s reference_type target company fallback =
     (let rows = [(n, t) \<leftarrow> s_templates s. t_enabled t \<and> t_reference_type t = reference_type
                    \<and> template_target reference_type t = Some target];
          rows = sort_key (\<lambda>(n, t). if t_is_default t then 0 else 1 :: nat) rows;
          rows = [(n, t) \<leftarrow> rows. for_company t company]
      in if rows = []
         then [\<lparr>tr_name = [], tr_template_name = py ''System Default'', tr_is_default = True,
                tr_message_template = fallback\<rparr>]
         else map (\<lambda>(n, t). \<lparr>tr_name = n, tr_template_name = n, tr_is_default = t_is_default t,
                tr_message_template = t_message_template t\<rparr>) rows)"

record rendered_template =
  rt_name :: pystr
  rt_label :: pystr
  rt_is_default :: bool
  rt_message :: pystr

definition render_row :: "frappe \<Rightarrow> (pystr \<times> pyval) list \<Rightarrow> template_row \<Rightarrow> exn + rendered_template" where
  "render_row fr context row =
     bindR (fr_render fr (tr_message_template row) context) (\<lambda>message.
       Inr \<lparr>rt_name = tr_name row, rt_label = tr_template_name row,
            rt_is_default = tr_is_default row, rt_message = message\<rparr>)"

definition render_templates ::
  "frappe \<Rightarrow> template_row list \<Rightarrow> (pystr \<times> pyval) list \<Rightarrow> exn + rendered_template list" where
  "render_templates fr rows context =
     foldR (\<lambda>row out. bindR (render_row fr context row) (\<lambda>r. Inr (out @ [r]))) rows []"

definition validate_selected_template ::
  "frappe \<Rightarrow> site \<Rightarrow> pystr \<Rightarrow> pystr \<Rightarrow> pyval \<Rightarrow> pystr \<Rightarrow> exn + pystr option" where
  "validate_selected_template fr s reference_type target company template_name =
     (if template_name = [] then Inr None
      else case row_get (s_templates s) template_name of
        None \<Rightarrow> raise DoesNotExistError ''template not found''
      | Some t \<Rightarrow>
          bindR (check_permission fr s (py ''read'') TEMPLATE_DOCTYPE template_name) (\<lambda>_.
          if \<not> t_enabled t \<or> t_reference_type t \<noteq> reference_type
             \<or> template_target reference_type t \<noteq> Some target
             \<or> (present (t_company t) \<and> opt_value (t_company t) \<noteq> company)
          then throw ''Select an enabled WhatsApp template registered for this source.''
          else Inr (Some template_name)))"

section \<open>Print formats\<close>

definition print_formats :: "frappe \<Rightarrow> pystr \<Rightarrow> pystr list" where
  "print_formats fr doctype =
     dict_fromkeys (py ''Standard'' #
       map pf_name [r \<leftarrow> fr_print_format_rows fr. pf_doc_type r = doctype
                      \<and> (fr_print_format_has_disabled fr \<longrightarrow> \<not> pf_disabled r)])"

definition validate_print_format :: "frappe \<Rightarrow> pystr \<Rightarrow> pystr \<Rightarrow> exn + pystr" where
  "validate_print_format fr doctype print_format =
     (let print_format = (if print_format = [] then py ''Standard'' else print_format)
      in if print_format \<notin> set (print_formats fr doctype)
         then throw ''Select a print format registered for this document type.''
         else Inr print_format)"

definition stored_format :: "pystr \<Rightarrow> pystr option" where
  "stored_format print_format = (if print_format = py ''Standard'' then None else Some print_format)"

lemma validate_print_format_Inr:
  "validate_print_format fr dt p = Inr q \<Longrightarrow>
     q \<in> set (print_formats fr dt) \<and> q = (if p = [] then py ''Standard'' else p)"
  by (auto simp: validate_print_format_def Let_def split: if_splits)

end
