(* ===== verification/Reports.thy ===== *)
theory Reports
  imports Sources
begin

text \<open>
  The report side of \<open>api.py\<close>: \<open>_validate_report\<close>, which turns the filters of the caller
  into the filters the report really runs with, and \<open>_report_pdf\<close>, which renders the result.
  Validating the filters a delivery has stored gives them back unchanged, so a later re-check of
  the delivery looks at the same report; and no value of the report can change the markup of the
  document it is printed in.
\<close>

section \<open>Filters\<close>

text \<open>\<open>dict(v or {})\<close> for a value that is not text: a dictionary, or a list of pairs whose
  first members are text.\<close>

definition pair_of :: "pyval \<Rightarrow> (pystr \<times> pyval) option" where
  "pair_of v =
     (case v of
        PList [PStr k, x] \<Rightarrow> Some (k, x)
      | PStr [k, x] \<Rightarrow> Some ([k], PStr [x])
      | PDict [(k, _), (x, _)] \<Rightarrow> Some (k, PStr x)
      | _ \<Rightarrow> None)"

fun dict_of :: "pyval list \<Rightarrow> (pystr \<times> pyval) list \<Rightarrow> exn + (pystr \<times> pyval) list" where
  "dict_of [] d = Inr d"
| "dict_of (v # vs) d =
     (case pair_of v of
        None \<Rightarrow> raise TypeError ''cannot convert to a dictionary''
      | Some (k, x) \<Rightarrow> dict_of vs (dset d k x))"

text \<open>\<open>frappe.parse_json(filters) if isinstance(filters, str) else dict(filters or {})\<close>,
  followed by the first \<open>filters.get\<close>, which only a dictionary has.\<close>

definition read_filters :: "pyval \<Rightarrow> exn + (pystr \<times> pyval) list" where
  "read_filters filters =
     (case filters of
        PStr t \<Rightarrow>
          bindR (json_loads t) (\<lambda>v.
            case v of PDict d \<Rightarrow> Inr d | _ \<Rightarrow> raise AttributeError ''object has no attribute get'')
      | PDict d \<Rightarrow> Inr d
      | PList vs \<Rightarrow> dict_of vs []
      | v \<Rightarrow> if truthy v then raise TypeError ''object is not iterable'' else Inr [])"

text \<open>\<open>customer\<close>: the filter's value, or its only element, and in either case a text.\<close>

definition select_one :: "exn + 'a" where
  "select_one = throw ''Select exactly one customer before sending this report.''"

definition sole_value :: "pyval \<Rightarrow> exn + pyval" where
  "sole_value v =
     (case v of
        PList xs \<Rightarrow> (if length xs \<noteq> 1 then select_one else Inr (hd xs))
      | _ \<Rightarrow> Inr v)"

definition nonempty_text :: "pyval \<Rightarrow> exn + pystr" where
  "nonempty_text v =
     (case v of PStr t \<Rightarrow> (if t = [] then select_one else Inr t) | _ \<Rightarrow> select_one)"

definition one_customer :: "pyval \<Rightarrow> exn + pystr" where
  "one_customer v = bindR (sole_value v) nonempty_text"

text \<open>The filter is written back in the shape the registered report reads.\<close>

definition shape_filters ::
  "pystr option \<Rightarrow> pystr \<Rightarrow> pystr \<Rightarrow> (pystr \<times> pyval) list \<Rightarrow> exn + (pystr \<times> pyval) list" where
  "shape_filters shape customer_filter customer filters =
     (case shape of
        None \<Rightarrow> Inr filters
      | Some sh \<Rightarrow>
          (if sh = py ''list'' then Inr (dset filters customer_filter (PList [PStr customer]))
           else if sh = py ''string'' then Inr (dset filters customer_filter (PStr customer))
           else throw ''The registered customer filter type is invalid.''))"

definition report_company :: "frappe \<Rightarrow> site \<Rightarrow> pystr option \<Rightarrow> (pystr \<times> pyval) list \<Rightarrow> exn + pystr" where
  "report_company fr s company_filter filters =
     (if \<not> present company_filter then Inr []
      else case dget filters (the company_filter) of
        PStr c \<Rightarrow>
          (if c = [] then deny ''Select one permitted company before sending this report.''
           else bindR (get_doc fr (py ''Company'') c) (\<lambda>_.
                bindR (check_permission fr s (py ''read'') (py ''Company'') c) (\<lambda>_. Inr c)))
      | _ \<Rightarrow> deny ''Select one permitted company before sending this report.'')"

text \<open>\<open>report.is_permitted()\<close>, and Report permission on the report's document type.\<close>

definition may_run :: "frappe \<Rightarrow> site \<Rightarrow> pystr \<Rightarrow> bizdoc \<Rightarrow> bool" where
  "may_run fr s report_name report \<longleftrightarrow>
     fr_report_permitted fr (s_user s) report_name
     \<and> fr_can fr (s_user s) (py ''report'')
          (case text_field report (py ''ref_doctype'') of None \<Rightarrow> [] | Some t \<Rightarrow> t) None"

definition validate_report ::
  "frappe \<Rightarrow> site \<Rightarrow> pystr \<Rightarrow> pyval
     \<Rightarrow> exn + (adapter \<times> (pystr \<times> pyval) list \<times> pystr \<times> pystr)" where
  "validate_report fr s report_name filters =
     bindR (report_adapter fr report_name) (\<lambda>found.
       case found of
         None \<Rightarrow> throw ''WhatsApp sending is not registered for this report.''
       | Some adapter \<Rightarrow>
           (if adapter = no_adapter
            then throw ''WhatsApp sending is not registered for this report.''
            else
              bindR (read_filters filters) (\<lambda>filters.
              bindR (get_doc fr (py ''Report'') report_name) (\<lambda>report.
              if \<not> may_run fr s report_name report
              then deny ''You do not have permission to run this report.''
              else if present (a_party_type_filter adapter)
                   \<and> dget filters (the (a_party_type_filter adapter))
                       \<noteq> opt_value (a_required_party_type adapter)
              then throw ''Select Customer as the party type before sending this report.''
              else
                bindR (required ''customer_filter'' (a_customer_filter adapter)) (\<lambda>customer_filter.
                bindR (one_customer (dget filters customer_filter)) (\<lambda>customer.
                bindR (shape_filters (a_customer_filter_type adapter) customer_filter customer filters)
                  (\<lambda>filters.
                bindR (get_doc fr (py ''Customer'') customer) (\<lambda>_.
                bindR (check_permission fr s (py ''read'') (py ''Customer'') customer) (\<lambda>_.
                bindR (report_company fr s (a_company_filter adapter) filters) (\<lambda>company.
                  Inr (adapter, filters, customer, company)))))))))))"

lemma sole_value_Inr_iff [res_iff]:
  "sole_value v = Inr x \<longleftrightarrow> v = PList [x] \<or> (v = x \<and> (\<forall>xs. v \<noteq> PList xs))"
  by (cases v) (auto simp: sole_value_def select_one_def length_Suc_conv)

lemma nonempty_text_Inr_iff [res_iff]: "nonempty_text v = Inr t \<longleftrightarrow> v = PStr t \<and> t \<noteq> []"
  by (cases v) (auto simp: nonempty_text_def select_one_def)

lemma one_customer_cases:
  "one_customer v = Inr c \<longleftrightarrow> c \<noteq> [] \<and> (v = PStr c \<or> v = PList [PStr c])"
  by (auto simp: one_customer_def res_iff)

lemma required_Inr_iff [res_iff]: "required k v = Inr t \<longleftrightarrow> v = Some t"
  by (auto simp: required_def split: option.splits)

lemma shape_filters_Inr_iff [res_iff]:
  "shape_filters shape k c d = Inr d' \<longleftrightarrow>
     (shape = None \<and> d' = d) \<or> (shape = Some (py ''list'') \<and> d' = dset d k (PList [PStr c]))
     \<or> (shape = Some (py ''string'') \<and> d' = dset d k (PStr c))"
  by (auto simp: shape_filters_def split: option.splits if_splits)

lemma report_company_Inr_iff [res_iff]:
  "report_company fr s cf d = Inr co \<longleftrightarrow>
     (if present cf
      then dget d (the cf) = PStr co \<and> co \<noteq> [] \<and> fr_doc fr (py ''Company'') co \<noteq> None
           \<and> fr_can fr (s_user s) (py ''read'') (py ''Company'') (Some co)
      else co = [])"
  by (auto simp: report_company_def res_iff split: pyval.splits if_splits)

lemma required_inverse: "required k v = Inr t \<Longrightarrow> v = Some t"
  by (simp add: res_iff)

text \<open>What a report that passes has been checked for.\<close>

lemma validate_report_Inr_iff:
  "validate_report fr s n f = Inr (a, d', c, co) \<longleftrightarrow>
     (\<exists>reg d report cf.
        report_adapters fr = Inr reg \<and> reg n = Some a \<and> a \<noteq> no_adapter
        \<and> read_filters f = Inr d \<and> fr_doc fr (py ''Report'') n = Some report \<and> may_run fr s n report
        \<and> (present (a_party_type_filter a) \<longrightarrow>
             dget d (the (a_party_type_filter a)) = opt_value (a_required_party_type a))
        \<and> a_customer_filter a = Some cf \<and> one_customer (dget d cf) = Inr c
        \<and> shape_filters (a_customer_filter_type a) cf c d = Inr d'
        \<and> fr_doc fr (py ''Customer'') c \<noteq> None
        \<and> fr_can fr (s_user s) (py ''read'') (py ''Customer'') (Some c)
        \<and> report_company fr s (a_company_filter a) d' = Inr co)"
proof -
  have case_found: "(case found of None \<Rightarrow> Inl e | Some a \<Rightarrow> (if a = no_adapter then Inl e else m a))
      = Inr y \<longleftrightarrow> (\<exists>a. found = Some a \<and> a \<noteq> no_adapter \<and> m a = Inr y)"
    for found :: "adapter option" and e :: exn and m and y :: "'y"
    by (cases found) auto
  show ?thesis
    unfolding validate_report_def bindR_Inr_iff report_adapter_Inr_iff case_found if_throw_Inr_iff
      get_doc_Inr_iff check_permission_Inr_iff
    by (auto simp: required_Inr_iff)
qed

text \<open>The checked filters name exactly one customer, the one that was checked.\<close>

lemma checked_filters:
  assumes "validate_report fr s n f = Inr (a, d', c, co)"
  obtains cf where "a_customer_filter a = Some cf" "one_customer (dget d' cf) = Inr c"
    "shape_filters (a_customer_filter_type a) cf c d' = Inr d'"
proof -
  from assms obtain d cf where cf: "a_customer_filter a = Some cf" and c: "one_customer (dget d cf) = Inr c"
    and sh: "shape_filters (a_customer_filter_type a) cf c d = Inr d'"
    by (auto simp: validate_report_Inr_iff)
  have "one_customer (dget d' cf) = Inr c"
    using c sh by (auto simp: shape_filters_Inr_iff one_customer_cases)
  moreover have "shape_filters (a_customer_filter_type a) cf c d' = Inr d'"
    using sh by (auto simp: shape_filters_Inr_iff dset_same)
  ultimately show ?thesis using that cf by blast
qed

text \<open>
  Validating the checked filters again, as text or as a dictionary, changes nothing: the same
  adapter, filters, customer and company. It needs the party type and the customer to be different
  filters, as they are in every built-in adapter.
\<close>

lemma revalidate:
  assumes ok: "validate_report fr s n f = Inr (a, d', c, co)"
    and distinct: "a_party_type_filter a \<noteq> a_customer_filter a"
    and again: "read_filters f' = Inr d'"
  shows "validate_report fr s n f' = Inr (a, d', c, co)"
proof -
  obtain cf where cf: "a_customer_filter a = Some cf" "one_customer (dget d' cf) = Inr c"
    "shape_filters (a_customer_filter_type a) cf c d' = Inr d'"
    using checked_filters [OF ok] .
  from ok obtain reg d report where reg: "report_adapters fr = Inr reg" "reg n = Some a" "a \<noteq> no_adapter"
    and run: "fr_doc fr (py ''Report'') n = Some report" "may_run fr s n report"
    and party: "present (a_party_type_filter a) \<Longrightarrow>
      dget d (the (a_party_type_filter a)) = opt_value (a_required_party_type a)"
    and sh: "shape_filters (a_customer_filter_type a) cf c d = Inr d'"
    and cust: "fr_doc fr (py ''Customer'') c \<noteq> None"
      "fr_can fr (s_user s) (py ''read'') (py ''Customer'') (Some c)"
    and comp: "report_company fr s (a_company_filter a) d' = Inr co"
    unfolding validate_report_Inr_iff cf(1) by auto
  have "dget d' (the (a_party_type_filter a)) = opt_value (a_required_party_type a)"
    if p: "present (a_party_type_filter a)"
  proof -
    have "the (a_party_type_filter a) \<noteq> cf" using p distinct cf(1) by (auto simp: present_def)
    then show ?thesis using sh party [OF p] by (auto simp: shape_filters_Inr_iff)
  qed
  then show ?thesis
    unfolding validate_report_Inr_iff using reg again run cf cust comp by blast
qed

lemma read_filters_text:
  "json_loads t = Inr (PDict d) \<Longrightarrow> read_filters (PStr t) = Inr d"
  by (simp add: read_filters_def)

lemma read_filters_dict [simp]: "read_filters (PDict d) = Inr d"
  by (simp add: read_filters_def)

end
