(* ===== verification/Report_Pdf.thy ===== *)
theory Report_Pdf
  imports Reports
begin

text \<open>
  \<open>_report_pdf\<close> of \<open>api.py\<close>: the PDF of a report, from the renderer another app
  registered or from a table built here. The rows and columns are what the report run returns.
\<close>

section \<open>Columns and cells\<close>

definition column_default :: "nat \<Rightarrow> pystr" where
  "column_default i = py ''column_'' @ str_of_int (int i)"

text \<open>\<open>column.split(":", 1)[0]\<close>.\<close>

definition before_colon :: "pystr \<Rightarrow> pystr" where
  "before_colon s = takeWhile (\<lambda>c. c \<noteq> 58) s"

text \<open>A text column is a label; a dictionary is kept unless it is hidden.\<close>

definition normalize_column :: "nat \<Rightarrow> pyval \<Rightarrow> exn + (pystr \<times> pyval) list option" where
  "normalize_column index column =
     (case column of
        PStr s \<Rightarrow> Inr (Some [(py ''label'', PStr (before_colon s)),
                              (py ''fieldname'', PStr (column_default index))])
      | PDict d \<Rightarrow> Inr (if truthy (dget d (py ''hidden'')) then None else Some d)
      | _ \<Rightarrow> raise AttributeError ''object has no attribute get'')"

fun normalize_columns :: "nat \<Rightarrow> pyval list \<Rightarrow> exn + (pystr \<times> pyval) list list" where
  "normalize_columns i [] = Inr []"
| "normalize_columns i (c # cs) =
     bindR (normalize_column i c) (\<lambda>n.
     bindR (normalize_columns (Suc i) cs) (\<lambda>ns.
       Inr (case n of None \<Rightarrow> ns | Some d \<Rightarrow> d # ns)))"

definition column_field :: "(pystr \<times> pyval) list \<Rightarrow> pyval" where
  "column_field c = dget c (py ''fieldname'')"

definition column_label :: "(pystr \<times> pyval) list \<Rightarrow> pyval" where
  "column_label c = or_else (dget c (py ''label'')) (column_field c)"

text \<open>A value used as a dictionary key must be hashable.\<close>

definition hashable :: "pyval \<Rightarrow> bool" where
  "hashable v = (case v of PList _ \<Rightarrow> False | PDict _ \<Rightarrow> False | _ \<Rightarrow> True)"

text \<open>
  \<open>values = row if isinstance(row, dict) else dict(zip(fieldnames, row))\<close>, as the function
  \<open>values.get\<close>. A later pair of the zip overrides an earlier one with the same field.
\<close>

definition row_values :: "pyval list \<Rightarrow> pyval \<Rightarrow> exn + (pyval \<Rightarrow> pyval)" where
  "row_values fieldnames row =
     (let zipped = (\<lambda>cells.
            if list_all hashable (map fst (zip fieldnames cells))
            then Inr (\<lambda>f. case map_of (rev (zip fieldnames cells)) f of None \<Rightarrow> PNone | Some v \<Rightarrow> v)
            else raise TypeError ''unhashable type'')
      in case row of
           PDict d \<Rightarrow> Inr (\<lambda>f. case f of PStr k \<Rightarrow> dget d k | _ \<Rightarrow> PNone)
         | PList cells \<Rightarrow> zipped cells
         | PStr s \<Rightarrow> zipped (map (\<lambda>c. PStr [c]) s)
         | _ \<Rightarrow> raise TypeError ''object is not iterable'')"

text \<open>\<open>escape(str(v or ''))\<close>.\<close>

definition cell_text :: "pyval \<Rightarrow> pystr" where
  "cell_text v = html_escape (py_str (or_empty v))"

definition element :: "string \<Rightarrow> pystr \<Rightarrow> pystr" where
  "element tag content = py ''<'' @ py tag @ py ''>'' @ content @ py ''</'' @ py tag @ py ''>''"

definition row_html :: "pyval list \<Rightarrow> pyval \<Rightarrow> exn + pystr" where
  "row_html fieldnames row =
     bindR (row_values fieldnames row) (\<lambda>values.
       if \<not> list_all hashable fieldnames then raise TypeError ''unhashable type''
       else Inr (element ''tr'' (concat (map (\<lambda>f. element ''td'' (cell_text (values f))) fieldnames))))"

fun body_html :: "pyval list \<Rightarrow> pyval list \<Rightarrow> exn + pystr list" where
  "body_html fieldnames [] = Inr []"
| "body_html fieldnames (r # rs) =
     bindR (row_html fieldnames r) (\<lambda>h. bindR (body_html fieldnames rs) (\<lambda>hs. Inr (h # hs)))"

definition head_html :: "pyval list \<Rightarrow> pystr" where
  "head_html labels = concat (map (\<lambda>l. element ''th'' (cell_text l)) labels)"

definition page_open :: pystr where
  "page_open = py ''<html><head><style>body{font-family:sans-serif;font-size:9pt}'' @
     py ''table{border-collapse:collapse;width:100%}th,td{border:1px solid #ccc;padding:4px}'' @
     py ''th{background:#eee}</style></head><body>''"

definition page_close :: pystr where
  "page_close = py ''</body></html>''"

definition report_html :: "pystr \<Rightarrow> pystr \<Rightarrow> pystr \<Rightarrow> pystr list \<Rightarrow> pystr" where
  "report_html report_name filter_text head body =
     page_open @ element ''h2'' (html_escape report_name) @ element ''p'' filter_text
     @ element ''table'' (element ''thead'' (element ''tr'' head) @ element ''tbody'' (concat body))
     @ page_close"

section \<open>The PDF\<close>

definition pdf_magic :: bytes where
  "pdf_magic = py ''%PDF''"

definition registered_renderer :: "frappe \<Rightarrow> pystr \<Rightarrow> exn + pystr option" where
  "registered_renderer fr report_name =
     bindR (report_adapter fr report_name) (\<lambda>adapter.
       Inr (case adapter of
              None \<Rightarrow> None
            | Some a \<Rightarrow> (if present (a_pdf_renderer a) then a_pdf_renderer a else None)))"

text \<open>The HTML of a report's table, for at most 5,000 rows.\<close>

definition table_html ::
  "pystr \<Rightarrow> (pystr \<times> pyval) list \<Rightarrow> pyval list \<Rightarrow> pyval list \<Rightarrow> exn + pystr" where
  "table_html report_name filters columns rows =
     (if 5000 < length rows
      then throw ''Narrow the report filters to 5,000 rows or fewer before sending.''
      else
        bindR (normalize_columns 0 columns) (\<lambda>normalized_columns.
        let labels = map column_label normalized_columns;
            fieldnames = map column_field normalized_columns;
            filter_text = html_escape (json_dumps sorted_style (PDict filters))
        in bindR (body_html fieldnames rows) (\<lambda>body.
             Inr (report_html report_name filter_text (head_html labels) body))))"

definition report_pdf :: "frappe \<Rightarrow> pystr \<Rightarrow> (pystr \<times> pyval) list \<Rightarrow> exn + bytes" where
  "report_pdf fr report_name filters =
     bindR (registered_renderer fr report_name) (\<lambda>renderer.
       case renderer of
         Some path \<Rightarrow>
           bindR (fr_renderer fr path report_name filters) (\<lambda>content.
             case content of
               None \<Rightarrow> throw ''The registered report PDF renderer returned an invalid PDF.''
             | Some bytes \<Rightarrow>
                 (if \<not> startswith bytes pdf_magic
                  then throw ''The registered report PDF renderer returned an invalid PDF.''
                  else Inr bytes))
       | None \<Rightarrow>
           bindR (fr_report_run fr report_name filters) (\<lambda>(columns, rows).
           bindR (table_html report_name filters columns rows) (\<lambda>html.
             Inr (fr_html_pdf fr html))))"

section \<open>The markup does not depend on the data\<close>

lemma cell_text_plain [simp]: "closed (cell_text v)" "tags (cell_text v) = []"
  by (simp_all add: cell_text_def)

definition tag_names :: "string set" where
  "tag_names = {''tr'', ''td'', ''th'', ''h2'', ''p'', ''table'', ''thead'', ''tbody''}"

lemma element_tags [simp]:
  assumes "tag \<in> tag_names" and "closed content"
  shows "tags (element tag content) = py tag # tags content @ [py (''/'' @ tag)]"
    and "closed (element tag content)"
proof -
  have o1: "closed (py ''<'' @ py tag @ py ''>'')" "tags (py ''<'' @ py tag @ py ''>'') = [py tag]"
    and c1: "closed (py ''</'' @ py tag @ py ''>'')" "tags (py ''</'' @ py tag @ py ''>'') = [py (''/'' @ tag)]"
    using assms(1) by (auto simp: tag_names_def py_def)
  have parts: "element tag content = (py ''<'' @ py tag @ py ''>'') @ content @ (py ''</'' @ py tag @ py ''>'')"
    by (simp add: element_def)
  show "tags (element tag content) = py tag # tags content @ [py (''/'' @ tag)]"
    unfolding parts using o1 c1 assms(2) tags_append by (metis append_Cons append_Nil closed_append)
  show "closed (element tag content)"
    unfolding parts using o1 c1 assms(2) closed_append by blast
qed

lemma used_tags [simp]:
  "''tr'' \<in> tag_names" "''td'' \<in> tag_names" "''th'' \<in> tag_names" "''h2'' \<in> tag_names"
  "''p'' \<in> tag_names" "''table'' \<in> tag_names" "''thead'' \<in> tag_names" "''tbody'' \<in> tag_names"
  by (simp_all add: tag_names_def)

lemma cells_tags:
  assumes "tag \<in> tag_names"
  shows "tags (concat (map (\<lambda>x. element tag (cell_text (f x))) xs))
      = concat (replicate (length xs) [py tag, py (''/'' @ tag)])"
    and "closed (concat (map (\<lambda>x. element tag (cell_text (f x))) xs))"
  using assms by (induction xs) auto

text \<open>The tags of a page with the given numbers of columns and rows.\<close>

definition row_tags :: "nat \<Rightarrow> pystr list" where
  "row_tags cols = py ''tr'' # concat (replicate cols [py ''td'', py ''/td'']) @ [py ''/tr'']"

definition page_tags :: "nat \<Rightarrow> nat \<Rightarrow> pystr list" where
  "page_tags cols rows =
     [py ''html'', py ''head'', py ''style'', py ''/style'', py ''/head'', py ''body'',
      py ''h2'', py ''/h2'', py ''p'', py ''/p'', py ''table'', py ''thead'', py ''tr'']
     @ concat (replicate cols [py ''th'', py ''/th'']) @ [py ''/tr'', py ''/thead'', py ''tbody'']
     @ concat (replicate rows (row_tags cols))
     @ [py ''/tbody'', py ''/table'', py ''/body'', py ''/html'']"

lemma row_html_tags:
  assumes "row_html fieldnames row = Inr h"
  shows "tags h = row_tags (length fieldnames) \<and> closed h"
proof -
  from assms obtain vals where
    "h = element ''tr'' (concat (map (\<lambda>f. element ''td'' (cell_text (vals f))) fieldnames))"
    by (auto simp: row_html_def res_iff)
  then show ?thesis
    by (simp only: element_tags [OF used_tags(1)] cells_tags [OF used_tags(2)] row_tags_def append_assoc append_Cons append_Nil simp_thms)
qed

lemma body_html_tags:
  "body_html fieldnames rows = Inr body \<Longrightarrow>
     tags (concat body) = concat (replicate (length rows) (row_tags (length fieldnames)))
     \<and> closed (concat body)"
  by (induction rows arbitrary: body) (auto simp: res_iff dest: row_html_tags)

lemma page_frame_tags:
  "closed page_open"
  "tags page_open = [py ''html'', py ''head'', py ''style'', py ''/style'', py ''/head'', py ''body'']"
  "tags page_close = [py ''/body'', py ''/html'']"
  by (simp_all add: page_open_def page_close_def py_def)

lemma report_html_tags:
  assumes "tags head = hs" "closed head" "tags (concat body) = bs" "closed (concat body)"
  shows "tags (report_html n (html_escape t) head body) =
    tags page_open @ [py ''h2'', py ''/h2'', py ''p'', py ''/p'', py ''table'', py ''thead'', py ''tr'']
    @ hs @ [py ''/tr'', py ''/thead'', py ''tbody''] @ bs @ [py ''/tbody'', py ''/table''] @ tags page_close"
  using assms by (simp add: report_html_def page_frame_tags(1))

lemma table_html_tags:
  assumes "table_html n filters columns rows = Inr html"
  shows "\<exists>cols \<le> length columns. tags html = page_tags cols (length rows)"
proof -
  from assms obtain ncs body where ncs: "normalize_columns 0 columns = Inr ncs"
    and body: "body_html (map column_field ncs) rows = Inr body"
    and html: "html = report_html n (html_escape (json_dumps sorted_style (PDict filters)))
      (head_html (map column_label ncs)) body"
    by (auto simp: table_html_def Let_def res_iff)
  have "length ncs \<le> length columns" if "normalize_columns i columns = Inr ncs" for i
    using that by (induction columns arbitrary: i ncs) (fastforce simp: res_iff split: option.splits)+
  moreover have "tags html = page_tags (length ncs) (length rows)"
    unfolding html page_tags_def
    using body_html_tags [OF body] cells_tags [of "''th''" id "map column_label ncs"]
    by (subst report_html_tags [OF refl _ refl]) (simp_all add: head_html_def page_frame_tags)
  ultimately show ?thesis using ncs by blast
qed

lemma table_html_rows: "table_html n filters columns rows = Inr html \<Longrightarrow> length rows \<le> 5000"
  by (simp add: table_html_def split: if_splits)

end
