(* ===== verification/Gateway_Client.thy ===== *)
theory Gateway_Client
  imports Site
begin

text \<open>
  \<open>gateway_client.py\<close>: the signed request to the private gateway over its Unix socket, and what
  the client makes of the answer. SHA-256 and HMAC are functions of the standard library that
  compute on bytes; they are arguments here (\<open>fr_sha256\<close>, \<open>fr_hmac\<close>), and no property of
  theirs is assumed. The text that is signed is written out and shown to be unambiguous.
\<close>

section \<open>UTF-8\<close>

text \<open>\<open>str.encode()\<close>: a surrogate cannot be encoded.\<close>

definition utf8_char :: "nat \<Rightarrow> exn + bytes" where
  "utf8_char c =
     (if c < 128 then Inr [c]
      else if c < 2048 then Inr [192 + c div 64, 128 + c mod 64]
      else if 55296 \<le> c \<and> c \<le> 57343 then raise ValueError ''surrogates not allowed''
      else if c < 65536 then Inr [224 + c div 4096, 128 + c div 64 mod 64, 128 + c mod 64]
      else Inr [240 + c div 262144, 128 + c div 4096 mod 64, 128 + c div 64 mod 64, 128 + c mod 64])"

fun encode :: "pystr \<Rightarrow> exn + bytes" where
  "encode [] = Inr []"
| "encode (c # s) = bindR (utf8_char c) (\<lambda>b. bindR (encode s) (\<lambda>bs. Inr (b @ bs)))"

lemma encode_ascii: "\<forall>c \<in> set s. c < 128 \<Longrightarrow> encode s = Inr s"
  by (induction s) (auto simp: utf8_char_def)

lemma encode_append:
  "encode (s @ t) = bindR (encode s) (\<lambda>a. bindR (encode t) (\<lambda>b. Inr (a @ b)))"
proof (induction s)
  case Nil
  then show ?case by (cases "encode t") auto
next
  case (Cons c s)
  then show ?case by (cases "utf8_char c"; cases "encode s"; cases "encode t") auto
qed

section \<open>The shared secret\<close>

definition byte_space :: "nat \<Rightarrow> bool" where
  "byte_space b \<longleftrightarrow> b = 32 \<or> (9 \<le> b \<and> b \<le> 13)"

definition strip_bytes :: "bytes \<Rightarrow> bytes" where
  "strip_bytes s = rev (dropWhile byte_space (rev (dropWhile byte_space s)))"

definition secret :: "frappe \<Rightarrow> exn + bytes" where
  "secret fr =
     (case fr_key_file fr of
        None \<Rightarrow> raise WhatsAppGatewayError ''The private WhatsApp gateway is not configured.''
      | Some content \<Rightarrow>
          (let value = strip_bytes content
           in if length value < 32
              then raise WhatsAppGatewayError ''The private WhatsApp gateway authentication is invalid.''
              else Inr value))"

section \<open>The request\<close>

definition newline :: pystr where
  "newline = [10]"

text \<open>\<open>f"{timestamp}\n{nonce}\nPOST\n{path}\n{body_hash}"\<close>.\<close>

definition canonical :: "pystr \<Rightarrow> pystr \<Rightarrow> pystr \<Rightarrow> pystr \<Rightarrow> pystr" where
  "canonical timestamp nonce path body_hash =
     timestamp @ newline @ nonce @ newline @ py ''POST'' @ newline @ path @ newline @ body_hash"

text \<open>
  The request as it is built, in the order of the source: the body, the clock, the nonce, the body
  hash, and the signature, for which the secret is read.
\<close>

definition build_request :: "frappe \<Rightarrow> nat \<Rightarrow> pystr \<Rightarrow> pyval \<Rightarrow> exn + http_request" where
  "build_request fr n path payload =
     bindR (encode (json_dumps compact_style payload)) (\<lambda>body.
     let timestamp = str_of_int (fr_epoch fr n);
         nonce = fr_nonce fr n;
         body_hash = fr_sha256 fr body
     in bindR (encode (canonical timestamp nonce path body_hash)) (\<lambda>text.
        bindR (secret fr) (\<lambda>key.
          Inr \<lparr>rq_path = path, rq_payload = payload, rq_body = body, rq_timestamp = timestamp,
               rq_nonce = nonce, rq_signature = fr_hmac fr key text\<rparr>)))"

text \<open>\<open>data.get(key)\<close> on a decoded response: anything but a dictionary has no \<open>get\<close>.\<close>

definition response_get :: "pyval \<Rightarrow> string \<Rightarrow> exn + pyval" where
  "response_get data key =
     (case data of
        PDict d \<Rightarrow> Inr (dget d (py key))
      | _ \<Rightarrow> raise AttributeError ''object has no attribute get'')"

definition gateway_error :: "pyval \<Rightarrow> exn" where
  "gateway_error data =
     (case bindR (response_get data ''error'') (\<lambda>e.
            bindR (response_get data ''reconciliation_required'') (\<lambda>r. Inr (e, r))) of
        Inl e \<Rightarrow> e
      | Inr (e, r) \<Rightarrow>
          Exn WhatsAppGatewayError
            (py_str (or_else e (PStr (py ''WhatsApp operation failed.'')))) (r = PBool True))"

definition read_response :: "int \<Rightarrow> pystr \<Rightarrow> exn + pyval" where
  "read_response status raw =
     (case json_loads (if raw = [] then py ''{}'' else raw) of
        Inl _ \<Rightarrow> raise WhatsAppGatewayError ''The private WhatsApp gateway returned an invalid response.''
      | Inr data \<Rightarrow> if 400 \<le> status then Inl (gateway_error data) else Inr data)"

text \<open>The default timeout of a request, in seconds.\<close>

definition default_timeout :: int where
  "default_timeout = 60"

definition gateway_request :: "frappe \<Rightarrow> pystr \<Rightarrow> pyval \<Rightarrow> int \<Rightarrow> (site, pyval) act" where
  "gateway_request fr path payload timeout =
     bindA (tick (\<lambda>n. n)) (\<lambda>n.
     bindA (reads (\<lambda>_. build_request fr n path payload)) (\<lambda>request.
     bindA (modifies (\<lambda>s. s\<lparr>s_wire := s_wire s @ [Http request]\<rparr>)) (\<lambda>_.
       case fr_peer fr n request of
         Unavailable \<Rightarrow>
           fails (Exn WhatsAppGatewayError (py ''The private WhatsApp gateway is unavailable.'') False)
       | Response status raw \<Rightarrow> reads (\<lambda>_. read_response status raw))))"

text \<open>\<open>site_payload(**values)\<close>; no caller passes \<open>tenant_id\<close> itself.\<close>

definition site_payload :: "frappe \<Rightarrow> (pystr \<times> pyval) list \<Rightarrow> pyval" where
  "site_payload fr values = PDict ((py ''tenant_id'', PStr (fr_site fr)) # values)"

section \<open>What a request leaves behind\<close>

lemma gateway_request_iff [act_iff]:
  "gateway_request fr path payload timeout s = (r, t) \<longleftrightarrow>
     (case build_request fr (s_ticks s) path payload of
        Inl e \<Rightarrow> r = Inl e \<and> t = s\<lparr>s_ticks := Suc (s_ticks s)\<rparr>
      | Inr request \<Rightarrow>
          t = s\<lparr>s_ticks := Suc (s_ticks s), s_wire := s_wire s @ [Http request]\<rparr> \<and>
          r = (case fr_peer fr (s_ticks s) request of
                 Unavailable \<Rightarrow>
                   raise WhatsAppGatewayError ''The private WhatsApp gateway is unavailable.''
               | Response status raw \<Rightarrow> read_response status raw))"
  by (auto simp: gateway_request_def bindA_def tick_def reads_def modifies_def fails_def
      split: sum.splits peer_result.splits)

text \<open>The client sends at most one request and touches nothing but the clock's tick.\<close>

lemma gateway_request_effect:
  assumes "gateway_request fr path payload timeout s = (r, t)"
  obtains "t = s\<lparr>s_ticks := Suc (s_ticks s)\<rparr>" "\<exists>e. r = Inl e"
  | q where "t = s\<lparr>s_ticks := Suc (s_ticks s), s_wire := s_wire s @ [Http q]\<rparr>"
      "rq_path q = path" "rq_payload q = payload"
      "build_request fr (s_ticks s) path payload = Inr q"
proof (cases "build_request fr (s_ticks s) path payload")
  case (Inl e)
  with assms that(1) show ?thesis by (simp add: act_iff)
next
  case (Inr q)
  then have "rq_path q = path" "rq_payload q = payload"
    by (auto simp: build_request_def Let_def res_iff)
  with Inr assms that(2) show ?thesis by (simp add: act_iff)
qed

lemma keeps_gateway_request [simp]:
  assumes "\<And>s n w. v (s\<lparr>s_ticks := n, s_wire := w\<rparr>) = v s"
  shows "keeps (same v) (gateway_request fr path payload timeout)"
proof -
  have "v (s\<lparr>s_ticks := n\<rparr>) = v s" for s n
  proof -
    have "s\<lparr>s_ticks := n\<rparr> = s\<lparr>s_ticks := n, s_wire := s_wire s\<rparr>" by (cases s) simp
    then show ?thesis using assms by metis
  qed
  then show ?thesis
    using assms by (auto simp: keeps_def same_def gateway_request_def bindA_def tick_def reads_def
        modifies_def fails_def split: sum.splits peer_result.splits)
qed

section \<open>The signed text is unambiguous\<close>

text \<open>No field of the signed text contains the separator, so the text determines its fields.\<close>

lemma split_at_newline:
  "10 \<notin> set a \<Longrightarrow> 10 \<notin> set b \<Longrightarrow> a @ 10 # x = b @ 10 # y \<longleftrightarrow> a = b \<and> x = y"
proof (induction a arbitrary: b)
  case Nil
  then show ?case by (cases b) auto
next
  case (Cons c a)
  then show ?case by (cases b) auto
qed

lemma canonical_inject:
  assumes "10 \<notin> set t" "10 \<notin> set n" "10 \<notin> set p" "10 \<notin> set t'" "10 \<notin> set n'" "10 \<notin> set p'"
  shows "canonical t n p h = canonical t' n' p' h' \<longleftrightarrow> t = t' \<and> n = n' \<and> p = p' \<and> h = h'"
proof -
  have post: "10 \<notin> set (py ''POST'')" by (simp add: py_def)
  show ?thesis
    using assms post by (simp add: canonical_def newline_def split_at_newline)
qed

lemma no_newline_in_number: "10 \<notin> set (str_of_int i)"
proof -
  have "10 \<notin> set (digits_of_nat n)" for n
  proof (induction n rule: digits_of_nat.induct)
    case (1 n)
    then show ?case by (subst digits_of_nat.simps) auto
  qed
  then show ?thesis by (simp add: str_of_int_def)
qed

lemma secret_Inr_iff [res_iff]:
  "secret fr = Inr k \<longleftrightarrow> (\<exists>c. fr_key_file fr = Some c \<and> k = strip_bytes c \<and> 32 \<le> length k)"
  by (auto simp: secret_def Let_def split: option.splits)

end
