(* ===== verification/Delivery_History.thy ===== *)
theory Delivery_History
  imports Site
begin

text \<open>
  The controller of the \<open>ERPNext WhatsApp Delivery History\<close> DocType, and the ways a row of its
  table is written: \<open>insert\<close> and \<open>save\<close> run the controller, \<open>frappe.db.set_value\<close>
  (\<open>set_history\<close>) does not.
\<close>

definition HISTORY_DOCTYPE :: pystr where
  "HISTORY_DOCTYPE = py ''ERPNext WhatsApp Delivery History''"

definition terminal :: "delivery_status \<Rightarrow> bool" where
  "terminal st \<longleftrightarrow> st = Submitted_to_WhatsApp \<or> st = Acknowledged_by_WhatsApp"

definition is_group :: "history \<Rightarrow> bool" where
  "is_group h \<longleftrightarrow> h_recipient_type h = Some Group"

text \<open>\<open>document.get("copy_of")\<close> as a condition.\<close>

definition nonempty :: "pystr option \<Rightarrow> bool" where
  "nonempty v = (case v of None \<Rightarrow> False | Some t \<Rightarrow> t \<noteq> [])"

definition is_copy :: "history \<Rightarrow> bool" where
  "is_copy h \<longleftrightarrow> nonempty (h_copy_of h)"

text \<open>What a delivery is: its source, its content, and where it goes.\<close>

record delivery_content =
  c_owner :: pystr
  c_company :: "pystr option"
  c_provider :: pystr
  c_reference_type :: reference_kind
  c_reference_doctype :: "pystr option"
  c_reference_name :: "pystr option"
  c_report_name :: "pystr option"
  c_report_filters :: "pystr option"
  c_source_modified :: "pystr option"
  c_pdf_sha256 :: "pystr option"
  c_message_text :: pystr
  c_print_format :: "pystr option"
  c_message_template :: "pystr option"

definition content_of :: "history \<Rightarrow> delivery_content" where
  "content_of h =
     \<lparr>c_owner = h_owner h, c_company = h_company h, c_provider = h_provider h,
      c_reference_type = h_reference_type h, c_reference_doctype = h_reference_doctype h,
      c_reference_name = h_reference_name h, c_report_name = h_report_name h,
      c_report_filters = h_report_filters h, c_source_modified = h_source_modified h,
      c_pdf_sha256 = h_pdf_sha256 h, c_message_text = h_message_text h,
      c_print_format = h_print_format h, c_message_template = h_message_template h\<rparr>"

record delivery_identity =
  i_content :: delivery_content
  i_pdf_file :: "pystr option"
  i_copy_of :: "pystr option"
  i_recipient_type :: "recipient_kind option"
  i_recipient :: pystr
  i_idempotency_key :: pystr

definition identity_of :: "history \<Rightarrow> delivery_identity" where
  "identity_of h =
     \<lparr>i_content = content_of h, i_pdf_file = h_pdf_file h, i_copy_of = h_copy_of h,
      i_recipient_type = h_recipient_type h, i_recipient = h_recipient h,
      i_idempotency_key = h_idempotency_key h\<rparr>"

section \<open>The controller\<close>

definition validate_history :: "history option \<Rightarrow> history \<Rightarrow> exn + unit" where
  "validate_history before h =
     (if (case before of
            None \<Rightarrow> False
          | Some b \<Rightarrow> (is_group b \<or> is_group h \<or> is_copy b \<or> is_copy h) \<and> identity_of h \<noteq> identity_of b)
      then throw ''Queued group copy identity and content are immutable.''
      else if terminal (h_status h) \<and> \<not> nonempty (h_provider_message_ids h)
      then throw ''A submitted WhatsApp record must contain a provider message ID.''
      else if h_reference_type h = Document
              \<and> (\<not> nonempty (h_reference_doctype h) \<or> \<not> nonempty (h_reference_name h))
      then throw ''A document delivery must retain its document reference.''
      else if h_reference_type h = Report \<and> \<not> nonempty (h_report_name h)
      then throw ''A report delivery must retain its report reference.''
      else Inr ())"

definition references_ok :: "history \<Rightarrow> bool" where
  "references_ok h \<longleftrightarrow>
     (case h_reference_type h of
        Document \<Rightarrow> nonempty (h_reference_doctype h) \<and> nonempty (h_reference_name h)
      | Report \<Rightarrow> nonempty (h_report_name h))"

lemma references_ok_updates [simp]:
  "references_ok (h\<lparr>h_owner := a\<rparr>) = references_ok h"
  "references_ok (h\<lparr>h_pdf_file := b\<rparr>) = references_ok h"
  "references_ok (h\<lparr>h_pdf_sha256 := c\<rparr>) = references_ok h"
  by (simp_all add: references_ok_def split: reference_kind.split)

lemma validate_history_Inr_iff [res_iff]:
  "validate_history before h = Inr u \<longleftrightarrow>
     (\<forall>b. before = Some b \<longrightarrow> is_group b \<or> is_group h \<or> is_copy b \<or> is_copy h \<longrightarrow>
        identity_of h = identity_of b)
     \<and> (terminal (h_status h) \<longrightarrow> nonempty (h_provider_message_ids h)) \<and> references_ok h"
  by (cases u; cases "h_reference_type h"; cases before)
     (auto simp: validate_history_def references_ok_def)

section \<open>Writing rows\<close>

text \<open>\<open>document.save()\<close>: the controller sees the row as it is stored.\<close>

definition save_history :: "pystr \<Rightarrow> history \<Rightarrow> (site, unit) act" where
  "save_history name h =
     bindA (reads (\<lambda>s. validate_history (row_get (s_history s) name) h)) (\<lambda>_.
       modifies (put_history name h))"

text \<open>
  \<open>insert\<close>: the framework names the row, and refuses an empty name, a name that is taken and
  an idempotency key that another row has (the field is unique). The session user owns the row.
\<close>

definition key_taken :: "pystr \<Rightarrow> site \<Rightarrow> bool" where
  "key_taken key s \<longleftrightarrow> list_ex (\<lambda>(_, h). h_idempotency_key h = key) (s_history s)"

definition insert_check :: "pystr \<Rightarrow> history \<Rightarrow> site \<Rightarrow> exn + unit" where
  "insert_check name h s =
     bindR (validate_history None h) (\<lambda>_.
       if name = [] then throw ''Name is required''
       else if name \<in> set (row_keys (s_history s)) \<or> key_taken (h_idempotency_key h) s
       then raise DuplicateEntryError ''Duplicate entry''
       else Inr ())"

definition insert_history :: "frappe \<Rightarrow> history \<Rightarrow> (site, pystr) act" where
  "insert_history fr h =
     bindA (tick (fr_name fr)) (\<lambda>name.
     bindA (reads (insert_check name h)) (\<lambda>_.
     bindA (modifies (\<lambda>s. put_history name (h\<lparr>h_owner := s_user s\<rparr>) s)) (\<lambda>_.
       ret name)))"

text \<open>Keys identify deliveries.\<close>

definition keys_distinct :: "site \<Rightarrow> bool" where
  "keys_distinct s \<longleftrightarrow>
     (\<forall>n m h k. row_get (s_history s) n = Some h \<longrightarrow> row_get (s_history s) m = Some k \<longrightarrow>
        h_idempotency_key h = h_idempotency_key k \<longrightarrow> n = m)"

lemma key_taken_row:
  "row_get (s_history s) n = Some h \<Longrightarrow> key_taken (h_idempotency_key h) s"
  by (auto simp: key_taken_def row_get_def list_ex_iff dest!: map_of_SomeD)

lemma save_history_iff [act_iff]:
  "save_history n h s = (r, t) \<longleftrightarrow>
     (case validate_history (row_get (s_history s) n) h of
        Inl e \<Rightarrow> r = Inl e \<and> t = s
      | Inr _ \<Rightarrow> r = Inr () \<and> t = put_history n h s)"
  by (auto simp: save_history_def bindA_def reads_def modifies_def split: sum.splits)

lemma insert_history_Inr_iff:
  "insert_history fr h s = (Inr name, t) \<longleftrightarrow>
     name = fr_name fr (s_ticks s) \<and> name \<noteq> [] \<and> row_get (s_history s) name = None
     \<and> \<not> key_taken (h_idempotency_key h) s
     \<and> (terminal (h_status h) \<longrightarrow> nonempty (h_provider_message_ids h)) \<and> references_ok h
     \<and> t = put_history name (h\<lparr>h_owner := s_user s\<rparr>) (s\<lparr>s_ticks := Suc (s_ticks s)\<rparr>)"
proof -
  have taken: "name \<in> set (row_keys (s_history s)) \<longleftrightarrow> row_get (s_history s) name \<noteq> None"
    by (rule rows_store.get_keys [symmetric])
  let ?s = "s\<lparr>s_ticks := Suc (s_ticks s)\<rparr>"
  have "insert_history fr h s = (Inr name, t) \<longleftrightarrow>
      name = fr_name fr (s_ticks s) \<and> insert_check name h ?s = Inr ()
      \<and> t = put_history name (h\<lparr>h_owner := s_user s\<rparr>) ?s"
    by (auto simp: insert_history_def bindA_def tick_def reads_def modifies_def ret_def split: sum.splits)
  also have "insert_check name h ?s = Inr () \<longleftrightarrow>
      (terminal (h_status h) \<longrightarrow> nonempty (h_provider_message_ids h)) \<and> references_ok h
      \<and> name \<noteq> [] \<and> row_get (s_history s) name = None \<and> \<not> key_taken (h_idempotency_key h) s"
    using taken by (simp add: insert_check_def res_iff key_taken_def)
  finally show ?thesis by blast
qed

lemma insert_history_Inl: "insert_history fr h s = (Inl e, t) \<Longrightarrow> t = s\<lparr>s_ticks := Suc (s_ticks s)\<rparr>"
  by (auto simp: insert_history_def act_iff)

lemma insert_keeps_keys:
  assumes "keys_distinct s" and "insert_history fr h s = (r, t)"
  shows "keys_distinct t"
proof (cases r)
  case (Inl e)
  with assms show ?thesis by (auto dest!: insert_history_Inl simp: keys_distinct_def)
next
  case (Inr name)
  with assms(2) have ins: "insert_history fr h s = (Inr name, t)" by simp
  from ins have "\<not> key_taken (h_idempotency_key h) s"
    and t: "t = put_history name (h\<lparr>h_owner := s_user s\<rparr>) (s\<lparr>s_ticks := Suc (s_ticks s)\<rparr>)"
    by (simp_all add: insert_history_Inr_iff)
  then have "h_idempotency_key k \<noteq> h_idempotency_key h" if "row_get (s_history s) m = Some k" for m k
    using that key_taken_row by metis
  then show ?thesis
    using assms(1) unfolding t keys_distinct_def by (simp split: if_splits) metis
qed

text \<open>Rewriting a row with its key keeps the keys distinct.\<close>

lemma put_keeps_keys:
  "keys_distinct s \<Longrightarrow> row_get (s_history s) n = Some h \<Longrightarrow> h_idempotency_key h' = h_idempotency_key h \<Longrightarrow>
     keys_distinct (put_history n h' s)"
  unfolding keys_distinct_def by (simp split: if_splits) metis

end
