(* ===== verification/Company_Groups.thy ===== *)
theory Company_Groups
  imports Reports Gateway_Client Delivery_History Permissions
begin

text \<open>
  \<open>company_groups.py\<close>: opt-in copies of a delivery to a WhatsApp group of the company. The
  group is configuration, never the caller's input; a copy is checked against its original, the
  original sender's authority and the current configuration before it is sent, and it is released
  only after the original went out.
\<close>

section \<open>Configuration\<close>

definition company_check :: "frappe \<Rightarrow> site \<Rightarrow> pyval \<Rightarrow> exn + unit" where
  "company_check fr s company =
     (case company of
        PStr c \<Rightarrow>
          (if c = [] then deny ''A group copy requires one explicit permitted company.''
           else bindR (get_doc fr (py ''Company'') c) (\<lambda>_.
                  check_permission fr s (py ''read'') (py ''Company'') c))
      | _ \<Rightarrow> deny ''A group copy requires one explicit permitted company.'')"

lemma company_check_Inr_iff [res_iff]:
  "company_check fr s v = Inr u \<longleftrightarrow>
     (\<exists>c. v = PStr c \<and> c \<noteq> [] \<and> fr_doc fr (py ''Company'') c \<noteq> None
        \<and> fr_can fr (s_user s) (py ''read'') (py ''Company'') (Some c))"
  by (cases v) (auto simp: company_check_def res_iff)

text \<open>One entry of \<open>{group_id(row['id']): str(row.get('name') or '') for row in groups}\<close>.\<close>

definition joined_row :: "pyval \<Rightarrow> pystr rows \<Rightarrow> exn + pystr rows" where
  "joined_row row groups =
     (case row of
        PDict d \<Rightarrow>
          (case map_of d (py ''id'') of
             None \<Rightarrow> raise KeyError ''id''
           | Some v \<Rightarrow>
               bindR (group_id v) (\<lambda>g. Inr (row_put g (py_str (or_empty (dget d (py ''name'')))) groups)))
      | _ \<Rightarrow> raise TypeError ''object is not subscriptable'')"

definition read_groups :: "pyval \<Rightarrow> exn + pystr rows" where
  "read_groups result =
     bindR (response_get result ''groups'') (\<lambda>groups.
       case groups of
         PList rows \<Rightarrow> foldR joined_row rows []
       | _ \<Rightarrow> throw ''The gateway did not return a valid group list.'')"

definition joined_groups :: "frappe \<Rightarrow> (site, pystr rows) act" where
  "joined_groups fr =
     bindA (gateway_request fr (py ''/v1/groups'') (site_payload fr []) default_timeout) (\<lambda>result.
       reads (\<lambda>_. read_groups result))"

definition SETTINGS :: pystr where
  "SETTINGS = py ''ERPNext WhatsApp Settings''"

definition LINKED_DEVICE :: pystr where
  "LINKED_DEVICE = py ''Linked Device''"

definition list_groups :: "frappe \<Rightarrow> pyval \<Rightarrow> (site, (pystr \<times> pystr) list) act" where
  "list_groups fr company =
     bindA (reads (\<lambda>s.
       if \<not> fr_can fr (s_user s) (py ''write'') SETTINGS None
       then deny ''WhatsApp Settings Write permission is required.''
       else bindR (company_check fr s company) (\<lambda>_.
         if st_provider (s_settings s) \<noteq> LINKED_DEVICE
         then throw ''Group copies require Linked Device transport.''
         else Inr ()))) (\<lambda>_.
     bindA (joined_groups fr) (\<lambda>groups.
       ret (map (\<lambda>(key, name). (key, if name = [] then py ''Unnamed group'' else name)) groups)))"

text \<open>\<open>state(doc)\<close>: a company's flag and group.\<close>

definition group_state :: "settings \<Rightarrow> pystr \<rightharpoonup> (bool \<times> pyval)" where
  "group_state st = map_of (rev (map (\<lambda>r. (g_company r, (g_enabled r, g_group_id r))) (st_company_groups st)))"

definition companies :: "settings \<Rightarrow> pystr list" where
  "companies st = map g_company (st_company_groups st)"

text \<open>The companies whose entry differs between the stored settings and the new ones. The source
  collects them in a set; here they come in the order of the rows.\<close>

definition changed_companies :: "settings option \<Rightarrow> settings \<Rightarrow> pystr list" where
  "changed_companies before st =
     (let previous = (case before of None \<Rightarrow> Map.empty | Some b \<Rightarrow> group_state b);
          keys = (case before of None \<Rightarrow> [] | Some b \<Rightarrow> companies b) @ companies st
      in [c \<leftarrow> dict_fromkeys keys. previous c \<noteq> group_state st c])"

text \<open>The last loop: every row must hold a group, and an enabled one a group that is joined,
  whose current name it takes over.\<close>

definition check_row :: "pystr rows \<Rightarrow> company_group \<Rightarrow> exn + company_group" where
  "check_row groups row =
     bindR (group_id (g_group_id row)) (\<lambda>g.
       if \<not> g_enabled row then Inr row
       else case row_get groups g of
         None \<Rightarrow> throw ''Select a group currently joined by this site account.''
       | Some name \<Rightarrow> Inr (row\<lparr>g_group_name := name\<rparr>))"

fun check_rows :: "pystr rows \<Rightarrow> company_group list \<Rightarrow> exn + company_group list" where
  "check_rows groups [] = Inr []"
| "check_rows groups (r # rs) =
     bindR (check_row groups r) (\<lambda>r'. bindR (check_rows groups rs) (\<lambda>rs'. Inr (r' # rs')))"

definition enabled_rows :: "settings \<Rightarrow> company_group list" where
  "enabled_rows st = filter g_enabled (st_company_groups st)"

definition settings_guard :: "frappe \<Rightarrow> settings option \<Rightarrow> settings \<Rightarrow> site \<Rightarrow> exn + unit" where
  "settings_guard fr before st s =
     (if \<not> distinct (companies st)
      then throw ''Configure at most one WhatsApp group per company.''
      else bindR (foldR (\<lambda>c _. company_check fr s (PStr c)) (changed_companies before st) ()) (\<lambda>_.
        if enabled_rows st \<noteq> [] \<and> st_provider st \<noteq> LINKED_DEVICE
        then throw ''Disable group copies before selecting a transport without group support.''
        else Inr ()))"

definition validate_settings :: "frappe \<Rightarrow> settings option \<Rightarrow> settings \<Rightarrow> (site, settings) act" where
  "validate_settings fr before st =
     bindA (reads (settings_guard fr before st)) (\<lambda>_.
       if changed_companies before st = [] then ret st
       else
         bindA (if enabled_rows st \<noteq> [] then joined_groups fr else ret []) (\<lambda>groups.
         bindA (reads (\<lambda>_. check_rows groups (st_company_groups st))) (\<lambda>rows.
           ret (st\<lparr>st_company_groups := rows\<rparr>))))"

definition configured_group :: "frappe \<Rightarrow> settings \<Rightarrow> pyval \<Rightarrow> site \<Rightarrow> exn + pystr option" where
  "configured_group fr st company s =
     (case [r \<leftarrow> st_company_groups st. PStr (g_company r) = company \<and> g_enabled r] of
        [] \<Rightarrow> Inr None
      | [r] \<Rightarrow>
          (if st_provider st \<noteq> LINKED_DEVICE
           then throw ''The company group configuration requires reconciliation.''
           else bindR (company_check fr s company) (\<lambda>_.
                bindR (group_id (g_group_id r)) (\<lambda>g. Inr (Some g))))
      | _ \<Rightarrow> throw ''The company group configuration requires reconciliation.'')"

section \<open>Copies\<close>

definition copy_company_changed :: "exn + 'a" where
  "copy_company_changed = throw ''The source company or document version changed.''"

definition check_document_source :: "frappe \<Rightarrow> history \<Rightarrow> site \<Rightarrow> exn + unit" where
  "check_document_source fr document s =
     (case (h_reference_doctype document, h_reference_name document) of
        (Some doctype, Some name) \<Rightarrow>
          bindR (validate_document fr s doctype name) (\<lambda>(source, adapter).
          if field source (a_company_field adapter) \<noteq> opt_value (h_company document)
             \<or> Some (b_modified source) \<noteq> h_source_modified document
          then copy_company_changed
          else bindR (validate_print_format fr doctype
                        (case h_print_format document of None \<Rightarrow> [] | Some p \<Rightarrow> p)) (\<lambda>_. Inr ()))
      | _ \<Rightarrow> throw ''WhatsApp sending is not registered for None.'')"

definition check_report_source :: "frappe \<Rightarrow> history \<Rightarrow> site \<Rightarrow> exn + unit" where
  "check_report_source fr document s =
     (case h_report_name document of
        None \<Rightarrow> raise DoesNotExistError ''not found''
      | Some report_name \<Rightarrow>
          bindR (get_doc fr (py ''Report'') report_name) (\<lambda>_.
          if \<not> fr_report_permitted fr (s_user s) report_name
          then deny ''The original sender no longer has access to this report.''
          else
            bindR (validate_report fr s report_name (opt_value (h_report_filters document)))
              (\<lambda>(_, _, _, company).
               if Some company \<noteq> h_company document then throw ''The report company changed.''
               else Inr ())))"

definition check_source :: "frappe \<Rightarrow> history \<Rightarrow> site \<Rightarrow> exn + unit" where
  "check_source fr document s =
     (case h_reference_type document of
        Document \<Rightarrow> check_document_source fr document s
      | Report \<Rightarrow> check_report_source fr document s)"

text \<open>Everything that is done as the original sender.\<close>

definition check_authority :: "frappe \<Rightarrow> settings \<Rightarrow> history \<Rightarrow> site \<Rightarrow> exn + unit" where
  "check_authority fr st document s =
     bindR (require_sender fr s) (\<lambda>_.
     bindR (configured_group fr st (opt_value (h_company document)) s) (\<lambda>group.
     if group \<noteq> Some (h_recipient document)
     then deny ''The company group copy configuration changed.''
     else check_source fr document s))"

definition check_parent :: "history \<Rightarrow> site \<Rightarrow> exn + bool" where
  "check_parent document s =
     (case h_copy_of document of
        None \<Rightarrow> raise DoesNotExistError ''delivery not found''
      | Some p \<Rightarrow>
          bindR (get_history p s) (\<lambda>parent.
          if \<not> terminal (h_status parent) then Inr False
          else if is_group parent \<or> is_copy parent then throw ''Group copies cannot be copied again.''
          else if content_of document \<noteq> content_of parent
          then throw ''Group copy differs from its original delivery.''
          else Inr True))"

definition check_owner :: "frappe \<Rightarrow> history \<Rightarrow> exn + unit" where
  "check_owner fr document =
     (if h_owner document = py ''Guest'' then deny ''Guest cannot own a group delivery.''
      else if \<not> fr_user_enabled fr (h_owner document) then deny ''The original sender is disabled.''
      else Inr ())"

text \<open>The body of the \<open>try\<close>.\<close>

definition check_as_owner :: "frappe \<Rightarrow> history \<Rightarrow> settings \<Rightarrow> (site, bool) act" where
  "check_as_owner fr document st =
     bindA (reads (\<lambda>_. check_owner fr document)) (\<lambda>_.
     bindA (set_user (h_owner document)) (\<lambda>_.
     bindA (reads (check_authority fr st document)) (\<lambda>_.
       ret True)))"

definition validate_copy :: "frappe \<Rightarrow> history \<Rightarrow> settings \<Rightarrow> (site, bool) act" where
  "validate_copy fr document st =
     bindA (reads (check_parent document)) (\<lambda>complete.
       if \<not> complete then ret False
       else bindA the_user (\<lambda>original.
              finallyA (check_as_owner fr document st) (set_user original)))"

definition releasable :: "delivery_status \<Rightarrow> bool" where
  "releasable st \<longleftrightarrow> st = Waiting_for_Primary \<or> st = Queued"

definition copy_job :: "pystr \<Rightarrow> job" where
  "copy_job name = \<lparr>j_message_name = name, j_job_id = py ''whatsapp:'' @ name,
                   j_after_commit = True, j_deduplicate = True\<rparr>"

definition release_copy :: "frappe \<Rightarrow> pystr \<Rightarrow> (site, unit) act" where
  "release_copy fr name =
     bindA (set_history name (\<lambda>h. h\<lparr>h_status := Queued\<rparr>)) (\<lambda>_.
       enqueue fr (copy_job name))"

definition release_waiting_copies :: "frappe \<Rightarrow> pystr \<Rightarrow> (site, unit) act" where
  "release_waiting_copies fr primary_name =
     bindA (reads (\<lambda>s. Inr (history_names fr
              (\<lambda>h. h_copy_of h = Some primary_name \<and> releasable (h_status h)) s))) (\<lambda>names.
       foldA (release_copy fr) names)"

section \<open>What the configuration guarantees\<close>

text \<open>
  Settings that passed: one row per company, enabled rows only for the transport that has groups,
  and every enabled row names a group.
\<close>

definition groups_ok :: "settings \<Rightarrow> bool" where
  "groups_ok st \<longleftrightarrow>
     distinct (companies st) \<and> (enabled_rows st \<noteq> [] \<longrightarrow> st_provider st = LINKED_DEVICE)
     \<and> (\<forall>r \<in> set (st_company_groups st). \<exists>g. group_id (g_group_id r) = Inr g)"

definition no_groups :: "settings \<Rightarrow> bool" where
  "no_groups st \<longleftrightarrow> st_company_groups st = []"

lemma settings_guard_Inr_iff:
  "settings_guard fr before st s = Inr u \<longleftrightarrow>
     distinct (companies st)
     \<and> (\<forall>c \<in> set (changed_companies before st). company_check fr s (PStr c) = Inr ())
     \<and> (enabled_rows st \<noteq> [] \<longrightarrow> st_provider st = LINKED_DEVICE)"
proof -
  have "foldR (\<lambda>c _. company_check fr s (PStr c)) cs () = Inr () \<longleftrightarrow>
      (\<forall>c \<in> set cs. company_check fr s (PStr c) = Inr ())" for cs
    by (induction cs) (auto simp: bindR_Inr_iff)
  then show ?thesis by (cases u) (auto simp: settings_guard_def bindR_Inr_iff)
qed

lemma check_row_Inr:
  assumes "check_row groups r = Inr r'"
  shows "g_company r' = g_company r \<and> g_enabled r' = g_enabled r \<and> g_group_id r' = g_group_id r
    \<and> (\<exists>g. group_id (g_group_id r') = Inr g
          \<and> (g_enabled r' \<longrightarrow> row_get groups g = Some (g_group_name r')))"
proof -
  from assms obtain g where g: "group_id (g_group_id r) = Inr g"
    by (auto simp: check_row_def bindR_Inr_iff)
  with assms show ?thesis by (auto simp: check_row_def split: if_splits option.splits)
qed

lemma check_rows_Inr:
  "check_rows groups rs = Inr rs' \<Longrightarrow>
     map g_company rs' = map g_company rs \<and> map g_enabled rs' = map g_enabled rs
     \<and> map g_group_id rs' = map g_group_id rs
     \<and> (\<forall>r \<in> set rs'. \<exists>g. group_id (g_group_id r) = Inr g
          \<and> (g_enabled r \<longrightarrow> row_get groups g = Some (g_group_name r)))"
proof (induction rs arbitrary: rs')
  case Nil
  then show ?case by simp
next
  case (Cons r rs)
  then obtain r1 rs1 where "check_row groups r = Inr r1" "check_rows groups rs = Inr rs1" "rs' = r1 # rs1"
    by (auto simp: bindR_Inr_iff)
  with Cons.IH [of rs1] check_row_Inr [of groups r r1] show ?case by auto
qed

lemma enabled_rows_Nil: "enabled_rows st = [] \<longleftrightarrow> True \<notin> set (map g_enabled (st_company_groups st))"
  by (auto simp: enabled_rows_def filter_empty_conv)

text \<open>The groups a row may name are the answer of one request to the gateway.\<close>

lemma validate_settings_unchanged:
  "changed_companies before st = [] \<Longrightarrow>
     validate_settings fr before st s = (Inr st', t) \<longleftrightarrow>
       settings_guard fr before st s = Inr () \<and> st' = st \<and> t = s"
  by (auto simp: validate_settings_def bindA_def reads_def ret_def split: sum.splits)

lemma validate_settings_Inr:
  assumes "validate_settings fr before st s = (Inr st', t)"
  shows "settings_guard fr before st s = Inr ()"
    and "map g_company (st_company_groups st') = map g_company (st_company_groups st)"
    and "enabled_rows st' = [] \<longleftrightarrow> enabled_rows st = []"
    and "st_provider st' = st_provider st"
    and "changed_companies before st \<noteq> [] \<Longrightarrow>
      \<forall>r \<in> set (st_company_groups st'). \<exists>g. group_id (g_group_id r) = Inr g"
    and "changed_companies before st \<noteq> [] \<Longrightarrow> enabled_rows st \<noteq> [] \<Longrightarrow>
      \<exists>groups. outcome (joined_groups fr) s = Inr groups
        \<and> (\<forall>r \<in> set (st_company_groups st'). g_enabled r \<longrightarrow>
             (\<exists>g. group_id (g_group_id r) = Inr g \<and> row_get groups g = Some (g_group_name r)))"
proof -
  from assms have "settings_guard fr before st s = Inr () \<and>
    (if changed_companies before st = [] then st' = st
     else \<exists>groups u rows. (if enabled_rows st \<noteq> [] then joined_groups fr else ret []) s = (Inr groups, u)
       \<and> check_rows groups (st_company_groups st) = Inr rows \<and> st' = st\<lparr>st_company_groups := rows\<rparr>)"
    (is "?guard \<and> ?shape")
    by (auto simp: validate_settings_def bindA_def reads_def ret_def split: sum.splits prod.splits if_splits)
  then have guard: ?guard and shape: ?shape by blast+
  show "settings_guard fr before st s = Inr ()" by (fact guard)
  show "map g_company (st_company_groups st') = map g_company (st_company_groups st)"
    and "st_provider st' = st_provider st"
    using shape by (auto split: if_splits dest: check_rows_Inr)
  have "map g_enabled (st_company_groups st') = map g_enabled (st_company_groups st)"
    using shape by (auto split: if_splits dest: check_rows_Inr)
  then show "enabled_rows st' = [] \<longleftrightarrow> enabled_rows st = []" by (simp add: enabled_rows_Nil)
  show "\<forall>r \<in> set (st_company_groups st'). \<exists>g. group_id (g_group_id r) = Inr g"
    if "changed_companies before st \<noteq> []"
    using shape that by (fastforce dest: check_rows_Inr)
  show "\<exists>groups. outcome (joined_groups fr) s = Inr groups
        \<and> (\<forall>r \<in> set (st_company_groups st'). g_enabled r \<longrightarrow>
             (\<exists>g. group_id (g_group_id r) = Inr g \<and> row_get groups g = Some (g_group_name r)))"
    if "changed_companies before st \<noteq> []" "enabled_rows st \<noteq> []"
    using shape that by (auto dest!: check_rows_Inr) (metis fst_conv)
qed

text \<open>Stored settings that are fine, or have no rows at all, stay so.\<close>

lemma unchanged_state:
  assumes "changed_companies (Some b) st = []"
  shows "group_state b = group_state st"
proof
  fix c
  show "group_state b c = group_state st c"
  proof (cases "c \<in> set (companies b @ companies st)")
    case True
    then show ?thesis
      using assms by (auto simp: changed_companies_def Let_def filter_empty_conv)
  next
    case False
    then have "group_state b c = None" "group_state st c = None"
      by (auto simp: group_state_def companies_def map_of_eq_None_iff)
    then show ?thesis by simp
  qed
qed

lemma group_state_row:
  assumes "distinct (companies st)" and "r \<in> set (st_company_groups st)"
  shows "group_state st (g_company r) = Some (g_enabled r, g_group_id r)"
proof -
  let ?rows = "rev (map (\<lambda>r. (g_company r, (g_enabled r, g_group_id r))) (st_company_groups st))"
  have "map fst ?rows = rev (companies st)" by (simp add: companies_def rev_map o_def)
  then have "distinct (map fst ?rows)" using assms(1) by simp
  moreover have "(g_company r, (g_enabled r, g_group_id r)) \<in> set ?rows" using assms(2) by auto
  ultimately show ?thesis unfolding group_state_def by (rule map_of_is_SomeI)
qed

lemma group_state_Some:
  "group_state st c = Some (e, g) \<Longrightarrow>
     \<exists>r \<in> set (st_company_groups st). g_company r = c \<and> g_enabled r = e \<and> g_group_id r = g"
  by (auto simp: group_state_def dest!: map_of_SomeD)

text \<open>
  Saving settings that were fine before leaves them fine: a changed configuration is checked row
  by row, an unchanged one was checked when it changed.
\<close>

lemma validate_settings_groups_ok:
  assumes "validate_settings fr before st s = (Inr st', t)"
    and "\<And>b. before = Some b \<Longrightarrow> groups_ok b"
  shows "groups_ok st'"
proof -
  note v = validate_settings_Inr [OF assms(1)]
  have guard: "distinct (companies st)" "enabled_rows st \<noteq> [] \<Longrightarrow> st_provider st = LINKED_DEVICE"
    using v(1) by (auto simp: settings_guard_Inr_iff)
  have "\<exists>g. group_id (g_group_id r) = Inr g" if r: "r \<in> set (st_company_groups st')" for r
  proof (cases "changed_companies before st = []")
    case False
    then show ?thesis using v(5) r by blast
  next
    case True
    then have st': "st' = st" using assms(1) by (simp add: validate_settings_unchanged)
    show ?thesis
    proof (cases before)
      case None
      have "group_state st (g_company r) = None" using True r st'
        by (auto simp: changed_companies_def None filter_empty_conv companies_def)
      then show ?thesis using group_state_row [OF guard(1)] r st' by auto
    next
      case (Some b)
      then have "group_state b (g_company r) = Some (g_enabled r, g_group_id r)"
        using unchanged_state True r st' group_state_row [OF guard(1)] by metis
      then show ?thesis using assms(2) [OF Some] by (auto simp: groups_ok_def dest!: group_state_Some)
    qed
  qed
  then show ?thesis
    using guard v(2,3,4) by (auto simp: groups_ok_def companies_def)
qed

text \<open>With such settings a company has at most one group, and looking it up cannot find the
  configuration ambiguous.\<close>

lemma enabled_row_unique:
  "distinct (map g_company rs) \<Longrightarrow> length [r \<leftarrow> rs. PStr (g_company r) = c \<and> P r] \<le> 1"
proof (induction rs)
  case Nil
  then show ?case by simp
next
  case (Cons r rs)
  have "[q \<leftarrow> rs. PStr (g_company q) = c \<and> P q] = []" if c: "PStr (g_company r) = c"
    unfolding filter_empty_conv
  proof
    fix q assume "q \<in> set rs"
    then have "g_company q \<noteq> g_company r" using Cons.prems by (metis distinct.simps(2) image_eqI list.simps(9) set_map)
    then show "\<not> (PStr (g_company q) = c \<and> P q)" using c by auto
  qed
  then show ?case using Cons by auto
qed

lemma configured_group_ok:
  assumes "groups_ok st"
  shows "configured_group fr st company s =
    (case [r \<leftarrow> enabled_rows st. PStr (g_company r) = company] of
       [] \<Rightarrow> Inr None
     | r # _ \<Rightarrow> bindR (company_check fr s company) (\<lambda>_.
                 bindR (group_id (g_group_id r)) (\<lambda>g. Inr (Some g))))"
proof -
  let ?m = "[r \<leftarrow> st_company_groups st. PStr (g_company r) = company \<and> g_enabled r]"
  have same_rows: "[r \<leftarrow> enabled_rows st. PStr (g_company r) = company] = ?m"
    by (simp add: enabled_rows_def conj_commute)
  have "length ?m \<le> 1" using assms by (intro enabled_row_unique) (simp add: groups_ok_def companies_def)
  then consider "?m = []" | r where "?m = [r]" by (cases ?m) auto
  then show ?thesis
  proof cases
    case 1
    then show ?thesis by (simp add: configured_group_def same_rows)
  next
    case (2 r)
    then have "enabled_rows st \<noteq> []" by (auto simp: same_rows [symmetric])
    then have "st_provider st = LINKED_DEVICE" using assms by (simp add: groups_ok_def)
    with 2 show ?thesis by (simp add: configured_group_def same_rows)
  qed
qed

lemma configured_group_Some:
  "configured_group fr st company s = Inr (Some g) \<Longrightarrow>
     st_provider st = LINKED_DEVICE \<and> matches_group g
     \<and> (\<exists>r \<in> set (st_company_groups st). g_enabled r \<and> PStr (g_company r) = company \<and> g_group_id r = PStr g)
     \<and> company_check fr s company = Inr ()"
  by (auto simp: configured_group_def bindR_Inr_iff group_id_Inr_iff filter_eq_Cons_iff
      split: list.splits if_splits)

section \<open>What a checked copy guarantees\<close>

text \<open>The whole check leaves the site as it found it, the session user included, whether it
  answers or raises.\<close>

lemma check_as_owner_eq:
  "check_as_owner fr document st s =
     (case check_owner fr document of
        Inl e \<Rightarrow> (Inl e, s)
      | Inr _ \<Rightarrow>
          (let s' = s\<lparr>s_user := h_owner document\<rparr>
           in (bindR (check_authority fr st document s') (\<lambda>_. Inr True), s')))"
  by (simp add: check_as_owner_def bindA_def reads_def set_user_def modifies_def ret_def Let_def
      split: sum.splits)

lemma set_user_eq: "set_user u s = (Inr (), s\<lparr>s_user := u\<rparr>)"
  by (simp add: set_user_def modifies_def)

lemma as_owner_restores:
  "finallyA (check_as_owner fr document st) (set_user (s_user s)) s =
     (outcome (check_as_owner fr document st) s, s)"
  unfolding finallyA_def check_as_owner_eq set_user_eq
  by (cases "check_owner fr document") (simp_all add: Let_def)

lemma validate_copy_eq:
  "validate_copy fr document st s =
     (bindR (check_parent document s) (\<lambda>complete.
        if \<not> complete then Inr False else outcome (check_as_owner fr document st) s), s)"
  by (cases "check_parent document s")
     (simp_all add: validate_copy_def bindA_def reads_def ret_def the_user_def as_owner_restores)

lemma validate_copy_state: "after (validate_copy fr document st) s = s"
  by (simp add: validate_copy_eq)

lemma validate_copy_True:
  assumes "outcome (validate_copy fr document st) s = Inr True"
  shows "check_parent document s = Inr True"
    and "h_owner document \<noteq> py ''Guest''" and "fr_user_enabled fr (h_owner document)"
    and "check_authority fr st document (s\<lparr>s_user := h_owner document\<rparr>) = Inr ()"
proof -
  from assms have p: "check_parent document s = Inr True"
    and o1: "outcome (check_as_owner fr document st) s = Inr True"
    by (auto simp: validate_copy_eq bindR_Inr_iff split: if_splits)
  show "check_parent document s = Inr True" by (fact p)
  from o1 have own: "check_owner fr document = Inr ()"
    and auth: "check_authority fr st document (s\<lparr>s_user := h_owner document\<rparr>) = Inr ()"
    by (auto simp: check_as_owner_eq Let_def bindR_Inr_iff split: sum.splits)
  from own show "h_owner document \<noteq> py ''Guest''" "fr_user_enabled fr (h_owner document)"
    by (auto simp: check_owner_def split: if_splits)
  from auth show "check_authority fr st document (s\<lparr>s_user := h_owner document\<rparr>) = Inr ()" .
qed

lemma check_parent_True:
  "check_parent document s = Inr True \<longleftrightarrow>
     (\<exists>p parent. h_copy_of document = Some p \<and> row_get (s_history s) p = Some parent
        \<and> terminal (h_status parent) \<and> \<not> is_group parent \<and> \<not> is_copy parent
        \<and> content_of document = content_of parent)"
  by (auto simp: check_parent_def bindR_Inr_iff get_history_Inr_iff split: option.splits if_splits)

lemma check_authority_Inr_iff [res_iff]:
  "check_authority fr st document s = Inr u \<longleftrightarrow>
     require_sender fr s = Inr ()
     \<and> configured_group fr st (opt_value (h_company document)) s = Inr (Some (h_recipient document))
     \<and> check_source fr document s = Inr ()"
  by (cases u) (auto simp: check_authority_def bindR_Inr_iff)

text \<open>Releasing copies queues them and nothing else.\<close>

lemma releasable_cases: "releasable st \<longleftrightarrow> st \<in> {Waiting_for_Primary, Queued}"
  by (auto simp: releasable_def)

lemma copy_job_deferred [simp]: "j_after_commit (copy_job n)"
  by (simp add: copy_job_def)

lemma release_waiting_copies_returns: "outcome (release_waiting_copies fr p) s = Inr ()"
proof -
  have one: "outcome (release_copy fr n) s = Inr ()" for n s
    by (simp add: release_copy_def bindA_def set_history_def modifies_def)
  have "outcome (foldA (release_copy fr) ns) s = Inr ()" for ns s
  proof (induction ns arbitrary: s)
    case Nil
    then show ?case by (simp add: ret_def)
  next
    case (Cons n ns)
    then show ?case using one [of n s] by (auto simp: bindA_def split: prod.splits sum.splits)
  qed
  then show ?thesis by (simp add: release_waiting_copies_def bindA_def reads_def)
qed

end
