(* ===== verification/Delivery.thy ===== *)
theory Delivery
  imports Report_Pdf Company_Groups
begin

text \<open>
  The entry points of \<open>api.py\<close>: preparing, previewing and queueing a document or a report.
  Queueing writes the delivery, its private PDF snapshot, the background job and, where the company
  opted in, the waiting copy for the company's group.
\<close>

section \<open>Preparing and previewing\<close>

definition numbers_of_party :: "frappe \<Rightarrow> site \<Rightarrow> pyval \<Rightarrow> exn + recipient_choice list" where
  "numbers_of_party fr s customer =
     (case customer of
        PStr c \<Rightarrow> customer_numbers fr s c
      | _ \<Rightarrow> raise DoesNotExistError ''not found'')"

record prepared =
  pr_group_copy :: bool
  pr_recipients :: "recipient_choice list"
  pr_print_formats :: "pystr list"
  pr_templates :: "rendered_template list"
  pr_source_modified :: pystr
  pr_filters :: "(pystr \<times> pyval) list"
  pr_title :: pystr

definition prepare_document :: "frappe \<Rightarrow> site \<Rightarrow> pystr \<Rightarrow> pystr \<Rightarrow> exn + prepared" where
  "prepare_document fr s doctype name =
     bindR (require_sender fr s) (\<lambda>_.
     bindR (validate_document fr s doctype name) (\<lambda>(doc, adapter).
     bindR (document_context fr doc adapter) (\<lambda>context.
     bindR (required ''party_field'' (a_party_field adapter)) (\<lambda>party_field.
     bindR (numbers_of_party fr s (field doc (Some party_field))) (\<lambda>numbers.
     bindR (required ''default_message'' (a_default_message adapter)) (\<lambda>default_message.
     let company = dget context (py ''company'')
     in bindR (render_templates fr (template_rows s (py ''Document'') doctype company default_message)
                 context) (\<lambda>templates.
     bindR (enabled_settings s) (\<lambda>st.
     bindR (configured_group fr st company s) (\<lambda>group.
       Inr \<lparr>pr_group_copy = group \<noteq> None, pr_recipients = numbers,
            pr_print_formats = print_formats fr doctype, pr_templates = templates,
            pr_source_modified = b_modified doc, pr_filters = [],
            pr_title = doctype @ py '' '' @ name\<rparr>)))))))))"

definition pdf_name :: "pystr \<Rightarrow> pystr" where
  "pdf_name base = replace_char 47 45 (base @ py ''.pdf'')"

definition preview_document_pdf :: "frappe \<Rightarrow> site \<Rightarrow> pystr \<Rightarrow> pystr \<Rightarrow> pystr \<Rightarrow> exn + (pystr \<times> bytes)" where
  "preview_document_pdf fr s doctype name print_format =
     bindR (require_sender fr s) (\<lambda>_.
     bindR (validate_document fr s doctype name) (\<lambda>_.
     bindR (validate_print_format fr doctype print_format) (\<lambda>print_format.
     bindR (fr_print fr doctype name (stored_format print_format)) (\<lambda>content.
       Inr (pdf_name name, content)))))"

definition prepare_report :: "frappe \<Rightarrow> site \<Rightarrow> pystr \<Rightarrow> pyval \<Rightarrow> exn + prepared" where
  "prepare_report fr s report_name filters =
     bindR (require_sender fr s) (\<lambda>_.
     bindR (enabled_settings s) (\<lambda>st.
     bindR (validate_report fr s report_name filters) (\<lambda>(adapter, filters, customer, company).
     bindR (get_doc fr (py ''Customer'') customer) (\<lambda>customer_doc.
     let context =
       [(py ''party_name'', dget (b_fields customer_doc) (py ''customer_name'')),
        (py ''customer'', PStr customer), (py ''company'', PStr company), (py ''filters'', PDict filters)]
     in bindR (configured_group fr st (PStr company) s) (\<lambda>group.
     bindR (customer_numbers fr s customer) (\<lambda>numbers.
     bindR (required ''default_message'' (a_default_message adapter)) (\<lambda>default_message.
     bindR (render_templates fr (template_rows s (py ''Report'') report_name (PStr company) default_message)
              context) (\<lambda>templates.
       Inr \<lparr>pr_group_copy = group \<noteq> None, pr_recipients = numbers, pr_print_formats = [],
            pr_templates = templates, pr_source_modified = [], pr_filters = filters,
            pr_title = report_name\<rparr>))))))))"

definition preview_report_pdf :: "frappe \<Rightarrow> site \<Rightarrow> pystr \<Rightarrow> pyval \<Rightarrow> exn + (pystr \<times> bytes)" where
  "preview_report_pdf fr s report_name filters =
     bindR (require_sender fr s) (\<lambda>_.
     bindR (enabled_settings s) (\<lambda>_.
     bindR (validate_report fr s report_name filters) (\<lambda>(_, filters, _, _).
     bindR (report_pdf fr report_name filters) (\<lambda>content.
       Inr (pdf_name report_name, content)))))"

section \<open>Storing a delivery\<close>

text \<open>The keyword arguments of \<open>_store_delivery\<close>.\<close>

record delivery_request =
  dr_reference_type :: reference_kind
  dr_company :: "pystr option"
  dr_reference_doctype :: "pystr option"
  dr_reference_name :: "pystr option"
  dr_report_name :: "pystr option"
  dr_report_filters :: "pystr option"
  dr_message_template :: "pystr option"
  dr_print_format :: "pystr option"
  dr_source_modified :: "pystr option"
  dr_message :: pystr
  dr_pdf :: bytes
  dr_filename :: pystr

definition masked :: "pystr option \<Rightarrow> pystr \<Rightarrow> pystr" where
  "masked copy_of recipient =
     (if copy_of \<noteq> None then py ''Configured company group''
      else py ''********'' @ last_n 4 recipient)"

text \<open>The new row; \<open>copy_of\<close> is the name of the original when the row is a group copy.\<close>

definition new_history ::
  "frappe \<Rightarrow> settings \<Rightarrow> delivery_request \<Rightarrow> pystr \<Rightarrow> pystr option \<Rightarrow> int \<Rightarrow> pystr \<Rightarrow> history" where
  "new_history fr st d recipient copy_of now hash =
     \<lparr>h_owner = [],
      h_status = (if copy_of \<noteq> None then Waiting_for_Primary else Queued),
      h_provider = st_provider st,
      h_company = dr_company d,
      h_recipient_type = Some (if copy_of \<noteq> None then Group else Individual),
      h_copy_of = copy_of,
      h_reconciliation_required = False,
      h_reference_type = dr_reference_type d,
      h_reference_doctype = dr_reference_doctype d,
      h_reference_name = dr_reference_name d,
      h_report_name = dr_report_name d,
      h_report_filters = dr_report_filters d,
      h_recipient_masked = masked copy_of recipient,
      h_recipient = recipient,
      h_message_template = dr_message_template d,
      h_message_text = dr_message d,
      h_print_format = dr_print_format d,
      h_pdf_file = None,
      h_pdf_sha256 = None,
      h_source_modified = dr_source_modified d,
      h_queued_at = now,
      h_attempted_at = None,
      h_submitted_at = None,
      h_acknowledged_at = None,
      h_next_retry_at = None,
      h_retry_count = 0,
      h_max_retries = cint_opt (st_maximum_retries st),
      h_idempotency_key = py ''wa:'' @ fr_site fr @ py '':'' @ hash,
      h_provider_message_ids = None,
      h_result_message = [],
      h_error_message = []\<rparr>"

text \<open>\<open>save_file(..., is_private=1)\<close>: a new private file attached to the row.\<close>

definition save_file :: "frappe \<Rightarrow> pystr \<Rightarrow> bytes \<Rightarrow> pystr \<Rightarrow> (site, pystr) act" where
  "save_file fr filename content attached_name =
     bindA (tick (fr_name fr)) (\<lambda>file.
     bindA (reads (\<lambda>s. if file = [] then throw ''Name is required''
                      else if file \<in> set (row_keys (s_files s))
                      then raise DuplicateEntryError ''Duplicate entry''
                      else Inr ())) (\<lambda>_.
     bindA (modifies (\<lambda>s. s\<lparr>s_files := row_put file
              \<lparr>f_file_name = fr_file_name fr filename, f_attached_to_doctype = HISTORY_DOCTYPE,
               f_attached_to_name = attached_name, f_is_private = True, f_content = content\<rparr>
              (s_files s)\<rparr>)) (\<lambda>_.
       ret file)))"

definition worker_job :: "pystr \<Rightarrow> job" where
  "worker_job name = \<lparr>j_message_name = name, j_job_id = py ''whatsapp:'' @ name,
     j_after_commit = True, j_deduplicate = False\<rparr>"

definition group_of_delivery ::
  "frappe \<Rightarrow> delivery_request \<Rightarrow> pystr option \<Rightarrow> site \<Rightarrow> exn + (settings \<times> pystr option)" where
  "group_of_delivery fr d copy_of s =
     bindR (enabled_settings s) (\<lambda>st.
     bindR (if copy_of = None then configured_group fr st (opt_value (dr_company d)) s else Inr None)
       (\<lambda>group. Inr (st, group)))"

record stored =
  sd_name :: pystr
  sd_status :: delivery_status

text \<open>One call of \<open>_store_delivery\<close> up to its last statement: the new row and the group that
  is to get a copy.\<close>

definition store_one ::
  "frappe \<Rightarrow> delivery_request \<Rightarrow> pystr \<Rightarrow> pystr option \<Rightarrow> (site, stored \<times> pystr option) act" where
  "store_one fr d recipient copy_of =
     bindA (reads (group_of_delivery fr d copy_of)) (\<lambda>(st, copy_group).
     bindA (now_datetime fr) (\<lambda>now.
     bindA (tick (fr_hash fr)) (\<lambda>hash.
     let history = new_history fr st d recipient copy_of now hash
     in bindA (insert_history fr history) (\<lambda>name.
     bindA (save_file fr (dr_filename d) (dr_pdf d) name) (\<lambda>file.
     bindA (set_history name (\<lambda>h. h\<lparr>h_pdf_file := Some file,
              h_pdf_sha256 := Some (fr_sha256 fr (dr_pdf d))\<rparr>)) (\<lambda>_.
     bindA (if copy_of = None then enqueue fr (worker_job name) else ret ()) (\<lambda>_.
       ret (\<lparr>sd_name = name, sd_status = h_status history\<rparr>, copy_group))))))))"

text \<open>The call for the copy passes the original's name, so it never asks for a copy itself.\<close>

definition store_delivery ::
  "frappe \<Rightarrow> delivery_request \<Rightarrow> pystr \<Rightarrow> (site, stored \<times> stored option) act" where
  "store_delivery fr d recipient =
     bindA (store_one fr d recipient None) (\<lambda>(result, copy_group).
       case copy_group of
         None \<Rightarrow> ret (result, None)
       | Some g \<Rightarrow>
           bindA (store_one fr d g (Some (sd_name result))) (\<lambda>(copy, _).
             ret (result, Some copy)))"

section \<open>Queueing\<close>

definition check_message :: "pystr \<Rightarrow> exn + pystr" where
  "check_message message =
     (let message = strip message
      in if message = [] \<or> 4096 < length message
         then throw ''The message must contain 1 to 4096 characters.''
         else Inr message)"

definition check_recipient :: "recipient_choice list \<Rightarrow> pystr \<Rightarrow> exn + pystr" where
  "check_recipient numbers recipient =
     bindR (normalize_number (Some recipient)) (\<lambda>number.
       if number \<notin> set (map rc_value numbers)
       then deny ''Select a WhatsApp number linked to this customer.''
       else Inr number)"

text \<open>Everything \<open>queue_document\<close> checks and computes before it stores the delivery.\<close>

definition document_request ::
  "frappe \<Rightarrow> pystr \<Rightarrow> pystr \<Rightarrow> pystr \<Rightarrow> pystr \<Rightarrow> pystr \<Rightarrow> pystr \<Rightarrow> pystr \<Rightarrow> site
     \<Rightarrow> exn + (delivery_request \<times> pystr)" where
  "document_request fr doctype name recipient print_format message source_modified message_template s =
     bindR (require_sender fr s) (\<lambda>_.
     bindR (validate_document fr s doctype name) (\<lambda>(doc, adapter).
     if b_modified doc \<noteq> source_modified
     then throw ''The document changed after preview. Refresh and review it again.''
     else
       bindR (required ''party_field'' (a_party_field adapter)) (\<lambda>party_field.
       bindR (numbers_of_party fr s (field doc (Some party_field))) (\<lambda>numbers.
       bindR (check_recipient numbers recipient) (\<lambda>recipient.
       bindR (check_message message) (\<lambda>message.
       bindR (validate_print_format fr doctype print_format) (\<lambda>print_format.
       bindR (validate_selected_template fr s (py ''Document'') doctype
                (or_empty (field doc (a_company_field adapter))) message_template) (\<lambda>template.
       bindR (fr_print fr doctype name (stored_format print_format)) (\<lambda>pdf.
         Inr (\<lparr>dr_reference_type = Document,
               dr_company = as_text (field doc (a_company_field adapter)),
               dr_reference_doctype = Some doctype, dr_reference_name = Some name,
               dr_report_name = None, dr_report_filters = None,
               dr_message_template = template, dr_print_format = stored_format print_format,
               dr_source_modified = Some (b_modified doc), dr_message = message, dr_pdf = pdf,
               dr_filename = pdf_name (doctype @ py ''-'' @ name)\<rparr>, recipient))))))))))"

definition queue_document ::
  "frappe \<Rightarrow> pystr \<Rightarrow> pystr \<Rightarrow> pystr \<Rightarrow> pystr \<Rightarrow> pystr \<Rightarrow> pystr \<Rightarrow> pystr
     \<Rightarrow> (site, stored \<times> stored option) act" where
  "queue_document fr doctype name recipient print_format message source_modified message_template =
     bindA (reads (document_request fr doctype name recipient print_format message source_modified
                     message_template)) (\<lambda>(d, number).
       store_delivery fr d number)"

definition report_request ::
  "frappe \<Rightarrow> pystr \<Rightarrow> pyval \<Rightarrow> pystr \<Rightarrow> pystr \<Rightarrow> pystr \<Rightarrow> site \<Rightarrow> exn + (delivery_request \<times> pystr)" where
  "report_request fr report_name filters recipient message message_template s =
     bindR (require_sender fr s) (\<lambda>_.
     bindR (enabled_settings s) (\<lambda>_.
     bindR (validate_report fr s report_name filters) (\<lambda>(_, filters, customer, company).
     bindR (customer_numbers fr s customer) (\<lambda>numbers.
     bindR (check_recipient numbers recipient) (\<lambda>recipient.
     bindR (check_message message) (\<lambda>message.
     bindR (validate_selected_template fr s (py ''Report'') report_name (PStr company) message_template)
       (\<lambda>template.
     bindR (report_pdf fr report_name filters) (\<lambda>pdf.
       Inr (\<lparr>dr_reference_type = Report, dr_company = Some company,
             dr_reference_doctype = None, dr_reference_name = None,
             dr_report_name = Some report_name,
             dr_report_filters = Some (json_dumps compact_style (PDict filters)),
             dr_message_template = template, dr_print_format = None, dr_source_modified = None,
             dr_message = message, dr_pdf = pdf, dr_filename = pdf_name report_name\<rparr>, recipient)))))))))"

definition queue_report ::
  "frappe \<Rightarrow> pystr \<Rightarrow> pyval \<Rightarrow> pystr \<Rightarrow> pystr \<Rightarrow> pystr \<Rightarrow> (site, stored \<times> stored option) act" where
  "queue_report fr report_name filters recipient message message_template =
     bindA (reads (report_request fr report_name filters recipient message message_template))
       (\<lambda>(d, number). store_delivery fr d number)"

section \<open>What storing leaves behind\<close>

text \<open>
  \<open>stored_row fr d s t name h\<close>: between \<open>s\<close> and \<open>t\<close> the row \<open>name\<close> appeared, holding
  \<open>h\<close>, with its private file; nothing else of the history or the files changed, and nothing was
  sent.
\<close>

definition snapshot_of :: "frappe \<Rightarrow> delivery_request \<Rightarrow> pystr \<Rightarrow> attached_file" where
  "snapshot_of fr d name =
     \<lparr>f_file_name = fr_file_name fr (dr_filename d), f_attached_to_doctype = HISTORY_DOCTYPE,
      f_attached_to_name = name, f_is_private = True, f_content = dr_pdf d\<rparr>"

definition stored_row ::
  "frappe \<Rightarrow> delivery_request \<Rightarrow> site \<Rightarrow> site \<Rightarrow> pystr \<Rightarrow> history \<Rightarrow> bool" where
  "stored_row fr d s t name h \<longleftrightarrow>
     row_get (s_history s) name = None \<and> row_get (s_history t) name = Some h \<and> name \<noteq> []
     \<and> (\<forall>n. n \<noteq> name \<longrightarrow> row_get (s_history t) n = row_get (s_history s) n)
     \<and> h_owner h = s_user s \<and> h_pdf_sha256 h = Some (fr_sha256 fr (dr_pdf d))
     \<and> references_ok h \<and> \<not> key_taken (h_idempotency_key h) s
     \<and> (\<exists>file. h_pdf_file h = Some file \<and> file \<noteq> [] \<and> row_get (s_files s) file = None
          \<and> row_get (s_files t) file = Some (snapshot_of fr d name)
          \<and> (\<forall>f. f \<noteq> file \<longrightarrow> row_get (s_files t) f = row_get (s_files s) f))
     \<and> s_user t = s_user s \<and> s_settings t = s_settings s \<and> s_wire t = s_wire s"

lemma save_file_Inr_iff:
  "save_file fr fn content n s = (Inr file, t) \<longleftrightarrow>
     file = fr_name fr (s_ticks s) \<and> file \<noteq> [] \<and> row_get (s_files s) file = None
     \<and> t = s\<lparr>s_ticks := Suc (s_ticks s), s_files := row_put file
          \<lparr>f_file_name = fr_file_name fr fn, f_attached_to_doctype = HISTORY_DOCTYPE,
           f_attached_to_name = n, f_is_private = True, f_content = content\<rparr> (s_files s)\<rparr>"
proof -
  have "f \<in> set (row_keys (s_files s)) \<longleftrightarrow> row_get (s_files s) f \<noteq> None" for f
    by (rule rows_store.get_keys [symmetric])
  then show ?thesis
    by (auto simp: save_file_def bindA_def tick_def reads_def modifies_def ret_def)
qed

text \<open>The attributes of the row that storing derives from its arguments.\<close>

definition row_of ::
  "frappe \<Rightarrow> settings \<Rightarrow> delivery_request \<Rightarrow> pystr \<Rightarrow> pystr option \<Rightarrow> history \<Rightarrow> bool" where
  "row_of fr st d recipient copy_of h \<longleftrightarrow>
     (\<exists>now tick owner file. h = (new_history fr st d recipient copy_of now (fr_hash fr tick))
        \<lparr>h_owner := owner, h_pdf_file := file, h_pdf_sha256 := Some (fr_sha256 fr (dr_pdf d))\<rparr>)"

lemma new_history_not_terminal: "\<not> terminal (h_status (new_history fr st d r c now hash))"
  by (simp add: new_history_def terminal_def)

lemma queue_job_effect:
  "(if c = None then enqueue fr j else ret ()) s = (r, t) \<Longrightarrow>
     \<exists>js. t = s\<lparr>s_jobs := js\<rparr>"
proof -
  assume "(if c = None then enqueue fr j else ret ()) s = (r, t)"
  then consider "t = s" | "t = s\<lparr>s_jobs := s_jobs s @ [j]\<rparr>"
    by (auto simp: ret_def split: if_splits dest: enqueue_cases)
  moreover have "s = s\<lparr>s_jobs := s_jobs s\<rparr>" by simp
  ultimately show ?thesis by metis
qed

lemma store_one_Inr:
  assumes "store_one fr d recipient copy_of s = (Inr (res, g), t)"
  shows "\<exists>h. stored_row fr d s t (sd_name res) h \<and> row_of fr (s_settings s) d recipient copy_of h"
    and "group_of_delivery fr d copy_of s = Inr (s_settings s, g)"
    and "sd_status res = (if copy_of \<noteq> None then Waiting_for_Primary else Queued)"
proof -
  from assms obtain st now name f t1 t2 t3 where
    grp: "group_of_delivery fr d copy_of s = Inr (st, g)"
    and ins: "insert_history fr (new_history fr st d recipient copy_of now (fr_hash fr (Suc (s_ticks s))))
        (s\<lparr>s_ticks := Suc (Suc (s_ticks s))\<rparr>) = (Inr name, t1)"
    and snap: "save_file fr (dr_filename d) (dr_pdf d) name t1 = (Inr f, t2)"
    and upd: "set_history name (\<lambda>h. h\<lparr>h_pdf_file := Some f,
        h_pdf_sha256 := Some (fr_sha256 fr (dr_pdf d))\<rparr>) t2 = (Inr (), t3)"
    and job: "(if copy_of = None then enqueue fr (worker_job name) else ret ()) t3 = (Inr (), t)"
    and res: "res = \<lparr>sd_name = name, sd_status = h_status (new_history fr st d recipient copy_of now (fr_hash fr (Suc (s_ticks s))))\<rparr>"
    by (simp add: store_one_def Let_def bindA_Inr_iff reads_iff now_datetime_def tick_iff ret_iff split_beta)
      (elim exE conjE, rule that, auto)
  have st: "st = s_settings s"
    using grp by (auto simp: group_of_delivery_def bindR_Inr_iff enabled_settings_Inr_iff)
  let ?fresh = "(new_history fr st d recipient copy_of now (fr_hash fr (Suc (s_ticks s))))\<lparr>h_owner := s_user s\<rparr>"
  let ?h = "?fresh\<lparr>h_pdf_file := Some f, h_pdf_sha256 := Some (fr_sha256 fr (dr_pdf d))\<rparr>"
  have same_keys: "key_taken k (s\<lparr>s_ticks := m\<rparr>) = key_taken k s" for k m by (simp add: key_taken_def)
  from ins have new: "row_get (s_history s) name = None" "name \<noteq> []" "references_ok ?h"
      "\<not> key_taken (h_idempotency_key ?h) s"
    and t1: "t1 = put_history name ?fresh (s\<lparr>s_ticks := Suc (Suc (Suc (s_ticks s)))\<rparr>)"
    by (auto simp: insert_history_Inr_iff same_keys)
  obtain js where t: "t = t3\<lparr>s_jobs := js\<rparr>" using queue_job_effect [OF job] by blast
  have files: "f \<noteq> []" "row_get (s_files s) f = None"
    "t2 = t1\<lparr>s_ticks := Suc (s_ticks t1), s_files := row_put f (snapshot_of fr d name) (s_files s)\<rparr>"
    using snap t1 by (auto simp: save_file_Inr_iff snapshot_of_def)
  have t3: "t3 = put_history name ?h t2"
    using upd t1 files by (simp add: set_history_def modifies_def)
  have "stored_row fr d s t name ?h"
    using new files(1,2) t t1 files(3) t3 by (auto simp: stored_row_def)
  moreover have "row_of fr st d recipient copy_of ?h"
    unfolding row_of_def by blast
  ultimately show "\<exists>h. stored_row fr d s t (sd_name res) h
      \<and> row_of fr (s_settings s) d recipient copy_of h"
    using st res by auto
  show "group_of_delivery fr d copy_of s = Inr (s_settings s, g)" using grp st by simp
  show "sd_status res = (if copy_of \<noteq> None then Waiting_for_Primary else Queued)"
    using res by (simp add: new_history_def)
qed

lemma row_of_content:
  "row_of fr st d r c h \<Longrightarrow> row_of fr st d r' c' h' \<Longrightarrow> h_owner h = h_owner h' \<Longrightarrow>
     content_of h = content_of h'"
  by (auto simp: row_of_def new_history_def content_of_def)

lemma row_of_original:
  "row_of fr st d r None h \<Longrightarrow>
     h_status h = Queued \<and> \<not> is_group h \<and> \<not> is_copy h \<and> h_recipient h = r \<and> h_retry_count h = 0
     \<and> h_max_retries h = cint_opt (st_maximum_retries st) \<and> h_message_text h = dr_message d
     \<and> h_reference_type h = dr_reference_type d \<and> \<not> h_reconciliation_required h"
  by (auto simp: row_of_def new_history_def is_group_def is_copy_def nonempty_def)

lemma row_of_copy:
  "row_of fr st d r (Some p) h \<Longrightarrow>
     h_status h = Waiting_for_Primary \<and> is_group h \<and> h_copy_of h = Some p \<and> h_recipient h = r
     \<and> h_retry_count h = 0 \<and> h_recipient_masked h = py ''Configured company group''
     \<and> \<not> h_reconciliation_required h"
  by (auto simp: row_of_def new_history_def is_group_def masked_def)

lemma group_of_copy: "group_of_delivery fr d (Some p) s = Inr (st, g) \<Longrightarrow> g = None"
  by (auto simp: group_of_delivery_def bindR_Inr_iff)

lemma group_of_original:
  "group_of_delivery fr d None s = Inr (st, g) \<longleftrightarrow>
     st = s_settings s \<and> st_enabled st \<and> configured_group fr st (opt_value (dr_company d)) s = Inr g"
  by (auto simp: group_of_delivery_def bindR_Inr_iff enabled_settings_Inr_iff)

text \<open>
  A stored delivery: the original, and when the company has a group, a copy for exactly that group
  which waits for the original and agrees with it in everything that is compared later.
\<close>

definition copy_matches :: "history \<Rightarrow> pystr \<Rightarrow> pystr \<Rightarrow> history \<Rightarrow> bool" where
  "copy_matches original name g c \<longleftrightarrow>
     h_copy_of c = Some name \<and> is_group c \<and> h_status c = Waiting_for_Primary \<and> h_recipient c = g
     \<and> content_of c = content_of original \<and> h_retry_count c = 0"

lemma store_delivery_Inr:
  assumes "store_delivery fr d recipient s = (Inr (p, c), t)"
  shows "\<exists>h u g. stored_row fr d s u (sd_name p) h \<and> row_of fr (s_settings s) d recipient None h
    \<and> row_get (s_history t) (sd_name p) = Some h
    \<and> configured_group fr (s_settings s) (opt_value (dr_company d)) s = Inr g \<and> st_enabled (s_settings s)
    \<and> (case g of
         None \<Rightarrow> c = None \<and> t = u
       | Some gid \<Rightarrow> \<exists>cr k. c = Some cr \<and> stored_row fr d u t (sd_name cr) k
           \<and> row_of fr (s_settings s) d gid (Some (sd_name p)) k
           \<and> copy_matches h (sd_name p) gid k)"
proof -
  from assms obtain g u where
    one: "store_one fr d recipient None s = (Inr (p, g), u)"
    and rest: "(case g of None \<Rightarrow> ret (p, None)
      | Some g \<Rightarrow> bindA (store_one fr d g (Some (sd_name p))) (\<lambda>(copy, _). ret (p, Some copy))) u
        = (Inr (p, c), t)"
    by (auto simp: store_delivery_def bindA_Inr_iff ret_iff split: option.splits)
  note o1 = store_one_Inr [OF one]
  from o1(1) obtain h where h: "stored_row fr d s u (sd_name p) h"
    "row_of fr (s_settings s) d recipient None h" by blast
  have grp: "configured_group fr (s_settings s) (opt_value (dr_company d)) s = Inr g"
    "st_enabled (s_settings s)"
    using o1(2) by (auto simp: group_of_original)
  show ?thesis
  proof (cases g)
    case None
    then have "c = None" "t = u" using rest by (simp_all add: ret_def)
    then show ?thesis using h grp None by (intro exI [of _ h] exI [of _ u] exI [of _ g]) (simp add: stored_row_def)
  next
    case (Some gid)
    with rest obtain cr x where two: "store_one fr d gid (Some (sd_name p)) u = (Inr (cr, x), t)"
      and c: "c = Some cr"
      by (auto simp: bindA_Inr_iff ret_iff)
    have st: "s_settings u = s_settings s" "s_user u = s_user s" using h(1) by (auto simp: stored_row_def)
    from store_one_Inr(1) [OF two] obtain k where k: "stored_row fr d u t (sd_name cr) k"
      "row_of fr (s_settings s) d gid (Some (sd_name p)) k" using st by auto
    have other: "sd_name cr \<noteq> sd_name p" using h(1) k(1) by (auto simp: stored_row_def)
    have "content_of k = content_of h"
      using row_of_content [OF k(2) h(2)] h(1) k(1) st by (simp add: stored_row_def)
    then have "copy_matches h (sd_name p) gid k" using row_of_copy [OF k(2)] by (simp add: copy_matches_def)
    moreover have "row_get (s_history t) (sd_name p) = Some h"
      using h(1) k(1) other by (simp add: stored_row_def)
    ultimately show ?thesis using h grp k c Some by (intro exI [of _ h] exI [of _ u] exI [of _ g]) auto
  qed
qed

section \<open>What was checked before a delivery is stored\<close>

lemma check_recipient_Inr_iff [res_iff]:
  "check_recipient numbers r = Inr n \<longleftrightarrow> normalize_number (Some r) = Inr n \<and> n \<in> set (map rc_value numbers)"
  by (auto simp: check_recipient_def bindR_Inr_iff)

lemma check_message_Inr_iff [res_iff]:
  "check_message m = Inr t \<longleftrightarrow> t = strip m \<and> 1 \<le> length t \<and> length t \<le> 4096"
  by (auto simp: check_message_def Let_def Suc_le_eq)

lemma document_request_Inr:
  assumes "document_request fr dt n r pf m sm mt s = Inr (d, number)"
  obtains doc adapter party numbers q where
    "require_sender fr s = Inr ()" "validate_document fr s dt n = Inr (doc, adapter)"
    "b_modified doc = sm" "a_party_field adapter = Some party"
    "numbers_of_party fr s (field doc (Some party)) = Inr numbers"
    "check_recipient numbers r = Inr number" "check_message m = Inr (dr_message d)"
    "validate_print_format fr dt pf = Inr q" "dr_print_format d = stored_format q"
    "fr_print fr dt n (stored_format q) = Inr (dr_pdf d)"
    "dr_company d = as_text (field doc (a_company_field adapter))"
    "dr_reference_type d = Document" "dr_reference_doctype d = Some dt" "dr_reference_name d = Some n"
    "dr_source_modified d = Some sm"
  using assms unfolding document_request_def
  by (simp add: bindR_Inr_iff split_beta required_Inr_iff if_throw_Inr_iff split_paired_Ex)
     (elim exE conjE, rule that, auto)

lemma report_request_Inr:
  assumes "report_request fr n f r m mt s = Inr (d, number)"
  obtains adapter filters customer company numbers where
    "require_sender fr s = Inr ()" "st_enabled (s_settings s)"
    "validate_report fr s n f = Inr (adapter, filters, customer, company)"
    "customer_numbers fr s customer = Inr numbers" "check_recipient numbers r = Inr number"
    "check_message m = Inr (dr_message d)" "report_pdf fr n filters = Inr (dr_pdf d)"
    "dr_company d = Some company" "dr_reference_type d = Report" "dr_report_name d = Some n"
    "dr_report_filters d = Some (json_dumps compact_style (PDict filters))"
  using assms unfolding report_request_def
  by (simp add: bindR_Inr_iff split_beta enabled_settings_Inr_iff split_paired_Ex)
     (elim exE conjE, rule that, auto)

text \<open>A request that is refused stores nothing, queues nothing and sends nothing.\<close>

lemma refused_document:
  "document_request fr dt n r pf m sm mt s = Inl e \<Longrightarrow> queue_document fr dt n r pf m sm mt s = (Inl e, s)"
  by (simp add: queue_document_def bindA_def reads_def)

lemma refused_report:
  "report_request fr n f r m mt s = Inl e \<Longrightarrow> queue_report fr n f r m mt s = (Inl e, s)"
  by (simp add: queue_report_def bindA_def reads_def)

lemma queue_document_Inr:
  "queue_document fr dt n r pf m sm mt s = (Inr res, t) \<longleftrightarrow>
     (\<exists>d number. document_request fr dt n r pf m sm mt s = Inr (d, number)
        \<and> store_delivery fr d number s = (Inr res, t))"
  by (auto simp: queue_document_def bindA_Inr_iff reads_iff)

lemma queue_report_Inr:
  "queue_report fr n f r m mt s = (Inr res, t) \<longleftrightarrow>
     (\<exists>d number. report_request fr n f r m mt s = Inr (d, number)
        \<and> store_delivery fr d number s = (Inr res, t))"
  by (auto simp: queue_report_def bindA_Inr_iff reads_iff)

text \<open>Nothing is sent while a delivery is stored.\<close>

lemma keeps_store_one [simp]:
  assumes "\<And>s n. v (s\<lparr>s_ticks := n\<rparr>) = v s" "\<And>s js. v (s\<lparr>s_jobs := js\<rparr>) = v s"
    and "\<And>s h. v (s\<lparr>s_history := h\<rparr>) = v s" "\<And>s f. v (s\<lparr>s_files := f\<rparr>) = v s"
  shows "keeps (same v) (store_one fr d r c)"
  unfolding store_one_def insert_history_def save_file_def set_history_def now_datetime_def Let_def
  using assms
  by (auto intro!: keeps_bindA keeps_modifies simp: split_beta same_def put_history_def split: option.splits)

lemma keeps_store_delivery:
  assumes "\<And>s n. v (s\<lparr>s_ticks := n\<rparr>) = v s" "\<And>s js. v (s\<lparr>s_jobs := js\<rparr>) = v s"
    and "\<And>s h. v (s\<lparr>s_history := h\<rparr>) = v s" "\<And>s f. v (s\<lparr>s_files := f\<rparr>) = v s"
  shows "keeps (same v) (store_delivery fr d r)"
proof -
  have "keeps (same v) (case g of None \<Rightarrow> ret (p, None)
      | Some g \<Rightarrow> bindA (store_one fr d g (Some (sd_name p))) (\<lambda>(copy, _). ret (p, Some copy)))" for g p
    using assms by (cases g) (auto intro!: keeps_bindA simp: split_beta)
  then show ?thesis
    using assms unfolding store_delivery_def by (intro keeps_bindA) (auto simp: split_beta)
qed

end
