(* ===== verification/Settings_Doc.thy ===== *)
theory Settings_Doc
  imports Company_Groups
begin

text \<open>
  The controller of the \<open>ERPNext WhatsApp Settings\<close> DocType. Whoever saves the settings, the
  provider is one of the two built-in ones, the pace and the retry limit are within their bounds,
  and the company groups were checked.
\<close>

definition PROVIDERS :: "pystr list" where
  "PROVIDERS = [py ''Linked Device'', py ''Official API'']"

text \<open>\<open>max(10, min(300, cint(self.throttle_seconds or 10)))\<close>.\<close>

definition clamp_throttle :: "int option \<Rightarrow> int" where
  "clamp_throttle v = max 10 (min 300 (case v of None \<Rightarrow> 10 | Some n \<Rightarrow> if n = 0 then 10 else n))"

definition clamp_retries :: "int option \<Rightarrow> int" where
  "clamp_retries v = max 0 (min 5 (case v of None \<Rightarrow> 3 | Some n \<Rightarrow> n))"

definition clamp_settings :: "settings \<Rightarrow> settings" where
  "clamp_settings st =
     st\<lparr>st_throttle_seconds := Some (clamp_throttle (st_throttle_seconds st)),
        st_maximum_retries := Some (clamp_retries (st_maximum_retries st))\<rparr>"

definition validate_settings_doc :: "frappe \<Rightarrow> settings option \<Rightarrow> settings \<Rightarrow> (site, settings) act" where
  "validate_settings_doc fr before st =
     (if st_provider st \<notin> set PROVIDERS
      then fails (Exn ValidationError (py ''Select a supported WhatsApp provider.'') False)
      else validate_settings fr before (clamp_settings st))"

text \<open>\<open>settings.save()\<close>.\<close>

definition save_settings :: "frappe \<Rightarrow> settings \<Rightarrow> (site, unit) act" where
  "save_settings fr st =
     bindA (reads (\<lambda>s. Inr (s_settings s))) (\<lambda>before.
     bindA (validate_settings_doc fr (Some before) st) (\<lambda>checked.
       modifies (\<lambda>s. s\<lparr>s_settings := checked\<rparr>)))"

definition settings_ok :: "settings \<Rightarrow> bool" where
  "settings_ok st \<longleftrightarrow>
     st_provider st \<in> set PROVIDERS
     \<and> (\<exists>n. st_throttle_seconds st = Some n \<and> 10 \<le> n \<and> n \<le> 300)
     \<and> (\<exists>n. st_maximum_retries st = Some n \<and> 0 \<le> n \<and> n \<le> 5)
     \<and> groups_ok st"

lemma clamp_bounds:
  "10 \<le> clamp_throttle v" "clamp_throttle v \<le> 300" "0 \<le> clamp_retries w" "clamp_retries w \<le> 5"
  by (simp_all add: clamp_throttle_def clamp_retries_def)

text \<open>Values within the bounds are kept, so saving twice is saving once.\<close>

lemma clamp_id:
  "10 \<le> n \<Longrightarrow> n \<le> 300 \<Longrightarrow> clamp_throttle (Some n) = n"
  "0 \<le> n \<Longrightarrow> n \<le> 5 \<Longrightarrow> clamp_retries (Some n) = n"
  by (simp_all add: clamp_throttle_def clamp_retries_def)

lemma clamp_settings_idem: "clamp_settings (clamp_settings st) = clamp_settings st"
  by (simp add: clamp_settings_def clamp_id clamp_bounds)

lemma clamp_settings_fields [simp]:
  "st_company_groups (clamp_settings st) = st_company_groups st"
  "st_provider (clamp_settings st) = st_provider st"
  "st_last_event_id (clamp_settings st) = st_last_event_id st"
  by (simp_all add: clamp_settings_def)

lemma keeps_joined_groups [simp]:
  "(\<And>s n w. v (s\<lparr>s_ticks := n, s_wire := w\<rparr>) = v s) \<Longrightarrow> keeps (same v) (joined_groups fr)"
  unfolding joined_groups_def by (intro keeps_bindA) simp_all

lemma keeps_validate_settings:
  "(\<And>s n w. v (s\<lparr>s_ticks := n, s_wire := w\<rparr>) = v s) \<Longrightarrow>
     keeps (same v) (validate_settings_doc fr before st)"
  unfolding validate_settings_doc_def validate_settings_def by (auto intro!: keeps_bindA)

lemma validate_settings_fields:
  assumes "validate_settings fr before st s = (Inr st', t)"
  shows "st_throttle_seconds st' = st_throttle_seconds st" "st_maximum_retries st' = st_maximum_retries st"
    "st_last_event_id st' = st_last_event_id st" "st_enabled st' = st_enabled st"
proof -
  from assms have "st' = st \<or> (\<exists>rows. st' = st\<lparr>st_company_groups := rows\<rparr>)"
    by (auto simp: validate_settings_def bindA_Inr_iff ret_iff split: if_splits)
  then show "st_throttle_seconds st' = st_throttle_seconds st" "st_maximum_retries st' = st_maximum_retries st"
    "st_last_event_id st' = st_last_event_id st" "st_enabled st' = st_enabled st"
    by auto
qed

lemma save_settings_Inr:
  assumes "save_settings fr st s = (Inr u, t)"
  shows "st_provider st \<in> set PROVIDERS"
    and "\<exists>u. validate_settings fr (Some (s_settings s)) (clamp_settings st) s = (Inr (s_settings t), u)"
  using assms
  by (auto simp: save_settings_def validate_settings_doc_def bindA_Inr_iff reads_iff modifies_iff fails_iff
      split: if_splits)

text \<open>Whatever is saved over settings that were fine is fine.\<close>

lemma save_settings_ok:
  assumes "save_settings fr st s = (Inr u, t)" and "groups_ok (s_settings s)"
  shows "settings_ok (s_settings t)"
proof -
  note saved = save_settings_Inr [OF assms(1)]
  from saved(2) obtain v where
    val: "validate_settings fr (Some (s_settings s)) (clamp_settings st) s = (Inr (s_settings t), v)" ..
  have "groups_ok (s_settings t)" using validate_settings_groups_ok [OF val] assms(2) by simp
  moreover have "st_provider (s_settings t) = st_provider st"
    using validate_settings_Inr(4) [OF val] by simp
  ultimately show ?thesis
    using saved(1) validate_settings_fields(1,2) [OF val] clamp_bounds
    by (simp add: settings_ok_def clamp_settings_def)
qed

text \<open>A save that is refused leaves the settings alone.\<close>

lemma save_settings_Inl:
  assumes "save_settings fr st s = (Inl e, t)"
  shows "s_settings t = s_settings s"
proof -
  have "keeps (same s_settings) (validate_settings_doc fr b st)" for b
    by (rule keeps_validate_settings) simp
  then have "s_settings (after (validate_settings_doc fr b st) s) = s_settings s" for b
    by (simp add: keeps_def same_def)
  moreover have "t = after (validate_settings_doc fr (Some (s_settings s)) st) s"
    using assms by (auto simp: save_settings_def bindA_Inl_iff reads_iff modifies_iff)
  ultimately show ?thesis by simp
qed

end
