(* ===== verification/Transports.thy ===== *)
theory Transports
  imports Gateway_Client Adapters
begin

text \<open>
  \<open>transports.py\<close>: the registry of transports, which other apps may extend, and the bundled
  transport that hands a delivery to the gateway.
\<close>

definition bundled_sender :: pystr where
  "bundled_sender = py ''erpnext_whatsapp_connection.transports.send_via_bundled_gateway''"

definition BUILTIN_TRANSPORTS :: "(pystr \<times> transport) list" where
  "BUILTIN_TRANSPORTS =
     [(py ''Linked Device'',
        \<lparr>tr_send = Some bundled_sender, tr_gateway_provider = Some (py ''Baileys'')\<rparr>),
      (py ''Official API'',
        \<lparr>tr_send = Some bundled_sender, tr_gateway_provider = Some (py ''Official API'')\<rparr>)]"

text \<open>The same loop as in \<open>adapters.py\<close>, over the registry itself.\<close>

definition build_transports :: "transport provider list \<Rightarrow> exn + (pystr \<rightharpoonup> transport)" where
  "build_transports hooks = foldR register hooks (map_of BUILTIN_TRANSPORTS)"

definition transport_registry :: "frappe \<Rightarrow> exn + (pystr \<rightharpoonup> transport)" where
  "transport_registry fr = build_transports (fr_transport_providers fr)"

interpretation transports_overlay: registry_overlay build_transports "map_of BUILTIN_TRANSPORTS"
  by unfold_locales (simp_all add: build_transports_def foldR_snoc)

definition not_registered :: "pystr \<Rightarrow> exn" where
  "not_registered provider =
     Exn ValidationError
       (py ''WhatsApp transport '' @ repr_string provider @ py '' is not registered.'') False"

definition get_transport :: "frappe \<Rightarrow> pystr \<Rightarrow> exn + transport" where
  "get_transport fr provider =
     bindR (transport_registry fr) (\<lambda>registry.
       case registry provider of
         None \<Rightarrow> Inl (not_registered provider)
       | Some t \<Rightarrow>
           (case tr_send t of
              None \<Rightarrow> Inl (not_registered provider)
            | Some p \<Rightarrow> if p = [] then Inl (not_registered provider) else Inr t))"

text \<open>A private PDF snapshot as it is sent: file name and base64 text.\<close>

type_synonym pdf = "pystr \<times> pystr"

definition pdf_value :: "pdf \<Rightarrow> pyval" where
  "pdf_value p = PDict [(py ''filename'', PStr (fst p)), (py ''content_base64'', PStr (snd p))]"

text \<open>\<open>max(10, min(300, int(settings.throttle_seconds or 0))) * 1000\<close>.\<close>

definition throttle_ms :: "settings \<Rightarrow> int" where
  "throttle_ms st = max 10 (min 300 (case st_throttle_seconds st of None \<Rightarrow> 0 | Some n \<Rightarrow> n)) * 1000"

definition recipient_kind_text :: "recipient_kind option \<Rightarrow> pystr" where
  "recipient_kind_text k = (case k of Some Group \<Rightarrow> py ''Group'' | _ \<Rightarrow> py ''Individual'')"

definition send_payload :: "frappe \<Rightarrow> history \<Rightarrow> settings \<Rightarrow> pdf list \<Rightarrow> pystr \<Rightarrow> pyval" where
  "send_payload fr document st pdfs gateway_provider =
     site_payload fr
       [(py ''provider'', PStr gateway_provider),
        (py ''recipient'', PStr (h_recipient document)),
        (py ''recipient_type'', PStr (recipient_kind_text (h_recipient_type document))),
        (py ''text'', PStr (h_message_text document)),
        (py ''pdfs'', PList (map pdf_value pdfs)),
        (py ''idempotency_key'', PStr (h_idempotency_key document)),
        (py ''throttle_ms'', PInt (throttle_ms st))]"

definition send_via_bundled_gateway ::
  "frappe \<Rightarrow> history \<Rightarrow> settings \<Rightarrow> pdf list \<Rightarrow> transport \<Rightarrow> (site, pyval) act" where
  "send_via_bundled_gateway fr document st pdfs transport =
     (case tr_gateway_provider transport of
        None \<Rightarrow> fails (Exn KeyError (py ''gateway_provider'') False)
      | Some p \<Rightarrow> gateway_request fr (py ''/v1/send'') (send_payload fr document st pdfs p) 180)"

text \<open>
  \<open>frappe.get_attr(transport["send"])\<close> is the bundled sender, or a function of another app,
  which sends by its own means.
\<close>

definition send_delivery :: "frappe \<Rightarrow> history \<Rightarrow> settings \<Rightarrow> pdf list \<Rightarrow> (site, pyval) act" where
  "send_delivery fr document st pdfs =
     bindA (reads (\<lambda>_. get_transport fr (h_provider document))) (\<lambda>transport.
       case tr_send transport of
         None \<Rightarrow> fails (Exn KeyError (py ''send'') False)
       | Some path \<Rightarrow>
           (if path = bundled_sender then send_via_bundled_gateway fr document st pdfs transport
            else bindA (tick (\<lambda>n. n)) (\<lambda>n.
                 bindA (modifies (\<lambda>s. s\<lparr>s_wire := s_wire s @ [External path (h_idempotency_key document)]\<rparr>)) (\<lambda>_.
                   reads (\<lambda>_. fr_sender fr path n (h_idempotency_key document))))))"

lemma get_transport_Inr_iff [res_iff]:
  "get_transport fr p = Inr t \<longleftrightarrow>
     (\<exists>reg path. transport_registry fr = Inr reg \<and> reg p = Some t \<and> tr_send t = Some path \<and> path \<noteq> [])"
  by (auto simp: get_transport_def res_iff split: option.splits)

text \<open>Which delivery a request is a submission of.\<close>

fun submits :: "wire \<Rightarrow> pystr option" where
  "submits (External path key) = Some key"
| "submits (Http q) =
     (if rq_path q = py ''/v1/send''
      then (case rq_payload q of PDict d \<Rightarrow> as_text (dget d (py ''idempotency_key'')) | _ \<Rightarrow> None)
      else None)"

definition submissions :: "pystr \<Rightarrow> site \<Rightarrow> nat" where
  "submissions key s = length (filter (\<lambda>w. submits w = Some key) (s_wire s))"

lemma send_payload_key:
  "rq_path q = py ''/v1/send'' \<Longrightarrow> rq_payload q = send_payload fr h st pdfs p \<Longrightarrow>
     submits (Http q) = Some (h_idempotency_key h)"
  by (simp add: send_payload_def site_payload_def dget_def as_text_def)

text \<open>A send touches the wire and the tick only, and adds at most one submission, its own.\<close>

lemma send_delivery_effect:
  assumes "send_delivery fr h st pdfs s = (r, t)"
  shows "(\<exists>n. t = s\<lparr>s_ticks := n\<rparr>) \<or>
    (\<exists>n w. t = s\<lparr>s_ticks := n, s_wire := s_wire s @ [w]\<rparr> \<and> submits w = Some (h_idempotency_key h))"
proof -
  have same_tick: "s = s\<lparr>s_ticks := s_ticks s\<rparr>" by simp
  show ?thesis
  proof (cases "get_transport fr (h_provider h)")
    case (Inl e)
    then have "t = s" using assms by (simp add: send_delivery_def bindA_def reads_def)
    then show ?thesis using same_tick by metis
  next
    case (Inr tr)
    then obtain path where path: "tr_send tr = Some path" by (auto simp: res_iff)
    show ?thesis
    proof (cases "path = bundled_sender")
      case False
      let ?w = "External path (h_idempotency_key h)"
      have "t = s\<lparr>s_ticks := Suc (s_ticks s), s_wire := s_wire s @ [?w]\<rparr>"
        using assms Inr path False
        by (simp add: send_delivery_def bindA_def reads_def tick_def modifies_def)
      moreover have "submits ?w = Some (h_idempotency_key h)" by simp
      ultimately show ?thesis by blast
    next
      case True
      then have send: "send_via_bundled_gateway fr h st pdfs tr s = (r, t)"
        using assms Inr path by (simp add: send_delivery_def bindA_def reads_def)
      show ?thesis
      proof (cases "tr_gateway_provider tr")
        case None
        then have "t = s" using send by (simp add: send_via_bundled_gateway_def fails_def)
        then show ?thesis using same_tick by metis
      next
        case (Some p)
        then have "gateway_request fr (py ''/v1/send'') (send_payload fr h st pdfs p) 180 s = (r, t)"
          using send by (simp add: send_via_bundled_gateway_def)
        then show ?thesis
          by (rule gateway_request_effect) (use send_payload_key in blast)+
      qed
    qed
  qed
qed

lemma throttle_bounds: "10000 \<le> throttle_ms st \<and> throttle_ms st \<le> 300000"
  by (simp add: throttle_ms_def)

end
