(* ===== verification/Base64.thy ===== *)
theory Base64
  imports Site
begin

text \<open>
  \<open>base64.b64encode(content).decode()\<close>, the form in which a PDF snapshot and a webhook body
  travel to the gateway, with the decoder of RFC 4648 at the other end. The main result is that the
  gateway can recover exactly the bytes that were stored.
\<close>

definition b64_char :: "nat \<Rightarrow> nat" where
  "b64_char v =
     (if v < 26 then 65 + v else if v < 52 then 71 + v else if v < 62 then v - 4
      else if v = 62 then 43 else 47)"

fun b64encode :: "bytes \<Rightarrow> pystr" where
  "b64encode [] = []"
| "b64encode [a] = [b64_char (a div 4), b64_char (a mod 4 * 16), 61, 61]"
| "b64encode [a, b] =
     [b64_char (a div 4), b64_char (a mod 4 * 16 + b div 16), b64_char (b mod 16 * 4), 61]"
| "b64encode (a # b # c # s) =
     [b64_char (a div 4), b64_char (a mod 4 * 16 + b div 16), b64_char (b mod 16 * 4 + c div 64),
      b64_char (c mod 64)] @ b64encode s"

definition b64_value :: "nat \<Rightarrow> nat option" where
  "b64_value c =
     (if 65 \<le> c \<and> c \<le> 90 then Some (c - 65)
      else if 97 \<le> c \<and> c \<le> 122 then Some (c - 71)
      else if 48 \<le> c \<and> c \<le> 57 then Some (c + 4)
      else if c = 43 then Some 62
      else if c = 47 then Some 63
      else None)"

definition b64_quad :: "nat \<Rightarrow> nat \<Rightarrow> nat \<Rightarrow> nat \<Rightarrow> bytes option" where
  "b64_quad w x y z =
     (case (b64_value w, b64_value x) of
        (Some p, Some q) \<Rightarrow>
          (if y = 61 then (if z = 61 then Some [p * 4 + q div 16] else None)
           else case b64_value y of
             None \<Rightarrow> None
           | Some r \<Rightarrow>
               (if z = 61 then Some [p * 4 + q div 16, q mod 16 * 16 + r div 4]
                else case b64_value z of
                  None \<Rightarrow> None
                | Some t \<Rightarrow> Some [p * 4 + q div 16, q mod 16 * 16 + r div 4, r mod 4 * 64 + t]))
      | _ \<Rightarrow> None)"

text \<open>Padding ends the text.\<close>

fun b64decode :: "pystr \<Rightarrow> bytes option" where
  "b64decode [] = Some []"
| "b64decode (w # x # y # z # s) =
     (case b64_quad w x y z of
        None \<Rightarrow> None
      | Some bs \<Rightarrow>
          (if length bs < 3 then (if s = [] then Some bs else None)
           else map_option ((@) bs) (b64decode s)))"
| "b64decode _ = None"

lemma b64_value_char [simp]: "v < 64 \<Longrightarrow> b64_value (b64_char v) = Some v"
  unfolding b64_value_def b64_char_def by (simp; linarith)

lemma b64_char_not_pad [simp]: "v < 64 \<Longrightarrow> b64_char v \<noteq> 61"
  unfolding b64_char_def by (simp; linarith)

lemma div_mod_small:
  fixes x y :: nat
  shows "y < k \<Longrightarrow> (x * k + y) div k = x" "y < k \<Longrightarrow> (x * k + y) mod k = y"
  by simp_all

lemma byte_high: "a < (256 :: nat) \<Longrightarrow> a div 4 < 64" "b < (256 :: nat) \<Longrightarrow> b div 16 < 16"
  "c < (256 :: nat) \<Longrightarrow> c div 64 < 4"
  by linarith+

lemma byte_parts:
  fixes a b c :: nat
  assumes "a < 256" "b < 256" "c < 256"
  shows "a div 4 < 64" "a mod 4 * 16 + b div 16 < 64" "a mod 4 * 16 < 64"
    "b mod 16 * 4 + c div 64 < 64" "b mod 16 * 4 < 64" "c mod 64 < 64"
    "a div 4 * 4 + (a mod 4 * 16 + b div 16) div 16 = a" "a div 4 * 4 + a mod 4 * 16 div 16 = a"
    "(a mod 4 * 16 + b div 16) mod 16 * 16 + (b mod 16 * 4 + c div 64) div 4 = b"
    "(a mod 4 * 16 + b div 16) mod 16 * 16 + b mod 16 * 4 div 4 = b"
    "(b mod 16 * 4 + c div 64) mod 4 * 64 + c mod 64 = c"
proof -
  note high = byte_high(1) [OF assms(1)] byte_high(2) [OF assms(2)] byte_high(3) [OF assms(3)]
  have r: "a mod 4 < 4" "b mod 16 < 16" "c mod 64 < 64" by simp_all
  show "a div 4 < 64" "c mod 64 < 64" using high r by simp_all
  show "a mod 4 * 16 + b div 16 < 64" "a mod 4 * 16 < 64" using high r by linarith+
  show "b mod 16 * 4 + c div 64 < 64" "b mod 16 * 4 < 64" using high r by linarith+
  show "a div 4 * 4 + (a mod 4 * 16 + b div 16) div 16 = a" "a div 4 * 4 + a mod 4 * 16 div 16 = a"
    "(a mod 4 * 16 + b div 16) mod 16 * 16 + (b mod 16 * 4 + c div 64) div 4 = b"
    "(a mod 4 * 16 + b div 16) mod 16 * 16 + b mod 16 * 4 div 4 = b"
    "(b mod 16 * 4 + c div 64) mod 4 * 64 + c mod 64 = c"
    using high by (simp_all only: div_mod_small nonzero_mult_div_cancel_right div_mult_mod_eq
        numeral_neq_zero not_False_eq_True)
qed

lemma b64_quad_full:
  "a < 256 \<Longrightarrow> b < 256 \<Longrightarrow> c < 256 \<Longrightarrow>
     b64_quad (b64_char (a div 4)) (b64_char (a mod 4 * 16 + b div 16))
       (b64_char (b mod 16 * 4 + c div 64)) (b64_char (c mod 64)) = Some [a, b, c]"
  using byte_parts [of a b c] by (simp add: b64_quad_def)

lemma b64_quad_pad:
  "a < 256 \<Longrightarrow> b64_quad (b64_char (a div 4)) (b64_char (a mod 4 * 16)) 61 61 = Some [a]"
  "a < 256 \<Longrightarrow> b < 256 \<Longrightarrow>
     b64_quad (b64_char (a div 4)) (b64_char (a mod 4 * 16 + b div 16)) (b64_char (b mod 16 * 4)) 61
       = Some [a, b]"
  using byte_parts [of a b 0] byte_parts [of a 0 0] by (simp_all add: b64_quad_def)

text \<open>Decoding an encoded text gives the bytes back.\<close>

lemma b64decode_encode: "\<forall>b \<in> set s. b < 256 \<Longrightarrow> b64decode (b64encode s) = Some s"
proof (induction s rule: b64encode.induct)
  case (4 a b c s)
  then show ?case using b64_quad_full [of a b c] by simp
qed (simp_all add: b64_quad_pad)

lemma length_b64encode: "length (b64encode s) = 4 * ((length s + 2) div 3)"
proof (induction s rule: b64encode.induct)
  case (4 a b c s)
  have "(length (a # b # c # s) + 2) div 3 = (length s + 2) div 3 + 1" by simp
  then show ?case using 4 by simp
qed simp_all

text \<open>The text is ASCII: it needs no escape in a JSON request.\<close>

lemma b64_char_plain: "v < 64 \<Longrightarrow> 32 < b64_char v \<and> b64_char v < 127 \<and> b64_char v \<notin> {34, 92}"
  unfolding b64_char_def by (simp; linarith)

end
