(* ===== verification/Datetimes.thy ===== *)
theory Datetimes
  imports Prelude
begin

text \<open>
  \<open>datetime_utils.py\<close>: a provider's timestamp as a naive datetime of the site's zone. A
  datetime is its wall-clock time in microseconds since 1970-01-01T00:00 and, when it is aware,
  its offset from UTC in microseconds. A time zone is the function from an instant to the offset
  that holds there.
\<close>

record pydatetime =
  dt_wall :: int
  dt_offset :: "int option"

datatype dt_value = NoValue | Datetime pydatetime | Text pystr

section \<open>Reading ISO timestamps\<close>

text \<open>
  \<open>datetime.fromisoformat\<close> for the extended format
  \<open>YYYY-MM-DD?HH:MM[:SS[.ffffff]][+HH:MM]\<close> with any separator character, which covers what
  the gateway sends (\<open>Date.prototype.toISOString\<close>); other spellings are refused here.
\<close>

definition digit_at :: "pystr \<Rightarrow> nat \<Rightarrow> nat option" where
  "digit_at s i = (if i < length s \<and> 48 \<le> s ! i \<and> s ! i \<le> 57 then Some (s ! i - 48) else None)"

fun number_at :: "pystr \<Rightarrow> nat \<Rightarrow> nat \<Rightarrow> nat option" where
  "number_at s i 0 = Some 0"
| "number_at s i (Suc n) =
     (case (number_at s i n, digit_at s (i + n)) of
        (Some a, Some d) \<Rightarrow> Some (10 * a + d)
      | _ \<Rightarrow> None)"

definition is_leap :: "nat \<Rightarrow> bool" where
  "is_leap y \<longleftrightarrow> y mod 4 = 0 \<and> (y mod 100 \<noteq> 0 \<or> y mod 400 = 0)"

definition month_days :: "nat \<Rightarrow> nat \<Rightarrow> nat" where
  "month_days y m =
     (if m = 2 then (if is_leap y then 29 else 28) else if m \<in> {4, 6, 9, 11} then 30 else 31)"

text \<open>Days from 1970-01-01 to the first of January of a year, and to a date.\<close>

definition days_to_year :: "nat \<Rightarrow> int" where
  "days_to_year y =
     (let p = int y - 1 in 365 * p + p div 4 - p div 100 + p div 400 - 719162)"

fun days_to_month :: "nat \<Rightarrow> nat \<Rightarrow> nat" where
  "days_to_month y 0 = 0"
| "days_to_month y (Suc m) = days_to_month y m + month_days y (Suc m)"

definition days_of_date :: "nat \<Rightarrow> nat \<Rightarrow> nat \<Rightarrow> int" where
  "days_of_date y m d = days_to_year y + int (days_to_month y (m - 1)) + int d - 1"

definition date_at :: "pystr \<Rightarrow> int option" where
  "date_at s =
     (case (number_at s 0 4, number_at s 5 2, number_at s 8 2) of
        (Some y, Some m, Some d) \<Rightarrow>
          (if 10 \<le> length s \<and> s ! 4 = 45 \<and> s ! 7 = 45 \<and> 1 \<le> y \<and> 1 \<le> m \<and> m \<le> 12 \<and> 1 \<le> d
              \<and> d \<le> month_days y m
           then Some (days_of_date y m d) else None)
      | _ \<Rightarrow> None)"

definition usec :: int where
  "usec = 1000000"

text \<open>The fraction: up to six digits count, more are dropped.\<close>

fun fraction :: "pystr \<Rightarrow> nat \<Rightarrow> nat" where
  "fraction s 0 = 0"
| "fraction [] (Suc n) = 0"
| "fraction (c # s) (Suc n) = (c - 48) * 10 ^ n + fraction s n"

text \<open>\<open>HH:MM[:SS[.f+]]\<close> up to the end of the text.\<close>

definition clock_at :: "pystr \<Rightarrow> int option" where
  "clock_at s =
     (case (number_at s 0 2, number_at s 3 2) of
        (Some h, Some m) \<Rightarrow>
          (if \<not> (5 \<le> length s \<and> s ! 2 = 58 \<and> h \<le> 23 \<and> m \<le> 59) then None
           else if length s = 5 then Some (int (h * 3600 + m * 60) * usec)
           else case number_at s 6 2 of
             None \<Rightarrow> None
           | Some sec \<Rightarrow>
               (if \<not> (s ! 5 = 58 \<and> sec \<le> 59) then None
                else let r = drop 8 s; t = int (h * 3600 + m * 60 + sec) * usec
                     in if r = [] then Some t
                        else if hd r = 46 \<and> tl r \<noteq> [] \<and> list_all (\<lambda>c. 48 \<le> c \<and> c \<le> 57) (tl r)
                        then Some (t + int (fraction (tl r) 6))
                        else None))
      | _ \<Rightarrow> None)"

definition is_sign :: "nat \<Rightarrow> bool" where
  "is_sign c \<longleftrightarrow> c = 43 \<or> c = 45"

definition fromisoformat :: "pystr \<Rightarrow> exn + pydatetime" where
  "fromisoformat s =
     (case date_at s of
        None \<Rightarrow> raise ValueError ''Invalid isoformat string''
      | Some days \<Rightarrow>
          (let rest = drop 11 s;
               clock = takeWhile (\<lambda>c. \<not> is_sign c) rest;
               zone = dropWhile (\<lambda>c. \<not> is_sign c) rest
           in if length s = 10 then Inr \<lparr>dt_wall = days * 86400 * usec, dt_offset = None\<rparr>
              else case clock_at clock of
                None \<Rightarrow> raise ValueError ''Invalid isoformat string''
              | Some t \<Rightarrow>
                  (if zone = [] then Inr \<lparr>dt_wall = days * 86400 * usec + t, dt_offset = None\<rparr>
                   else case clock_at (tl zone) of
                     None \<Rightarrow> raise ValueError ''Invalid isoformat string''
                   | Some z \<Rightarrow>
                       Inr \<lparr>dt_wall = days * 86400 * usec + t,
                            dt_offset = Some (if hd zone = 45 then - z else z)\<rparr>)))"

section \<open>Conversion\<close>

text \<open>\<open>str(value).replace("Z", "+00:00")\<close>: every \<open>Z\<close>.\<close>

definition replace_Z :: "pystr \<Rightarrow> pystr" where
  "replace_Z s = concat (map (\<lambda>c. if c = 90 then py ''+00:00'' else [c]) s)"

text \<open>\<open>parsed.astimezone(zone).replace(tzinfo=None)\<close>.\<close>

definition to_site :: "(int \<Rightarrow> int) \<Rightarrow> pydatetime \<Rightarrow> int" where
  "to_site zone d =
     (case dt_offset d of
        None \<Rightarrow> dt_wall d
      | Some off \<Rightarrow> (let utc = dt_wall d - off in utc + zone utc))"

definition provider_datetime :: "dt_value \<Rightarrow> (int \<Rightarrow> int) \<Rightarrow> exn + int option" where
  "provider_datetime value zone =
     (case value of
        NoValue \<Rightarrow> Inr None
      | Datetime d \<Rightarrow> Inr (Some (to_site zone d))
      | Text s \<Rightarrow>
          (if s = [] then Inr None
           else bindR (fromisoformat (replace_Z s)) (\<lambda>d. Inr (Some (to_site zone d)))))"

text \<open>The instant an aware datetime denotes; the site's clock shows it in the site's zone.\<close>

definition instant :: "pydatetime \<Rightarrow> int option" where
  "instant d = map_option (\<lambda>off. dt_wall d - off) (dt_offset d)"

lemma to_site_aware: "instant d = Some i \<Longrightarrow> to_site zone d = i + zone i"
  by (auto simp: instant_def to_site_def Let_def)

lemma to_site_naive: "instant d = None \<Longrightarrow> to_site zone d = dt_wall d"
  by (auto simp: instant_def to_site_def)

end
