(* ===== verification/Outbound.thy ===== *)
theory Outbound
  imports Delivery Settings_Doc Transports Base64 Datetimes
begin

text \<open>
  \<open>outbound.py\<close>: the background worker that sends a delivery, the scheduler pass that retries
  failed ones, and the pass that takes over delivery events from the gateway.
\<close>

section \<open>The private snapshot\<close>

definition pdf_header :: bytes where
  "pdf_header = py ''%PDF-''"

definition pdf_payload :: "frappe \<Rightarrow> pystr \<Rightarrow> history \<Rightarrow> site \<Rightarrow> exn + pdf list" where
  "pdf_payload fr name document s =
     (if \<not> nonempty (h_pdf_file document)
      then throw ''The delivery record has no private PDF snapshot.''
      else case row_get (s_files s) (the (h_pdf_file document)) of
        None \<Rightarrow> raise DoesNotExistError ''not found''
      | Some f \<Rightarrow>
          (if f_attached_to_doctype f \<noteq> HISTORY_DOCTYPE \<or> f_attached_to_name f \<noteq> name
           then throw ''The PDF snapshot is not attached to this delivery record.''
           else if \<not> f_is_private f then throw ''WhatsApp PDF snapshots must remain private.''
           else if Some (fr_sha256 fr (f_content f)) \<noteq> h_pdf_sha256 document
           then throw ''The PDF snapshot checksum does not match the delivery record.''
           else if \<not> startswith (f_content f) pdf_header
           then throw ''The private attachment is not a PDF document.''
           else Inr [(f_file_name f, b64encode (f_content f))]))"

section \<open>One attempt\<close>

definition RETRY_DELAYS_SECONDS :: "int list" where
  "RETRY_DELAYS_SECONDS = [30, 120, 600]"

definition attempt_limit :: "history \<Rightarrow> int" where
  "attempt_limit h = max 1 (h_max_retries h + 1)"

text \<open>\<open>RETRY_DELAYS_SECONDS[min(retry_count - 1, 2)]\<close>; the count is at least 1 when it is used.\<close>

definition retry_delay :: "int \<Rightarrow> int" where
  "retry_delay count = RETRY_DELAYS_SECONDS ! nat (min (count - 1) 2)"

definition dt_of :: "pyval \<Rightarrow> dt_value" where
  "dt_of v = (case v of PNone \<Rightarrow> NoValue | PStr t \<Rightarrow> Text t | _ \<Rightarrow> Text (py_str v))"

text \<open>The guards before anything is sent, in the order of the \<open>try\<close> block.\<close>

definition check_enabled :: "settings \<Rightarrow> exn + unit" where
  "check_enabled st =
     (if st_enabled st then Inr () else throw ''The site's WhatsApp transport is disabled.'')"

definition check_copy :: "frappe \<Rightarrow> history \<Rightarrow> settings \<Rightarrow> (site, unit) act" where
  "check_copy fr document st =
     (if \<not> is_group document then ret ()
      else bindA (validate_copy fr document st) (\<lambda>complete.
        if complete then ret ()
        else fails (Exn ValidationError (py ''Primary delivery is not complete.'') False)))"

text \<open>What the document becomes when the transport has answered.\<close>

definition submitted :: "frappe \<Rightarrow> history \<Rightarrow> pyval \<Rightarrow> exn + history" where
  "submitted fr document result =
     bindR (response_get result ''submitted_at'') (\<lambda>at.
     bindR (provider_datetime (dt_of at) (fr_zone fr)) (\<lambda>submitted_at.
     bindR (response_get result ''message_ids'') (\<lambda>ids.
       Inr (document\<lparr>h_status := Submitted_to_WhatsApp,
              h_submitted_at := submitted_at,
              h_provider_message_ids := Some (json_dumps default_style (or_else ids (PList []))),
              h_result_message := py ''Submitted to WhatsApp'',
              h_error_message := [],
              h_next_retry_at := None\<rparr>))))"

definition try_send :: "frappe \<Rightarrow> pystr \<Rightarrow> history \<Rightarrow> (site, history) act" where
  "try_send fr name document =
     bindA (reads (\<lambda>s. Inr (s_settings s))) (\<lambda>st.
     bindA (reads (\<lambda>_. check_enabled st)) (\<lambda>_.
     bindA (check_copy fr document st) (\<lambda>_.
     bindA (reads (pdf_payload fr name document)) (\<lambda>pdfs.
     bindA (send_delivery fr document st pdfs) (\<lambda>result.
       reads (\<lambda>_. submitted fr document result))))))"

text \<open>The handler of the \<open>try\<close>: a failed attempt waits for its turn again, unless the outcome is
  unknown or the limit is reached.\<close>

definition attempt_failed :: "frappe \<Rightarrow> history \<Rightarrow> exn \<Rightarrow> (site, history) act" where
  "attempt_failed fr document e =
     (let failed = document\<lparr>h_status := Failed, h_error_message := take 500 (exn_msg e),
                            h_reconciliation_required := exn_reconcile e\<rparr>
      in if \<not> exn_reconcile e \<and> h_retry_count document < attempt_limit document
         then bindA (now_datetime fr) (\<lambda>now.
                ret (failed\<lparr>h_next_retry_at :=
                              Some (now + retry_delay (h_retry_count document) * usec)\<rparr>))
         else ret (failed\<lparr>h_next_retry_at := None,
                h_result_message :=
                  (if exn_reconcile e
                   then py ''Delivery outcome requires reconciliation; automatic retry stopped.''
                   else py ''Automatic retry limit reached'')\<rparr>))"

definition release_if_original :: "frappe \<Rightarrow> pystr \<Rightarrow> history \<Rightarrow> (site, unit) act" where
  "release_if_original fr name document =
     (if terminal (h_status document) \<and> \<not> is_group document then release_waiting_copies fr name
      else ret ())"

definition started :: "history \<Rightarrow> int \<Rightarrow> history" where
  "started document now =
     document\<lparr>h_attempted_at := Some now, h_retry_count := h_retry_count document + 1,
       h_status := Processing, h_next_retry_at := None\<rparr>"

definition run_attempt :: "frappe \<Rightarrow> pystr \<Rightarrow> history \<Rightarrow> int \<Rightarrow> (site, unit) act" where
  "run_attempt fr name document now =
     (let document = started document now
      in bindA (save_history name document) (\<lambda>_.
         bindA (catchA (try_send fr name document) (attempt_failed fr document)) (\<lambda>document.
         bindA (save_history name document) (\<lambda>_.
           release_if_original fr name document))))"

section \<open>The worker\<close>

definition exhausted :: "history \<Rightarrow> history" where
  "exhausted document =
     document\<lparr>h_status := Failed, h_next_retry_at := None,
       h_result_message := py ''Automatic retry limit reached''\<rparr>"

text \<open>A copy whose original is not out yet is left alone.\<close>

definition original_pending :: "history \<Rightarrow> site \<Rightarrow> bool" where
  "original_pending document s \<longleftrightarrow>
     is_copy document
     \<and> (case row_get (s_history s) (the (h_copy_of document)) of
          None \<Rightarrow> True
        | Some parent \<Rightarrow> \<not> terminal (h_status parent))"

text \<open>A stale worker must not bypass a scheduled delay.\<close>

definition backing_off :: "history \<Rightarrow> int \<Rightarrow> bool" where
  "backing_off document now \<longleftrightarrow>
     h_status document = Failed
     \<and> (case h_next_retry_at document of None \<Rightarrow> False | Some t \<Rightarrow> now < t)"

definition process_outbound_message :: "frappe \<Rightarrow> pystr \<Rightarrow> (site, unit) act" where
  "process_outbound_message fr message_name =
     bindA (reads (get_history message_name)) (\<lambda>document.
       if terminal (h_status document) \<or> h_status document = Processing
       then release_if_original fr message_name document
       else if h_reconciliation_required document then ret ()
       else
         bindA (reads (\<lambda>s. Inr (original_pending document s))) (\<lambda>pending.
         if pending then ret ()
         else
           bindA (now_datetime fr) (\<lambda>now.
           if attempt_limit document \<le> h_retry_count document
           then save_history message_name (exhausted document)
           else if backing_off document now then ret ()
           else run_attempt fr message_name document now)))"

section \<open>Scheduled retries\<close>

definition recover_parent :: "frappe \<Rightarrow> pystr option \<Rightarrow> (site, unit) act" where
  "recover_parent fr parent =
     bindA (reads (\<lambda>s. Inr (case parent of
              None \<Rightarrow> False
            | Some p \<Rightarrow> (case row_get (s_history s) p of
                         None \<Rightarrow> False | Some h \<Rightarrow> terminal (h_status h))))) (\<lambda>out.
       if out then release_waiting_copies fr (the parent) else ret ())"

definition waiting_parents :: "frappe \<Rightarrow> site \<Rightarrow> pystr option list" where
  "waiting_parents fr s =
     dict_fromkeys (map (\<lambda>n. case row_get (s_history s) n of None \<Rightarrow> None | Some h \<Rightarrow> h_copy_of h)
       (take 50 (history_names fr (\<lambda>h. is_group h \<and> releasable (h_status h)) s)))"

record due_row =
  due_name :: pystr
  due_retry_count :: int
  due_max_retries :: int

definition is_due :: "int \<Rightarrow> history \<Rightarrow> bool" where
  "is_due now h \<longleftrightarrow>
     h_status h = Failed \<and> (case h_next_retry_at h of None \<Rightarrow> False | Some t \<Rightarrow> t \<le> now)
     \<and> \<not> h_reconciliation_required h"

definition due_rows :: "frappe \<Rightarrow> int \<Rightarrow> site \<Rightarrow> due_row list" where
  "due_rows fr now s =
     List.map_filter (\<lambda>n. map_option (\<lambda>h. \<lparr>due_name = n, due_retry_count = h_retry_count h,
                                due_max_retries = h_max_retries h\<rparr>) (row_get (s_history s) n))
       (take 50 (history_names fr (is_due now) s))"

definition retry_job :: "due_row \<Rightarrow> job" where
  "retry_job row =
     \<lparr>j_message_name = due_name row,
      j_job_id = py ''whatsapp-retry:'' @ due_name row @ py '':'' @ str_of_int (due_retry_count row + 1),
      j_after_commit = False, j_deduplicate = False\<rparr>"

definition retry_row :: "frappe \<Rightarrow> due_row \<Rightarrow> (site, unit) act" where
  "retry_row fr row =
     (if max 1 (due_max_retries row + 1) \<le> due_retry_count row
      then set_history (due_name row) (\<lambda>h. h\<lparr>h_next_retry_at := None,
             h_result_message := py ''Automatic retry limit reached''\<rparr>)
      else
        bindA (set_history (due_name row) (\<lambda>h. h\<lparr>h_status := Queued, h_next_retry_at := None\<rparr>)) (\<lambda>_.
          catchA (enqueue fr (retry_job row)) (\<lambda>e.
            bindA (now_datetime fr) (\<lambda>now.
            bindA (set_history (due_name row) (\<lambda>h. h\<lparr>h_status := Failed, h_next_retry_at := Some now\<rparr>))
              (\<lambda>_. fails e)))))"

definition retry_due_messages :: "frappe \<Rightarrow> (site, unit) act" where
  "retry_due_messages fr =
     bindA (reads (\<lambda>s. Inr (waiting_parents fr s))) (\<lambda>parents.
     bindA (foldA (recover_parent fr) parents) (\<lambda>_.
     bindA (now_datetime fr) (\<lambda>now.
     bindA (reads (\<lambda>s. Inr (due_rows fr now s))) (\<lambda>rows.
       foldA (retry_row fr) rows))))"

section \<open>Delivery events\<close>

definition status_of :: "pyval \<Rightarrow> delivery_status" where
  "status_of v =
     (if v = PStr (py ''Queued'') then Queued
      else if v = PStr (py ''Processing'') then Processing
      else if v = PStr (py ''Submitted to WhatsApp'') then Submitted_to_WhatsApp
      else if v = PStr (py ''Acknowledged by WhatsApp'') then Acknowledged_by_WhatsApp
      else if v = PStr (py ''Failed'') then Failed
      else if v = PStr (py ''Waiting for Primary'') then Waiting_for_Primary
      else Other_Status v)"

text \<open>The name of the row with this idempotency key, which is a text in every row.\<close>

definition row_with_key :: "pyval \<Rightarrow> site \<Rightarrow> pystr option" where
  "row_with_key key s =
     map_option fst (find (\<lambda>(_, h). PStr (h_idempotency_key h) = key) (s_history s))"

text \<open>A text column; nothing is stored for a missing value.\<close>

definition column_text :: "pyval \<Rightarrow> pystr" where
  "column_text v = (case v of PNone \<Rightarrow> [] | _ \<Rightarrow> py_str v)"

definition event_update :: "frappe \<Rightarrow> (pystr \<times> pyval) list \<Rightarrow> exn + (history \<Rightarrow> history)" where
  "event_update fr event =
     (let status = dget event (py ''status'');
          message = column_text (or_else (dget event (py ''message'')) status)
      in if status = PStr (py ''Acknowledged by WhatsApp'')
         then bindR (provider_datetime (dt_of (dget event (py ''created_at''))) (fr_zone fr)) (\<lambda>at.
                Inr (\<lambda>h. h\<lparr>h_status := status_of status, h_result_message := message,
                           h_acknowledged_at := at\<rparr>))
         else Inr (\<lambda>h. h\<lparr>h_status := status_of status, h_result_message := message\<rparr>))"

text \<open>One event: the row it is about, if there is one, and the highest event number so far.\<close>

definition apply_event :: "frappe \<Rightarrow> pyval \<Rightarrow> int \<Rightarrow> (site, int) act" where
  "apply_event fr event seen =
     (case event of
        PDict d \<Rightarrow>
          bindA (reads (\<lambda>s. Inr (row_with_key (dget d (py ''idempotency_key'')) s))) (\<lambda>found.
          bindA (case found of
                   None \<Rightarrow> ret ()
                 | Some name \<Rightarrow>
                     (if name = [] then ret ()
                      else bindA (reads (\<lambda>_. event_update fr d)) (\<lambda>f. set_history name f))) (\<lambda>_.
            ret (max seen (cint fr (dget d (py ''id''))))))
      | _ \<Rightarrow> fails (Exn AttributeError (py ''object has no attribute get'') False))"

fun apply_events :: "frappe \<Rightarrow> pyval list \<Rightarrow> int \<Rightarrow> (site, int) act" where
  "apply_events fr [] seen = ret seen"
| "apply_events fr (e # es) seen = bindA (apply_event fr e seen) (apply_events fr es)"

definition response_events :: "pyval \<Rightarrow> exn + pyval list" where
  "response_events result =
     bindR (response_get result ''events'') (\<lambda>events.
       if \<not> truthy events then Inr []
       else case events of
         PList es \<Rightarrow> Inr es
       | PStr t \<Rightarrow> Inr (map (\<lambda>c. PStr [c]) t)
       | PDict d \<Rightarrow> Inr (map (\<lambda>(k, _). PStr k) d)
       | _ \<Rightarrow> raise TypeError ''object is not iterable'')"

definition events_request :: "frappe \<Rightarrow> settings \<Rightarrow> (site, pyval option) act" where
  "events_request fr st =
     catchA
       (bindA (gateway_request fr (py ''/v1/events'')
                 (site_payload fr [(py ''after_id'', PInt (st_last_event_id st))]) default_timeout) (\<lambda>r.
          ret (Some r)))
       (\<lambda>e. if exn_class e = WhatsAppGatewayError then ret None else fails e)"

definition sync_delivery_statuses :: "frappe \<Rightarrow> (site, unit) act" where
  "sync_delivery_statuses fr =
     bindA (reads (\<lambda>s. Inr (s_settings s))) (\<lambda>st.
     bindA (events_request fr st) (\<lambda>answer.
       case answer of
         None \<Rightarrow> ret ()
       | Some result \<Rightarrow>
           bindA (reads (\<lambda>_. response_events result)) (\<lambda>events.
           bindA (apply_events fr events (st_last_event_id st)) (\<lambda>seen.
             if events = [] then ret ()
             else save_settings fr (st\<lparr>st_last_event_id := seen\<rparr>)))))"

definition scheduled_maintenance :: "frappe \<Rightarrow> (site, unit) act" where
  "scheduled_maintenance fr =
     bindA (retry_due_messages fr) (\<lambda>_. sync_delivery_statuses fr)"

end
