(* ===== verification/Attempts.thy ===== *)
theory Attempts
  imports Outbound
begin

text \<open>
  What the operations of \<open>outbound.py\<close> do to the delivery records and to the wire: which part of
  a record each of them leaves alone, when a message leaves the site, and what an attempt ends in.
\<close>

section \<open>Views of the delivery records\<close>

text \<open>A part \<open>g\<close> of every record.\<close>

definition rows_view :: "(history \<Rightarrow> 'g) \<Rightarrow> site \<Rightarrow> pystr \<Rightarrow> 'g option" where
  "rows_view g s n = map_option g (row_get (s_history s) n)"

lemma rows_view_updates [simp]:
  "rows_view g (s\<lparr>s_user := u\<rparr>) = rows_view g s" "rows_view g (s\<lparr>s_settings := st\<rparr>) = rows_view g s"
  "rows_view g (s\<lparr>s_files := f\<rparr>) = rows_view g s" "rows_view g (s\<lparr>s_jobs := j\<rparr>) = rows_view g s"
  "rows_view g (s\<lparr>s_wire := w\<rparr>) = rows_view g s" "rows_view g (s\<lparr>s_ticks := n\<rparr>) = rows_view g s"
  "rows_view g (s\<lparr>s_templates := t\<rparr>) = rows_view g s" "rows_view g (s\<lparr>s_roles := r\<rparr>) = rows_view g s"
  by (simp_all add: rows_view_def fun_eq_iff)

lemma rows_view_put:
  "row_get (s_history s) n = Some h \<Longrightarrow> g h' = g h \<Longrightarrow> rows_view g (put_history n h' s) = rows_view g s"
  by (simp add: rows_view_def fun_eq_iff)

lemma rows_view_Some: "rows_view g s = rows_view g t \<Longrightarrow> row_get (s_history s) n = Some h \<Longrightarrow>
    \<exists>h'. row_get (s_history t) n = Some h' \<and> g h' = g h"
  unfolding rows_view_def fun_eq_iff by (metis map_option_eq_Some)

text \<open>Everything but the records and the jobs.\<close>

definition surroundings :: "site \<Rightarrow> pystr \<times> settings \<times> attached_file rows \<times> template rows \<times> pystr list \<times> wire list" where
  "surroundings s = (s_user s, s_settings s, s_files s, s_templates s, s_roles s, s_wire s)"

lemma surroundings_simps [simp]:
  "surroundings (s\<lparr>s_ticks := n\<rparr>) = surroundings s" "surroundings (s\<lparr>s_jobs := j\<rparr>) = surroundings s"
  "surroundings (put_history m h s) = surroundings s"
  by (simp_all add: surroundings_def put_history_def)

text \<open>\<open>frappe.db.set_value\<close> keeps the parts it does not write.\<close>

lemma keeps_set_history:
  assumes "\<And>h. g (f h) = g h"
  shows "keeps (same (rows_view g)) (set_history n f)"
  using assms
  by (auto simp: keeps_def same_def set_history_def modifies_def rows_view_put split: option.splits)

lemma keeps_set_history_surroundings [simp]: "keeps (same surroundings) (set_history n f)"
  by (auto simp: keeps_def same_def set_history_def modifies_def split: option.splits)

lemma keeps_release:
  assumes "\<And>h. g (h\<lparr>h_status := Queued\<rparr>) = g h"
  shows "keeps (same (rows_view g)) (release_waiting_copies fr p)"
    and "keeps (same surroundings) (release_waiting_copies fr p)"
  unfolding release_waiting_copies_def release_copy_def
  by (auto intro!: keeps_bindA keeps_foldA keeps_set_history assms)

lemma keeps_release_if_original:
  assumes "\<And>h. g (h\<lparr>h_status := Queued\<rparr>) = g h"
  shows "keeps (same (rows_view g)) (release_if_original fr n h)"
    and "keeps (same surroundings) (release_if_original fr n h)"
  using keeps_release [of g, OF assms] by (auto simp: release_if_original_def)

section \<open>Retries\<close>

text \<open>The scheduler pass sends nothing; it writes the status, the due time and the result text of
  a record, and no other field.\<close>

lemma keeps_recover_parent:
  assumes "\<And>h. g (h\<lparr>h_status := Queued\<rparr>) = g h"
  shows "keeps (same (rows_view g)) (recover_parent fr p)"
    and "keeps (same surroundings) (recover_parent fr p)"
  unfolding recover_parent_def using keeps_release [of g, OF assms] by (auto intro!: keeps_bindA)

lemma keeps_retry_row:
  assumes "\<And>h st at. g (h\<lparr>h_status := st, h_next_retry_at := at\<rparr>) = g h"
    and "\<And>h at m. g (h\<lparr>h_next_retry_at := at, h_result_message := m\<rparr>) = g h"
  shows "keeps (same (rows_view g)) (retry_row fr row)"
    and "keeps (same surroundings) (retry_row fr row)"
  unfolding retry_row_def now_datetime_def using assms
  by (auto intro!: keeps_bindA keeps_catchA keeps_set_history)

lemma status_only:
  assumes "\<And>h st at. g (h\<lparr>h_status := st, h_next_retry_at := at\<rparr>) = g h"
  shows "g (h\<lparr>h_status := st\<rparr>) = g h"
proof -
  have "h\<lparr>h_status := st\<rparr> = h\<lparr>h_status := st, h_next_retry_at := h_next_retry_at h\<rparr>"
    by (cases h) simp
  then show ?thesis using assms by metis
qed

lemma keeps_retry_due:
  assumes "\<And>h st at. g (h\<lparr>h_status := st, h_next_retry_at := at\<rparr>) = g h"
    and "\<And>h at m. g (h\<lparr>h_next_retry_at := at, h_result_message := m\<rparr>) = g h"
  shows "keeps (same (rows_view g)) (retry_due_messages fr)"
    and "keeps (same surroundings) (retry_due_messages fr)"
  unfolding retry_due_messages_def now_datetime_def
  using keeps_retry_row [of g, OF assms] keeps_recover_parent [of g, OF status_only [of g, OF assms(1)]]
  by (auto intro!: keeps_bindA keeps_foldA)

section \<open>Events\<close>

lemma keeps_apply_event:
  assumes "\<And>h st m at. g (h\<lparr>h_status := st, h_result_message := m\<rparr>) = g h"
    and "\<And>h st m at. g (h\<lparr>h_status := st, h_result_message := m, h_acknowledged_at := at\<rparr>) = g h"
  shows "keeps (same (rows_view g)) (apply_event fr e n)"
    and "keeps (same surroundings) (apply_event fr e n)"
proof -
  have upd: "event_update fr d = Inr f \<Longrightarrow> g (f h) = g h" for d f h
    using assms by (auto simp: event_update_def Let_def bindR_Inr_iff split: if_splits)
  have set: "keeps (same (rows_view g)) (bindA (reads (\<lambda>_. event_update fr d)) (set_history name))" for d name
  proof (cases "event_update fr d")
    case (Inl e)
    then show ?thesis by (simp add: keeps_def same_def bindA_def reads_def)
  next
    case (Inr f)
    then have "bindA (reads (\<lambda>_. event_update fr d)) (set_history name) = set_history name f"
      by (simp add: bindA_def reads_def fun_eq_iff)
    then show ?thesis using keeps_set_history [of g f] upd [OF Inr] by simp
  qed
  show "keeps (same (rows_view g)) (apply_event fr e n)"
    unfolding apply_event_def using set
    by (auto intro!: keeps_bindA split: pyval.splits option.splits)
  show "keeps (same surroundings) (apply_event fr e n)"
    unfolding apply_event_def
    by (auto intro!: keeps_bindA split: pyval.splits option.splits)
qed

lemma keeps_apply_events:
  assumes "\<And>h st m at. g (h\<lparr>h_status := st, h_result_message := m\<rparr>) = g h"
    and "\<And>h st m at. g (h\<lparr>h_status := st, h_result_message := m, h_acknowledged_at := at\<rparr>) = g h"
  shows "keeps (same (rows_view g)) (apply_events fr es n)"
    and "keeps (same surroundings) (apply_events fr es n)"
  using keeps_apply_event [of g, OF assms] by (induction es arbitrary: n) (auto intro!: keeps_bindA)

text \<open>No event moves the last event number backwards.\<close>

lemma apply_event_grows: "apply_event fr e n s = (Inr m, t) \<Longrightarrow> n \<le> m"
  by (auto simp: apply_event_def bindA_Inr_iff ret_iff fails_iff split: pyval.splits)

lemma apply_events_grow: "apply_events fr es n s = (Inr m, t) \<Longrightarrow> n \<le> m"
  by (induction es arbitrary: n s) (fastforce simp: bindA_Inr_iff ret_iff dest: apply_event_grows)+

end
