(* ===== verification/Worker.thy ===== *)
theory Worker
  imports Attempts
begin

text \<open>
  The background worker, case by case: the conditions under which it sends, and the record an
  attempt leaves behind. Whatever happens during an attempt, it ends in a saved record, so an
  exception of the worker means that nothing was sent.
\<close>

section \<open>Sending\<close>

text \<open>What \<open>try_send\<close> changes: the wire grows by at most one request, a submission of this
  delivery, and only when every check passed.\<close>

definition may_send :: "frappe \<Rightarrow> pystr \<Rightarrow> history \<Rightarrow> site \<Rightarrow> bool" where
  "may_send fr name h s \<longleftrightarrow>
     st_enabled (s_settings s)
     \<and> (is_group h \<longrightarrow> outcome (validate_copy fr h (s_settings s)) s = Inr True)
     \<and> (\<exists>pdfs. pdf_payload fr name h s = Inr pdfs)"

definition sent_one :: "pystr \<Rightarrow> site \<Rightarrow> site \<Rightarrow> bool" where
  "sent_one key s t \<longleftrightarrow>
     (\<exists>n w. t = s\<lparr>s_wire := s_wire s @ [w], s_ticks := n\<rparr> \<and> submits w = Some key)"

definition only_ticked :: "site \<Rightarrow> site \<Rightarrow> bool" where
  "only_ticked s t \<longleftrightarrow> (\<exists>n. t = s\<lparr>s_ticks := n\<rparr>)"

lemma only_ticked_refl [simp]: "only_ticked s s"
proof -
  have "s = s\<lparr>s_ticks := s_ticks s\<rparr>" by simp
  then show ?thesis unfolding only_ticked_def by blast
qed

lemma check_copy_eq:
  "check_copy fr h st s =
     (if \<not> is_group h then Inr ()
      else bindR (outcome (validate_copy fr h st) s) (\<lambda>c.
        if c then Inr () else throw ''Primary delivery is not complete.''), s)"
  using validate_copy_state [of fr h st s]
  by (cases "validate_copy fr h st s") (auto simp: check_copy_def bindA_def ret_def fails_def split: sum.splits)

lemma try_send_eq:
  "try_send fr name h s =
     (case bindR (check_enabled (s_settings s)) (\<lambda>_.
             bindR (outcome (check_copy fr h (s_settings s)) s) (\<lambda>_. pdf_payload fr name h s)) of
        Inl e \<Rightarrow> (Inl e, s)
      | Inr pdfs \<Rightarrow>
          bindA (send_delivery fr h (s_settings s) pdfs) (\<lambda>result. reads (\<lambda>_. submitted fr h result)) s)"
proof (cases "check_enabled (s_settings s)")
  case (Inl e)
  then show ?thesis by (simp add: try_send_def bindA_def reads_def)
next
  case (Inr u)
  then show ?thesis
    by (simp add: try_send_def bindA_def reads_def check_copy_eq
        split: sum.splits)
qed

lemma try_send_effect:
  assumes "try_send fr name h s = (r, t)"
  shows "only_ticked s t \<or> (sent_one (h_idempotency_key h) s t \<and> may_send fr name h s)"
proof (cases "bindR (check_enabled (s_settings s)) (\<lambda>_.
             bindR (outcome (check_copy fr h (s_settings s)) s) (\<lambda>_. pdf_payload fr name h s))")
  case (Inl e)
  then have "t = s" using assms by (simp add: try_send_eq)
  then show ?thesis by simp
next
  case (Inr pdfs)
  then have ok: "may_send fr name h s"
    by (auto simp: may_send_def bindR_Inr_iff check_enabled_def check_copy_eq split: if_splits)
  from assms Inr have "bindA (send_delivery fr h (s_settings s) pdfs)
      (\<lambda>result. reads (\<lambda>_. submitted fr h result)) s = (r, t)" by (simp add: try_send_eq)
  then obtain q where send: "send_delivery fr h (s_settings s) pdfs s = (q, t)"
    by (auto simp: bindA_def reads_def split: prod.splits sum.splits)
  have order: "s\<lparr>s_ticks := n, s_wire := w\<rparr> = s\<lparr>s_wire := w, s_ticks := n\<rparr>" for n w by simp
  show ?thesis
    using send_delivery_effect [OF send] ok unfolding only_ticked_def sent_one_def order by blast
qed

section \<open>The record after an attempt\<close>

text \<open>What an attempt may write.\<close>

definition after_success :: "history \<Rightarrow> history \<Rightarrow> bool" where
  "after_success d d' \<longleftrightarrow>
     (\<exists>at ids. d' = d\<lparr>h_status := Submitted_to_WhatsApp, h_submitted_at := at,
        h_provider_message_ids := Some ids, h_result_message := py ''Submitted to WhatsApp'',
        h_error_message := [], h_next_retry_at := None\<rparr> \<and> ids \<noteq> [])"

definition after_failure :: "history \<Rightarrow> history \<Rightarrow> bool" where
  "after_failure d d' \<longleftrightarrow>
     (\<exists>e at m rec. d' = d\<lparr>h_status := Failed, h_error_message := e, h_reconciliation_required := rec,
        h_next_retry_at := at, h_result_message := m\<rparr>
        \<and> length e \<le> 500 \<and> (at = None \<longleftrightarrow> rec \<or> attempt_limit d \<le> h_retry_count d))"

lemma submitted_Inr: "submitted fr d result = Inr d' \<Longrightarrow> after_success d d'"
proof -
  have ne: "json_dumps st v \<noteq> []" for st v
    using json_dumps_length [of st v] by auto
  show "submitted fr d result = Inr d' \<Longrightarrow> after_success d d'"
    unfolding submitted_def after_success_def bindR_Inr_iff using ne by blast
qed

lemma attempt_failed_iff:
  "\<exists>d' t. attempt_failed fr d e s = (Inr d', t) \<and> after_failure d d' \<and> only_ticked s t
     \<and> h_reconciliation_required d' = exn_reconcile e"
proof (cases "\<not> exn_reconcile e \<and> h_retry_count d < attempt_limit d")
  case True
  let ?at = "Some (fr_clock fr (s_ticks s) + retry_delay (h_retry_count d) * usec)"
  let ?d = "d\<lparr>h_status := Failed, h_error_message := take 500 (exn_msg e),
              h_reconciliation_required := False, h_next_retry_at := ?at\<rparr>"
  have "?d = d\<lparr>h_status := Failed, h_error_message := take 500 (exn_msg e),
              h_reconciliation_required := False, h_next_retry_at := ?at, h_result_message := h_result_message d\<rparr>"
    by (cases d) simp
  then have "after_failure d ?d"
    unfolding after_failure_def using True by fastforce
  then show ?thesis
    using True by (auto simp: attempt_failed_def bindA_def now_datetime_def tick_def ret_def only_ticked_def)
next
  case False
  let ?m = "if exn_reconcile e
            then py ''Delivery outcome requires reconciliation; automatic retry stopped.''
            else py ''Automatic retry limit reached''"
  let ?d = "d\<lparr>h_status := Failed, h_error_message := take 500 (exn_msg e),
              h_reconciliation_required := exn_reconcile e, h_next_retry_at := None, h_result_message := ?m\<rparr>"
  have "length (take 500 (exn_msg e)) \<le> 500"
    "(None :: int option) = None \<longleftrightarrow> exn_reconcile e \<or> attempt_limit d \<le> h_retry_count d"
    using False by auto
  then have "after_failure d ?d" unfolding after_failure_def by blast
  moreover have "attempt_failed fr d e s = (Inr ?d, s)"
    using False by (auto simp: attempt_failed_def ret_def Let_def)
  ultimately show ?thesis by (intro exI [of _ ?d] exI [of _ s]) simp
qed

text \<open>The outcome of the \<open>try\<close> statement: always a record to save.\<close>

definition attempted :: "frappe \<Rightarrow> pystr \<Rightarrow> history \<Rightarrow> (site, history) act" where
  "attempted fr name d = catchA (try_send fr name d) (attempt_failed fr d)"

lemma only_ticked_trans: "only_ticked s t \<Longrightarrow> only_ticked t u \<Longrightarrow> only_ticked s u"
  by (auto simp: only_ticked_def)

lemma sent_one_ticked: "sent_one k s t \<Longrightarrow> only_ticked t u \<Longrightarrow> sent_one k s u"
proof -
  assume "sent_one k s t" "only_ticked t u"
  then obtain n m w where "u = s\<lparr>s_wire := s_wire s @ [w], s_ticks := m\<rparr>" "submits w = Some k"
    by (auto simp: only_ticked_def sent_one_def)
  then show ?thesis unfolding sent_one_def by blast
qed

lemma success_status: "after_success d d' \<Longrightarrow> h_status d' = Submitted_to_WhatsApp"
  by (auto simp: after_success_def)

lemma failure_status: "after_failure d d' \<Longrightarrow> h_status d' = Failed"
  by (auto simp: after_failure_def)

lemma success_not_failure: "after_success d d' \<Longrightarrow> \<not> after_failure d d'"
  using success_status failure_status by force

lemma attempted_returns:
  "\<exists>d' t. attempted fr name d s = (Inr d', t) \<and> (after_success d d' \<or> after_failure d d')
     \<and> (only_ticked s t \<or> (sent_one (h_idempotency_key d) s t \<and> may_send fr name d s))
     \<and> (after_success d d' \<longrightarrow> h_reconciliation_required d' = h_reconciliation_required d)"
proof (cases "try_send fr name d s")
  case (Pair r t)
  note eff = try_send_effect [OF Pair]
  show ?thesis
  proof (cases r)
    case (Inr d')
    then have "after_success d d'"
      using Pair by (auto simp: try_send_eq bindA_Inr_iff reads_iff intro: submitted_Inr split: sum.splits)
    moreover from this have "h_reconciliation_required d' = h_reconciliation_required d"
      by (auto simp: after_success_def)
    ultimately show ?thesis using Pair Inr eff by (auto simp: attempted_def catchA_def)
  next
    case (Inl e)
    obtain d' u where f: "attempt_failed fr d e t = (Inr d', u)" "after_failure d d'" "only_ticked t u"
      using attempt_failed_iff by blast
    moreover have "\<not> after_success d d'" using f(2) success_not_failure by blast
    moreover have "only_ticked s u \<or> (sent_one (h_idempotency_key d) s u \<and> may_send fr name d s)"
      using eff f(3) only_ticked_trans sent_one_ticked by blast
    ultimately show ?thesis using Pair Inl by (auto simp: attempted_def catchA_def)
  qed
qed

section \<open>The worker, case by case\<close>

lemma started_fields [simp]:
  "h_idempotency_key (started d now) = h_idempotency_key d"
  "h_retry_count (started d now) = h_retry_count d + 1" "h_max_retries (started d now) = h_max_retries d"
  "h_reconciliation_required (started d now) = h_reconciliation_required d"
  "h_copy_of (started d now) = h_copy_of d" "is_group (started d now) = is_group d"
  "is_copy (started d now) = is_copy d" "identity_of (started d now) = identity_of d"
  "content_of (started d now) = content_of d" "h_status (started d now) = Processing"
  "attempt_limit (started d now) = attempt_limit d" "references_ok (started d now) = references_ok d"
  by (simp_all add: started_def is_group_def is_copy_def identity_of_def content_of_def attempt_limit_def
      references_ok_def split: reference_kind.split)

lemma attempt_fields:
  assumes "after_success d d' \<or> after_failure d d'"
  shows "h_idempotency_key d' = h_idempotency_key d" "h_retry_count d' = h_retry_count d"
    "h_max_retries d' = h_max_retries d" "identity_of d' = identity_of d" "is_group d' = is_group d"
    "references_ok d' = references_ok d" "h_attempted_at d' = h_attempted_at d"
    "terminal (h_status d') \<Longrightarrow> nonempty (h_provider_message_ids d')"
  using assms
  by (auto simp: after_success_def after_failure_def identity_of_def content_of_def is_group_def
      references_ok_def terminal_def nonempty_def split: reference_kind.splits)

text \<open>An attempt whose start could be saved runs to its end: the record it leaves can be saved too,
  and releasing copies does not raise.\<close>

lemma run_attempt_shape:
  assumes row: "row_get (s_history s) n = Some h" and run: "run_attempt fr n h now s = (r, t)"
  obtains (refused) e where "r = Inl e" "t = s" "validate_history (Some h) (started h now) = Inl e"
  | (attempted) d' u where "r = Inr ()"
      "after_success (started h now) d' \<or> after_failure (started h now) d'"
      "let s' = put_history n (started h now) s
       in only_ticked s' u
          \<or> (sent_one (h_idempotency_key h) s' u \<and> may_send fr n (started h now) s')"
      "t = after (release_if_original fr n d') (put_history n d' u)"
      "after_success (started h now) d' \<longrightarrow> h_reconciliation_required d' = h_reconciliation_required h"
proof (cases "validate_history (Some h) (started h now)")
  case (Inl e)
  then have "r = Inl e" "t = s"
    using run row by (auto simp: run_attempt_def Let_def save_history_def bindA_def reads_def)
  then show ?thesis using refused Inl by blast
next
  case (Inr x)
  let ?d = "started h now"
  let ?s1 = "put_history n ?d s"
  have save1: "save_history n ?d s = (Inr (), ?s1)"
    using Inr row by (simp add: save_history_iff)
  obtain d' u where att: "attempted fr n ?d ?s1 = (Inr d', u)"
    and ends: "after_success ?d d' \<or> after_failure ?d d'"
    and wire: "only_ticked ?s1 u \<or> (sent_one (h_idempotency_key ?d) ?s1 u \<and> may_send fr n ?d ?s1)"
    and rec: "after_success ?d d' \<longrightarrow> h_reconciliation_required d' = h_reconciliation_required ?d"
    using attempted_returns [of fr n ?d ?s1] by blast
  note same_fields = attempt_fields [OF ends]
  have "s_history u = s_history ?s1" using wire by (auto simp: only_ticked_def sent_one_def)
  then have "row_get (s_history u) n = Some ?d" by simp
  moreover have "validate_history (Some ?d) d' = Inr ()"
    using Inr same_fields by (auto simp: validate_history_Inr_iff)
  ultimately have save2: "save_history n d' u = (Inr (), put_history n d' u)"
    by (simp add: save_history_iff)
  have release: "release_if_original fr n d' v = (Inr (), after (release_if_original fr n d') v)" for v
    by (rule prod_eqI) (simp_all add: release_if_original_def release_waiting_copies_returns ret_def)
  have "run_attempt fr n h now s = (Inr (), after (release_if_original fr n d') (put_history n d' u))"
    using save1 save2 att release [of "put_history n d' u"]
    by (simp add: run_attempt_def Let_def bindA_def attempted_def)
  with run have "r = Inr ()" "t = after (release_if_original fr n d') (put_history n d' u)" by simp_all
  then show ?thesis using attempted ends wire rec by (simp add: Let_def)
qed

lemma bindA_steps:
  "bindA (reads f) g s = (case f s of Inl e \<Rightarrow> (Inl e, s) | Inr x \<Rightarrow> g x s)"
  "bindA (tick k) g s = g (k (s_ticks s)) (s\<lparr>s_ticks := Suc (s_ticks s)\<rparr>)"
  by (simp_all add: bindA_def reads_def tick_def)

text \<open>The record allows an attempt.\<close>

definition attemptable :: "history \<Rightarrow> site \<Rightarrow> int \<Rightarrow> bool" where
  "attemptable h s now \<longleftrightarrow>
     \<not> terminal (h_status h) \<and> h_status h \<noteq> Processing \<and> \<not> h_reconciliation_required h
     \<and> \<not> original_pending h s \<and> h_retry_count h < attempt_limit h \<and> \<not> backing_off h now"

lemma process_cases:
  assumes "process_outbound_message fr n s = (r, t)"
  obtains (missing) e where "row_get (s_history s) n = None" "r = Inl e" "t = s"
  | (settled) h where "row_get (s_history s) n = Some h" "terminal (h_status h) \<or> h_status h = Processing"
      "release_if_original fr n h s = (r, t)"
  | (idle) h where "row_get (s_history s) n = Some h" "r = Inr ()" "only_ticked s t"
      "\<not> attemptable h s (fr_clock fr (s_ticks s))"
  | (spent) h where "row_get (s_history s) n = Some h" "attempt_limit h \<le> h_retry_count h"
      "\<not> h_reconciliation_required h"
      "save_history n (exhausted h) (s\<lparr>s_ticks := Suc (s_ticks s)\<rparr>) = (r, t)"
  | (run) h where "row_get (s_history s) n = Some h" "attemptable h s (fr_clock fr (s_ticks s))"
      "run_attempt fr n h (fr_clock fr (s_ticks s)) (s\<lparr>s_ticks := Suc (s_ticks s)\<rparr>) = (r, t)"
proof (cases "row_get (s_history s) n")
  case None
  then have "process_outbound_message fr n s = (raise DoesNotExistError ''delivery not found'', s)"
    by (simp add: process_outbound_message_def bindA_def reads_def get_history_def)
  then have "r = raise DoesNotExistError ''delivery not found''" "t = s" using assms by simp_all
  with None show ?thesis by (rule missing)
next
  case (Some h)
  let ?now = "fr_clock fr (s_ticks s)"
  let ?s = "s\<lparr>s_ticks := Suc (s_ticks s)\<rparr>"
  have get: "get_history n s = Inr h" using Some by (simp add: get_history_Inr_iff)
  have proc: "process_outbound_message fr n s =
      (if terminal (h_status h) \<or> h_status h = Processing then release_if_original fr n h s
       else if h_reconciliation_required h \<or> original_pending h s then (Inr (), s)
       else if attempt_limit h \<le> h_retry_count h then save_history n (exhausted h) ?s
       else if backing_off h ?now then (Inr (), ?s)
       else run_attempt fr n h ?now ?s)"
    unfolding process_outbound_message_def bindA_steps get sum.case now_datetime_def if_distribR ret_def
    by auto
  have tick: "only_ticked s ?s" by (auto simp: only_ticked_def)
  consider "terminal (h_status h) \<or> h_status h = Processing"
    | "\<not> (terminal (h_status h) \<or> h_status h = Processing)" "h_reconciliation_required h \<or> original_pending h s"
    | "\<not> (terminal (h_status h) \<or> h_status h = Processing)" "\<not> (h_reconciliation_required h \<or> original_pending h s)"
      "attempt_limit h \<le> h_retry_count h"
    | "\<not> (terminal (h_status h) \<or> h_status h = Processing)" "\<not> (h_reconciliation_required h \<or> original_pending h s)"
      "\<not> attempt_limit h \<le> h_retry_count h" "backing_off h ?now"
    | "attemptable h s ?now" "\<not> (terminal (h_status h) \<or> h_status h = Processing)"
      "\<not> (h_reconciliation_required h \<or> original_pending h s)"
      "\<not> attempt_limit h \<le> h_retry_count h" "\<not> backing_off h ?now"
    unfolding attemptable_def not_le [symmetric] by blast
  then show ?thesis
  proof cases
    case 1
    then have "release_if_original fr n h s = (r, t)" using assms proc by simp
    then show ?thesis by (rule settled [OF Some 1])
  next
    case 2
    then have "r = Inr ()" "t = s" "\<not> attemptable h s ?now"
      using assms proc by (auto simp: attemptable_def)
    then show ?thesis by (intro idle [OF Some]) simp_all
  next
    case 3
    then have "save_history n (exhausted h) ?s = (r, t)" using assms proc by simp
    then show ?thesis using 3 by (intro spent [OF Some]) simp_all
  next
    case 4
    then have "r = Inr ()" "t = ?s" "\<not> attemptable h s ?now"
      using assms proc by (auto simp: attemptable_def)
    then show ?thesis using tick by (intro idle [OF Some]) simp_all
  next
    case 5
    then have "run_attempt fr n h ?now ?s = (r, t)" using assms proc by simp
    then show ?thesis by (rule run [OF Some 5(1)])
  qed
qed

end
