(* ===== verification/Settings_Api.thy ===== *)
theory Settings_Api
  imports Settings_Doc Permissions Base64
begin

text \<open>
  \<open>settings_api.py\<close>: the manager's controls of the connection and the webhook of the official
  API. All of them talk to the gateway; only a manager may use the controls, and the webhook hands
  what anyone posts to the gateway, which checks its signature.
\<close>

definition require_manager :: "frappe \<Rightarrow> site \<Rightarrow> exn + unit" where
  "require_manager fr s =
     (if s_user s = py ''Guest'' \<or> \<not> is_manager fr s None
      then deny ''Only a WhatsApp manager can manage the connection.''
      else Inr ())"

lemma require_manager_Inr_iff [res_iff]:
  "require_manager fr s = Inr u \<longleftrightarrow> s_user s \<noteq> py ''Guest'' \<and> is_manager fr s None"
  by (cases u) (auto simp: require_manager_def)

definition OFFICIAL_API :: pystr where
  "OFFICIAL_API = py ''Official API''"

definition gateway_provider :: "pystr \<Rightarrow> pystr" where
  "gateway_provider provider = (if provider = OFFICIAL_API then OFFICIAL_API else py ''Baileys'')"

text \<open>\<open>_update_status\<close>: the four values, then the writes, which run no controller.\<close>

definition status_values :: "pyval \<Rightarrow> exn + (settings \<Rightarrow> settings)" where
  "status_values result =
     bindR (response_get result ''status'') (\<lambda>status.
     bindR (response_get result ''last_error'') (\<lambda>error.
     bindR (response_get result ''last_connected_at'') (\<lambda>connected.
     bindR (response_get result ''last_disconnected_at'') (\<lambda>disconnected.
       Inr (\<lambda>st. st\<lparr>st_connection_status := or_else status (PStr (py ''Disconnected'')),
                    st_last_error := or_empty error,
                    st_last_connected_at := or_else connected PNone,
                    st_last_disconnected_at := or_else disconnected PNone\<rparr>)))))"

definition update_status :: "pyval \<Rightarrow> (site, unit) act" where
  "update_status result =
     bindA (reads (\<lambda>_. status_values result)) (\<lambda>f.
       modifies (\<lambda>s. s\<lparr>s_settings := f (s_settings s)\<rparr>))"

text \<open>The answer that stands in when the gateway cannot be reached.\<close>

definition unreachable :: "settings \<Rightarrow> exn \<Rightarrow> pyval" where
  "unreachable st e =
     PDict [(py ''provider'', PStr (st_provider st)), (py ''status'', PStr (py ''Error'')),
            (py ''connected'', PBool False), (py ''authenticated'', PBool False),
            (py ''qr_data_url'', PStr []), (py ''last_error'', PStr (exn_msg e))]"

definition provider_request :: "frappe \<Rightarrow> settings \<Rightarrow> string \<Rightarrow> int \<Rightarrow> (site, pyval) act" where
  "provider_request fr st path timeout =
     gateway_request fr (py path)
       (site_payload fr [(py ''provider'', PStr (gateway_provider (st_provider st)))]) timeout"

definition as_manager :: "frappe \<Rightarrow> (settings \<Rightarrow> (site, 'a) act) \<Rightarrow> (site, 'a) act" where
  "as_manager fr m =
     bindA (reads (require_manager fr)) (\<lambda>_.
     bindA (reads (\<lambda>s. Inr (s_settings s))) m)"

definition get_status :: "frappe \<Rightarrow> (site, pyval) act" where
  "get_status fr =
     as_manager fr (\<lambda>st.
     bindA (catchA (provider_request fr st ''/v1/status'' default_timeout)
              (\<lambda>e. if exn_class e = WhatsAppGatewayError then ret (unreachable st e) else fails e)) (\<lambda>result.
     bindA (update_status result) (\<lambda>_. ret result)))"

definition connect :: "frappe \<Rightarrow> (site, pyval) act" where
  "connect fr =
     as_manager fr (\<lambda>st.
     bindA (provider_request fr st ''/v1/connect'' 75) (\<lambda>result.
     bindA (update_status result) (\<lambda>_. ret result)))"

definition disconnect_and_remove_authentication :: "frappe \<Rightarrow> (site, pyval) act" where
  "disconnect_and_remove_authentication fr =
     as_manager fr (\<lambda>st.
     bindA (provider_request fr st ''/v1/disconnect'' 30) (\<lambda>result.
     bindA (update_status result) (\<lambda>_. ret result)))"

section \<open>The official API\<close>

record official_form =
  of_access_token :: pystr
  of_phone_number_id :: pystr
  of_business_account_id :: pystr
  of_api_version :: pystr
  of_app_secret :: pystr
  of_verify_token :: pystr

definition form_complete :: "official_form \<Rightarrow> exn + unit" where
  "form_complete f =
     (if of_access_token f = [] \<or> of_phone_number_id f = [] \<or> of_app_secret f = [] \<or> of_verify_token f = []
      then throw ''The access token, phone number ID, app secret and webhook token are required.''
      else Inr ())"

definition form_payload :: "frappe \<Rightarrow> official_form \<Rightarrow> pyval" where
  "form_payload fr f =
     site_payload fr
       [(py ''access_token'', PStr (of_access_token f)),
        (py ''phone_number_id'', PStr (of_phone_number_id f)),
        (py ''business_account_id'', PStr (of_business_account_id f)),
        (py ''api_version'', PStr (of_api_version f)),
        (py ''app_secret'', PStr (of_app_secret f)),
        (py ''verify_token'', PStr (of_verify_token f))]"

definition official_settings :: "frappe \<Rightarrow> official_form \<Rightarrow> settings \<Rightarrow> settings" where
  "official_settings fr f st =
     st\<lparr>st_provider := OFFICIAL_API,
        st_official_phone_number_id := of_phone_number_id f,
        st_official_business_account_id := of_business_account_id f,
        st_official_api_version := of_api_version f,
        st_webhook_url := py ''https://'' @ fr_site fr
          @ py ''/api/method/erpnext_whatsapp_connection.settings_api.cloud_webhook''\<rparr>"

definition configure_official_api :: "frappe \<Rightarrow> official_form \<Rightarrow> (site, pyval) act" where
  "configure_official_api fr f =
     bindA (reads (require_manager fr)) (\<lambda>_.
     bindA (reads (\<lambda>_. form_complete f)) (\<lambda>_.
     bindA (gateway_request fr (py ''/v1/cloud/configure'') (form_payload fr f) 75) (\<lambda>result.
     bindA (reads (\<lambda>s. Inr (s_settings s))) (\<lambda>st.
     bindA (save_settings fr (official_settings fr f st)) (\<lambda>_.
     bindA (update_status result) (\<lambda>_.
       ret result))))))"

record web_request =
  wr_is_get :: bool
  wr_mode :: pyval
  wr_verify_token :: pyval
  wr_challenge :: pyval
  wr_body :: bytes
  wr_signature :: "pystr option"

datatype web_response = Challenge pyval | Success

definition verify_webhook :: "frappe \<Rightarrow> web_request \<Rightarrow> (site, web_response) act" where
  "verify_webhook fr w =
     (if wr_mode w \<noteq> PStr (py ''subscribe'')
      then fails (Exn PermissionError (py ''Unsupported webhook verification mode.'') False)
      else
        bindA (gateway_request fr (py ''/v1/cloud/webhook/verify'')
                 (site_payload fr [(py ''verify_token'', wr_verify_token w),
                                   (py ''challenge'', wr_challenge w)]) default_timeout) (\<lambda>result.
        bindA (reads (\<lambda>_. response_get result ''challenge'')) (\<lambda>c.
          ret (Challenge (or_empty c)))))"

definition webhook_payload :: "frappe \<Rightarrow> web_request \<Rightarrow> pyval" where
  "webhook_payload fr w =
     PDict [(py ''tenant_id'', PStr (fr_site fr)),
            (py ''payload_base64'', PStr (b64encode (wr_body w))),
            (py ''signature'', PStr (case wr_signature w of None \<Rightarrow> [] | Some t \<Rightarrow> t))]"

definition cloud_webhook :: "frappe \<Rightarrow> web_request \<Rightarrow> (site, web_response) act" where
  "cloud_webhook fr w =
     (if wr_is_get w then verify_webhook fr w
      else bindA (gateway_request fr (py ''/v1/cloud/webhook'') (webhook_payload fr w) default_timeout)
             (\<lambda>_. ret Success))"

section \<open>What the controls promise\<close>

lemma as_manager_denied:
  "require_manager fr s = Inl e \<Longrightarrow> as_manager fr m s = (Inl e, s)"
  by (simp add: as_manager_def bindA_def reads_def)

lemma configure_denied:
  "require_manager fr s = Inl e \<Longrightarrow> configure_official_api fr f s = (Inl e, s)"
  by (simp add: configure_official_api_def bindA_def reads_def)

text \<open>The status is a display: updating it does not touch what deliveries depend on.\<close>

definition status_fields_only :: "settings \<Rightarrow> settings \<Rightarrow> bool" where
  "status_fields_only st st' \<longleftrightarrow>
     (\<exists>a b c d. st' = st\<lparr>st_connection_status := a, st_last_error := b, st_last_connected_at := c,
        st_last_disconnected_at := d\<rparr>)"

lemma update_status_effect:
  assumes "update_status result s = (r, t)"
  shows "(\<exists>e. r = Inl e \<and> t = s) \<or>
    (r = Inr () \<and> (\<exists>st. t = s\<lparr>s_settings := st\<rparr> \<and> status_fields_only (s_settings s) st))"
proof (cases "status_values result")
  case (Inl e)
  then show ?thesis using assms by (auto simp: update_status_def bindA_def reads_def)
next
  case (Inr f)
  then have "status_fields_only st (f st)" for st
    by (auto simp: status_values_def bindR_Inr_iff status_fields_only_def)
  then show ?thesis
    using assms Inr by (auto simp: update_status_def bindA_def reads_def modifies_def)
qed

lemma groups_ok_status: "status_fields_only st st' \<Longrightarrow> groups_ok st' = groups_ok st"
  by (auto simp: status_fields_only_def groups_ok_def companies_def enabled_rows_def)

text \<open>Getting the status answers with an error status when the gateway is away, instead of raising.\<close>

lemma get_status_unreachable:
  assumes "require_manager fr s = Inr ()"
    and "provider_request fr (s_settings s) ''/v1/status'' default_timeout s = (Inl e, t)"
    and "exn_class e = WhatsAppGatewayError"
  shows "outcome (get_status fr) s = Inr (unreachable (s_settings s) e)"
  using assms
  by (simp add: get_status_def as_manager_def bindA_def reads_def catchA_def ret_def update_status_def
      modifies_def status_values_def unreachable_def response_get_def)

text \<open>The body a webhook passes on can be recovered from what is posted to the gateway.\<close>

lemma webhook_body_recovered:
  assumes "\<forall>b \<in> set (wr_body w). b < 256" and "webhook_payload fr w = PDict d"
  shows "\<exists>t. dget d (py ''payload_base64'') = PStr t \<and> b64decode t = Some (wr_body w)"
  using assms b64decode_encode by (auto simp: webhook_payload_def dget_def)

end
