(* ===== verification/Templates.thy ===== *)
theory Templates
  imports Adapters
begin

text \<open>
  The controller of the \<open>ERPNext WhatsApp Message Template\<close> DocType and \<open>install.py\<close>, which
  creates the add-on's roles and one default template for every built-in adapter.
\<close>

section \<open>The template controller\<close>

definition blank :: "pystr option \<Rightarrow> pystr" where
  "blank v = (case v of None \<Rightarrow> [] | Some t \<Rightarrow> t)"

text \<open>What a template is for: its kind, target and company.\<close>

definition template_scope :: "template \<Rightarrow> pystr \<times> pystr \<times> pystr \<times> pystr" where
  "template_scope t = (t_reference_type t, blank (t_document_type t), blank (t_report_name t), blank (t_company t))"

text \<open>Another enabled default for the same scope; a missing value and an empty one count as equal.\<close>

definition default_taken :: "template rows \<Rightarrow> pystr \<Rightarrow> template \<Rightarrow> bool" where
  "default_taken rows name t \<longleftrightarrow>
     list_ex (\<lambda>(n, q). n \<noteq> name \<and> t_enabled q \<and> t_is_default q \<and> template_scope q = template_scope t) rows"

definition normalize_target :: "template \<Rightarrow> template" where
  "normalize_target t =
     (if t_reference_type t = py ''Document'' then t\<lparr>t_report_name := None\<rparr>
      else t\<lparr>t_document_type := None\<rparr>)"

definition validate_template :: "template rows \<Rightarrow> pystr \<Rightarrow> template \<Rightarrow> exn + template" where
  "validate_template rows name t =
     (if t_reference_type t = py ''Document'' \<and> blank (t_document_type t) = []
      then throw ''Document Type is required for a document template.''
      else if t_reference_type t = py ''Report'' \<and> blank (t_report_name t) = []
      then throw ''Report is required for a report template.''
      else
        let t = normalize_target t
        in if t_is_default t \<and> t_enabled t \<and> default_taken rows name t
           then throw ''Only one default template is allowed for this target and company.''
           else Inr t)"

text \<open>\<open>save\<close> of an existing template, and \<open>insert\<close> of a new one, named by its title.\<close>

definition save_template :: "pystr \<Rightarrow> template \<Rightarrow> (site, unit) act" where
  "save_template name t =
     bindA (reads (\<lambda>s. validate_template (s_templates s) name t)) (\<lambda>t'.
       modifies (\<lambda>s. s\<lparr>s_templates := row_put name t' (s_templates s)\<rparr>))"

definition insert_template :: "pystr \<Rightarrow> template \<Rightarrow> (site, unit) act" where
  "insert_template name t =
     bindA (reads (\<lambda>s. if name \<in> set (row_keys (s_templates s))
                      then raise DuplicateEntryError ''Duplicate entry'' else Inr ())) (\<lambda>_.
       save_template name t)"

definition one_default :: "template rows \<Rightarrow> bool" where
  "one_default rows \<longleftrightarrow>
     (\<forall>n m t q. row_get rows n = Some t \<longrightarrow> row_get rows m = Some q \<longrightarrow>
        t_enabled t \<longrightarrow> t_is_default t \<longrightarrow> t_enabled q \<longrightarrow> t_is_default q \<longrightarrow>
        template_scope t = template_scope q \<longrightarrow> n = m)"

lemma default_taken_row:
  "row_get rows n = Some q \<Longrightarrow> n \<noteq> name \<Longrightarrow> t_enabled q \<Longrightarrow> t_is_default q \<Longrightarrow>
     template_scope q = template_scope t \<Longrightarrow> default_taken rows name t"
  by (auto simp: default_taken_def list_ex_iff row_get_def dest!: map_of_SomeD)

lemma normalize_target_fields [simp]:
  "t_enabled (normalize_target t) = t_enabled t" "t_is_default (normalize_target t) = t_is_default t"
  by (simp_all add: normalize_target_def)

text \<open>No two enabled default templates share a target and a company.\<close>

lemma save_template_one_default:
  assumes "one_default (s_templates s)" and "save_template name t s = (r, u)"
  shows "one_default (s_templates u)"
proof (cases "validate_template (s_templates s) name t")
  case (Inl e)
  then have "u = s" using assms(2) by (simp add: save_template_def bindA_def reads_def)
  then show ?thesis using assms(1) by simp
next
  case (Inr t')
  then have u: "s_templates u = row_put name t' (s_templates s)"
    using assms(2) by (auto simp: save_template_def bindA_def reads_def modifies_def)
  have free: "\<not> (t_is_default t' \<and> t_enabled t' \<and> default_taken (s_templates s) name t')"
    using Inr by (auto simp: validate_template_def Let_def split: if_splits)
  show ?thesis
    unfolding one_default_def u rows_store.get_put
    using assms(1) free default_taken_row [of "s_templates s" _ _ name t']
    by (simp add: one_default_def split: if_splits) metis
qed

section \<open>Installation\<close>

definition ROLES :: "pystr list" where
  "ROLES = [py ''ERPNext WhatsApp Manager'', py ''ERPNext WhatsApp Sender'']"

definition ensure_role :: "pystr \<Rightarrow> (site, unit) act" where
  "ensure_role role = modifies (\<lambda>s. if role \<in> set (s_roles s) then s else s\<lparr>s_roles := s_roles s @ [role]\<rparr>)"

definition ensure_roles :: "(site, unit) act" where
  "ensure_roles = foldA ensure_role ROLES"

definition default_name :: "pystr \<Rightarrow> pystr" where
  "default_name target = py ''Default '' @ target"

definition default_template :: "pystr \<Rightarrow> pystr \<Rightarrow> pystr \<Rightarrow> template" where
  "default_template kind target message =
     \<lparr>t_enabled = True, t_is_default = True, t_reference_type = kind,
      t_document_type = (if kind = py ''Document'' then Some target else None),
      t_report_name = (if kind = py ''Document'' then None else Some target),
      t_company = None, t_message_template = message\<rparr>"

definition ensure_template :: "pystr \<Rightarrow> pystr \<times> adapter \<Rightarrow> (site, unit) act" where
  "ensure_template kind entry =
     bindA (reads (\<lambda>s. Inr (default_name (fst entry) \<in> set (row_keys (s_templates s))))) (\<lambda>present.
       if present then ret ()
       else case a_default_message (snd entry) of
         None \<Rightarrow> fails (Exn KeyError (py ''default_message'') False)
       | Some message \<Rightarrow> insert_template (default_name (fst entry)) (default_template kind (fst entry) message))"

definition TEMPLATE_DOCTYPE_NAME :: pystr where
  "TEMPLATE_DOCTYPE_NAME = py ''ERPNext WhatsApp Message Template''"

definition ensure_default_templates :: "frappe \<Rightarrow> (site, unit) act" where
  "ensure_default_templates fr =
     (if \<not> fr_doctype_exists fr TEMPLATE_DOCTYPE_NAME then ret ()
      else bindA (foldA (ensure_template (py ''Document'')) DEFAULT_DOCUMENT_ADAPTERS) (\<lambda>_.
             foldA (ensure_template (py ''Report'')) DEFAULT_REPORT_ADAPTERS))"

definition after_install :: "frappe \<Rightarrow> (site, unit) act" where
  "after_install fr = bindA ensure_roles (\<lambda>_. ensure_default_templates fr)"

definition after_migrate :: "frappe \<Rightarrow> (site, unit) act" where
  "after_migrate fr = bindA ensure_roles (\<lambda>_. ensure_default_templates fr)"

text \<open>What a run leaves in place, and what makes a later run do nothing.\<close>

definition default_names :: "pystr list" where
  "default_names = map (default_name \<circ> fst) (DEFAULT_DOCUMENT_ADAPTERS @ DEFAULT_REPORT_ADAPTERS)"

definition installed :: "frappe \<Rightarrow> site \<Rightarrow> bool" where
  "installed fr s \<longleftrightarrow>
     set ROLES \<subseteq> set (s_roles s)
     \<and> (fr_doctype_exists fr TEMPLATE_DOCTYPE_NAME \<longrightarrow> set default_names \<subseteq> set (row_keys (s_templates s)))"

lemma foldA_noop: "(\<And>x. x \<in> set xs \<Longrightarrow> f x s = (Inr (), s)) \<Longrightarrow> foldA f xs s = (Inr (), s)"
  by (induction xs) (auto simp: ret_def bindA_def)

lemma after_migrate_noop:
  assumes "installed fr s"
  shows "after_migrate fr s = (Inr (), s)"
proof -
  have roles: "ensure_roles s = (Inr (), s)"
    unfolding ensure_roles_def
    by (rule foldA_noop) (use assms in \<open>auto simp: ensure_role_def modifies_def installed_def\<close>)
  have "foldA (ensure_template kind) es s = (Inr (), s)"
    if "set (map (default_name \<circ> fst) es) \<subseteq> set (row_keys (s_templates s))" for kind es
    by (rule foldA_noop) (use that in \<open>auto simp: ensure_template_def bindA_def reads_def ret_def\<close>)
  then have "ensure_default_templates fr s = (Inr (), s)"
    using assms
    by (simp add: ensure_default_templates_def installed_def default_names_def bindA_def ret_def)
  then show ?thesis using roles by (simp add: after_migrate_def bindA_def)
qed

text \<open>Keys and roles only grow.\<close>

definition grows :: "site \<Rightarrow> site \<Rightarrow> bool" where
  "grows s t \<longleftrightarrow> set (s_roles s) \<subseteq> set (s_roles t) \<and> set (row_keys (s_templates s)) \<subseteq> set (row_keys (s_templates t))"

lemma grows_preorder [simp]: "reflp grows" "transp grows"
  by (auto simp: grows_def reflp_def transp_def)

lemma row_keys_put: "set (row_keys (row_put k r t)) = insert k (set (row_keys t))"
  by (auto simp: row_keys_def row_put_def dom_map_of_conv_image_fst [symmetric] update_conv)

lemma keeps_grows_insert: "keeps grows (insert_template n t)"
  unfolding insert_template_def save_template_def
  by (auto intro!: keeps_bindA keeps_modifies simp: grows_def row_keys_put)

lemma keeps_grows_template: "keeps grows (ensure_template k e)"
  unfolding ensure_template_def
  by (auto intro!: keeps_bindA keeps_grows_insert split: option.splits)

lemma ensure_template_present:
  assumes "ensure_template k e s = (Inr u, t)"
  shows "default_name (fst e) \<in> set (row_keys (s_templates t))"
  using assms
  by (auto simp: ensure_template_def bindA_Inr_iff reads_iff ret_iff fails_iff insert_template_def
      save_template_def modifies_iff row_keys_put split: if_splits option.splits)

lemma foldA_present:
  assumes "foldA (ensure_template k) es s = (Inr u, t)"
  shows "set (map (default_name \<circ> fst) es) \<subseteq> set (row_keys (s_templates t))"
  using assms
proof (induction es arbitrary: s)
  case Nil
  then show ?case by simp
next
  case (Cons e es)
  then obtain s' where one: "ensure_template k e s = (Inr (), s')"
    and rest: "foldA (ensure_template k) es s' = (Inr u, t)"
    by (auto simp: bindA_Inr_iff)
  have "keeps grows (foldA (ensure_template k) es)" by (rule keeps_foldA) (simp_all add: keeps_grows_template)
  then have "grows s' t" using rest by (rule keeps_result)
  then show ?case using ensure_template_present [OF one] Cons.IH [OF rest] by (auto simp: grows_def)
qed

text \<open>A run that succeeds leaves everything in place.\<close>

lemma after_migrate_installed:
  assumes "after_migrate fr s = (Inr u, t)"
  shows "installed fr t"
proof -
  from assms obtain s1 where roles: "ensure_roles s = (Inr (), s1)"
    and templates: "ensure_default_templates fr s1 = (Inr u, t)"
    by (auto simp: after_migrate_def bindA_Inr_iff)
  have r1: "set ROLES \<subseteq> set (s_roles s1)"
    using roles by (auto simp: ensure_roles_def ROLES_def bindA_def ensure_role_def modifies_def ret_def)
  have k: "keeps grows (foldA (ensure_template kind) es)" for kind es
    by (rule keeps_foldA) (simp_all add: keeps_grows_template)
  have "keeps grows (ensure_default_templates fr)"
    unfolding ensure_default_templates_def using k by (auto intro!: keeps_bindA)
  then have "grows s1 t" using templates by (rule keeps_result)
  then have "set ROLES \<subseteq> set (s_roles t)" using r1 by (auto simp: grows_def)
  moreover have "set default_names \<subseteq> set (row_keys (s_templates t))" if "fr_doctype_exists fr TEMPLATE_DOCTYPE_NAME"
  proof -
    from templates that obtain s2 where
      d: "foldA (ensure_template (py ''Document'')) DEFAULT_DOCUMENT_ADAPTERS s1 = (Inr (), s2)"
      and rp: "foldA (ensure_template (py ''Report'')) DEFAULT_REPORT_ADAPTERS s2 = (Inr u, t)"
      by (auto simp: ensure_default_templates_def bindA_Inr_iff)
    have "grows s2 t" using k rp by (rule keeps_result)
    then show ?thesis
      using foldA_present [OF d] foldA_present [OF rp] by (auto simp: default_names_def grows_def)
  qed
  ultimately show ?thesis by (simp add: installed_def)
qed

end
