(* ===== verification/Lifecycle.thy ===== *)
theory Lifecycle
  imports Worker Settings_Api Templates
begin

text \<open>
  The life of a site: any sequence of requests, background jobs, scheduler passes, settings and
  template changes, each with its own answers of the framework and the outside world. The theory
  states what holds in every state such a history can reach: how often a delivery can be submitted,
  what of a record never changes, and what the worker finds when it takes a delivery up.
\<close>

section \<open>Reachability\<close>

inductive reachable :: "('s \<Rightarrow> bool) \<Rightarrow> ('s \<Rightarrow> 's \<Rightarrow> bool) \<Rightarrow> 's \<Rightarrow> bool"
  for start :: "'s \<Rightarrow> bool" and step :: "'s \<Rightarrow> 's \<Rightarrow> bool" where
  reach_start: "start s \<Longrightarrow> reachable start step s"
| reach_step: "reachable start step s \<Longrightarrow> step s t \<Longrightarrow> reachable start step t"

text \<open>An invariant: it holds at the start and every step keeps it.\<close>

locale inductive_invariant =
  fixes start :: "'s \<Rightarrow> bool" and step :: "'s \<Rightarrow> 's \<Rightarrow> bool" and inv :: "'s \<Rightarrow> bool"
  assumes holds_at_start: "start s \<Longrightarrow> inv s"
    and kept_by_step: "inv s \<Longrightarrow> step s t \<Longrightarrow> inv t"
begin

lemma invariant: "reachable start step s \<Longrightarrow> inv s"
  by (induction rule: reachable.induct) (auto intro: holds_at_start kept_by_step)

lemma invariant_from: "inv s \<Longrightarrow> step\<^sup>*\<^sup>* s t \<Longrightarrow> inv t"
  by (rotate_tac 1) (induction rule: rtranclp_induct, auto intro: kept_by_step)

end

section \<open>Steps\<close>

text \<open>One transaction as a user.\<close>

definition run_as :: "pystr \<Rightarrow> (site, 'a) act \<Rightarrow> site \<Rightarrow> site" where
  "run_as u m s = after (transaction m) (s\<lparr>s_user := u\<rparr>)"

inductive site_step :: "(bytes \<Rightarrow> pystr) \<Rightarrow> site \<Rightarrow> site \<Rightarrow> bool" for sha :: "bytes \<Rightarrow> pystr" where
  step_queue_document: "fr_sha256 fr = sha \<Longrightarrow>
    site_step sha s (run_as u (queue_document fr dt n r pf m sm mt) s)"
| step_queue_report: "fr_sha256 fr = sha \<Longrightarrow>
    site_step sha s (run_as u (queue_report fr rn fs r m mt) s)"
| step_worker: "fr_sha256 fr = sha \<Longrightarrow> site_step sha s (run_as u (process_outbound_message fr name) s)"
| step_scheduler: "fr_sha256 fr = sha \<Longrightarrow> site_step sha s (run_as u (scheduled_maintenance fr) s)"
| step_settings: "fr_sha256 fr = sha \<Longrightarrow> site_step sha s (run_as u (save_settings fr st) s)"
| step_get_status: "fr_sha256 fr = sha \<Longrightarrow> site_step sha s (run_as u (get_status fr) s)"
| step_connect: "fr_sha256 fr = sha \<Longrightarrow> site_step sha s (run_as u (connect fr) s)"
| step_disconnect: "fr_sha256 fr = sha \<Longrightarrow>
    site_step sha s (run_as u (disconnect_and_remove_authentication fr) s)"
| step_configure: "fr_sha256 fr = sha \<Longrightarrow> site_step sha s (run_as u (configure_official_api fr f) s)"
| step_webhook: "fr_sha256 fr = sha \<Longrightarrow> site_step sha s (run_as u (cloud_webhook fr w) s)"
| step_list_groups: "fr_sha256 fr = sha \<Longrightarrow> site_step sha s (run_as u (list_groups fr c) s)"
| step_template: "site_step sha s (run_as u (save_template tn t) s)"
| step_new_template: "site_step sha s (run_as u (insert_template tn t) s)"
| step_migrate: "fr_sha256 fr = sha \<Longrightarrow> site_step sha s (run_as u (after_migrate fr) s)"

text \<open>A site on which the add-on has just been installed.\<close>

definition fresh_site :: "site \<Rightarrow> bool" where
  "fresh_site s \<longleftrightarrow>
     s_history s = [] \<and> s_files s = [] \<and> s_wire s = [] \<and> s_templates s = []
     \<and> st_company_groups (s_settings s) = []"

abbreviation reachable_site :: "(bytes \<Rightarrow> pystr) \<Rightarrow> site \<Rightarrow> bool" where
  "reachable_site sha \<equiv> reachable fresh_site (site_step sha)"

lemma transaction_cases:
  assumes "transaction m s = (r, t)"
  obtains (commit) x where "m s = (Inr x, t)"
  | (rollback) e v js where "m s = (Inl e, v)" "r = Inl e"
      "t = s\<lparr>s_wire := s_wire v, s_ticks := s_ticks v, s_jobs := js\<rparr>"
proof (cases "m s")
  case (Pair q v)
  show ?thesis
  proof (cases q)
    case (Inl e)
    with assms Pair show ?thesis by (intro rollback [OF Pair [unfolded Inl]]) (auto simp: transaction_def)
  next
    case (Inr x)
    with assms Pair show ?thesis by (intro commit) (auto simp: transaction_def)
  qed
qed

section \<open>The ledger\<close>

text \<open>What bounds the number of submissions: the part \<open>g\<close> of every record, and how often each
  key was submitted.\<close>

definition submission_counts :: "site \<Rightarrow> pystr \<Rightarrow> nat" where
  "submission_counts s key = submissions key s"

definition ledger :: "(history \<Rightarrow> 'g) \<Rightarrow> site \<Rightarrow> (pystr \<Rightarrow> 'g option) \<times> (pystr \<Rightarrow> nat)" where
  "ledger g s = (rows_view g s, submission_counts s)"

lemma submission_counts_cong: "s_wire s = s_wire t \<Longrightarrow> submission_counts s = submission_counts t"
  by (simp add: submission_counts_def submissions_def fun_eq_iff)

lemma submission_counts_other:
  "rq_path q \<noteq> py ''/v1/send'' \<Longrightarrow> submission_counts (s\<lparr>s_ticks := n, s_wire := s_wire s @ [Http q]\<rparr>) = submission_counts s"
  by (simp add: submission_counts_def submissions_def fun_eq_iff)

lemma ledger_from:
  "rows_view g t = rows_view g s \<Longrightarrow> s_wire t = s_wire s \<Longrightarrow> ledger g t = ledger g s"
  by (simp add: ledger_def submission_counts_cong [of t s])

lemma ledger_updates [simp]:
  "ledger g (s\<lparr>s_ticks := n\<rparr>) = ledger g s" "ledger g (s\<lparr>s_user := u\<rparr>) = ledger g s"
  "ledger g (s\<lparr>s_settings := st\<rparr>) = ledger g s" "ledger g (s\<lparr>s_templates := ts\<rparr>) = ledger g s"
  "ledger g (s\<lparr>s_roles := rs\<rparr>) = ledger g s" "ledger g (s\<lparr>s_jobs := js\<rparr>) = ledger g s"
  by (rule ledger_from; simp)+

lemma keeps_gateway_other [simp]:
  assumes "path \<noteq> py ''/v1/send''"
  shows "keeps (same (ledger g)) (gateway_request fr path payload timeout)"
proof -
  have "ledger g t = ledger g s" if "gateway_request fr path payload timeout s = (r, t)" for s r t
    using that
  proof (rule gateway_request_effect)
    assume "t = s\<lparr>s_ticks := Suc (s_ticks s)\<rparr>"
    then show ?thesis by simp
  next
    fix q assume t: "t = s\<lparr>s_ticks := Suc (s_ticks s), s_wire := s_wire s @ [Http q]\<rparr>" and q: "rq_path q = path"
    have "rows_view g t = rows_view g s" by (simp add: t)
    moreover have "submission_counts t = submission_counts s"
      unfolding t by (rule submission_counts_other) (use q assms in simp)
    ultimately show ?thesis by (simp add: ledger_def)
  qed
  then show ?thesis by (intro keepsI) (simp add: same_def)
qed

lemma other_paths [simp]:
  "py ''/v1/groups'' \<noteq> py ''/v1/send''" "py ''/v1/events'' \<noteq> py ''/v1/send''"
  by simp_all

lemma keeps_ledger_joined [simp]: "keeps (same (ledger g)) (joined_groups fr)"
  unfolding joined_groups_def by (intro keeps_bindA) simp_all

lemma keeps_ledger_settings [simp]: "keeps (same (ledger g)) (save_settings fr st)"
  unfolding save_settings_def validate_settings_doc_def validate_settings_def
  by (auto intro!: keeps_bindA keeps_modifies simp: same_def)

lemma keeps_ledger_update_status [simp]: "keeps (same (ledger g)) (update_status r)"
  unfolding update_status_def by (auto intro!: keeps_bindA keeps_modifies simp: same_def)

lemma keeps_ledger_api:
  "keeps (same (ledger g)) (get_status fr)" "keeps (same (ledger g)) (connect fr)"
  "keeps (same (ledger g)) (disconnect_and_remove_authentication fr)"
  "keeps (same (ledger g)) (configure_official_api fr f)" "keeps (same (ledger g)) (cloud_webhook fr w)"
  "keeps (same (ledger g)) (list_groups fr c)"
  unfolding get_status_def connect_def disconnect_and_remove_authentication_def configure_official_api_def
    cloud_webhook_def list_groups_def as_manager_def provider_request_def verify_webhook_def
  by (auto intro!: keeps_bindA keeps_catchA)

lemma keeps_ledger_templates:
  "keeps (same (ledger g)) (save_template n t)" "keeps (same (ledger g)) (insert_template n t)"
  "keeps (same (ledger g)) (after_migrate fr)"
proof -
  have sv: "keeps (same (ledger g)) (save_template n t)" for n t
    unfolding save_template_def by (auto intro!: keeps_bindA keeps_modifies simp: same_def)
  then have ins: "keeps (same (ledger g)) (insert_template n t)" for n t
    unfolding insert_template_def by (auto intro!: keeps_bindA)
  then have "keeps (same (ledger g)) (ensure_template k e)" for k e
    unfolding ensure_template_def by (auto intro!: keeps_bindA split: option.splits)
  then show "keeps (same (ledger g)) (after_migrate fr)"
    unfolding after_migrate_def ensure_roles_def ensure_default_templates_def ensure_role_def
    by (auto intro!: keeps_bindA keeps_foldA keeps_modifies simp: same_def)
  show "keeps (same (ledger g)) (save_template n t)" "keeps (same (ledger g)) (insert_template n t)"
    by (fact sv, fact ins)
qed

text \<open>The part of a record that no pass of the scheduler writes.\<close>

definition standing :: "history \<Rightarrow> delivery_identity \<times> int \<times> int \<times> bool" where
  "standing h = (identity_of h, h_retry_count h, h_max_retries h, h_reconciliation_required h)"

lemma standing_updates [simp]:
  "standing (h\<lparr>h_status := st\<rparr>) = standing h" "standing (h\<lparr>h_next_retry_at := at\<rparr>) = standing h"
  "standing (h\<lparr>h_result_message := m\<rparr>) = standing h" "standing (h\<lparr>h_acknowledged_at := at\<rparr>) = standing h"
  by (simp_all add: standing_def identity_of_def content_of_def)

lemma keeps_ledger_both:
  "keeps (same (rows_view g)) m \<Longrightarrow> keeps (same surroundings) m \<Longrightarrow> keeps (same (ledger g)) m"
  by (auto simp: keeps_def same_def surroundings_def intro: ledger_from)

lemma keeps_ledger_scheduler: "keeps (same (ledger standing)) (scheduled_maintenance fr)"
proof -
  have retry: "keeps (same (ledger standing)) (retry_due_messages fr)"
    by (intro keeps_ledger_both keeps_retry_due [of standing]) simp_all
  have "keeps (same (ledger standing)) (apply_events fr es n)" for es n
    by (intro keeps_ledger_both keeps_apply_events [of standing]) simp_all
  then have "keeps (same (ledger standing)) (sync_delivery_statuses fr)"
    unfolding sync_delivery_statuses_def events_request_def
    by (auto intro!: keeps_bindA keeps_catchA split: option.splits)
  with retry show ?thesis unfolding scheduled_maintenance_def by (auto intro!: keeps_bindA)
qed

end
