(* ===== verification/Delivery_Bounds.thy ===== *)
theory Delivery_Bounds
  imports Lifecycle
begin

text \<open>
  The invariants of the delivery records over all reachable states: a delivery is submitted at most
  as often as it was attempted, and attempted at most as often as its limit allows; what a record
  says about its source, content and recipient never changes; a record that needs reconciliation is
  never sent again.
\<close>

section \<open>What one run of the worker does to the ledger\<close>

definition one_attempt :: "frappe \<Rightarrow> pystr \<Rightarrow> history \<Rightarrow> site \<Rightarrow> site \<Rightarrow> bool" where
  "one_attempt fr n h s t \<longleftrightarrow>
     row_get (s_history s) n = Some h \<and> attemptable h s (fr_clock fr (s_ticks s))
     \<and> (\<exists>rec. rows_view standing t =
          (rows_view standing s)(n \<mapsto> (identity_of h, h_retry_count h + 1, h_max_retries h, rec)))
     \<and> (submission_counts t = submission_counts s
        \<or> (submission_counts t = (submission_counts s)(h_idempotency_key h := submissions (h_idempotency_key h) s + 1)
           \<and> (\<exists>now s'. may_send fr n (started h now) s' \<and> s_settings s' = s_settings s
                \<and> s_files s' = s_files s \<and> row_get (s_history s') n = Some (started h now)
                \<and> (\<forall>m. m \<noteq> n \<longrightarrow> row_get (s_history s') m = row_get (s_history s) m))))"

lemma rows_view_put_upd: "rows_view g (put_history n h s) = (rows_view g s)(n \<mapsto> g h)"
  by (simp add: rows_view_def fun_eq_iff)

lemma sent_one_counts:
  assumes "sent_one k s t"
  shows "submission_counts t = (submission_counts s)(k := submissions k s + 1)"
    and "s_history t = s_history s"
  using assms by (auto simp: sent_one_def submission_counts_def submissions_def fun_eq_iff)

lemma process_ledger:
  assumes "process_outbound_message fr n s = (r, t)"
  shows "ledger standing t = ledger standing s \<or> (r = Inr () \<and> (\<exists>h. one_attempt fr n h s t))"
proof (rule process_cases [OF assms])
  fix e assume "t = s"
  then show ?thesis by simp
next
  fix h assume "release_if_original fr n h s = (r, t)"
  moreover have "keeps (same (ledger standing)) (release_if_original fr n h)"
    by (intro keeps_ledger_both keeps_release_if_original [of standing]) simp_all
  ultimately show ?thesis using keeps_result by (fastforce simp: same_def)
next
  fix h assume "only_ticked s t"
  then show ?thesis by (auto simp: only_ticked_def)
next
  fix h
  assume row: "row_get (s_history s) n = Some h"
    and save: "save_history n (exhausted h) (s\<lparr>s_ticks := Suc (s_ticks s)\<rparr>) = (r, t)"
  have "standing (exhausted h) = standing h"
    by (simp add: standing_def exhausted_def identity_of_def content_of_def)
  then have "ledger standing (put_history n (exhausted h) (s\<lparr>s_ticks := Suc (s_ticks s)\<rparr>)) = ledger standing s"
    using row by (intro ledger_from) (simp_all add: rows_view_put)
  then show ?thesis using save by (auto simp: save_history_iff split: sum.splits)
next
  fix h
  let ?now = "fr_clock fr (s_ticks s)" and ?s = "s\<lparr>s_ticks := Suc (s_ticks s)\<rparr>"
  assume row: "row_get (s_history s) n = Some h" and can: "attemptable h s ?now"
    and run: "run_attempt fr n h ?now ?s = (r, t)"
  have row': "row_get (s_history ?s) n = Some h" using row by simp
  show ?thesis
  proof (rule run_attempt_shape [OF row' run])
    assume "t = ?s"
    then show ?thesis by simp
  next
    fix d' u
    let ?d = "started h ?now" and ?s1 = "put_history n (started h ?now) ?s"
    assume r: "r = Inr ()" and ends: "after_success ?d d' \<or> after_failure ?d d'"
      and wire: "let s' = ?s1 in only_ticked s' u
          \<or> (sent_one (h_idempotency_key h) s' u \<and> may_send fr n ?d s')"
      and t: "t = after (release_if_original fr n d') (put_history n d' u)"
    note same_fields = attempt_fields [OF ends]
    have rel: "keeps (same (rows_view standing)) (release_if_original fr n d')"
      "keeps (same surroundings) (release_if_original fr n d')"
      using keeps_release_if_original [of standing] by simp_all
    have hist: "s_history u = s_history ?s1" using wire by (auto simp: Let_def only_ticked_def sent_one_def)
    have "rows_view standing t = rows_view standing (put_history n d' u)"
      using keepsD [OF rel(1), of "put_history n d' u"] by (simp add: same_def t)
    also have "\<dots> = (rows_view standing u)(n \<mapsto> standing d')" by (rule rows_view_put_upd)
    also have "rows_view standing u = (rows_view standing s)(n \<mapsto> standing ?d)"
      using hist rows_view_put_upd [of standing n ?d ?s] by (simp add: rows_view_def fun_eq_iff)
    finally have view: "rows_view standing t = (rows_view standing s)(n \<mapsto> standing d')"
      by (simp only: fun_upd_upd)
    have "standing d' = (identity_of h, h_retry_count h + 1, h_max_retries h, h_reconciliation_required d')"
      using same_fields by (simp add: standing_def)
    moreover have "submission_counts t = submission_counts u"
      using keepsD [OF rel(2), of "put_history n d' u"]
      by (intro submission_counts_cong) (simp add: same_def t surroundings_def)
    moreover have "submission_counts ?s1 = submission_counts s"
      by (rule submission_counts_cong) simp
    moreover have "submissions (h_idempotency_key h) ?s1 = submissions (h_idempotency_key h) s"
      by (simp add: submissions_def)
    moreover have "submission_counts u = submission_counts ?s1
        \<or> (submission_counts u = (submission_counts ?s1)(h_idempotency_key h := submissions (h_idempotency_key h) ?s1 + 1)
           \<and> may_send fr n ?d ?s1)"
      using wire sent_one_counts(1) by (auto simp: Let_def only_ticked_def intro: submission_counts_cong)
    moreover have "s_settings ?s1 = s_settings s \<and> s_files ?s1 = s_files s
        \<and> row_get (s_history ?s1) n = Some ?d
        \<and> (\<forall>m. m \<noteq> n \<longrightarrow> row_get (s_history ?s1) m = row_get (s_history s) m)" by simp
    ultimately have "one_attempt fr n h s t"
      unfolding one_attempt_def using row can view by metis
    then show ?thesis using r by blast
  qed
qed

section \<open>Attempts and submissions\<close>

definition attempts_ok :: "site \<Rightarrow> bool" where
  "attempts_ok s \<longleftrightarrow>
     keys_distinct s
     \<and> (\<forall>n h. row_get (s_history s) n = Some h \<longrightarrow>
          0 \<le> h_retry_count h \<and> h_retry_count h \<le> attempt_limit h
          \<and> int (submissions (h_idempotency_key h) s) \<le> h_retry_count h)
     \<and> (\<forall>k. submissions k s \<noteq> 0 \<longrightarrow> (\<exists>n h. row_get (s_history s) n = Some h \<and> h_idempotency_key h = k))"

text \<open>The same, read off the ledger.\<close>

definition key_in :: "delivery_identity \<times> int \<times> int \<times> bool \<Rightarrow> pystr" where
  "key_in p = i_idempotency_key (fst p)"

definition ledger_ok :: "(pystr \<Rightarrow> (delivery_identity \<times> int \<times> int \<times> bool) option) \<times> (pystr \<Rightarrow> nat) \<Rightarrow> bool" where
  "ledger_ok l \<longleftrightarrow>
     (\<forall>n m p q. fst l n = Some p \<longrightarrow> fst l m = Some q \<longrightarrow> key_in p = key_in q \<longrightarrow> n = m)
     \<and> (\<forall>n i c mx b. fst l n = Some (i, c, mx, b) \<longrightarrow>
          0 \<le> c \<and> c \<le> max 1 (mx + 1) \<and> int (snd l (i_idempotency_key i)) \<le> c)
     \<and> (\<forall>k. snd l k \<noteq> 0 \<longrightarrow> (\<exists>n p. fst l n = Some p \<and> key_in p = k))"

lemma standing_Some: "rows_view standing s n = Some (standing h) \<longleftrightarrow> (\<exists>k. row_get (s_history s) n = Some k \<and> standing k = standing h)"
  by (auto simp: rows_view_def)

lemma key_in_standing [simp]: "key_in (standing h) = h_idempotency_key h"
  by (simp add: key_in_def standing_def identity_of_def)

lemma rows_view_standing: "rows_view standing s n = Some p \<longleftrightarrow>
    (\<exists>h. row_get (s_history s) n = Some h \<and> p = standing h)"
  by (auto simp: rows_view_def)

lemma identity_key [simp]: "i_idempotency_key (identity_of h) = h_idempotency_key h"
  by (simp add: identity_of_def)

lemma attempts_ok_ledger: "attempts_ok s \<longleftrightarrow> ledger_ok (ledger standing s)"
proof -
  let ?v = "rows_view standing s"
  have distinct: "keys_distinct s \<longleftrightarrow>
      (\<forall>n m p q. ?v n = Some p \<longrightarrow> ?v m = Some q \<longrightarrow> key_in p = key_in q \<longrightarrow> n = m)"
    unfolding keys_distinct_def rows_view_standing by (metis key_in_standing)
  have counts: "(\<forall>n h. row_get (s_history s) n = Some h \<longrightarrow>
          0 \<le> h_retry_count h \<and> h_retry_count h \<le> attempt_limit h
          \<and> int (submissions (h_idempotency_key h) s) \<le> h_retry_count h)
      \<longleftrightarrow> (\<forall>n i c mx b. ?v n = Some (i, c, mx, b) \<longrightarrow>
          0 \<le> c \<and> c \<le> max 1 (mx + 1) \<and> int (submission_counts s (i_idempotency_key i)) \<le> c)"
    unfolding rows_view_standing standing_def attempt_limit_def submission_counts_def
    by (metis identity_key prod.inject)
  have owners: "(\<forall>k. submissions k s \<noteq> 0 \<longrightarrow> (\<exists>n h. row_get (s_history s) n = Some h \<and> h_idempotency_key h = k))
      \<longleftrightarrow> (\<forall>k. submission_counts s k \<noteq> 0 \<longrightarrow> (\<exists>n p. ?v n = Some p \<and> key_in p = k))"
    unfolding rows_view_standing submission_counts_def by (metis key_in_standing)
  show ?thesis
    unfolding attempts_ok_def ledger_ok_def ledger_def fst_conv snd_conv distinct counts owners ..
qed

text \<open>An attempt pays for its submission in advance.\<close>

lemma attempt_keeps_bound:
  assumes "attempts_ok s" and "one_attempt fr n h s t"
  shows "attempts_ok t"
proof -
  from assms(2) obtain rec where row: "row_get (s_history s) n = Some h"
    and below: "h_retry_count h < attempt_limit h"
    and view: "rows_view standing t =
        (rows_view standing s)(n \<mapsto> (identity_of h, h_retry_count h + 1, h_max_retries h, rec))"
    and counts: "submission_counts t = submission_counts s
      \<or> submission_counts t = (submission_counts s)(h_idempotency_key h := submissions (h_idempotency_key h) s + 1)"
    by (auto simp: one_attempt_def attemptable_def)
  let ?old = "rows_view standing s" and ?key = "h_idempotency_key h"
  have ok: "ledger_ok (?old, submission_counts s)" using assms(1) by (simp add: attempts_ok_ledger ledger_def)
  have old: "?old n = Some (standing h)" using row by (simp add: rows_view_def)
  have cnt: "submission_counts t k = submission_counts s k
      \<or> (k = ?key \<and> submission_counts t k = submission_counts s k + 1)" for k
    using counts by (metis fun_upd_apply submission_counts_def)
  have h: "0 \<le> h_retry_count h" "int (submission_counts s ?key) \<le> h_retry_count h"
    using assms(1) row by (auto simp: attempts_ok_def submission_counts_def)
  have other: "key_in p \<noteq> ?key" if "?old m = Some p" "m \<noteq> n" for m p
    using ok old that unfolding ledger_ok_def fst_conv by (metis key_in_standing)
  have new_key: "key_in (identity_of h, h_retry_count h + 1, h_max_retries h, rec) = ?key"
    by (simp add: key_in_def)
  have "ledger_ok (rows_view standing t, submission_counts t)"
    unfolding ledger_ok_def fst_conv snd_conv
  proof (intro conjI allI impI)
    fix m m' p q
    assume a: "rows_view standing t m = Some p" "rows_view standing t m' = Some q" "key_in p = key_in q"
    show "m = m'"
    proof (cases "m = n \<or> m' = n")
      case True
      then show ?thesis using a view new_key other by (metis fun_upd_apply option.inject)
    next
      case False
      then show ?thesis using a view ok unfolding ledger_ok_def fst_conv by (metis fun_upd_apply)
    qed
  next
    fix m i c mx b
    assume a: "rows_view standing t m = Some (i, c, mx, b)"
    have "0 \<le> c \<and> c \<le> max 1 (mx + 1) \<and> int (submission_counts t (i_idempotency_key i)) \<le> c"
    proof (cases "m = n")
      case True
      then have v: "i = identity_of h" "c = h_retry_count h + 1" "mx = h_max_retries h"
        using a view by auto
      then have "int (submission_counts t (i_idempotency_key i)) \<le> c" using cnt [of ?key] h(2) by auto
      then show ?thesis using v h(1) below by (simp add: attempt_limit_def)
    next
      case False
      then have o1: "?old m = Some (i, c, mx, b)" using a view by simp
      then have "i_idempotency_key i \<noteq> ?key" using other [OF o1 False] by (simp add: key_in_def)
      then have "submission_counts t (i_idempotency_key i) = submission_counts s (i_idempotency_key i)"
        using cnt by blast
      moreover have "0 \<le> c \<and> c \<le> max 1 (mx + 1) \<and> int (submission_counts s (i_idempotency_key i)) \<le> c"
        using ok o1 unfolding ledger_ok_def fst_conv snd_conv by blast
      ultimately show ?thesis by simp
    qed
    then show "0 \<le> c" "c \<le> max 1 (mx + 1)" "int (submission_counts t (i_idempotency_key i)) \<le> c" by blast+
  next
    fix k assume k: "submission_counts t k \<noteq> 0"
    show "\<exists>m p. rows_view standing t m = Some p \<and> key_in p = k"
    proof (cases "k = ?key")
      case True
      then show ?thesis using view new_key by (metis fun_upd_same)
    next
      case False
      then have "submission_counts s k \<noteq> 0" using cnt k by metis
      then obtain m p where mp: "?old m = Some p" "key_in p = k"
        using ok unfolding ledger_ok_def fst_conv snd_conv by blast
      then have "m \<noteq> n" using False old by auto
      then show ?thesis using mp view by (metis fun_upd_other)
    qed
  qed
  then show ?thesis by (simp add: attempts_ok_ledger ledger_def)
qed

section \<open>Storing deliveries\<close>

lemma stored_view:
  "stored_row fr d s t name h \<Longrightarrow> rows_view g t = (rows_view g s)(name \<mapsto> g h)"
  by (auto simp: stored_row_def rows_view_def fun_eq_iff)

lemma stored_keeps_bound:
  assumes "attempts_ok s" and st: "stored_row fr d s t name h" and zero: "h_retry_count h = 0"
  shows "attempts_ok t"
proof -
  have fresh: "row_get (s_history s) name = None" "\<not> key_taken (h_idempotency_key h) s"
    and wire: "s_wire t = s_wire s"
    and rows: "row_get (s_history t) m = (if m = name then Some h else row_get (s_history s) m)" for m
    using st by (auto simp: stored_row_def)
  have counts: "submissions k t = submissions k s" for k using wire by (simp add: submissions_def)
  have key: "h_idempotency_key k \<noteq> h_idempotency_key h" if "row_get (s_history s) m = Some k" for m k
    using fresh(2) that key_taken_row by metis
  have none: "submissions (h_idempotency_key h) s = 0"
    using assms(1) key unfolding attempts_ok_def by metis
  have "keys_distinct t"
    using assms(1) key unfolding attempts_ok_def keys_distinct_def rows by (metis option.inject)
  moreover have "0 \<le> h_retry_count k \<and> h_retry_count k \<le> attempt_limit k
      \<and> int (submissions (h_idempotency_key k) t) \<le> h_retry_count k" if "row_get (s_history t) m = Some k" for m k
    using that assms(1) none zero unfolding counts rows
    by (cases "m = name") (auto simp: attempts_ok_def attempt_limit_def)
  moreover have "\<exists>m q. row_get (s_history t) m = Some q \<and> h_idempotency_key q = k" if "submissions k t \<noteq> 0" for k
    using that assms(1) fresh(1) unfolding counts rows attempts_ok_def by (metis option.distinct(1))
  ultimately show ?thesis unfolding attempts_ok_def by blast
qed

lemma store_delivery_keeps_bound:
  assumes "attempts_ok s" and "store_delivery fr d recipient s = (Inr res, t)"
  shows "attempts_ok t"
proof -
  obtain p c where res: "res = (p, c)" by (cases res)
  obtain h u g where one: "stored_row fr d s u (sd_name p) h" "row_of fr (s_settings s) d recipient None h"
    and two: "case g of None \<Rightarrow> c = None \<and> t = u
       | Some gid \<Rightarrow> \<exists>cr k. c = Some cr \<and> stored_row fr d u t (sd_name cr) k
           \<and> row_of fr (s_settings s) d gid (Some (sd_name p)) k \<and> copy_matches h (sd_name p) gid k"
    using store_delivery_Inr [of fr d recipient s p c t] assms(2) res by blast
  have u: "attempts_ok u" using stored_keeps_bound [OF assms(1) one(1)] row_of_original [OF one(2)] by simp
  show ?thesis
  proof (cases g)
    case None
    then show ?thesis using two u by simp
  next
    case (Some gid)
    then obtain cr :: stored and k where "stored_row fr d u t (sd_name cr) k" "copy_matches h (sd_name p) gid k" using two by auto
    then show ?thesis using stored_keeps_bound [OF u] by (simp add: copy_matches_def)
  qed
qed

section \<open>Transactions\<close>

text \<open>A rollback leaves the records alone; it needs the wire to have seen no submission.\<close>

lemma rollback_keeps_bound:
  assumes "attempts_ok s" and "submission_counts v = submission_counts s"
    and "s_history t = s_history s" and "s_wire t = s_wire v"
  shows "attempts_ok t"
proof -
  have "submissions k t = submissions k s" for k
    using assms(2,4) by (metis submission_counts_def submission_counts_cong)
  then show ?thesis using assms(1,3) by (simp add: attempts_ok_def keys_distinct_def)
qed

lemma attempts_ok_cong: "ledger standing t = ledger standing s \<Longrightarrow> attempts_ok t = attempts_ok s"
  by (simp add: attempts_ok_ledger)

definition safe_run :: "(site, 'a) act \<Rightarrow> bool" where
  "safe_run m \<longleftrightarrow> (\<forall>s r t. attempts_ok s \<longrightarrow> m s = (r, t) \<longrightarrow>
     (case r of Inr _ \<Rightarrow> attempts_ok t | Inl _ \<Rightarrow> submission_counts t = submission_counts s))"

lemma safe_run_transaction:
  assumes "safe_run m" and "attempts_ok s"
  shows "attempts_ok (run_as u m s)"
proof -
  let ?s = "s\<lparr>s_user := u\<rparr>"
  have s: "attempts_ok ?s" using assms(2) by (simp add: attempts_ok_ledger)
  obtain r t where run: "transaction m ?s = (r, t)" by (cases "transaction m ?s")
  show ?thesis
  proof (rule transaction_cases [OF run])
    fix x assume "m ?s = (Inr x, t)"
    then show ?thesis using assms(1) s run unfolding safe_run_def run_as_def by fastforce
  next
    fix e v js
    assume m: "m ?s = (Inl e, v)" and t: "t = ?s\<lparr>s_wire := s_wire v, s_ticks := s_ticks v, s_jobs := js\<rparr>"
    have "submission_counts v = submission_counts ?s" using assms(1) s m unfolding safe_run_def by fastforce
    from rollback_keeps_bound [OF s this, of t] have "attempts_ok t" by (simp add: t)
    then show ?thesis using run by (simp add: run_as_def)
  qed
qed

lemma safe_run_ledger:
  assumes "keeps (same (ledger standing)) m"
  shows "safe_run m"
  unfolding safe_run_def
proof (intro allI impI)
  fix s r t
  assume ok: "attempts_ok s" and run: "m s = (r, t)"
  have "ledger standing t = ledger standing s" using keeps_result [OF assms run] by (simp add: same_def)
  then have "attempts_ok t" "submission_counts t = submission_counts s"
    using ok attempts_ok_cong [of t s] by (simp_all add: ledger_def)
  then show "case r of Inr _ \<Rightarrow> attempts_ok t | Inl _ \<Rightarrow> submission_counts t = submission_counts s"
    by (simp split: sum.splits)
qed

lemma safe_run_process: "safe_run (process_outbound_message fr n)"
  unfolding safe_run_def
proof (intro allI impI)
  fix s r t
  assume ok: "attempts_ok s" and run: "process_outbound_message fr n s = (r, t)"
  consider "ledger standing t = ledger standing s" | h where "r = Inr ()" "one_attempt fr n h s t"
    using process_ledger [OF run] by blast
  then show "case r of Inr _ \<Rightarrow> attempts_ok t | Inl _ \<Rightarrow> submission_counts t = submission_counts s"
  proof cases
    case 1
    then have "attempts_ok t" "submission_counts t = submission_counts s"
      using ok attempts_ok_cong [of t s] by (simp_all add: ledger_def)
    then show ?thesis by (simp split: sum.splits)
  next
    case 2
    then show ?thesis using attempt_keeps_bound [OF ok 2(2)] by simp
  qed
qed

lemma no_submission_while_storing: "keeps (same submission_counts) (store_delivery fr d r)"
  by (rule keeps_store_delivery) (rule submission_counts_cong, simp)+

lemma safe_run_queue:
  "safe_run (queue_document fr dt n r pf m sm mt)" "safe_run (queue_report fr rn fs r m mt)"
proof -
  have gen: "safe_run (bindA (reads check) (\<lambda>(d, number). store_delivery fr d number))" for check
    unfolding safe_run_def
  proof (intro allI impI)
    fix s r t
    assume ok: "attempts_ok s" and run: "bindA (reads check) (\<lambda>(d, number). store_delivery fr d number) s = (r, t)"
    show "case r of Inr _ \<Rightarrow> attempts_ok t | Inl _ \<Rightarrow> submission_counts t = submission_counts s"
    proof (cases r)
      case (Inl e)
      have "keeps (same submission_counts) (bindA (reads check) (\<lambda>(d, number). store_delivery fr d number))"
        using no_submission_while_storing by (auto intro!: keeps_bindA)
      then have "same submission_counts s t" using run by (rule keeps_result)
      then show ?thesis using Inl by (simp add: same_def)
    next
      case (Inr res)
      then obtain d number where "store_delivery fr d number s = (Inr res, t)"
        using run by (auto simp: bindA_Inr_iff reads_iff)
      then show ?thesis using store_delivery_keeps_bound ok Inr by simp
    qed
  qed
  show "safe_run (queue_document fr dt n r pf m sm mt)" "safe_run (queue_report fr rn fs r m mt)"
    unfolding queue_document_def queue_report_def by (rule gen)+
qed

lemma attempts_ok_step: "attempts_ok s \<Longrightarrow> site_step sha s t \<Longrightarrow> attempts_ok t"
  by (erule site_step.cases)
     (auto intro!: safe_run_transaction safe_run_process safe_run_queue
       safe_run_ledger [OF keeps_ledger_scheduler] safe_run_ledger [OF keeps_ledger_settings]
       safe_run_ledger [OF keeps_ledger_api(1)] safe_run_ledger [OF keeps_ledger_api(2)]
       safe_run_ledger [OF keeps_ledger_api(3)] safe_run_ledger [OF keeps_ledger_api(4)]
       safe_run_ledger [OF keeps_ledger_api(5)] safe_run_ledger [OF keeps_ledger_api(6)]
       safe_run_ledger [OF keeps_ledger_templates(1)] safe_run_ledger [OF keeps_ledger_templates(2)]
       safe_run_ledger [OF keeps_ledger_templates(3)])

lemma attempts_ok_fresh: "fresh_site s \<Longrightarrow> attempts_ok s"
  by (simp add: fresh_site_def attempts_ok_def keys_distinct_def submissions_def)

interpretation attempts: inductive_invariant fresh_site "site_step sha" attempts_ok
  by unfold_locales (rule attempts_ok_fresh, assumption, rule attempts_ok_step)

end
