(* ===== verification/Permanence.thy ===== *)
theory Permanence
  imports Delivery_Bounds
begin

text \<open>
  What never changes. Between two states of a site's life every delivery record stays, with the
  same source, content and recipient; once it needs reconciliation it is never submitted again. So
  a group copy always agrees with its original, and the private snapshot of a delivery is always
  there, unchanged, to be sent.
\<close>

section \<open>Records\<close>

definition row_steady :: "site \<Rightarrow> site \<Rightarrow> history \<Rightarrow> history \<Rightarrow> bool" where
  "row_steady s t h h' \<longleftrightarrow>
     identity_of h' = identity_of h \<and> h_max_retries h' = h_max_retries h \<and> h_retry_count h \<le> h_retry_count h'
     \<and> (h_reconciliation_required h \<longrightarrow>
          h_reconciliation_required h' \<and> h_retry_count h' = h_retry_count h
          \<and> submissions (h_idempotency_key h) t = submissions (h_idempotency_key h) s)"

definition steady :: "site \<Rightarrow> site \<Rightarrow> bool" where
  "steady s t \<longleftrightarrow>
     (\<forall>n h. row_get (s_history s) n = Some h \<longrightarrow>
        (\<exists>h'. row_get (s_history t) n = Some h' \<and> row_steady s t h h'))"

lemma steady_refl: "steady s s"
  by (simp add: steady_def row_steady_def)

lemma same_identity_key: "identity_of h' = identity_of h \<Longrightarrow> h_idempotency_key h' = h_idempotency_key h"
  by (metis identity_key)

lemma row_steady_trans: "row_steady s t h h' \<Longrightarrow> row_steady t u h' h'' \<Longrightarrow> row_steady s u h h''"
  using same_identity_key [of h' h] by (auto simp: row_steady_def)

lemma steady_trans: "steady s t \<Longrightarrow> steady t u \<Longrightarrow> steady s u"
  unfolding steady_def using row_steady_trans by blast

text \<open>The four parts of a record that the ledger shows.\<close>

lemma standing_eq: "standing h' = standing h \<longleftrightarrow> identity_of h' = identity_of h
    \<and> h_retry_count h' = h_retry_count h \<and> h_max_retries h' = h_max_retries h
    \<and> h_reconciliation_required h' = h_reconciliation_required h"
  by (simp add: standing_def)

lemma steady_ledger:
  assumes "ledger standing t = ledger standing s"
  shows "steady s t"
proof -
  have v: "rows_view standing s = rows_view standing t" and c: "submission_counts t = submission_counts s"
    using assms by (simp_all add: ledger_def)
  have "submissions k t = submissions k s" for k using c by (metis submission_counts_def)
  moreover have "\<exists>h'. row_get (s_history t) n = Some h' \<and> standing h' = standing h"
    if "row_get (s_history s) n = Some h" for n h
    using rows_view_Some [OF v that] .
  ultimately show ?thesis unfolding steady_def row_steady_def standing_eq by (metis order_refl)
qed

lemma steady_attempt:
  assumes "attempts_ok s" and "one_attempt fr n h s t"
  shows "steady s t"
  unfolding steady_def
proof (intro allI impI)
  fix m k
  assume m: "row_get (s_history s) m = Some k"
  from assms(2) obtain rec where row: "row_get (s_history s) n = Some h"
    and not_rec: "\<not> h_reconciliation_required h"
    and view: "rows_view standing t =
        (rows_view standing s)(n \<mapsto> (identity_of h, h_retry_count h + 1, h_max_retries h, rec))"
    and counts: "submission_counts t = submission_counts s
      \<or> submission_counts t = (submission_counts s)(h_idempotency_key h := submissions (h_idempotency_key h) s + 1)"
    by (auto simp: one_attempt_def attemptable_def)
  show "\<exists>h'. row_get (s_history t) m = Some h' \<and> row_steady s t k h'"
  proof (cases "m = n")
    case True
    then have "rows_view standing t m = Some (identity_of h, h_retry_count h + 1, h_max_retries h, rec)"
      using view by simp
    then obtain h' where "row_get (s_history t) m = Some h'"
      "standing h' = (identity_of h, h_retry_count h + 1, h_max_retries h, rec)"
      by (auto simp: rows_view_standing)
    then show ?thesis using True m row not_rec by (auto simp: standing_def row_steady_def)
  next
    case False
    then have "rows_view standing t m = Some (standing k)" using view m by (simp add: rows_view_def)
    then obtain h' where h': "row_get (s_history t) m = Some h'" "standing h' = standing k"
      by (auto simp: rows_view_standing)
    have "h_idempotency_key k \<noteq> h_idempotency_key h"
      using assms(1) m row False unfolding attempts_ok_def keys_distinct_def by metis
    then have "submissions (h_idempotency_key k) t = submissions (h_idempotency_key k) s"
      using counts by (metis fun_upd_other submission_counts_def)
    then show ?thesis using h' unfolding standing_eq row_steady_def by (intro exI [of _ h']) simp
  qed
qed

lemma steady_stored:
  assumes "stored_row fr d s t name h"
  shows "steady s t"
proof -
  have "row_get (s_history t) n = Some k" if "row_get (s_history s) n = Some k" for n k
    using assms that unfolding stored_row_def by (metis option.distinct(1))
  moreover have "submissions k t = submissions k s" for k
    using assms by (simp add: stored_row_def submissions_def)
  ultimately show ?thesis by (simp add: steady_def row_steady_def)
qed

section \<open>Copies and snapshots\<close>

definition copies_ok :: "site \<Rightarrow> bool" where
  "copies_ok s \<longleftrightarrow>
     (\<forall>n c. row_get (s_history s) n = Some c \<longrightarrow> is_group c \<or> is_copy c \<longrightarrow>
        (\<exists>p original. h_copy_of c = Some p \<and> row_get (s_history s) p = Some original
           \<and> \<not> is_group original \<and> \<not> is_copy original \<and> content_of c = content_of original))"

definition snapshots_ok :: "(bytes \<Rightarrow> pystr) \<Rightarrow> site \<Rightarrow> bool" where
  "snapshots_ok sha s \<longleftrightarrow>
     (\<forall>n h. row_get (s_history s) n = Some h \<longrightarrow>
        (\<exists>f file. h_pdf_file h = Some f \<and> f \<noteq> [] \<and> row_get (s_files s) f = Some file
           \<and> f_attached_to_doctype file = HISTORY_DOCTYPE \<and> f_attached_to_name file = n
           \<and> f_is_private file \<and> h_pdf_sha256 h = Some (sha (f_content file))))"

lemma identity_parts:
  assumes "identity_of h' = identity_of h"
  shows "content_of h' = content_of h" "h_copy_of h' = h_copy_of h" "is_group h' = is_group h"
    "is_copy h' = is_copy h" "h_pdf_file h' = h_pdf_file h" "h_pdf_sha256 h' = h_pdf_sha256 h"
    "h_recipient h' = h_recipient h" "h_owner h' = h_owner h"
  using assms by (auto simp: identity_of_def content_of_def is_group_def is_copy_def)

text \<open>Records that stay and no new ones: both properties are kept.\<close>

definition no_new_rows :: "site \<Rightarrow> site \<Rightarrow> bool" where
  "no_new_rows s t \<longleftrightarrow> (\<forall>n. row_get (s_history t) n \<noteq> None \<longrightarrow> row_get (s_history s) n \<noteq> None)"

lemma old_row:
  assumes "steady s t" "no_new_rows s t" "row_get (s_history t) n = Some h'"
  shows "\<exists>h. row_get (s_history s) n = Some h \<and> identity_of h' = identity_of h"
  using assms unfolding steady_def row_steady_def no_new_rows_def by (metis not_None_eq option.inject)

lemma copies_kept:
  assumes "copies_ok s" "steady s t" "no_new_rows s t"
  shows "copies_ok t"
  unfolding copies_ok_def
proof (intro allI impI)
  fix n c
  assume row: "row_get (s_history t) n = Some c" and copy: "is_group c \<or> is_copy c"
  obtain c0 where c0: "row_get (s_history s) n = Some c0" "identity_of c = identity_of c0"
    using old_row [OF assms(2,3) row] by blast
  note same_c = identity_parts [OF c0(2)]
  obtain p o0 where o0: "h_copy_of c0 = Some p" "row_get (s_history s) p = Some o0" "\<not> is_group o0"
    "\<not> is_copy o0" "content_of c0 = content_of o0"
    using assms(1) c0(1) copy same_c unfolding copies_ok_def by metis
  obtain o1 where "row_get (s_history t) p = Some o1" "identity_of o1 = identity_of o0"
    using assms(2) o0(2) unfolding steady_def row_steady_def by blast
  then show "\<exists>p original. h_copy_of c = Some p \<and> row_get (s_history t) p = Some original
           \<and> \<not> is_group original \<and> \<not> is_copy original \<and> content_of c = content_of original"
    using o0 same_c identity_parts [of o1 o0] by auto
qed

definition files_kept :: "site \<Rightarrow> site \<Rightarrow> bool" where
  "files_kept s t \<longleftrightarrow>
     (\<forall>f file. row_get (s_files s) f = Some file \<longrightarrow> row_get (s_files t) f = Some file)"

lemma snapshots_kept:
  assumes "snapshots_ok sha s" "steady s t" "no_new_rows s t" "files_kept s t"
  shows "snapshots_ok sha t"
  unfolding snapshots_ok_def
proof (intro allI impI)
  fix n h'
  assume row: "row_get (s_history t) n = Some h'"
  obtain h where h: "row_get (s_history s) n = Some h" "identity_of h' = identity_of h"
    using old_row [OF assms(2,3) row] by blast
  show "\<exists>f file. h_pdf_file h' = Some f \<and> f \<noteq> [] \<and> row_get (s_files t) f = Some file
           \<and> f_attached_to_doctype file = HISTORY_DOCTYPE \<and> f_attached_to_name file = n
           \<and> f_is_private file \<and> h_pdf_sha256 h' = Some (sha (f_content file))"
    using assms(1,4) h identity_parts [OF h(2)] unfolding snapshots_ok_def files_kept_def by metis
qed

text \<open>A new record brings its own snapshot, and a new copy its original.\<close>

lemma snapshots_stored:
  assumes "snapshots_ok sha s" "stored_row fr d s t name h" "fr_sha256 fr = sha"
  shows "snapshots_ok sha t"
  unfolding snapshots_ok_def
proof (intro allI impI)
  fix n k
  assume row: "row_get (s_history t) n = Some k"
  obtain x where new: "h_pdf_file h = Some x" "x \<noteq> []" "row_get (s_files s) x = None"
    "row_get (s_files t) x = Some (snapshot_of fr d name)" "h_pdf_sha256 h = Some (sha (dr_pdf d))"
    and files: "\<forall>f. f \<noteq> x \<longrightarrow> row_get (s_files t) f = row_get (s_files s) f"
    and rows: "\<And>m. row_get (s_history t) m = (if m = name then Some h else row_get (s_history s) m)"
    using assms(2,3) by (auto simp: stored_row_def)
  show "\<exists>f file. h_pdf_file k = Some f \<and> f \<noteq> [] \<and> row_get (s_files t) f = Some file
           \<and> f_attached_to_doctype file = HISTORY_DOCTYPE \<and> f_attached_to_name file = n
           \<and> f_is_private file \<and> h_pdf_sha256 k = Some (sha (f_content file))"
  proof (cases "n = name")
    case True
    then show ?thesis using row rows new by (simp add: snapshot_of_def)
  next
    case False
    then have "row_get (s_history s) n = Some k" using row rows by simp
    then show ?thesis using assms(1) files new(3) unfolding snapshots_ok_def by (metis option.distinct(1))
  qed
qed

lemma copies_stored:
  assumes "copies_ok s" "stored_row fr d s t name h"
    and "is_group h \<or> is_copy h \<Longrightarrow>
      \<exists>p original. h_copy_of h = Some p \<and> row_get (s_history s) p = Some original
         \<and> \<not> is_group original \<and> \<not> is_copy original \<and> content_of h = content_of original"
  shows "copies_ok t"
proof -
  have kept: "row_get (s_history s) m = Some k \<Longrightarrow> row_get (s_history t) m = Some k" for m k
    using assms(2) unfolding stored_row_def by (metis option.distinct(1))
  have rows: "row_get (s_history t) m = Some k \<Longrightarrow> k = h \<or> row_get (s_history s) m = Some k" for m k
    using assms(2) unfolding stored_row_def by (metis option.inject)
  show ?thesis
    unfolding copies_ok_def
  proof (intro allI impI)
    fix n c
    assume row: "row_get (s_history t) n = Some c" and copy: "is_group c \<or> is_copy c"
    have "\<exists>p original. h_copy_of c = Some p \<and> row_get (s_history s) p = Some original
         \<and> \<not> is_group original \<and> \<not> is_copy original \<and> content_of c = content_of original"
      using rows [OF row] copy assms(1,3) unfolding copies_ok_def by metis
    then show "\<exists>p original. h_copy_of c = Some p \<and> row_get (s_history t) p = Some original
         \<and> \<not> is_group original \<and> \<not> is_copy original \<and> content_of c = content_of original"
      using kept by blast
  qed
qed

section \<open>Files stay\<close>

lemma keeps_files_settings [simp]: "keeps (same s_files) (save_settings fr st)"
  unfolding save_settings_def
  by (auto intro!: keeps_bindA keeps_modifies keeps_validate_settings simp: same_def)

lemma keeps_files_update_status [simp]: "keeps (same s_files) (update_status r)"
  unfolding update_status_def by (auto intro!: keeps_bindA keeps_modifies simp: same_def)

lemma keeps_files_api:
  "keeps (same s_files) (get_status fr)" "keeps (same s_files) (connect fr)"
  "keeps (same s_files) (disconnect_and_remove_authentication fr)"
  "keeps (same s_files) (configure_official_api fr f)" "keeps (same s_files) (cloud_webhook fr w)"
  "keeps (same s_files) (list_groups fr c)"
  unfolding get_status_def connect_def disconnect_and_remove_authentication_def configure_official_api_def
    cloud_webhook_def list_groups_def as_manager_def provider_request_def verify_webhook_def
  by (auto intro!: keeps_bindA keeps_catchA)

lemma keeps_files_templates:
  "keeps (same s_files) (save_template n t)" "keeps (same s_files) (insert_template n t)"
  "keeps (same s_files) (after_migrate fr)"
proof -
  have sv: "keeps (same s_files) (save_template n t)" for n t
    unfolding save_template_def by (auto intro!: keeps_bindA keeps_modifies simp: same_def)
  then have ins: "keeps (same s_files) (insert_template n t)" for n t
    unfolding insert_template_def by (auto intro!: keeps_bindA)
  then have "keeps (same s_files) (ensure_template k e)" for k e
    unfolding ensure_template_def by (auto intro!: keeps_bindA split: option.splits)
  then show "keeps (same s_files) (after_migrate fr)"
    unfolding after_migrate_def ensure_roles_def ensure_default_templates_def ensure_role_def
    by (auto intro!: keeps_bindA keeps_foldA keeps_modifies simp: same_def)
  show "keeps (same s_files) (save_template n t)" "keeps (same s_files) (insert_template n t)"
    by (fact sv, fact ins)
qed

lemma keeps_files_surroundings: "keeps (same surroundings) m \<Longrightarrow> keeps (same s_files) m"
  by (auto simp: keeps_def same_def surroundings_def)

lemma keeps_files_scheduler: "keeps (same s_files) (scheduled_maintenance fr)"
proof -
  have retry: "keeps (same s_files) (retry_due_messages fr)"
    by (intro keeps_files_surroundings keeps_retry_due(2) [of standing]) simp_all
  have "keeps (same s_files) (apply_events fr es n)" for es n
    by (intro keeps_files_surroundings keeps_apply_events(2) [of standing]) simp_all
  then have "keeps (same s_files) (sync_delivery_statuses fr)"
    unfolding sync_delivery_statuses_def events_request_def
    by (auto intro!: keeps_bindA keeps_catchA split: option.splits)
  with retry show ?thesis unfolding scheduled_maintenance_def by (auto intro!: keeps_bindA)
qed

lemma keeps_files_try_send: "keeps (same s_files) (try_send fr n h)"
proof (rule keepsI)
  fix s r t assume "try_send fr n h s = (r, t)"
  from try_send_effect [OF this] show "same s_files s t"
    by (auto simp: same_def only_ticked_def sent_one_def)
qed

lemma keeps_files_process: "keeps (same s_files) (process_outbound_message fr n)"
proof -
  have save: "keeps (same s_files) (save_history n h)" for n h
    unfolding save_history_def by (auto intro!: keeps_bindA keeps_modifies simp: same_def)
  have fail: "keeps (same s_files) (attempt_failed fr h e)" for h e
    unfolding attempt_failed_def now_datetime_def Let_def by (auto intro!: keeps_bindA)
  have rel: "keeps (same s_files) (release_if_original fr n h)" for n h
    by (intro keeps_files_surroundings keeps_release_if_original(2) [of standing]) simp
  have "keeps (same s_files) (run_attempt fr n h now)" for h now
    unfolding run_attempt_def Let_def
    by (auto intro!: keeps_bindA keeps_catchA save fail rel keeps_files_try_send)
  then show ?thesis
    unfolding process_outbound_message_def now_datetime_def
    by (auto intro!: keeps_bindA save rel)
qed

section \<open>Every step\<close>

definition good_step :: "(bytes \<Rightarrow> pystr) \<Rightarrow> site \<Rightarrow> site \<Rightarrow> bool" where
  "good_step sha s t \<longleftrightarrow>
     steady s t \<and> (copies_ok s \<longrightarrow> copies_ok t) \<and> (snapshots_ok sha s \<longrightarrow> snapshots_ok sha t)"

lemma good_step_plain:
  assumes "steady s t" "no_new_rows s t" "s_files t = s_files s"
  shows "good_step sha s t"
proof -
  have "files_kept s t" using assms(3) by (simp add: files_kept_def)
  then show ?thesis
    using assms copies_kept snapshots_kept unfolding good_step_def by blast
qed

lemma no_new_rows_view: "rows_view g t = rows_view g s \<Longrightarrow> no_new_rows s t"
  unfolding no_new_rows_def rows_view_def fun_eq_iff by (metis map_option_is_None)

lemma good_step_ledger:
  assumes "ledger standing t = ledger standing s" "s_files t = s_files s"
  shows "good_step sha s t"
  using assms steady_ledger no_new_rows_view [of standing]
  by (intro good_step_plain) (simp_all add: ledger_def)

lemma good_step_attempt:
  assumes "attempts_ok s" "one_attempt fr n h s t" "s_files t = s_files s"
  shows "good_step sha s t"
proof -
  from assms(2) obtain rec where row: "row_get (s_history s) n = Some h"
    and view: "rows_view standing t =
        (rows_view standing s)(n \<mapsto> (identity_of h, h_retry_count h + 1, h_max_retries h, rec))"
    by (auto simp: one_attempt_def)
  have "row_get (s_history s) m \<noteq> None" if "row_get (s_history t) m \<noteq> None" for m
  proof (cases "m = n")
    case True
    then show ?thesis using row by simp
  next
    case False
    then have "rows_view standing t m = rows_view standing s m" using view by simp
    then show ?thesis using that unfolding rows_view_def by (metis map_option_is_None)
  qed
  then have "no_new_rows s t" by (simp add: no_new_rows_def)
  then show ?thesis using steady_attempt [OF assms(1,2)] assms(3) by (intro good_step_plain)
qed

lemma good_step_stored_original:
  assumes "stored_row fr d s t name h" "row_of fr st d r None h" "fr_sha256 fr = sha"
  shows "good_step sha s t"
  using steady_stored [OF assms(1)] snapshots_stored [OF _ assms(1,3)] copies_stored [OF _ assms(1)]
    row_of_original [OF assms(2)]
  unfolding good_step_def by blast

lemma good_step_trans: "good_step sha s t \<Longrightarrow> good_step sha t u \<Longrightarrow> good_step sha s u"
  unfolding good_step_def using steady_trans by blast

lemma good_step_store:
  assumes "store_delivery fr d recipient s = (Inr res, t)" "fr_sha256 fr = sha"
  shows "good_step sha s t"
proof -
  obtain p c where res: "res = (p, c)" by (cases res)
  obtain h u g where one: "stored_row fr d s u (sd_name p) h" "row_of fr (s_settings s) d recipient None h"
    and two: "case g of None \<Rightarrow> c = None \<and> t = u
       | Some gid \<Rightarrow> \<exists>cr k. c = Some cr \<and> stored_row fr d u t (sd_name cr) k
           \<and> row_of fr (s_settings s) d gid (Some (sd_name p)) k \<and> copy_matches h (sd_name p) gid k"
    using store_delivery_Inr [of fr d recipient s p c t] assms(1) res by blast
  have u: "good_step sha s u" using good_step_stored_original [OF one assms(2)] .
  show ?thesis
  proof (cases g)
    case None
    then show ?thesis using two u by simp
  next
    case (Some gid)
    then obtain cr :: stored and k where k: "stored_row fr d u t (sd_name cr) k"
      "copy_matches h (sd_name p) gid k" using two by auto
    have "row_get (s_history u) (sd_name p) = Some h" using one(1) by (simp add: stored_row_def)
    then have "\<exists>p original. h_copy_of k = Some p \<and> row_get (s_history u) p = Some original
         \<and> \<not> is_group original \<and> \<not> is_copy original \<and> content_of k = content_of original"
      using k(2) row_of_original [OF one(2)] unfolding copy_matches_def by blast
    then have "good_step sha u t"
      using steady_stored [OF k(1)] snapshots_stored [OF _ k(1) assms(2)] copies_stored [OF _ k(1)]
      unfolding good_step_def by blast
    with u show ?thesis by (rule good_step_trans)
  qed
qed

definition good_run :: "(bytes \<Rightarrow> pystr) \<Rightarrow> (site, 'a) act \<Rightarrow> bool" where
  "good_run sha m \<longleftrightarrow> (\<forall>s x t. attempts_ok s \<longrightarrow> m s = (Inr x, t) \<longrightarrow> good_step sha s t)"

lemma good_run_transaction:
  assumes "good_run sha m" and "safe_run m" and "attempts_ok s"
  shows "good_step sha s (run_as u m s)"
proof -
  let ?s = "s\<lparr>s_user := u\<rparr>"
  have s: "attempts_ok ?s" using assms(3) by (simp add: attempts_ok_ledger)
  have user: "good_step sha s ?s" by (rule good_step_ledger) simp_all
  obtain r t where run: "transaction m ?s = (r, t)" by (cases "transaction m ?s")
  have "good_step sha ?s t"
  proof (rule transaction_cases [OF run])
    fix x assume m: "m ?s = (Inr x, t)"
    then have "transaction m ?s = (Inr x, t)" by (simp add: transaction_def)
    then show ?thesis using assms(1) s m unfolding good_run_def by blast
  next
    fix e v js
    assume m: "m ?s = (Inl e, v)" and t: "t = ?s\<lparr>s_wire := s_wire v, s_ticks := s_ticks v, s_jobs := js\<rparr>"
    have "submission_counts v = submission_counts ?s" using assms(2) s m unfolding safe_run_def by fastforce
    moreover have "submission_counts t = submission_counts v"
      by (rule submission_counts_cong) (simp add: t)
    moreover have "rows_view standing t = rows_view standing ?s" by (simp add: t)
    ultimately show ?thesis by (intro good_step_ledger) (simp_all add: ledger_def t)
  qed
  with user show ?thesis using run by (metis good_step_trans run_as_def snd_conv)
qed

lemma good_run_plain:
  assumes "keeps (same (ledger standing)) m" "keeps (same s_files) m"
  shows "good_run sha m"
  unfolding good_run_def
  using keeps_result [OF assms(1)] keeps_result [OF assms(2)]
  by (auto simp: same_def intro!: good_step_ledger)

lemma good_run_process: "good_run sha (process_outbound_message fr n)"
  unfolding good_run_def
proof (intro allI impI)
  fix s x t
  assume ok: "attempts_ok s" and run: "process_outbound_message fr n s = (Inr x, t)"
  have files: "s_files t = s_files s" using keeps_result [OF keeps_files_process run] by (simp add: same_def)
  from process_ledger [OF run] show "good_step sha s t"
    using good_step_ledger [OF _ files] good_step_attempt [OF ok _ files] by blast
qed

lemma good_run_queue:
  assumes "fr_sha256 fr = sha"
  shows "good_run sha (queue_document fr dt n r pf m sm mt)" "good_run sha (queue_report fr rn fs r m mt)"
  unfolding good_run_def
  by (auto simp: queue_document_Inr queue_report_Inr intro: good_step_store [OF _ assms]
      simp del: split_paired_All)

lemma good_step_run:
  "attempts_ok s \<Longrightarrow> keeps (same (ledger standing)) m \<Longrightarrow> keeps (same s_files) m \<Longrightarrow>
     good_step sha s (run_as u m s)"
  by (rule good_run_transaction [OF good_run_plain safe_run_ledger])

lemma good_site_step:
  assumes "attempts_ok s" and "site_step sha s t"
  shows "good_step sha s t"
  using assms(2)
proof cases
  case (step_queue_document fr u dt n r pf m sm mt)
  then show ?thesis using good_run_transaction [OF good_run_queue(1) safe_run_queue(1) assms(1)] by simp
next
  case (step_queue_report fr u rn fs r m mt)
  then show ?thesis using good_run_transaction [OF good_run_queue(2) safe_run_queue(2) assms(1)] by simp
next
  case (step_worker fr u name)
  then show ?thesis using good_run_transaction [OF good_run_process safe_run_process assms(1)] by simp
qed (auto intro!: good_step_run [OF assms(1)] keeps_ledger_scheduler keeps_ledger_settings
      keeps_ledger_api keeps_ledger_templates keeps_files_scheduler keeps_files_settings
      keeps_files_api keeps_files_templates)

text \<open>Over a whole history.\<close>

definition records_ok :: "(bytes \<Rightarrow> pystr) \<Rightarrow> site \<Rightarrow> bool" where
  "records_ok sha s \<longleftrightarrow> attempts_ok s \<and> copies_ok s \<and> snapshots_ok sha s"

lemma records_ok_step: "records_ok sha s \<Longrightarrow> site_step sha s t \<Longrightarrow> records_ok sha t"
  using good_site_step attempts_ok_step unfolding records_ok_def good_step_def by blast

lemma records_ok_fresh: "fresh_site s \<Longrightarrow> records_ok sha s"
  using attempts_ok_fresh by (simp add: records_ok_def fresh_site_def copies_ok_def snapshots_ok_def)

interpretation records: inductive_invariant fresh_site "site_step sha" "records_ok sha"
  by unfold_locales (rule records_ok_fresh, assumption, rule records_ok_step)

lemma steady_history:
  assumes "attempts_ok s" and "(site_step sha)\<^sup>*\<^sup>* s t"
  shows "steady s t"
  using assms(2)
proof (induction rule: rtranclp_induct)
  case base
  show ?case by (rule steady_refl)
next
  case (step t u)
  have "attempts_ok t" using attempts.invariant_from [OF assms(1) step(1)] .
  then have "steady t u" using good_site_step step(2) unfolding good_step_def by blast
  with step(3) show ?case by (rule steady_trans)
qed

end
