(* ===== verification/Configuration.thy ===== *)
theory Configuration
  imports Permanence
begin

text \<open>
  The configuration of a site over its whole life: whatever requests, jobs and passes run, the
  company groups stay in the shape \<open>validate_settings\<close> demands, and no two enabled default
  templates compete for one target.
\<close>

definition config_ok :: "site \<Rightarrow> bool" where
  "config_ok s \<longleftrightarrow> groups_ok (s_settings s) \<and> one_default (s_templates s)"

definition preserves :: "('s \<Rightarrow> bool) \<Rightarrow> 's \<Rightarrow> 's \<Rightarrow> bool" where
  "preserves I s t \<longleftrightarrow> (I s \<longrightarrow> I t)"

lemma preserves_preorder [simp]: "reflp (preserves I)" "transp (preserves I)"
  by (auto simp: preserves_def reflp_def transp_def)

definition configuration :: "site \<Rightarrow> settings \<times> template rows" where
  "configuration s = (s_settings s, s_templates s)"

lemma configuration_simps [simp]:
  "configuration (s\<lparr>s_ticks := n\<rparr>) = configuration s" "configuration (s\<lparr>s_user := u\<rparr>) = configuration s"
  "configuration (s\<lparr>s_wire := w\<rparr>) = configuration s" "configuration (s\<lparr>s_jobs := j\<rparr>) = configuration s"
  "configuration (s\<lparr>s_files := f\<rparr>) = configuration s" "configuration (s\<lparr>s_history := h\<rparr>) = configuration s"
  "configuration (s\<lparr>s_roles := r\<rparr>) = configuration s" "configuration (put_history m k s) = configuration s"
  by (simp_all add: configuration_def put_history_def)

lemma config_ok_cong: "configuration t = configuration s \<Longrightarrow> config_ok t = config_ok s"
  by (simp add: configuration_def config_ok_def)

lemma preserves_same: "keeps (same configuration) m \<Longrightarrow> keeps (preserves config_ok) m"
  unfolding keeps_def same_def preserves_def by (metis config_ok_cong)

lemma configuration_surroundings: "keeps (same surroundings) m \<Longrightarrow> keeps (same configuration) m"
  by (auto simp: keeps_def same_def surroundings_def configuration_def)

section \<open>Operations that leave it alone\<close>

lemma keeps_config_store: "keeps (same configuration) (store_delivery fr d r)"
  by (rule keeps_store_delivery) simp_all

lemma keeps_config_queue:
  "keeps (same configuration) (queue_document fr dt n r pf m sm mt)"
  "keeps (same configuration) (queue_report fr rn fs r m mt)"
  unfolding queue_document_def queue_report_def using keeps_config_store by (auto intro!: keeps_bindA)

lemma keeps_config_try_send: "keeps (same configuration) (try_send fr n h)"
proof (rule keepsI)
  fix s r t assume "try_send fr n h s = (r, t)"
  from try_send_effect [OF this] show "same configuration s t"
    by (auto simp: same_def only_ticked_def sent_one_def)
qed

lemma keeps_config_process: "keeps (same configuration) (process_outbound_message fr n)"
proof -
  have save: "keeps (same configuration) (save_history n h)" for n h
    unfolding save_history_def by (auto intro!: keeps_bindA keeps_modifies simp: same_def)
  have fail: "keeps (same configuration) (attempt_failed fr h e)" for h e
    unfolding attempt_failed_def now_datetime_def Let_def by (auto intro!: keeps_bindA)
  have rel: "keeps (same configuration) (release_if_original fr n h)" for n h
    by (intro configuration_surroundings keeps_release_if_original(2) [of standing]) simp
  have "keeps (same configuration) (run_attempt fr n h now)" for h now
    unfolding run_attempt_def Let_def
    by (auto intro!: keeps_bindA keeps_catchA save fail rel keeps_config_try_send)
  then show ?thesis
    unfolding process_outbound_message_def now_datetime_def by (auto intro!: keeps_bindA save rel)
qed

section \<open>Operations that write it\<close>

lemma keeps_config_gateway: "keeps (preserves config_ok) (gateway_request fr p q n)"
  by (intro preserves_same keeps_gateway_request) simp

lemma keeps_config_save: "keeps (preserves config_ok) (save_settings fr st)"
proof (rule keepsI)
  fix s r t
  assume run: "save_settings fr st s = (r, t)"
  have templates: "keeps (same s_templates) (save_settings fr st)"
    unfolding save_settings_def
    by (auto intro!: keeps_bindA keeps_modifies keeps_validate_settings simp: same_def)
  have "s_templates t = s_templates s" using keeps_result [OF templates run] by (simp add: same_def)
  moreover have "groups_ok (s_settings t)" if "groups_ok (s_settings s)"
  proof (cases r)
    case (Inl e)
    then show ?thesis using run that save_settings_Inl by metis
  next
    case (Inr u)
    then show ?thesis using run that save_settings_ok unfolding settings_ok_def by blast
  qed
  ultimately show "preserves config_ok s t" by (simp add: preserves_def config_ok_def)
qed

lemma keeps_config_status: "keeps (preserves config_ok) (update_status v)"
proof (rule keepsI)
  fix s r t assume "update_status v s = (r, t)"
  from update_status_effect [OF this] show "preserves config_ok s t"
    using groups_ok_status by (auto simp: preserves_def config_ok_def)
qed

lemma keeps_config_api:
  "keeps (preserves config_ok) (get_status fr)" "keeps (preserves config_ok) (connect fr)"
  "keeps (preserves config_ok) (disconnect_and_remove_authentication fr)"
  "keeps (preserves config_ok) (configure_official_api fr f)"
  "keeps (preserves config_ok) (cloud_webhook fr w)" "keeps (preserves config_ok) (list_groups fr c)"
  unfolding get_status_def connect_def disconnect_and_remove_authentication_def configure_official_api_def
    cloud_webhook_def list_groups_def as_manager_def provider_request_def verify_webhook_def joined_groups_def
  by (auto intro!: keeps_bindA keeps_catchA keeps_config_gateway keeps_config_status keeps_config_save)

lemma keeps_config_scheduler: "keeps (preserves config_ok) (scheduled_maintenance fr)"
proof -
  have retry: "keeps (preserves config_ok) (retry_due_messages fr)"
    by (intro preserves_same configuration_surroundings keeps_retry_due(2) [of standing]) simp_all
  have "keeps (preserves config_ok) (apply_events fr es n)" for es n
    by (intro preserves_same configuration_surroundings keeps_apply_events(2) [of standing]) simp_all
  then have "keeps (preserves config_ok) (sync_delivery_statuses fr)"
    unfolding sync_delivery_statuses_def events_request_def
    by (auto intro!: keeps_bindA keeps_catchA keeps_config_gateway keeps_config_save split: option.splits)
  with retry show ?thesis unfolding scheduled_maintenance_def by (auto intro!: keeps_bindA)
qed

lemma keeps_config_save_template: "keeps (preserves config_ok) (save_template n t)"
proof (rule keepsI)
  fix s r u assume run: "save_template n t s = (r, u)"
  have "keeps (same s_settings) (save_template n t)"
    unfolding save_template_def by (auto intro!: keeps_bindA keeps_modifies simp: same_def)
  then have "s_settings u = s_settings s" using run by (auto simp: same_def dest: keeps_result)
  then show "preserves config_ok s u"
    using save_template_one_default [OF _ run] by (auto simp: preserves_def config_ok_def)
qed

lemma keeps_config_templates:
  "keeps (preserves config_ok) (insert_template n t)" "keeps (preserves config_ok) (after_migrate fr)"
proof -
  have ins: "keeps (preserves config_ok) (insert_template n t)" for n t
    unfolding insert_template_def by (auto intro!: keeps_bindA keeps_config_save_template)
  then have "keeps (preserves config_ok) (ensure_template k e)" for k e
    unfolding ensure_template_def by (auto intro!: keeps_bindA split: option.splits)
  moreover have "keeps (preserves config_ok) (ensure_role q)" for q
    by (intro preserves_same) (simp add: ensure_role_def keeps_modifies same_def)
  ultimately show "keeps (preserves config_ok) (after_migrate fr)"
    unfolding after_migrate_def ensure_roles_def ensure_default_templates_def
    by (auto intro!: keeps_bindA keeps_foldA)
  show "keeps (preserves config_ok) (insert_template n t)" by (fact ins)
qed

section \<open>Every step\<close>

lemma config_ok_run:
  assumes "config_ok s" and "keeps (preserves config_ok) m"
  shows "config_ok (run_as u m s)"
proof -
  let ?s = "s\<lparr>s_user := u\<rparr>"
  have s: "config_ok ?s" using assms(1) by (simp add: config_ok_def)
  obtain r t where run: "transaction m ?s = (r, t)" by (cases "transaction m ?s")
  have "config_ok t"
  proof (rule transaction_cases [OF run])
    fix x assume m: "m ?s = (Inr x, t)"
    show ?thesis using keeps_result [OF assms(2) m] s by (simp add: preserves_def)
  next
    fix e v js assume "t = ?s\<lparr>s_wire := s_wire v, s_ticks := s_ticks v, s_jobs := js\<rparr>"
    then show ?thesis using s by (simp add: config_ok_def)
  qed
  then show ?thesis using run by (simp add: run_as_def)
qed

lemma config_ok_step: "config_ok s \<Longrightarrow> site_step sha s t \<Longrightarrow> config_ok t"
  by (erule site_step.cases)
     (auto intro!: config_ok_run preserves_same [OF keeps_config_queue(1)]
       preserves_same [OF keeps_config_queue(2)] preserves_same [OF keeps_config_process]
       keeps_config_scheduler keeps_config_save keeps_config_api keeps_config_save_template
       keeps_config_templates)

lemma config_ok_fresh: "fresh_site s \<Longrightarrow> config_ok s"
  by (simp add: fresh_site_def config_ok_def groups_ok_def companies_def enabled_rows_def one_default_def)

interpretation config: inductive_invariant fresh_site "site_step sha" config_ok
  by unfold_locales (rule config_ok_fresh, assumption, rule config_ok_step)

end
