(* ===== verification/Guarantees.thy ===== *)
theory Guarantees
  imports Configuration
begin

text \<open>
  Facts that span several components: what must hold at the moment a message leaves, what an
  attempt leaves behind, what the scheduler does to a due record, and what a stored copy is worth
  when it is checked again.
\<close>

section \<open>The checks read the session and the settings only\<close>

lemma require_sender_cong: "s_user t = s_user s \<Longrightarrow> require_sender fr t = require_sender fr s"
  by (simp add: require_sender_def can_send_def is_manager_def get_roles_def)

lemma check_permission_cong: "s_user t = s_user s \<Longrightarrow> check_permission fr t = check_permission fr s"
  by (simp add: check_permission_def fun_eq_iff)

lemma configured_group_cong: "s_user t = s_user s \<Longrightarrow> configured_group fr st c t = configured_group fr st c s"
proof -
  assume u: "s_user t = s_user s"
  have c: "company_check fr t = company_check fr s"
    unfolding company_check_def check_permission_cong [OF u] fun_eq_iff by simp
  show ?thesis unfolding configured_group_def c ..
qed

lemma validate_document_cong:
  assumes "s_user t = s_user s" "s_settings t = s_settings s"
  shows "validate_document fr t dt n = validate_document fr s dt n"
proof -
  have e: "enabled_settings t = enabled_settings s" using assms by (simp add: enabled_settings_def)
  show ?thesis
    unfolding validate_document_def check_permission_cong [OF assms(1)] assms e ..
qed

lemma validate_report_cong:
  assumes "s_user t = s_user s"
  shows "validate_report fr t n f = validate_report fr s n f"
proof -
  have c: "report_company fr t = report_company fr s"
    unfolding report_company_def check_permission_cong [OF assms] fun_eq_iff by simp
  show ?thesis
    unfolding validate_report_def check_permission_cong [OF assms] may_run_def assms c ..
qed

lemma check_authority_cong:
  assumes "s_user t = s_user s" "s_settings t = s_settings s"
  shows "check_authority fr st h t = check_authority fr st h s"
  unfolding check_authority_def check_source_def check_document_source_def check_report_source_def
    require_sender_cong [OF assms(1)] configured_group_cong [OF assms(1)] validate_document_cong [OF assms]
    validate_report_cong [OF assms(1)] assms ..

text \<open>The same for the record that is already marked as being processed.\<close>

lemma started_parts:
  "h_company (started h now) = h_company h" "h_recipient (started h now) = h_recipient h"
  "h_reference_type (started h now) = h_reference_type h" "h_reference_doctype (started h now) = h_reference_doctype h"
  "h_reference_name (started h now) = h_reference_name h" "h_report_name (started h now) = h_report_name h"
  "h_report_filters (started h now) = h_report_filters h" "h_source_modified (started h now) = h_source_modified h"
  "h_print_format (started h now) = h_print_format h" "h_pdf_file (started h now) = h_pdf_file h"
  "h_pdf_sha256 (started h now) = h_pdf_sha256 h" "h_owner (started h now) = h_owner h"
  by (simp_all add: started_def)

lemma check_authority_started: "check_authority fr st (started h now) s = check_authority fr st h s"
  unfolding check_authority_def check_source_def check_document_source_def check_report_source_def
    started_parts ..

lemma pdf_payload_cong:
  assumes "s_files t = s_files s"
  shows "pdf_payload fr n (started h now) t = pdf_payload fr n h s"
  unfolding pdf_payload_def started_parts assms ..

section \<open>When a message leaves\<close>

text \<open>What the original sender of a group copy is checked for.\<close>

definition copy_cleared :: "frappe \<Rightarrow> history \<Rightarrow> site \<Rightarrow> bool" where
  "copy_cleared fr h s \<longleftrightarrow>
     (\<exists>p parent. h_copy_of h = Some p \<and> row_get (s_history s) p = Some parent
        \<and> terminal (h_status parent) \<and> \<not> is_group parent \<and> content_of h = content_of parent)
     \<and> h_owner h \<noteq> py ''Guest'' \<and> fr_user_enabled fr (h_owner h)
     \<and> check_authority fr (s_settings s) h (s\<lparr>s_user := h_owner h\<rparr>) = Inr ()"

lemma may_send_cleared:
  assumes send: "may_send fr n (started h now) s'" and group: "is_group h"
    and same_site: "s_settings s' = s_settings s" "s_files s' = s_files s"
    and rows: "\<forall>m. m \<noteq> n \<longrightarrow> row_get (s_history s') m = row_get (s_history s) m"
    and row: "row_get (s_history s') n = Some (started h now)"
  shows "copy_cleared fr h s"
proof -
  have "outcome (validate_copy fr (started h now) (s_settings s')) s' = Inr True"
    using send group by (simp add: may_send_def)
  note ok = validate_copy_True [OF this]
  from ok(1) obtain p parent where p: "h_copy_of h = Some p" "row_get (s_history s') p = Some parent"
    "terminal (h_status parent)" "\<not> is_group parent" "content_of h = content_of parent"
    by (auto simp: check_parent_True)
  have "p \<noteq> n" using p(2,4) row group by auto
  then have "row_get (s_history s) p = Some parent" using rows p(2) by simp
  moreover have owner: "h_owner (started h now) = h_owner h" by (simp add: started_def)
  moreover have "check_authority fr (s_settings s) h (s\<lparr>s_user := h_owner h\<rparr>) = Inr ()"
    using ok(4) same_site(1)
      check_authority_cong [of "s'\<lparr>s_user := h_owner h\<rparr>" "s\<lparr>s_user := h_owner h\<rparr>" fr]
    unfolding owner check_authority_started by simp
  ultimately show ?thesis using ok(2,3) p by (auto simp: copy_cleared_def)
qed

text \<open>A submission is added by the worker only, for the record it works on, when all of this holds.\<close>

lemma process_sends:
  assumes run: "process_outbound_message fr n s = (r, t)"
    and more: "submissions k t \<noteq> submissions k s"
  obtains h where "row_get (s_history s) n = Some h" "h_idempotency_key h = k"
    "attemptable h s (fr_clock fr (s_ticks s))" "st_enabled (s_settings s)"
    "\<exists>pdfs. pdf_payload fr n h s = Inr pdfs" "is_group h \<Longrightarrow> copy_cleared fr h s"
    "submissions k t = submissions k s + 1"
proof -
  have "submission_counts t \<noteq> submission_counts s" using more by (metis submission_counts_def)
  then have "ledger standing t \<noteq> ledger standing s" by (simp add: ledger_def)
  then obtain h where att: "one_attempt fr n h s t" using process_ledger [OF run] by blast
  then have row: "row_get (s_history s) n = Some h" and can: "attemptable h s (fr_clock fr (s_ticks s))"
    by (simp_all add: one_attempt_def)
  from att \<open>submission_counts t \<noteq> submission_counts s\<close> obtain now s' where
    counts: "submission_counts t = (submission_counts s)(h_idempotency_key h := submissions (h_idempotency_key h) s + 1)"
    and send: "may_send fr n (started h now) s'"
    and same_site: "s_settings s' = s_settings s" "s_files s' = s_files s"
    and row': "row_get (s_history s') n = Some (started h now)"
    and rows: "\<forall>m. m \<noteq> n \<longrightarrow> row_get (s_history s') m = row_get (s_history s) m"
    by (auto simp: one_attempt_def)
  have k: "k = h_idempotency_key h" using counts more by (metis fun_upd_other submission_counts_def)
  show ?thesis
  proof (rule that [OF row])
    show "h_idempotency_key h = k" using k by simp
    show "st_enabled (s_settings s)" using send same_site by (simp add: may_send_def)
    show "\<exists>pdfs. pdf_payload fr n h s = Inr pdfs"
      using send pdf_payload_cong [OF same_site(2)] by (simp add: may_send_def)
    show "copy_cleared fr h s" if "is_group h"
      by (rule may_send_cleared [OF send that same_site rows row'])
    show "submissions k t = submissions k s + 1"
      using counts k by (metis fun_upd_same submission_counts_def)
  qed (rule can)
qed

section \<open>What an attempt leaves behind\<close>

definition attempt_result :: "history \<Rightarrow> int \<Rightarrow> history \<Rightarrow> bool" where
  "attempt_result h now h' \<longleftrightarrow>
     h_retry_count h' = h_retry_count h + 1 \<and> h_attempted_at h' = Some now \<and> identity_of h' = identity_of h
     \<and> ((h_status h' = Submitted_to_WhatsApp \<and> h_next_retry_at h' = None \<and> nonempty (h_provider_message_ids h'))
        \<or> (h_status h' = Failed \<and> length (h_error_message h') \<le> 500
           \<and> (h_next_retry_at h' = None \<longleftrightarrow>
                h_reconciliation_required h' \<or> attempt_limit h' \<le> h_retry_count h')))"

lemma ends_result:
  assumes "after_success (started h now) d \<or> after_failure (started h now) d"
  shows "attempt_result h now d"
proof -
  have limit: "attempt_limit d = attempt_limit (started h now)"
    using attempt_fields(3) [OF assms] by (simp add: attempt_limit_def)
  have at: "h_attempted_at (started h now) = Some now" by (simp add: started_def)
  from assms show ?thesis
    using attempt_fields [OF assms] limit at
    by (auto simp: attempt_result_def after_success_def after_failure_def nonempty_def)
qed

lemma release_keeps_row:
  assumes "\<not> releasable (h_status d)" and row: "row_get (s_history s) n = Some d"
  shows "row_get (s_history (after (release_if_original fr m h) s)) n = Some d"
proof -
  let ?names = "history_names fr (\<lambda>h. h_copy_of h = Some m \<and> releasable (h_status h)) s"
  let ?v = "\<lambda>s. row_get (s_history s) n"
  have "n \<notin> set ?names" using assms by (auto dest: history_names_row)
  then have "keeps (same ?v) (set_history k (\<lambda>h. h\<lparr>h_status := Queued\<rparr>))" if "k \<in> set ?names" for k
    using that by (auto simp: keeps_def same_def set_history_def modifies_def split: option.splits)
  then have "keeps (same ?v) (release_copy fr k)" if "k \<in> set ?names" for k
    using that unfolding release_copy_def by (intro keeps_bindA keeps_same_enqueue) simp_all
  then have "keeps (same ?v) (foldA (release_copy fr) ?names)" by (intro keeps_foldA) simp_all
  then have "?v (after (release_waiting_copies fr m) s) = ?v s"
    by (simp add: release_waiting_copies_def bindA_def reads_def keeps_def same_def)
  then show ?thesis using row by (simp add: release_if_original_def ret_def)
qed

lemma attempt_ends:
  assumes row: "row_get (s_history s) n = Some h" and can: "attemptable h s (fr_clock fr (s_ticks s))"
    and refs: "references_ok h"
  shows "outcome (process_outbound_message fr n) s = Inr ()
    \<and> (\<exists>h'. row_get (s_history (after (process_outbound_message fr n) s)) n = Some h'
        \<and> attempt_result h (fr_clock fr (s_ticks s)) h')"
proof -
  let ?now = "fr_clock fr (s_ticks s)" and ?s = "s\<lparr>s_ticks := Suc (s_ticks s)\<rparr>"
  obtain r t where run: "process_outbound_message fr n s = (r, t)" by (cases "process_outbound_message fr n s")
  have goal: "r = Inr () \<and> (\<exists>h'. row_get (s_history t) n = Some h' \<and> attempt_result h ?now h')"
  proof (rule process_cases [OF run])
    fix h2 assume "row_get (s_history s) n = Some h2" and att: "run_attempt fr n h2 ?now ?s = (r, t)"
    then have "h2 = h" using row by simp
    note att = att [unfolded this]
    have row': "row_get (s_history ?s) n = Some h" using row by simp
    show ?thesis
    proof (rule run_attempt_shape [OF row' att])
      fix e assume "validate_history (Some h) (started h ?now) = Inl e"
      moreover have "validate_history (Some h) (started h ?now) = Inr ()"
        using refs by (simp add: validate_history_Inr_iff terminal_def)
      ultimately show ?thesis by simp
    next
      fix d u
      assume r: "r = Inr ()" and ends: "after_success (started h ?now) d \<or> after_failure (started h ?now) d"
        and t: "t = after (release_if_original fr n d) (put_history n d u)"
      have st: "h_status d = Submitted_to_WhatsApp \<or> h_status d = Failed"
        using ends success_status failure_status by blast
      then have "\<not> releasable (h_status d)" by (auto simp: releasable_def)
      then have "row_get (s_history t) n = Some d" unfolding t by (rule release_keeps_row) simp
      then show ?thesis using r ends_result [OF ends] by blast
    qed
  qed (use row can in \<open>auto simp: attemptable_def\<close>)
  then show ?thesis using run by simp
qed

end
