(* ===== verification/Example.thy ===== *)
theory Example
  imports Lifecycle
begin

text \<open>
  A small concrete site: a sender, one customer with a phone number, one invoice of a company, and
  a transport of another app that accepts what it is given; nobody may use the company \<open>Other\<close>. The witnesses of the development evaluate the model on it.
\<close>

definition demo_invoice :: bizdoc where
  "demo_invoice = \<lparr>b_name = py ''INV-1'', b_doctype = py ''Sales Invoice'',
     b_fields = [(py ''customer'', PStr (py ''ACME'')), (py ''company'', PStr (py ''Co''))],
     b_meta_fields = [], b_docstatus = 1, b_submittable = True, b_modified = py ''v1''\<rparr>"

definition demo_customer :: bizdoc where
  "demo_customer = \<lparr>b_name = py ''ACME'', b_doctype = py ''Customer'',
     b_fields = [(py ''mobile_no'', PStr (py ''+12025550123''))],
     b_meta_fields = [py ''mobile_no''], b_docstatus = 0, b_submittable = False, b_modified = py ''v1''\<rparr>"

definition demo_plain :: bizdoc where
  "demo_plain = \<lparr>b_name = [], b_doctype = [], b_fields = [], b_meta_fields = [], b_docstatus = 0,
     b_submittable = False, b_modified = []\<rparr>"

definition demo_doc :: "pystr \<Rightarrow> pystr \<Rightarrow> bizdoc option" where
  "demo_doc dt n =
     (if dt = py ''Sales Invoice'' then (if n = py ''INV-1'' then Some demo_invoice else None)
      else if dt = py ''Customer'' then (if n = py ''ACME'' then Some demo_customer else None)
      else Some demo_plain)"

definition demo_name :: "nat \<Rightarrow> pystr" where
  "demo_name n = 68 # replicate n 48"

text \<open>The groups the gateway reports.\<close>

definition demo_group :: "pystr" where
  "demo_group = py ''120363025246125916@g.us''"

definition demo_answer :: pyval where
  "demo_answer = PDict [(py ''groups'', PList [PDict
     [(py ''id'', PStr demo_group), (py ''name'', PStr (py ''Accounts''))]])]"

definition demo_frappe :: frappe where
  "demo_frappe = \<lparr>fr_site = py ''s'', fr_roles = (\<lambda>_. [SENDER_ROLE]), fr_user_enabled = (\<lambda>_. True),
     fr_doc = demo_doc, fr_can = (\<lambda>_ _ _ n. n \<noteq> Some (py ''Other'')), fr_report_permitted = (\<lambda>_ _. True),
     fr_customer_contacts = (\<lambda>_. []), fr_print_format_rows = [], fr_print_format_has_disabled = False,
     fr_print = (\<lambda>_ _ _. Inr (py ''%PDF-1'')), fr_money = (\<lambda>_ _. []), fr_render = (\<lambda>_ _. Inr []),
     fr_report_run = (\<lambda>_ _. Inr ([], [])), fr_renderer = (\<lambda>_ _ _. Inr None), fr_html_pdf = (\<lambda>_. py ''%PDF-1''),
     fr_document_providers = [], fr_report_providers = [], fr_transport_providers = [(py ''demo.transports'', Inr (Some [(LINKED_DEVICE,
       \<lparr>tr_send = Some (py ''demo.send''), tr_gateway_provider = None\<rparr>)]))],
     fr_sender = (\<lambda>_ _ _. Inr (PDict [])), fr_clock = (\<lambda>_. 1000), fr_epoch = (\<lambda>_. 5), fr_nonce = (\<lambda>_. py ''n''),
     fr_hash = demo_name, fr_name = demo_name, fr_sha256 = (\<lambda>b. b), fr_hmac = (\<lambda>_ _. []),
     fr_key_file = Some (replicate 32 65),
     fr_peer = (\<lambda>_ _. Response 200 (json_dumps default_style demo_answer)), fr_enqueue = (\<lambda>_. None), fr_listing = (\<lambda>ns. ns),
     fr_zone = (\<lambda>_. 0), fr_escape = (\<lambda>t. t), fr_cint = (\<lambda>_. 0), fr_file_name = (\<lambda>f. f),
     fr_doctype_exists = (\<lambda>_. True)\<rparr>"

definition demo_settings :: settings where
  "demo_settings = \<lparr>st_enabled = True, st_provider = LINKED_DEVICE, st_connection_status = PNone,
     st_throttle_seconds = Some 10, st_maximum_retries = Some 3, st_require_submitted_documents = True,
     st_last_connected_at = PNone, st_last_disconnected_at = PNone, st_last_error = PNone,
     st_last_event_id = 0, st_official_phone_number_id = [], st_official_business_account_id = [],
     st_official_api_version = [], st_webhook_url = [], st_company_groups = []\<rparr>"

definition demo_site :: site where
  "demo_site = \<lparr>s_user = py ''ann'', s_settings = demo_settings, s_history = [], s_files = [],
     s_templates = [], s_roles = [], s_jobs = [], s_wire = [], s_ticks = 0\<rparr>"

definition demo_queue :: "(site, stored \<times> stored option) act" where
  "demo_queue = queue_document demo_frappe (py ''Sales Invoice'') (py ''INV-1'') (py ''+1 (202) 555-0123'')
     [] (py ''Hello'') (py ''v1'') []"

section \<open>Queueing an invoice\<close>

lemma demo_number: "normalize_number (Some (py ''+12025550123'')) = Inr (py ''+12025550123'')"
  "normalize_number (Some (py ''+1 (202) 555-0123'')) = Inr (py ''+12025550123'')"
  by (simp_all add: normalize_number_def py_def strip_def is_space_def Let_def is_separator_def
     startswith_def matches_number_def is_decimal_def nd_zeros_def)

lemma demo_numbers: "customer_numbers demo_frappe s (py ''ACME'') =
   Inr [\<lparr>rc_value = py ''+12025550123'', rc_label = py ''+12025550123'' @ [32, 8212, 32] @ py ''Customer''\<rparr>]"
  by (simp add: customer_numbers_def get_doc_def demo_frappe_def demo_doc_def check_permission_def
    customer_own_numbers_def demo_customer_def has_field_def text_field_def dget_def as_text_def add_number_def demo_number
    contact_names_def link_field_def dict_fromkeys_def add_address_def)

definition demo_adapter :: adapter where
  "demo_adapter = the (map_of DEFAULT_DOCUMENT_ADAPTERS (py ''Sales Invoice''))"

lemma demo_adapter_found: "document_adapter demo_frappe (py ''Sales Invoice'') = Inr (Some demo_adapter)"
  by (simp add: document_adapter_def document_adapters_def external_registry_def demo_frappe_def demo_adapter_def DEFAULT_DOCUMENT_ADAPTERS_def)

lemma demo_adapter_fields: "a_required_values demo_adapter = []" "a_party_type_field demo_adapter = None"
  "a_party_field demo_adapter = Some (py ''customer'')" "a_company_field demo_adapter = Some (py ''company'')" "demo_adapter \<noteq> no_adapter"
  by (simp_all add: demo_adapter_def DEFAULT_DOCUMENT_ADAPTERS_def no_adapter_def)

lemma demo_valid: "st_enabled (s_settings s) \<Longrightarrow>
    validate_document demo_frappe s (py ''Sales Invoice'') (py ''INV-1'') = Inr (demo_invoice, demo_adapter)"
  using demo_adapter_fields(5)
  by (simp add: validate_document_def demo_adapter_found demo_adapter_fields get_doc_def check_permission_def present_def)
   (simp add: demo_frappe_def demo_doc_def enabled_settings_def demo_invoice_def demo_adapter_fields present_def)

definition demo_request :: delivery_request where
  "demo_request = \<lparr>dr_reference_type = Document, dr_company = Some (py ''Co''),
     dr_reference_doctype = Some (py ''Sales Invoice''), dr_reference_name = Some (py ''INV-1''),
     dr_report_name = None, dr_report_filters = None, dr_message_template = None, dr_print_format = None,
     dr_source_modified = Some (py ''v1''), dr_message = py ''Hello'', dr_pdf = py ''%PDF-1'',
     dr_filename = py ''Sales Invoice-INV-1.pdf''\<rparr>"

lemma demo_sender: "s_user s = py ''ann'' \<Longrightarrow> require_sender demo_frappe s = Inr ()"
  by (simp add: require_sender_Inr_iff can_send_def get_roles_def) (simp add: demo_frappe_def)

text \<open>The invoice is accepted for the customer's number, with any message.\<close>

lemma demo_accepted_with:
  assumes a: "s_user s = py ''ann''" "st_enabled (s_settings s)" and m: "check_message m = Inr m"
    and r: "normalize_number (Some r) = Inr (py ''+12025550123'')" and q: "q = [] \<or> q = py ''Standard''"
  shows "document_request demo_frappe (py ''Sales Invoice'') (py ''INV-1'') r q m (py ''v1'') [] s
    = Inr (demo_request\<lparr>dr_message := m\<rparr>, py ''+12025550123'')"
proof -
  have b: "field demo_invoice (Some (py ''customer'')) = PStr (py ''ACME'')" "field demo_invoice (Some (py ''company'')) = PStr (py ''Co'')"
    "b_modified demo_invoice = py ''v1''"
    by (simp_all add: demo_invoice_def field_def dget_def)
  have d: "pdf_name (py ''Sales Invoice'' @ py ''-'' @ py ''INV-1'') = py ''Sales Invoice-INV-1.pdf''"
    by (simp add: pdf_name_def replace_char_def py_def)
  have e: "fr_print demo_frappe dt n q = Inr (py ''%PDF-1'')" "validate_print_format demo_frappe dt [] = Inr (py ''Standard'')"
      "validate_print_format demo_frappe dt (py ''Standard'') = Inr (py ''Standard'')" for dt n q
    by (simp_all add: demo_frappe_def validate_print_format_def print_formats_def)
  show ?thesis
    using q by (auto simp: document_request_def demo_sender [OF a(1)] demo_valid [OF a(2)] b m d e demo_adapter_fields numbers_of_party_def demo_numbers
        check_recipient_def r validate_selected_template_def stored_format_def as_text_def demo_request_def required_def)
qed

lemma demo_accepted:
  assumes "s_user s = py ''ann''" "st_enabled (s_settings s)"
  shows "document_request demo_frappe (py ''Sales Invoice'') (py ''INV-1'') (py ''+1 (202) 555-0123'')
     [] (py ''Hello'') (py ''v1'') [] s = Inr (demo_request, py ''+12025550123'')"
proof -
  have "check_message (py ''Hello'') = Inr (py ''Hello'')"
    by (simp add: check_message_Inr_iff py_def strip_def is_space_def)
  from demo_accepted_with [OF assms this demo_number(2), of "[]"] show ?thesis by (simp add: demo_request_def)
qed

definition demo_record :: history where
  "demo_record = (new_history demo_frappe demo_settings demo_request (py ''+12025550123'') None 1000 (demo_name 1))
     \<lparr>h_owner := py ''ann'', h_pdf_file := Some (demo_name 3), h_pdf_sha256 := Some (py ''%PDF-1'')\<rparr>"

definition demo_queued :: site where
  "demo_queued = demo_site\<lparr>s_history := [(demo_name 2, demo_record)], s_files := [(demo_name 3, snapshot_of demo_frappe demo_request (demo_name 2))],
     s_jobs := [worker_job (demo_name 2)], s_ticks := 4\<rparr>"

lemma demo_stored: "demo_queue demo_site = (Inr (\<lparr>sd_name = demo_name 2, sd_status = Queued\<rparr>, None), demo_queued)"
proof -
  have g: "group_of_delivery demo_frappe demo_request None demo_site = Inr (demo_settings, None)"
    by (simp add: group_of_original) (simp add: demo_site_def demo_settings_def configured_group_def)
  have i: "insert_check (demo_name 2) (new_history demo_frappe demo_settings demo_request (py ''+12025550123'') None 1000 (demo_name 1)) (demo_site\<lparr>s_ticks := n\<rparr>) = Inr ()" for n
    by (simp add: insert_check_def validate_history_def new_history_def terminal_def demo_request_def nonempty_def is_group_def demo_site_def key_taken_def row_keys_def demo_name_def)
  have t: "s_ticks demo_site = 0" "s_history demo_site = []" "s_files demo_site = []" "s_user demo_site = py ''ann''" "s_jobs demo_site = []"
   by (simp_all add: demo_site_def)
  have on: "st_enabled (s_settings demo_site)" by (simp add: demo_site_def demo_settings_def)
  have f: "fr_clock demo_frappe n = 1000" "fr_hash demo_frappe n = demo_name n" "fr_name demo_frappe n = demo_name n" "fr_enqueue demo_frappe j = None" "fr_sha256 demo_frappe b = b" for n j b
   by (simp_all add: demo_frappe_def)
  have n: "demo_name n \<noteq> []" for n by (simp add: demo_name_def)
  have q: "h_status (new_history fr st d r None x y) = Queued" for fr st d r x y by (simp add: new_history_def)
  have d: "dr_pdf demo_request = py ''%PDF-1''" "dr_filename demo_request = py ''Sales Invoice-INV-1.pdf''" by (simp_all add: demo_request_def)
  have one: "store_one demo_frappe demo_request (py ''+12025550123'') None demo_site = (Inr (\<lparr>sd_name = demo_name 2, sd_status = Queued\<rparr>, None), demo_queued)"
    by (simp add: store_one_def g t f n q d bindA_def reads_def tick_def now_datetime_def insert_history_def i [unfolded numeral_2_eq_2 One_nat_def] Let_def save_file_def modifies_def set_history_def ret_def enqueue_def
       put_history_def row_put_def row_get_def row_keys_def demo_queued_def demo_record_def numeral_2_eq_2 numeral_3_eq_3 snapshot_of_def)
  show ?thesis
    unfolding demo_queue_def queue_document_def store_delivery_def
    by (simp add: bindA_def reads_def demo_accepted [OF t(4) on] one ret_def)
qed

section \<open>Sending it\<close>

definition demo_attempt :: history where
  "demo_attempt = started demo_record 1000"

definition demo_sent_record :: history where
  "demo_sent_record = demo_attempt\<lparr>h_status := Submitted_to_WhatsApp, h_submitted_at := None,
     h_provider_message_ids := Some (py ''[]''), h_result_message := py ''Submitted to WhatsApp'',
     h_error_message := [], h_next_retry_at := None\<rparr>"

definition demo_sent :: site where
  "demo_sent = demo_queued\<lparr>s_history := [(demo_name 2, demo_sent_record)],
     s_wire := [External (py ''demo.send'') (h_idempotency_key demo_record)], s_ticks := 6\<rparr>"

lemma demo_queued_fields:
  "s_history demo_queued = [(demo_name 2, demo_record)]" "s_settings demo_queued = demo_settings"
  "s_files demo_queued = [(demo_name 3, snapshot_of demo_frappe demo_request (demo_name 2))]"
  "s_wire demo_queued = []" "s_ticks demo_queued = 4" "s_user demo_queued = py ''ann''"
  by (simp_all add: demo_queued_def demo_site_def)

lemma demo_record_fields:
  "h_status demo_record = Queued" "h_reconciliation_required demo_record = False" "h_copy_of demo_record = None"
  "h_retry_count demo_record = 0" "h_max_retries demo_record = 3" "h_recipient_type demo_record = Some Individual"
  "h_provider demo_record = LINKED_DEVICE" "h_pdf_file demo_record = Some (demo_name 3)"
  "h_pdf_sha256 demo_record = Some (py ''%PDF-1'')" "references_ok demo_record"
  by (simp_all add: demo_record_def new_history_def demo_request_def demo_settings_def cint_opt_def
      references_ok_def nonempty_def)

lemma demo_attempt_fields:
  "h_status demo_attempt = Processing" "is_group demo_attempt = False" "is_copy demo_attempt = False"
  "h_provider demo_attempt = LINKED_DEVICE" "h_pdf_file demo_attempt = Some (demo_name 3)"
  "h_pdf_sha256 demo_attempt = Some (py ''%PDF-1'')" "references_ok demo_attempt"
  "h_idempotency_key demo_attempt = h_idempotency_key demo_record" "h_copy_of demo_attempt = None"
  by (simp_all add: demo_attempt_def demo_record_fields is_group_def is_copy_def nonempty_def)
     (simp_all add: started_def demo_record_fields)

lemma demo_payload:
  "s_files s = s_files demo_queued \<Longrightarrow>
     pdf_payload demo_frappe (demo_name 2) demo_attempt s
       = Inr [(py ''Sales Invoice-INV-1.pdf'', b64encode (py ''%PDF-1''))]"
  by (simp add: pdf_payload_def demo_attempt_fields nonempty_def demo_queued_fields row_get_def
      snapshot_of_def demo_request_def demo_frappe_def demo_name_def)
     (simp add: startswith_def pdf_header_def py_def)

lemma demo_transport:
  "get_transport demo_frappe LINKED_DEVICE = Inr \<lparr>tr_send = Some (py ''demo.send''), tr_gateway_provider = None\<rparr>"
  by (simp add: get_transport_def transport_registry_def build_transports_def demo_frappe_def register_def)

lemma demo_send:
  "send_delivery demo_frappe demo_attempt st pdfs s =
     (Inr (PDict []), s\<lparr>s_ticks := Suc (s_ticks s),
        s_wire := s_wire s @ [External (py ''demo.send'') (h_idempotency_key demo_record)]\<rparr>)"
  by (simp add: send_delivery_def demo_attempt_fields demo_transport bindA_def reads_def tick_def modifies_def
      bundled_sender_def)
     (simp add: demo_frappe_def)

lemma demo_submitted: "submitted demo_frappe demo_attempt (PDict []) = Inr demo_sent_record"
  by (simp add: submitted_def response_get_def dt_of_def provider_datetime_def or_else_def
      demo_sent_record_def py_def)

lemma demo_try_send:
  assumes "s_files s = s_files demo_queued" "s_settings s = demo_settings"
  shows "try_send demo_frappe (demo_name 2) demo_attempt s =
    (Inr demo_sent_record, s\<lparr>s_ticks := Suc (s_ticks s),
       s_wire := s_wire s @ [External (py ''demo.send'') (h_idempotency_key demo_record)]\<rparr>)"
proof -
  have "check_enabled demo_settings = Inr ()" by (simp add: check_enabled_def demo_settings_def)
  then show ?thesis
    using assms demo_payload [OF assms(1)]
    by (simp add: try_send_eq check_copy_eq demo_attempt_fields bindA_def demo_send reads_def demo_submitted)
qed

lemma demo_release: "s_history s = [(demo_name 2, demo_sent_record)] \<Longrightarrow>
    release_if_original demo_frappe (demo_name 2) demo_sent_record s = (Inr (), s)"
proof -
  have "h_copy_of demo_sent_record = None" by (simp add: demo_sent_record_def demo_attempt_fields)
  then show "s_history s = [(demo_name 2, demo_sent_record)] \<Longrightarrow> ?thesis"
    by (simp add: release_if_original_def release_waiting_copies_def bindA_def reads_def history_names_def
        row_keys_def row_get_def ret_def)
qed

lemma demo_processed:
  "process_outbound_message demo_frappe (demo_name 2) demo_queued = (Inr (), demo_sent)"
proof -
  let ?s = "demo_queued\<lparr>s_ticks := 5\<rparr>"
  have v1: "validate_history (Some demo_record) demo_attempt = Inr ()"
    using demo_attempt_fields(7)
    by (simp add: validate_history_Inr_iff demo_attempt_def terminal_def)
  have v2: "validate_history (Some demo_attempt) demo_sent_record = Inr ()"
    using demo_attempt_fields(7)
    by (simp add: validate_history_Inr_iff demo_sent_record_def nonempty_def identity_of_def content_of_def
        references_ok_def split: reference_kind.splits)
  have put: "put_history (demo_name 2) h s = s\<lparr>s_history := [(demo_name 2, h)]\<rparr>"
    if "s_history s = [(demo_name 2, k)]" for h k s
    using that by (simp add: put_history_def row_put_def)
  have run: "run_attempt demo_frappe (demo_name 2) demo_record 1000 ?s = (Inr (), demo_sent)"
    unfolding run_attempt_def Let_def demo_attempt_def [symmetric]
    by (simp add: bindA_def save_history_def reads_def demo_queued_fields row_get_def v1 modifies_def
        put [of _ demo_record] catchA_def demo_try_send put [of _ demo_attempt] v2 demo_release
        demo_sent_def)
  have "fr_clock demo_frappe n = 1000" for n by (simp add: demo_frappe_def)
  with run show ?thesis
    by (simp add: process_outbound_message_def bindA_def reads_def get_history_def demo_queued_fields
        row_get_def demo_record_fields terminal_def original_pending_def is_copy_def nonempty_def
        now_datetime_def tick_def attempt_limit_def backing_off_def)
qed

text \<open>Both states are reachable.\<close>

lemma demo_fresh: "fresh_site demo_site"
  by (simp add: fresh_site_def demo_site_def demo_settings_def)

lemma demo_steps: "site_step (\<lambda>b. b) demo_site demo_queued" "site_step (\<lambda>b. b) demo_queued demo_sent"
proof -
  have sha: "fr_sha256 demo_frappe = (\<lambda>b. b)" by (simp add: demo_frappe_def)
  have user: "s\<lparr>s_user := py ''ann''\<rparr> = s" if "s_user s = py ''ann''" for s :: site
    using that by (cases s) simp
  have "run_as (py ''ann'') demo_queue demo_site = demo_queued"
    using demo_stored by (simp add: run_as_def user demo_site_def [THEN arg_cong, of s_user] transaction_def)
  then show "site_step (\<lambda>b. b) demo_site demo_queued"
    using step_queue_document [OF sha] unfolding demo_queue_def by metis
  have "run_as (py ''ann'') (process_outbound_message demo_frappe (demo_name 2)) demo_queued = demo_sent"
    using demo_processed by (simp add: run_as_def user demo_queued_fields transaction_def)
  then show "site_step (\<lambda>b. b) demo_queued demo_sent"
    using step_worker [OF sha] by metis
qed

lemma demo_reachable: "reachable_site (\<lambda>b. b) demo_queued" "reachable_site (\<lambda>b. b) demo_sent"
  using demo_fresh demo_steps by (blast intro: reachable.intros)+

end
