(* ===== verification/Queueing.thy ===== *)
theory Queueing
  imports Delivery
begin

text \<open>
  Storing never stops half-way: once the checks passed, the delivery, its snapshot, its job and the
  group copy are all stored, provided the names and the key the framework generates are unused. That
  proviso is the framework's: record names come from a counter, file names and keys are random.
\<close>

definition request_ok :: "delivery_request \<Rightarrow> bool" where
  "request_ok d \<longleftrightarrow>
     (case dr_reference_type d of
        Document \<Rightarrow> nonempty (dr_reference_doctype d) \<and> nonempty (dr_reference_name d)
      | Report \<Rightarrow> nonempty (dr_report_name d))"

definition delivery_key :: "frappe \<Rightarrow> nat \<Rightarrow> pystr" where
  "delivery_key fr n = py ''wa:'' @ fr_site fr @ py '':'' @ fr_hash fr n"

text \<open>What the framework generates in the call that starts at tick \<open>n\<close> is new.\<close>

definition fresh_names :: "frappe \<Rightarrow> site \<Rightarrow> nat \<Rightarrow> bool" where
  "fresh_names fr s n \<longleftrightarrow>
     \<not> key_taken (delivery_key fr (n + 1)) s
     \<and> fr_name fr (n + 2) \<noteq> [] \<and> row_get (s_history s) (fr_name fr (n + 2)) = None
     \<and> fr_name fr (n + 3) \<noteq> [] \<and> row_get (s_files s) (fr_name fr (n + 3)) = None"

lemma insert_new_history:
  assumes "fr_name fr (s_ticks s) \<noteq> []" "row_get (s_history s) (fr_name fr (s_ticks s)) = None"
    and "\<not> key_taken (delivery_key fr k) s" "request_ok d"
  shows "insert_history fr (new_history fr st d r c now (fr_hash fr k)) s =
    (Inr (fr_name fr (s_ticks s)), put_history (fr_name fr (s_ticks s))
       ((new_history fr st d r c now (fr_hash fr k))\<lparr>h_owner := s_user s\<rparr>) (s\<lparr>s_ticks := Suc (s_ticks s)\<rparr>))"
proof -
  let ?h = "new_history fr st d r c now (fr_hash fr k)"
  have "h_idempotency_key ?h = delivery_key fr k" by (simp add: new_history_def delivery_key_def)
  moreover have "references_ok ?h"
    using assms(4) by (simp add: references_ok_def request_ok_def new_history_def split: reference_kind.splits)
  ultimately show ?thesis
    using assms new_history_not_terminal [of fr st d r c now "fr_hash fr k"]
    by (simp add: insert_history_Inr_iff)
qed

lemma enqueue_returns: "j_after_commit j \<Longrightarrow>
    enqueue fr j s = (Inr (), s\<lparr>s_jobs := s_jobs s @ (if fr_enqueue fr j = None then [j] else [])\<rparr>)"
  by (simp add: enqueue_def split: option.splits)

lemma key_taken_put: "key_taken k (put_history n h s) \<Longrightarrow> key_taken k s \<or> k = h_idempotency_key h"
proof -
  have "list_ex P (AList.update n h rows) \<Longrightarrow> list_ex P rows \<or> P (n, h)" for P rows
    by (induction rows) (auto split: if_splits)
  then show "key_taken k (put_history n h s) \<Longrightarrow> key_taken k s \<or> k = h_idempotency_key h"
    by (auto simp: key_taken_def put_history_def row_put_def)
qed

text \<open>What one call adds: its key, its row and its file.\<close>

definition adds_only :: "frappe \<Rightarrow> site \<Rightarrow> site \<Rightarrow> bool" where
  "adds_only fr s t \<longleftrightarrow>
     s_ticks t = s_ticks s + 4
     \<and> (\<forall>k. key_taken k t \<longrightarrow> key_taken k s \<or> k = delivery_key fr (s_ticks s + 1))
     \<and> (\<forall>m. m \<noteq> fr_name fr (s_ticks s + 2) \<longrightarrow> row_get (s_history t) m = row_get (s_history s) m)
     \<and> (\<forall>m. m \<noteq> fr_name fr (s_ticks s + 3) \<longrightarrow> row_get (s_files t) m = row_get (s_files s) m)"

lemma store_one_succeeds:
  assumes fresh: "fresh_names fr s (s_ticks s)" and d: "request_ok d"
    and group: "group_of_delivery fr d c s = Inr (s_settings s, g)"
  shows "\<exists>t. store_one fr d r c s = (Inr (\<lparr>sd_name = fr_name fr (s_ticks s + 2),
      sd_status = (if c = None then Queued else Waiting_for_Primary)\<rparr>, g), t) \<and> adds_only fr s t"
proof -
  let ?n = "s_ticks s" and ?s = "s\<lparr>s_ticks := s_ticks s + 2\<rparr>"
  define name where "name = fr_name fr (?n + 2)"
  define snap where "snap = fr_name fr (?n + 3)"
  let ?h = "new_history fr (s_settings s) d r c (fr_clock fr ?n) (fr_hash fr (?n + 1))"
  let ?upd = "\<lambda>h. h\<lparr>h_pdf_file := Some snap, h_pdf_sha256 := Some (fr_sha256 fr (dr_pdf d))\<rparr>"
  let ?h1 = "?h\<lparr>h_owner := s_user s\<rparr>"
  define t1 where "t1 = put_history name ?h1 (s\<lparr>s_ticks := Suc (Suc (Suc ?n))\<rparr>)"
  define t2 where "t2 = t1\<lparr>s_ticks := Suc (s_ticks t1), s_files := row_put snap (snapshot_of fr d name) (s_files t1)\<rparr>"
  define t3 where "t3 = put_history name (?upd ?h1) t2"
  define t where "t = t3\<lparr>s_jobs := s_jobs t3
    @ (if c = None \<and> fr_enqueue fr (worker_job name) = None then [worker_job name] else [])\<rparr>"
  have key: "h_idempotency_key ?h = delivery_key fr (?n + 1)" by (simp add: new_history_def delivery_key_def)
  have "\<not> key_taken (delivery_key fr (?n + 1)) ?s" using fresh by (simp add: fresh_names_def key_taken_def)
  then have "insert_history fr ?h ?s = (Inr name, t1)"
    using insert_new_history [of fr ?s "?n + 1" d "s_settings s" r c "fr_clock fr ?n"] fresh d
    by (simp add: fresh_names_def numeral_2_eq_2 name_def t1_def)
  note insert = this [unfolded numeral_2_eq_2 One_nat_def add_Suc_right add_0_right]
  have save: "save_file fr (dr_filename d) (dr_pdf d) name t1 = (Inr snap, t2)"
    using fresh by (simp add: save_file_Inr_iff fresh_names_def numeral_3_eq_3 snapshot_of_def name_def snap_def t1_def t2_def)
  have set: "set_history name ?upd t2 = (Inr (), t3)"
    by (simp add: set_history_def modifies_def t1_def t2_def t3_def)
  have rest: "(if c = None then enqueue fr (worker_job name) else ret ()) t3 = (Inr (), t)"
    by (simp add: ret_def enqueue_returns worker_job_def t_def)
  have status: "h_status ?h = (if c = None then Queued else Waiting_for_Primary)" by (simp add: new_history_def)
  have "store_one fr d r c s = (Inr (\<lparr>sd_name = name, sd_status = h_status ?h\<rparr>, g), t)"
    unfolding store_one_def
    by (simp only: bindA_def reads_def group now_datetime_def tick_def sum.case prod.case Let_def)
       (simp add: insert save set rest ret_def bindA_def)
  moreover have "key_taken k t \<Longrightarrow> key_taken k s \<or> k = delivery_key fr (?n + 1)" for k
  proof -
    have step: "key_taken k (u\<lparr>s_jobs := js\<rparr>) = key_taken k u" "key_taken k (u\<lparr>s_ticks := m, s_files := fs\<rparr>) = key_taken k u"
      "key_taken k (u\<lparr>s_ticks := m\<rparr>) = key_taken k u" for u js m fs
      by (simp_all add: key_taken_def)
    assume "key_taken k t"
    then have "key_taken k t2 \<or> k = h_idempotency_key ?h"
      unfolding t_def t3_def step by (auto dest: key_taken_put)
    then have "key_taken k (s\<lparr>s_ticks := Suc (Suc (Suc ?n))\<rparr>) \<or> k = h_idempotency_key ?h"
      unfolding t1_def t2_def step by (auto simp: step dest: key_taken_put)
    then show ?thesis unfolding step key .
  qed
  then have "adds_only fr s t"
    by (simp add: adds_only_def t_def t3_def t2_def t1_def name_def snap_def)
  ultimately show ?thesis using status by (auto simp: name_def)
qed

text \<open>The call for the copy starts four ticks later; its names differ from the first ones.\<close>

definition fresh_pair :: "frappe \<Rightarrow> site \<Rightarrow> nat \<Rightarrow> bool" where
  "fresh_pair fr s n \<longleftrightarrow>
     fresh_names fr s n \<and> fresh_names fr s (n + 4)
     \<and> fr_hash fr (n + 5) \<noteq> fr_hash fr (n + 1) \<and> fr_name fr (n + 6) \<noteq> fr_name fr (n + 2)
     \<and> fr_name fr (n + 7) \<noteq> fr_name fr (n + 3)"

lemma fresh_for_copy:
  assumes "fresh_pair fr s (s_ticks s)" and "adds_only fr s t"
  shows "fresh_names fr t (s_ticks t)"
  using assms unfolding fresh_pair_def adds_only_def fresh_names_def
  by (auto simp: delivery_key_def add.commute)

lemma store_delivery_succeeds:
  assumes fresh: "fresh_pair fr s (s_ticks s)" and d: "request_ok d" and on: "st_enabled (s_settings s)"
    and group: "configured_group fr (s_settings s) (opt_value (dr_company d)) s = Inr g"
  shows "\<exists>t. store_delivery fr d r s =
    (Inr (\<lparr>sd_name = fr_name fr (s_ticks s + 2), sd_status = Queued\<rparr>,
       map_option (\<lambda>_. \<lparr>sd_name = fr_name fr (s_ticks s + 6), sd_status = Waiting_for_Primary\<rparr>) g), t)"
proof -
  let ?p = "fr_name fr (s_ticks s + 2)"
  have "group_of_delivery fr d None s = Inr (s_settings s, g)" using on group by (simp add: group_of_original)
  moreover have "fresh_names fr s (s_ticks s)" using fresh by (simp add: fresh_pair_def)
  ultimately obtain u where one: "store_one fr d r None s = (Inr (\<lparr>sd_name = ?p, sd_status = Queued\<rparr>, g), u)"
    and adds: "adds_only fr s u"
    using store_one_succeeds [OF _ d] by fastforce
  show ?thesis
  proof (cases g)
    case None
    then show ?thesis using one by (auto simp: store_delivery_def bindA_def ret_def)
  next
    case (Some gid)
    from store_one_Inr(1) [OF one] have "s_settings u = s_settings s" by (auto simp: stored_row_def)
    then have "group_of_delivery fr d (Some ?p) u = Inr (s_settings u, None)"
      using on by (simp add: group_of_delivery_def enabled_settings_def)
    then obtain t where "store_one fr d gid (Some ?p) u =
        (Inr (\<lparr>sd_name = fr_name fr (s_ticks u + 2), sd_status = Waiting_for_Primary\<rparr>, None), t)"
      using store_one_succeeds [OF fresh_for_copy [OF fresh adds] d] by fastforce
    moreover have "s_ticks u = s_ticks s + 4" using adds by (simp add: adds_only_def)
    ultimately show ?thesis using one Some by (auto simp: store_delivery_def bindA_def ret_def add.commute)
  qed
qed

section \<open>Nothing of it leaves before the commit\<close>

text \<open>Storing sends nothing, touches no settings or templates, and starts no job before the
  transaction commits.\<close>

definition waits_for_commit :: "site \<Rightarrow> site \<Rightarrow> bool" where
  "waits_for_commit s t \<longleftrightarrow>
     s_wire t = s_wire s \<and> (\<exists>js. s_jobs t = s_jobs s @ js \<and> list_all j_after_commit js)"

lemma waits_preorder [simp]: "reflp waits_for_commit" "transp waits_for_commit"
  by (auto simp: reflp_def transp_def waits_for_commit_def)

lemma waits_same: "keeps (same (\<lambda>s. (s_wire s, s_jobs s))) m \<Longrightarrow> keeps waits_for_commit m"
  by (simp add: keeps_def same_def waits_for_commit_def)

lemma waits_enqueue: "j_after_commit j \<Longrightarrow> keeps waits_for_commit (enqueue fr j)"
  by (simp add: keeps_def waits_for_commit_def enqueue_def split: option.splits)

lemma keeps_waits_store_one: "keeps waits_for_commit (store_one fr d r c)"
proof -
  have set: "keeps waits_for_commit (set_history n f)" for n f
    by (rule waits_same) (auto simp: keeps_def same_def set_history_def modifies_def split: option.splits)
  have insert: "keeps waits_for_commit (insert_history fr h)" for h
    by (rule waits_same) (auto simp: insert_history_def same_def put_history_def intro!: keeps_bindA keeps_modifies)
  have save: "keeps waits_for_commit (save_file fr f p n)" for f p n
    by (rule waits_same) (auto simp: save_file_def same_def intro!: keeps_bindA keeps_modifies)
  have tick1: "keeps waits_for_commit (tick k)" for k :: "nat \<Rightarrow> int"
    by (rule waits_same) simp
  have tick2: "keeps waits_for_commit (tick k)" for k :: "nat \<Rightarrow> pystr"
    by (rule waits_same) simp
  have job: "keeps waits_for_commit (if c = None then enqueue fr (worker_job n) else ret ())" for n
    by (simp add: waits_enqueue worker_job_def)
  show ?thesis
    unfolding store_one_def Let_def now_datetime_def
    by (auto simp: split_beta intro!: keeps_bindA set insert save job tick1 tick2)
qed

lemma keeps_waits_store: "keeps waits_for_commit (store_delivery fr d r)"
proof -
  have "keeps waits_for_commit (case g of None \<Rightarrow> ret (p, None)
      | Some g \<Rightarrow> bindA (store_one fr d g (Some (sd_name p))) (\<lambda>(copy, _). ret (p, Some copy)))" for g p
    by (cases g) (auto intro!: keeps_bindA keeps_waits_store_one simp: split_beta)
  then show ?thesis
    unfolding store_delivery_def by (intro keeps_bindA) (auto simp: split_beta keeps_waits_store_one)
qed

lemma keeps_waits_queue:
  "keeps waits_for_commit (queue_document fr dt n r pf m sm mt)"
  "keeps waits_for_commit (queue_report fr rn f r m mt)"
  unfolding queue_document_def queue_report_def
  by (auto intro!: keeps_bindA simp: keeps_waits_store split_beta)

lemma failed_transaction:
  assumes "keeps waits_for_commit m" and "transaction m s = (Inl e, t)"
  shows "t = s\<lparr>s_ticks := s_ticks t\<rparr>"
proof -
  obtain v where m: "m s = (Inl e, v)" using assms(2)
    by (auto simp: transaction_def split: prod.splits sum.splits)
  have w: "waits_for_commit s v" using keeps_result [OF assms(1) m] .
  then obtain js where js: "s_wire v = s_wire s" "s_jobs v = s_jobs s @ js" "list_all j_after_commit js"
    by (auto simp: waits_for_commit_def)
  have "[j \<leftarrow> js. \<not> j_after_commit j] = []" using js(3) by (simp add: filter_empty_conv list_all_iff)
  then show ?thesis using assms(2) m js by (auto simp: transaction_def)
qed

section \<open>The jobs of a stored delivery\<close>

lemma store_one_jobs:
  assumes "store_one fr d r c s = (Inr (res, g), t)"
  shows "s_wire t = s_wire s \<and> s_jobs t = s_jobs s
    @ (if c = None \<and> fr_enqueue fr (worker_job (sd_name res)) = None then [worker_job (sd_name res)] else [])"
proof -
  have same: "s_wire v = s_wire u \<and> s_jobs v = s_jobs u"
    if "keeps (same (\<lambda>s. (s_wire s, s_jobs s))) m" "m u = (x, v)" for u v and x :: "exn + 'a" and m :: "(site, 'a) act"
    using keeps_result [OF that] by (simp add: same_def)
  have set: "keeps (same (\<lambda>s. (s_wire s, s_jobs s))) (set_history n f)" for n f
    by (auto simp: keeps_def same_def set_history_def modifies_def split: option.splits)
  have insert: "keeps (same (\<lambda>s. (s_wire s, s_jobs s))) (insert_history fr h)" for h
    by (auto simp: insert_history_def same_def put_history_def intro!: keeps_bindA keeps_modifies)
  have save: "keeps (same (\<lambda>s. (s_wire s, s_jobs s))) (save_file fr f p n)" for f p n
    by (auto simp: save_file_def same_def intro!: keeps_bindA keeps_modifies)
  from assms obtain h name f t1 t2 t3 where
    one: "insert_history fr h (s\<lparr>s_ticks := Suc (Suc (s_ticks s))\<rparr>) = (Inr name, t1)"
      "save_file fr (dr_filename d) (dr_pdf d) name t1 = (Inr f, t2)"
      "set_history name (\<lambda>h. h\<lparr>h_pdf_file := Some f, h_pdf_sha256 := Some (fr_sha256 fr (dr_pdf d))\<rparr>) t2 = (Inr (), t3)"
    and job: "(if c = None then enqueue fr (worker_job name) else ret ()) t3 = (Inr (), t)" and res: "sd_name res = name"
    by (simp add: store_one_def Let_def bindA_Inr_iff reads_iff now_datetime_def tick_iff ret_iff split_beta)
      (elim exE conjE, rule that, auto)
  have "s_wire t3 = s_wire s \<and> s_jobs t3 = s_jobs s"
    using keeps_result [OF insert one(1)] keeps_result [OF save one(2)] keeps_result [OF set one(3)] by (simp add: same_def)
  then show ?thesis using job res by (auto simp: enqueue_returns worker_job_def ret_def split: if_splits)
qed

lemma store_delivery_jobs:
  assumes "store_delivery fr d r s = (Inr (p, c), t)" and "fr_enqueue fr (worker_job (sd_name p)) = None"
  shows "s_wire t = s_wire s" "s_jobs t = s_jobs s @ [worker_job (sd_name p)]"
proof -
  obtain g u where one: "store_one fr d r None s = (Inr (p, g), u)"
    and rest: "u = t \<or> (\<exists>k g' x. store_one fr d k (Some (sd_name p)) u = (Inr (x, g'), t))"
    using assms(1) by (fastforce simp: store_delivery_def bindA_Inr_iff ret_iff split: option.splits)
  from rest have "s_wire t = s_wire u \<and> s_jobs t = s_jobs u"
    using store_one_jobs by fastforce
  then show "s_wire t = s_wire s" "s_jobs t = s_jobs s @ [worker_job (sd_name p)]"
    using store_one_jobs [OF one] assms(2) by simp_all
qed

end
