(* ===== verification/Example_Group.thy ===== *)
theory Example_Group
  imports Example Queueing Settings_Doc
begin

text \<open>
  The example site with a group for its company: the settings are saved, an invoice is queued with
  its group copy.
\<close>

definition demo_row :: company_group where
  "demo_row = \<lparr>g_company = py ''Co'', g_enabled = True, g_group_id = PStr demo_group, g_group_name = []\<rparr>"

definition demo_group_settings :: settings where
  "demo_group_settings = demo_settings\<lparr>st_company_groups := [demo_row]\<rparr>"

lemma demo_group_ok: "group_id (PStr demo_group) = Inr demo_group"
  unfolding group_id_def demo_group_def
  by (simp add: matches_group_def py_def is_ascii_digit_def digit_run_def Let_def)

lemma demo_read_groups: "read_groups demo_answer = Inr [(demo_group, py ''Accounts'')]"
  by (simp add: read_groups_def demo_answer_def response_get_def dget_def joined_row_def demo_group_ok
      row_put_def py_str_def or_empty_def or_else_def)

lemma demo_request_built:
  "\<exists>q. build_request demo_frappe n (py ''/v1/groups'') (site_payload demo_frappe []) = Inr q"
proof -
  have body: "encode (json_dumps compact_style (site_payload demo_frappe [])) =
      Inr (json_dumps compact_style (site_payload demo_frappe []))"
    by (rule encode_ascii)
       (simp add: site_payload_def demo_frappe_def compact_style_def json_string_def json_char_def py_def)
  have key: "secret demo_frappe = Inr (replicate 32 65)"
    by (simp add: secret_def demo_frappe_def strip_bytes_def byte_space_def eval_nat_numeral)
  have signed: "encode (canonical (str_of_int 5) (py ''n'') (py ''/v1/groups'')
      (json_dumps compact_style (site_payload demo_frappe []))) =
      Inr (canonical (str_of_int 5) (py ''n'') (py ''/v1/groups'') (json_dumps compact_style (site_payload demo_frappe [])))"
    by (rule encode_ascii)
       (simp add: canonical_def newline_def str_of_int_def digits_of_nat.simps site_payload_def demo_frappe_def
         compact_style_def json_string_def json_char_def py_def)
  have parts: "fr_epoch demo_frappe n = 5" "fr_nonce demo_frappe n = py ''n''" "fr_sha256 demo_frappe b = b" for b
    by (simp_all add: demo_frappe_def)
  show ?thesis
    unfolding build_request_def body bindR.simps Let_def parts signed key by blast
qed

lemma demo_joined:
  "\<exists>w. joined_groups demo_frappe s = (Inr [(demo_group, py ''Accounts'')], s\<lparr>s_ticks := Suc (s_ticks s), s_wire := w\<rparr>)"
proof -
  let ?payload = "site_payload demo_frappe []"
  have "json_ok True demo_answer"
    by (simp add: demo_answer_def demo_group_def py_def char_ok_def)
  then have read: "read_response 200 (json_dumps default_style demo_answer) = Inr demo_answer"
    using json_loads_dumps [of default_style demo_answer] json_dumps_hd [of default_style demo_answer]
    by (simp add: read_response_def style_ok_used) (simp add: default_style_def)
  obtain q where "build_request demo_frappe (s_ticks s) (py ''/v1/groups'') ?payload = Inr q"
    using demo_request_built by blast
  then have "gateway_request demo_frappe (py ''/v1/groups'') ?payload default_timeout s =
      (Inr demo_answer, s\<lparr>s_ticks := Suc (s_ticks s), s_wire := s_wire s @ [Http q]\<rparr>)"
    using read by (simp add: gateway_request_iff) (simp add: demo_frappe_def)
  then show ?thesis
    by (auto simp: joined_groups_def bindA_def reads_def demo_read_groups)
qed

definition demo_grouped :: site where
  "demo_grouped = after (save_settings demo_frappe demo_group_settings) demo_site"

definition demo_group_stored :: settings where
  "demo_group_stored = demo_settings\<lparr>st_company_groups := [demo_row\<lparr>g_group_name := py ''Accounts''\<rparr>]\<rparr>"

lemma demo_site_fields:
  "s_user demo_site = py ''ann''" "s_settings demo_site = demo_settings" "s_history demo_site = []"
  "s_files demo_site = []" "s_ticks demo_site = 0" "s_jobs demo_site = []"
  by (simp_all add: demo_site_def)

lemma demo_company: "company_check demo_frappe s (PStr (py ''Co'')) = Inr ()"
  by (simp add: company_check_Inr_iff) (simp add: demo_frappe_def demo_doc_def)

lemma demo_group_saved:
  "\<exists>w. save_settings demo_frappe demo_group_settings demo_site
    = (Inr (), demo_site\<lparr>s_settings := demo_group_stored, s_ticks := 1, s_wire := w\<rparr>)"
proof -
  obtain w where joined: "joined_groups demo_frappe demo_site =
      (Inr [(demo_group, py ''Accounts'')], demo_site\<lparr>s_ticks := 1, s_wire := w\<rparr>)"
    using demo_joined [of demo_site] by (auto simp: demo_site_fields)
  have clamped: "clamp_settings demo_group_settings = demo_group_settings"
    by (simp add: clamp_settings_def demo_group_settings_def demo_settings_def clamp_throttle_def clamp_retries_def)
  have rows: "st_company_groups demo_group_settings = [demo_row]" "st_company_groups demo_settings = []"
    "st_provider demo_group_settings = LINKED_DEVICE"
    by (simp_all add: demo_group_settings_def demo_settings_def)
  have changed: "changed_companies (Some demo_settings) demo_group_settings = [py ''Co'']"
    by (simp add: changed_companies_def companies_def group_state_def rows demo_row_def dict_fromkeys_def)
  have guard: "settings_guard demo_frappe (Some demo_settings) demo_group_settings demo_site = Inr ()"
    by (simp add: settings_guard_Inr_iff changed demo_company companies_def rows)
  have on: "enabled_rows demo_group_settings = [demo_row]" by (simp add: enabled_rows_def rows demo_row_def)
  have named: "check_row [(demo_group, py ''Accounts'')] demo_row = Inr (demo_row\<lparr>g_group_name := py ''Accounts''\<rparr>)"
    by (simp add: check_row_def demo_row_def demo_group_ok row_get_def)
  have provider: "LINKED_DEVICE \<in> set PROVIDERS"
    by (simp add: rows PROVIDERS_def LINKED_DEVICE_def)
  show ?thesis
    by (simp add: save_settings_def validate_settings_doc_def validate_settings_def bindA_def reads_def
        demo_site_fields provider clamped guard changed on joined rows named ret_def modifies_def)
       (simp add: demo_group_stored_def demo_group_settings_def, rule exI [of _ w], simp)
qed

lemma demo_grouped_fields:
  "s_user demo_grouped = py ''ann''" "s_settings demo_grouped = demo_group_stored" "s_history demo_grouped = []"
  "s_files demo_grouped = []" "s_ticks demo_grouped = 1" "st_enabled demo_group_stored"
  using demo_group_saved by (auto simp: demo_grouped_def demo_site_fields demo_group_stored_def demo_settings_def)

lemma demo_group_found:
  "configured_group demo_frappe demo_group_stored (PStr (py ''Co'')) s = Inr (Some demo_group)"
  by (simp add: configured_group_def demo_group_stored_def demo_settings_def demo_row_def demo_company demo_group_ok)

definition demo_copied :: site where
  "demo_copied = after demo_queue demo_grouped"

lemma demo_pair_fresh: "fresh_pair demo_frappe demo_grouped (s_ticks demo_grouped)"
  by (simp add: fresh_pair_def fresh_names_def demo_grouped_fields key_taken_def)
     (simp add: demo_frappe_def demo_name_def eval_nat_numeral)

lemma demo_copy_queued:
  "demo_queue demo_grouped = (Inr (\<lparr>sd_name = demo_name 3, sd_status = Queued\<rparr>,
     Some \<lparr>sd_name = demo_name 7, sd_status = Waiting_for_Primary\<rparr>), demo_copied)"
proof -
  have req: "request_ok demo_request" "dr_company demo_request = Some (py ''Co'')"
    by (simp_all add: request_ok_def demo_request_def nonempty_def)
  have names: "fr_name demo_frappe n = demo_name n" for n by (simp add: demo_frappe_def)
  have "\<exists>t. store_delivery demo_frappe demo_request (py ''+12025550123'') demo_grouped =
      (Inr (\<lparr>sd_name = demo_name 3, sd_status = Queued\<rparr>, Some \<lparr>sd_name = demo_name 7, sd_status = Waiting_for_Primary\<rparr>), t)"
    using store_delivery_succeeds [OF demo_pair_fresh req(1), of "Some demo_group" "py ''+12025550123''"]
    by (simp add: demo_grouped_fields req(2) demo_group_found names opt_value_def numeral_3_eq_3)
  then obtain t where store: "store_delivery demo_frappe demo_request (py ''+12025550123'') demo_grouped =
      (Inr (\<lparr>sd_name = demo_name 3, sd_status = Queued\<rparr>, Some \<lparr>sd_name = demo_name 7, sd_status = Waiting_for_Primary\<rparr>), t)" ..
  have "document_request demo_frappe (py ''Sales Invoice'') (py ''INV-1'') (py ''+1 (202) 555-0123'')
     [] (py ''Hello'') (py ''v1'') [] demo_grouped = Inr (demo_request, py ''+12025550123'')"
    by (rule demo_accepted) (simp_all add: demo_grouped_fields)
  then have "demo_queue demo_grouped = store_delivery demo_frappe demo_request (py ''+12025550123'') demo_grouped"
    by (simp add: demo_queue_def queue_document_def bindA_def reads_def)
  with store show ?thesis by (simp add: demo_copied_def)
qed

lemma demo_copy_stored:
  "store_delivery demo_frappe demo_request (py ''+12025550123'') demo_grouped =
    (Inr (\<lparr>sd_name = demo_name 3, sd_status = Queued\<rparr>,
      Some \<lparr>sd_name = demo_name 7, sd_status = Waiting_for_Primary\<rparr>), demo_copied)"
  using demo_copy_queued demo_accepted [of demo_grouped]
  by (simp add: demo_queue_def queue_document_def bindA_def reads_def demo_grouped_fields)

lemma demo_copy_row: "\<exists>k. row_get (s_history demo_copied) (demo_name 7) = Some k \<and> is_group k"
  using store_delivery_Inr [OF demo_copy_stored]
  by (auto simp: stored_row_def copy_matches_def split: option.splits)

lemma demo_as_ann: "s_user s = py ''ann'' \<Longrightarrow> m s = (Inr x, t) \<Longrightarrow> run_as (py ''ann'') m s = t"
  by (cases s) (simp add: run_as_def transaction_def)

lemma demo_copied_reachable: "reachable_site (\<lambda>b. b) demo_copied"
proof -
  have sha: "fr_sha256 demo_frappe = (\<lambda>b. b)" by (simp add: demo_frappe_def)
  have "run_as (py ''ann'') (save_settings demo_frappe demo_group_settings) demo_site = demo_grouped"
    using demo_group_saved by (auto simp: demo_grouped_def intro!: demo_as_ann [OF demo_site_fields(1)])
  then have "site_step (\<lambda>b. b) demo_site demo_grouped" using step_settings [OF sha] by metis
  moreover have "run_as (py ''ann'') demo_queue demo_grouped = demo_copied"
    using demo_copy_queued by (rule demo_as_ann [OF demo_grouped_fields(1)])
  then have "site_step (\<lambda>b. b) demo_grouped demo_copied"
    using step_queue_document [OF sha] unfolding demo_queue_def by metis
  ultimately show ?thesis using demo_fresh by (blast intro: reachable.intros)
qed

section \<open>The copy after its original was sent\<close>

definition demo_out :: site where
  "demo_out = demo_copied\<lparr>s_history := map (\<lambda>(n, h).
     (n, if n = demo_name 3 then h\<lparr>h_status := Submitted_to_WhatsApp\<rparr> else h)) (s_history demo_copied)\<rparr>"

lemma demo_out_rows: "row_get (s_history demo_out) n =
    map_option (\<lambda>h. if n = demo_name 3 then h\<lparr>h_status := Submitted_to_WhatsApp\<rparr> else h)
      (row_get (s_history demo_copied) n)"
proof -
  have "map_of (map (\<lambda>(n, h). (n, if n = k then f h else h)) rows) n =
      map_option (\<lambda>h. if n = k then f h else h) (map_of rows n)" for rows and f :: "history \<Rightarrow> history" and k n :: pystr
    by (induction rows) auto
  then show ?thesis by (simp add: demo_out_def row_get_def)
qed

lemma demo_copy_passes: "\<exists>k. outcome (validate_copy demo_frappe k demo_group_stored) demo_out = Inr True"
proof -
  from store_delivery_Inr [OF demo_copy_stored] obtain h u k where
    h: "row_of demo_frappe demo_group_stored demo_request (py ''+12025550123'') None h"
    "row_get (s_history demo_copied) (demo_name 3) = Some h" "stored_row demo_frappe demo_request demo_grouped u (demo_name 3) h"
    and k: "stored_row demo_frappe demo_request u demo_copied (demo_name 7) k"
    "row_of demo_frappe demo_group_stored demo_request demo_group (Some (demo_name 3)) k"
    "copy_matches h (demo_name 3) demo_group k"
    by (auto simp: demo_grouped_fields demo_request_def opt_value_def demo_group_found split: option.splits)
  have user: "s_user u = py ''ann''" using h(3) by (simp add: stored_row_def demo_grouped_fields)
  have kf: "h_owner k = py ''ann''" "h_reference_type k = Document" "h_recipient k = demo_group"
    "h_reference_doctype k = Some (py ''Sales Invoice'')" "h_reference_name k = Some (py ''INV-1'')"
    "h_company k = Some (py ''Co'')" "h_source_modified k = Some (py ''v1'')" "h_print_format k = None"
    using k(1,2) user by (auto simp: stored_row_def row_of_def new_history_def demo_request_def)
  have parent: "check_parent k demo_out = Inr True"
    using k(3) h(1,2) row_of_original [OF h(1)]
    by (auto simp: check_parent_True demo_out_rows copy_matches_def terminal_def is_group_def is_copy_def content_of_def)
  let ?s = "demo_out\<lparr>s_user := py ''ann''\<rparr>"
  have set: "s_settings demo_out = demo_group_stored"
    using h(3) k(1) by (simp add: demo_out_def stored_row_def demo_grouped_fields)
  have sender: "require_sender demo_frappe ?s = Inr ()" by (rule demo_sender) simp
  have source: "validate_document demo_frappe ?s (py ''Sales Invoice'') (py ''INV-1'') = Inr (demo_invoice, demo_adapter)"
    by (rule demo_valid) (simp add: set demo_grouped_fields)
  have invoice: "field demo_invoice (a_company_field demo_adapter) = PStr (py ''Co'')" "b_modified demo_invoice = py ''v1''"
    by (simp_all add: demo_invoice_def field_def dget_def demo_adapter_fields)
  have pf: "validate_print_format demo_frappe (py ''Sales Invoice'') [] = Inr (py ''Standard'')"
    by (simp add: validate_print_format_def print_formats_def demo_frappe_def dict_fromkeys_def)
  have doc: "check_document_source demo_frappe k ?s = Inr ()"
    by (simp add: check_document_source_def kf source invoice pf opt_value_def)
  have auth: "check_authority demo_frappe demo_group_stored k ?s = Inr ()"
    using sender doc demo_group_found by (simp add: check_authority_Inr_iff kf opt_value_def check_source_def)
  have owner: "check_owner demo_frappe k = Inr ()"
    by (simp add: check_owner_def kf) (simp add: demo_frappe_def)
  have "outcome (validate_copy demo_frappe k demo_group_stored) demo_out = Inr True"
    by (simp add: validate_copy_eq parent check_as_owner_eq owner kf auth Let_def)
  then show ?thesis ..
qed

end
