(* ===== verification/Example_Report.thy ===== *)
theory Example_Report
  imports Example Queueing
begin

text \<open>The example site sends a customer statement.\<close>

definition demo_report :: pystr where
  "demo_report = py ''Customer Ledger Summary''"

definition demo_filters :: "(pystr \<times> pyval) list" where
  "demo_filters = [(py ''party'', PStr (py ''ACME'')), (py ''company'', PStr (py ''Co''))]"

definition demo_report_adapter :: adapter where
  "demo_report_adapter = the (map_of DEFAULT_REPORT_ADAPTERS demo_report)"

lemma demo_report_found: "report_adapter demo_frappe demo_report = Inr (Some demo_report_adapter)"
  by (simp add: report_adapter_def report_adapters_def external_registry_def demo_frappe_def
      demo_report_adapter_def demo_report_def DEFAULT_REPORT_ADAPTERS_def)

lemma demo_report_fields:
  "a_customer_filter demo_report_adapter = Some (py ''party'')"
  "a_customer_filter_type demo_report_adapter = Some (py ''string'')"
  "a_party_type_filter demo_report_adapter = None" "a_company_filter demo_report_adapter = Some (py ''company'')"
  "a_pdf_renderer demo_report_adapter = None" "demo_report_adapter \<noteq> no_adapter"
  by (simp_all add: demo_report_adapter_def demo_report_def DEFAULT_REPORT_ADAPTERS_def no_adapter_def)

lemma demo_report_valid:
  "validate_report demo_frappe s demo_report (PDict demo_filters)
     = Inr (demo_report_adapter, demo_filters, py ''ACME'', py ''Co'')"
proof -
  have docs: "get_doc demo_frappe (py ''Report'') demo_report = Inr demo_plain"
    "get_doc demo_frappe (py ''Customer'') (py ''ACME'') = Inr demo_customer"
    "get_doc demo_frappe (py ''Company'') (py ''Co'') = Inr demo_plain"
    by (simp_all add: get_doc_def demo_frappe_def demo_doc_def)
  have may: "may_run demo_frappe s demo_report demo_plain" "check_permission demo_frappe s p dt (py ''ACME'') = Inr ()"
    "check_permission demo_frappe s p dt (py ''Co'') = Inr ()" for p dt
    by (simp_all add: may_run_def check_permission_def demo_frappe_def)
  have shape: "shape_filters (Some (py ''string'')) (py ''party'') (py ''ACME'') demo_filters = Inr demo_filters"
    by (simp add: shape_filters_def demo_filters_def dset_def)
  have one: "dget demo_filters (py ''party'') = PStr (py ''ACME'')" "dget demo_filters (py ''company'') = PStr (py ''Co'')"
    "one_customer (PStr (py ''ACME'')) = Inr (py ''ACME'')"
    by (simp_all add: demo_filters_def dget_def one_customer_def sole_value_def nonempty_text_def)
  show ?thesis
    using demo_report_fields(6)
    by (simp add: validate_report_def demo_report_found docs may demo_report_fields present_def required_def one shape
        report_company_def)
qed

lemma demo_report_pdf: "report_pdf demo_frappe demo_report demo_filters = Inr (py ''%PDF-1'')"
  by (simp add: report_pdf_def registered_renderer_def demo_report_found demo_report_fields present_def
      table_html_def)
     (simp add: demo_frappe_def table_html_def)

definition demo_report_request :: delivery_request where
  "demo_report_request = \<lparr>dr_reference_type = Report, dr_company = Some (py ''Co''),
     dr_reference_doctype = None, dr_reference_name = None, dr_report_name = Some demo_report,
     dr_report_filters = Some (json_dumps compact_style (PDict demo_filters)),
     dr_message_template = None, dr_print_format = None, dr_source_modified = None,
     dr_message = py ''Hello'', dr_pdf = py ''%PDF-1'', dr_filename = pdf_name demo_report\<rparr>"

lemma demo_report_accepted:
  assumes "s_user s = py ''ann''" "st_enabled (s_settings s)"
  shows "report_request demo_frappe demo_report (PDict demo_filters) (py ''+1 (202) 555-0123'') (py ''Hello'') [] s
    = Inr (demo_report_request, py ''+12025550123'')"
proof -
  have c: "check_message (py ''Hello'') = Inr (py ''Hello'')"
    by (simp add: check_message_Inr_iff py_def strip_def is_space_def)
  have on: "enabled_settings s = Inr (s_settings s)" using assms(2) by (simp add: enabled_settings_def)
  show ?thesis
    by (simp add: report_request_def demo_sender [OF assms(1)] on demo_report_valid demo_numbers check_recipient_def
        demo_number c validate_selected_template_def demo_report_pdf demo_report_request_def)
qed

lemma demo_report_queued:
  "\<exists>t. queue_report demo_frappe demo_report (PDict demo_filters) (py ''+1 (202) 555-0123'') (py ''Hello'') [] demo_site
     = (Inr (\<lparr>sd_name = demo_name 2, sd_status = Queued\<rparr>, None), t)"
proof -
  have f: "s_user demo_site = py ''ann''" "st_enabled (s_settings demo_site)" "s_ticks demo_site = 0"
    by (simp_all add: demo_site_def demo_settings_def)
  have fresh: "fresh_pair demo_frappe demo_site (s_ticks demo_site)"
    by (simp add: fresh_pair_def fresh_names_def f key_taken_def demo_site_def)
       (simp add: demo_frappe_def demo_name_def eval_nat_numeral)
  have ok: "request_ok demo_report_request"
    by (simp add: request_ok_def demo_report_request_def nonempty_def demo_report_def)
  have none: "configured_group demo_frappe (s_settings demo_site) c demo_site = Inr None" for c
    by (simp add: configured_group_def demo_site_def demo_settings_def)
  have name: "fr_name demo_frappe (s_ticks demo_site + 2) = demo_name 2" by (simp add: f(3)) (simp add: demo_frappe_def numeral_2_eq_2)
  show ?thesis
    using store_delivery_succeeds [OF fresh ok f(2) none]
    unfolding name queue_report_def bindA_def reads_def demo_report_accepted [OF f(1,2)] by simp
qed

end
