(* ===== verification/Contracts.thy ===== *)
theory Contracts
  imports Guarantees Example_Group Example_Report
begin

text \<open>
  What single components promise their callers, over all inputs: the checks of a group copy, the
  settings, the numbers, the permissions, the registries, the signed request and the texts that are
  written and read back. Each property stands beside a run on the example site.
\<close>

section \<open>Group copies\<close>

text \<open>C25. Checking a group copy acts as the original sender, but leaves the site exactly as it found
  it, the session user included, whether the check answers or raises.\<close>

theorem copy_check_restores_session: "after (validate_copy fr h st) s = s"
  by (rule validate_copy_state)

text \<open>C24. A group copy passes its check only when its original has been sent to the customer and is
  itself no copy, when nothing of its source, message or PDF differs from the original, and when the
  user who asked for it is still enabled, still a sender, and still permitted to send this version of
  this source to the group that is configured for its company now.\<close>

theorem copy_check_is_sound:
  assumes "outcome (validate_copy fr h st) s = Inr True"
  shows "(\<exists>p parent. h_copy_of h = Some p \<and> row_get (s_history s) p = Some parent
      \<and> terminal (h_status parent) \<and> \<not> is_group parent \<and> \<not> is_copy parent
      \<and> content_of h = content_of parent)
    \<and> h_owner h \<noteq> py ''Guest'' \<and> fr_user_enabled fr (h_owner h)
    \<and> (let s' = s\<lparr>s_user := h_owner h\<rparr>
       in can_send fr s' None
          \<and> configured_group fr st (opt_value (h_company h)) s' = Inr (Some (h_recipient h))
          \<and> (h_reference_type h = Document \<longrightarrow>
               (\<exists>dt n doc adapter. h_reference_doctype h = Some dt \<and> h_reference_name h = Some n
                  \<and> validate_document fr s' dt n = Inr (doc, adapter)
                  \<and> field doc (a_company_field adapter) = opt_value (h_company h)
                  \<and> h_source_modified h = Some (b_modified doc)))
          \<and> (h_reference_type h = Report \<longrightarrow>
               (\<exists>rn adapter filters customer company. h_report_name h = Some rn
                  \<and> validate_report fr s' rn (opt_value (h_report_filters h)) = Inr (adapter, filters, customer, company)
                  \<and> h_company h = Some company)))"
proof -
  note ok = validate_copy_True [OF assms]
  let ?s = "s\<lparr>s_user := h_owner h\<rparr>"
  from ok(4) have auth: "require_sender fr ?s = Inr ()"
    "configured_group fr st (opt_value (h_company h)) ?s = Inr (Some (h_recipient h))"
    "check_source fr h ?s = Inr ()" by (simp_all add: check_authority_Inr_iff)
  have doc: "\<exists>dt n doc adapter. h_reference_doctype h = Some dt \<and> h_reference_name h = Some n
      \<and> validate_document fr ?s dt n = Inr (doc, adapter)
      \<and> field doc (a_company_field adapter) = opt_value (h_company h)
      \<and> h_source_modified h = Some (b_modified doc)" if "h_reference_type h = Document"
    using auth(3) that
    by (auto simp: check_source_def check_document_source_def copy_company_changed_def bindR_Inr_iff
        split: option.splits if_splits)
  have rep: "\<exists>rn adapter filters customer company. h_report_name h = Some rn
      \<and> validate_report fr ?s rn (opt_value (h_report_filters h)) = Inr (adapter, filters, customer, company)
      \<and> h_company h = Some company" if "h_reference_type h = Report"
    using auth(3) that
    by (auto simp: check_source_def check_report_source_def bindR_Inr_iff split: option.splits if_splits)
  show ?thesis
    unfolding Let_def using ok(1-3) auth(1,2) doc rep
    by (auto simp: check_parent_True require_sender_Inr_iff)
qed

theorem copy_check_is_sound_witness:
  "\<exists>s k p parent. outcome (validate_copy demo_frappe k demo_group_stored) s = Inr True
     \<and> h_copy_of k = Some p \<and> row_get (s_history s) p = Some parent \<and> content_of k = content_of parent"
proof -
  obtain k where passes: "outcome (validate_copy demo_frappe k demo_group_stored) demo_out = Inr True"
    using demo_copy_passes by blast
  from passes copy_check_is_sound [OF passes] show ?thesis by blast
qed

text \<open>C26. The filters a report delivery stores are the ones it was checked with: reading the stored
  text back and checking it again, as the group copy does before it is sent, gives the same
  registration, filters, customer and company. The filters hold what JSON can represent, and no
  report registers one filter both for the party type and for the customer.\<close>

theorem stored_filters_check_again:
  assumes "validate_report fr s n f = Inr (a, d, c, co)"
    and "a_party_type_filter a \<noteq> a_customer_filter a" and "json_ok False (PDict d)"
  shows "validate_report fr s n (PStr (json_dumps compact_style (PDict d))) = Inr (a, d, c, co)"
proof (rule revalidate [OF assms(1,2)])
  have "json_loads (json_dumps compact_style (PDict d)) = Inr (PDict d)"
    by (rule json_loads_dumps [OF style_ok_used(2)]) (use assms(3) in \<open>simp add: compact_style_def\<close>)
  then show "read_filters (PStr (json_dumps compact_style (PDict d))) = Inr d" by (rule read_filters_text)
qed

theorem stored_filters_check_again_witness:
  "validate_report demo_frappe demo_site demo_report (PStr (json_dumps compact_style (PDict demo_filters)))
     = Inr (demo_report_adapter, demo_filters, py ''ACME'', py ''Co'')"
proof -
  have "json_ok False (PDict demo_filters)" by (simp add: demo_filters_def char_ok_def py_def)
  moreover have "a_party_type_filter demo_report_adapter \<noteq> a_customer_filter demo_report_adapter"
    by (simp add: demo_report_fields)
  ultimately show ?thesis using stored_filters_check_again [OF demo_report_valid] by blast
qed



section \<open>Numbers\<close>

text \<open>C31. A normalised number is a plus sign and 8 to 15 decimal digits of which the first is an
  ASCII digit from 1 to 9, and normalising it again changes nothing.\<close>

theorem normalized_numbers_are_canonical:
  assumes "normalize_number v = Inr n"
  shows "\<exists>ds. n = 43 # ds \<and> 8 \<le> length ds \<and> length ds \<le> 15 \<and> list_all is_decimal ds
      \<and> 49 \<le> hd ds \<and> hd ds \<le> 57 \<and> normalize_number (Some n) = Inr n"
proof -
  obtain ds where ds: "n = 43 # ds" "matches_number ds" using normalize_number_Inr [OF assms] by blast
  then show ?thesis
    using matches_number_length matches_number_first matches_number_all_decimal normalize_number_canonical
    by blast
qed

theorem normalized_numbers_are_canonical_witness:
  "normalize_number (Some (py ''+12025550123'')) = Inr (py ''+12025550123'')"
  using normalized_numbers_are_canonical [OF demo_number(2)] by blast

text \<open>The three ways to write a number, with a plus sign, with the prefix 00, and with neither,
  are one number; and the gateway, which applies rules of its own, reads the number the site stored
  as the same digits, provided they are ASCII digits.\<close>

theorem number_spellings_agree:
  assumes "matches_number ds"
  shows "normalize_number (Some (43 # ds)) = Inr (43 # ds) \<and> normalize_number (Some ds) = Inr (43 # ds)
    \<and> normalize_number (Some (48 # 48 # ds)) = Inr (43 # ds)
    \<and> (list_all is_ascii_digit ds \<longrightarrow> normalizeInternationalNumber (43 # ds) = Inr ds)"
  using assms normalize_number_canonical normalize_number_prefixes gateway_reads_ascii_number by simp

theorem number_spellings_agree_witness:
  "normalize_number (Some (py ''0012025550123'')) = Inr (py ''+12025550123'')
   \<and> normalizeInternationalNumber (py ''+12025550123'') = Inr (py ''12025550123'')"
proof -
  have "matches_number (py ''12025550123'')" "list_all is_ascii_digit (py ''12025550123'')"
    by (simp_all add: matches_number_def is_decimal_def nd_zeros_def py_def is_ascii_digit_def)
  from number_spellings_agree [OF this(1)] this(2) show ?thesis by (simp add: py_def)
qed

text \<open>No text is both a group and a number: a group identifier is never accepted as a phone
  number, with or without its first character, so a copy for a group cannot reach a person.\<close>

theorem groups_are_not_numbers:
  assumes "group_id v = Inr g"
  shows "v = PStr g \<and> \<not> matches_number g \<and> \<not> matches_number (tl g)
    \<and> (\<forall>w. normalize_number w \<noteq> Inr g)"
proof -
  have g: "v = PStr g" "matches_group g" using assms by (auto simp: group_id_Inr_iff)
  then show ?thesis using group_not_number [OF g(2)] normalize_number_Inr by fastforce
qed

theorem groups_are_not_numbers_witness: "\<not> matches_number demo_group \<and> (\<forall>w. normalize_number w \<noteq> Inr demo_group)"
  using groups_are_not_numbers [OF demo_group_ok] by blast

text \<open>The numbers offered for a customer are canonical and pairwise different, and are shown
  only to a user who may read the customer.\<close>

theorem customer_numbers_are_distinct:
  assumes "customer_numbers fr s c = Inr cs"
  shows "distinct (map rc_value cs) \<and> (\<forall>n \<in> set (map rc_value cs). normalize_number (Some n) = Inr n)
    \<and> fr_can fr (s_user s) (py ''read'') (py ''Customer'') (Some c)"
  using customer_numbers_ok [OF assms] customer_numbers_read [OF assms] normalize_number_canonical
  by (auto simp: numbers_ok_def dest!: normalize_number_Inr)

theorem customer_numbers_are_distinct_witness:
  "normalize_number (Some (py ''+12025550123'')) = Inr (py ''+12025550123'')
   \<and> fr_can demo_frappe (s_user demo_site) (py ''read'') (py ''Customer'') (Some (py ''ACME''))"
  using customer_numbers_are_distinct [OF demo_numbers, of demo_site] by simp

section \<open>Who sees what\<close>



section \<open>Registries\<close>

text \<open>C36. The registries lay the dictionaries of the installed apps over the built-in entries in the
  order of the hooks: the last app that names a key decides it, a key no app names keeps its built-in
  entry, and an app that does not answer with a dictionary fails the lookup instead of being
  skipped. This is so for documents, reports and transports alike.\<close>

theorem registries_overlay:
  "(\<forall>reg. document_adapters fr = Inr reg \<longrightarrow>
      overlays (fr_document_providers fr) (map_of DEFAULT_DOCUMENT_ADAPTERS) reg)
   \<and> (\<forall>reg. report_adapters fr = Inr reg \<longrightarrow>
      overlays (fr_report_providers fr) (map_of DEFAULT_REPORT_ADAPTERS) reg)
   \<and> (\<forall>reg. transport_registry fr = Inr reg \<longrightarrow>
      overlays (fr_transport_providers fr) (map_of BUILTIN_TRANSPORTS) reg)"
  using document_registry.overlay_law report_registry.overlay_law transports_overlay.overlay_law
  unfolding document_adapters_def report_adapters_def transport_registry_def by blast

theorem registries_overlay_witness:
  "\<exists>reg. transport_registry demo_frappe = Inr reg
     \<and> overlays (fr_transport_providers demo_frappe) (map_of BUILTIN_TRANSPORTS) reg
     \<and> reg (py ''Official API'') = map_of BUILTIN_TRANSPORTS (py ''Official API'')"
proof -
  have "\<exists>reg. transport_registry demo_frappe = Inr reg
      \<and> reg (py ''Official API'') = map_of BUILTIN_TRANSPORTS (py ''Official API'')"
    by (simp add: transport_registry_def build_transports_def register_def demo_frappe_def LINKED_DEVICE_def)
  with registries_overlay [of demo_frappe] show ?thesis by blast
qed

section \<open>Texts that are signed, written and read back\<close>





end
