(* ===== verification/Releases.thy ===== *)
theory Releases
  imports Worker
begin

text \<open>
  From the original to its copy: when an original has gone out, its copies are queued for the
  worker, and a copy whose job was lost is queued again by the scheduler.
\<close>

text \<open>The record is queued and its job is among those that wait.\<close>

definition released :: "pystr \<Rightarrow> site \<Rightarrow> bool" where
  "released n s \<longleftrightarrow>
     (\<exists>h. row_get (s_history s) n = Some h \<and> h_status h = Queued) \<and> copy_job n \<in> set (s_jobs s)"

text \<open>\<open>frappe.get_all\<close> without a limit lists every row, in some order.\<close>

definition lists_all :: "frappe \<Rightarrow> bool" where
  "lists_all fr \<longleftrightarrow> (\<forall>ns. set (fr_listing fr ns) = set ns)"

lemma listed:
  "lists_all fr \<Longrightarrow> n \<in> set (history_names fr p s) \<longleftrightarrow> (\<exists>h. row_get (s_history s) n = Some h \<and> p h)"
  by (auto simp: history_names_def lists_all_def rows_store.get_keys [symmetric] split: option.splits)

section \<open>Releasing\<close>

text \<open>A release leaves rows in place and queued ones queued, and only adds jobs.\<close>

definition further :: "site \<Rightarrow> site \<Rightarrow> bool" where
  "further s t \<longleftrightarrow>
     set (s_jobs s) \<subseteq> set (s_jobs t) \<and>
     (\<forall>n h. row_get (s_history s) n = Some h \<longrightarrow>
        (\<exists>h'. row_get (s_history t) n = Some h' \<and> (h_status h = Queued \<longrightarrow> h_status h' = Queued)))"

lemma further_preorder [simp]: "reflp further" "transp further"
  unfolding further_def reflp_def transp_def by (blast, meson subset_trans)

lemma further_released: "further s t \<Longrightarrow> released n s \<Longrightarrow> released n t"
  unfolding further_def released_def by blast

lemma release_copy_eq:
  "release_copy fr n s =
     (Inr (), let t = (case row_get (s_history s) n of None \<Rightarrow> s | Some h \<Rightarrow> put_history n (h\<lparr>h_status := Queued\<rparr>) s)
              in case fr_enqueue fr (copy_job n) of None \<Rightarrow> t\<lparr>s_jobs := s_jobs t @ [copy_job n]\<rparr> | Some e \<Rightarrow> t)"
  by (simp add: release_copy_def bindA_def set_history_def modifies_def enqueue_def Let_def split: option.splits)

lemma keeps_further_release: "keeps further (release_copy fr n)"
  by (auto simp: keeps_def release_copy_eq further_def Let_def split: option.splits)

lemma release_copy_released:
  "row_get (s_history s) n = Some h \<Longrightarrow> fr_enqueue fr (copy_job n) = None \<Longrightarrow> released n (after (release_copy fr n) s)"
  by (simp add: release_copy_eq released_def)

lemma fold_released:
  assumes "n \<in> set ns" and "row_get (s_history s) n = Some h" and "fr_enqueue fr (copy_job n) = None"
  shows "released n (after (foldA (release_copy fr) ns) s)"
  using assms(1,2)
proof (induction ns arbitrary: s h)
  case Nil
  then show ?case by simp
next
  case (Cons m ns)
  let ?t = "after (release_copy fr m) s"
  have step: "after (foldA (release_copy fr) (m # ns)) s = after (foldA (release_copy fr) ns) ?t"
    by (simp add: bindA_def release_copy_eq)
  have rest: "further ?t (after (foldA (release_copy fr) ns) ?t)"
    by (rule keepsD, rule keeps_foldA) (simp_all add: keeps_further_release)
  show ?case
  proof (cases "m = n")
    case True
    then have "released n ?t" using release_copy_released [OF Cons.prems(2) assms(3)] by simp
    then show ?thesis unfolding step by (rule further_released [OF rest])
  next
    case False
    obtain h' where "row_get (s_history ?t) n = Some h'"
      using keepsD [OF keeps_further_release, of s fr m] Cons.prems(2) unfolding further_def by blast
    then show ?thesis unfolding step using Cons.IH Cons.prems(1) False by simp
  qed
qed

lemma copies_released:
  assumes "lists_all fr" and "row_get (s_history s) n = Some c" "h_copy_of c = Some p" "releasable (h_status c)"
    and "fr_enqueue fr (copy_job n) = None"
  shows "released n (after (release_waiting_copies fr p) s)"
proof -
  have "n \<in> set (history_names fr (\<lambda>h. h_copy_of h = Some p \<and> releasable (h_status h)) s)"
    using listed [OF assms(1)] assms(2-4) by blast
  then show ?thesis
    using fold_released [OF _ assms(2,5)] by (simp add: release_waiting_copies_def bindA_def reads_def)
qed

section \<open>By the worker\<close>

lemma process_releases:
  assumes all: "lists_all fr" and "row_get (s_history s) p = Some h0"
    and run: "process_outbound_message fr p s = (r, t)"
    and out: "row_get (s_history t) p = Some h" "terminal (h_status h)" "\<not> is_group h"
    and copy: "row_get (s_history s) n = Some c" "h_copy_of c = Some p" "releasable (h_status c)" "n \<noteq> p"
    and job: "fr_enqueue fr (copy_job n) = None"
  shows "released n t"
proof (cases "terminal (h_status h0)")
  case True
  have "is_group h0 \<Longrightarrow> t = s"
    using run assms(2) True by (simp add: process_outbound_message_def bindA_def reads_def get_history_def release_if_original_def ret_def)
  then have "\<not> is_group h0" using out assms(2) by auto
  then have "t = after (release_waiting_copies fr p) s"
    using run assms(2) True by (simp add: process_outbound_message_def bindA_def reads_def get_history_def release_if_original_def)
  then show ?thesis using copies_released [OF all copy(1-3) job] by simp
next
  case False
  from run show ?thesis
  proof (cases rule: process_cases)
    case missing
    then show ?thesis using assms(2) by simp
  next
    case (settled g)
    then have "t = s" using False assms(2) by (simp add: release_if_original_def ret_def)
    then show ?thesis using False out assms(2) by simp
  next
    case (idle g)
    then have "s_history t = s_history s" by (auto simp: only_ticked_def)
    then show ?thesis using False out assms(2) by simp
  next
    case (spent g)
    then have "row_get (s_history t) p = Some (exhausted h0) \<or> row_get (s_history t) p = Some h0"
      using assms(2) by (auto simp: save_history_def bindA_def reads_def modifies_def split: sum.splits prod.splits)
    then show ?thesis using False out by (auto simp: exhausted_def terminal_def)
  next
    case (run g)
    then have g: "g = h0" using assms(2) by simp
    let ?s = "s\<lparr>s_ticks := Suc (s_ticks s)\<rparr>"
    have row: "row_get (s_history ?s) p = Some h0" using assms(2) by simp
    from run(3) [unfolded g] show ?thesis
    proof (rule run_attempt_shape [OF row])
      assume "t = ?s"
      then show "released n t" using False out assms(2) by simp
    next
      fix d' u
      assume ends: "after_success (started h0 (fr_clock fr (s_ticks s))) d' \<or> after_failure (started h0 (fr_clock fr (s_ticks s))) d'"
        and wire: "let s' = put_history p (started h0 (fr_clock fr (s_ticks s))) ?s
           in only_ticked s' u \<or> sent_one (h_idempotency_key h0) s' u \<and> may_send fr p (started h0 (fr_clock fr (s_ticks s))) s'"
        and t: "t = after (release_if_original fr p d') (put_history p d' u)"
      have history: "s_history u = row_put p (started h0 (fr_clock fr (s_ticks s))) (s_history s)"
        using wire by (auto simp: Let_def only_ticked_def sent_one_def)
      have original: "terminal (h_status d') \<and> \<not> is_group d'"
      proof (rule ccontr)
        assume not: "\<not> (terminal (h_status d') \<and> \<not> is_group d')"
        then have "t = put_history p d' u" using t unfolding release_if_original_def by (auto simp: ret_def)
        then show False using not out by simp
      qed
      then have "t = after (release_waiting_copies fr p) (put_history p d' u)"
        using t by (simp add: release_if_original_def)
      moreover have "row_get (s_history (put_history p d' u)) n = Some c"
        using copy(1,4) history by simp
      ultimately show "released n t" using copies_released [OF all _ copy(2,3) job] by simp
    qed
  qed
qed

section \<open>By the scheduler\<close>

text \<open>One pass looks at 50 waiting copies at most.\<close>

definition waiting_copies :: "frappe \<Rightarrow> site \<Rightarrow> pystr list" where
  "waiting_copies fr s = history_names fr (\<lambda>h. is_group h \<and> releasable (h_status h)) s"

lemma parent_listed:
  assumes "lists_all fr" and "row_get (s_history s) n = Some c" "h_copy_of c = Some p" "releasable (h_status c)" "is_group c"
    and "length (waiting_copies fr s) \<le> 50"
  shows "Some p \<in> set (waiting_parents fr s)"
proof -
  have "n \<in> set (waiting_copies fr s)" using listed [OF assms(1)] assms(2,4,5) unfolding waiting_copies_def by blast
  then show ?thesis
    using assms(2,3,6) unfolding waiting_copies_def by (force simp: waiting_parents_def)
qed

text \<open>Recovering other parents keeps the copy releasable and its original as it is.\<close>

definition recovering :: "pystr \<Rightarrow> pystr \<Rightarrow> site \<Rightarrow> bool" where
  "recovering n p s \<longleftrightarrow>
     (\<exists>c. row_get (s_history s) n = Some c \<and> h_copy_of c = Some p \<and> releasable (h_status c))
     \<and> (\<exists>h. row_get (s_history s) p = Some h \<and> terminal (h_status h))"

lemma terminal_not_releasable: "terminal st \<Longrightarrow> \<not> releasable st"
  by (auto simp: terminal_def releasable_def)

definition recovers :: "pystr \<Rightarrow> pystr \<Rightarrow> site \<Rightarrow> site \<Rightarrow> bool" where
  "recovers n p s t \<longleftrightarrow> (recovering n p s \<longrightarrow> recovering n p t) \<and> (released n s \<longrightarrow> released n t)"

lemma recovers_preorder [simp]: "reflp (recovers n p)" "transp (recovers n p)"
  by (auto simp: recovers_def reflp_def transp_def)

lemma recover_parent_eq:
  "recover_parent fr q s =
     (case q of None \<Rightarrow> (Inr (), s)
      | Some p \<Rightarrow> (case row_get (s_history s) p of None \<Rightarrow> (Inr (), s)
                 | Some h \<Rightarrow> if terminal (h_status h) then release_waiting_copies fr p s else (Inr (), s)))"
  by (simp add: recover_parent_def bindA_def reads_def ret_def split: option.splits)

text \<open>A release only touches rows that were releasable.\<close>

lemma release_fold_rows:
  assumes "\<forall>m \<in> set ns. m \<noteq> k"
  shows "row_get (s_history (after (foldA (release_copy fr) ns) s)) k = row_get (s_history s) k"
  using assms
proof (induction ns arbitrary: s)
  case Nil
  then show ?case by (simp add: ret_def)
next
  case (Cons m ns)
  have "row_get (s_history (after (release_copy fr m) s)) k = row_get (s_history s) k"
    using Cons.prems by (auto simp: release_copy_eq Let_def split: option.splits)
  then show ?case using Cons by (simp add: bindA_def release_copy_eq)
qed

lemma release_copy_row:
  "row_get (s_history s) k = Some h \<Longrightarrow>
     row_get (s_history (after (release_copy fr m) s)) k = Some (if k = m then h\<lparr>h_status := Queued\<rparr> else h)"
  by (auto simp: release_copy_eq Let_def split: option.splits)

lemma release_fold_row:
  assumes "row_get (s_history s) k = Some h"
  shows "\<exists>h'. row_get (s_history (after (foldA (release_copy fr) ns) s)) k = Some h' \<and> (h' = h \<or> h' = h\<lparr>h_status := Queued\<rparr>)"
  using assms
proof (induction ns arbitrary: s h)
  case Nil
  then show ?case by (simp add: ret_def)
next
  case (Cons m ns)
  obtain h1 where "row_get (s_history (after (release_copy fr m) s)) k = Some h1" "h1 = h \<or> h1 = h\<lparr>h_status := Queued\<rparr>"
    using release_copy_row [OF Cons.prems, of fr m] by (cases "k = m") auto
  then obtain h' where "row_get (s_history (after (foldA (release_copy fr) ns) (after (release_copy fr m) s))) k = Some h'"
    "h' = h1 \<or> h' = h1\<lparr>h_status := Queued\<rparr>" using Cons.IH by blast
  moreover have "after (foldA (release_copy fr) (m # ns)) s = after (foldA (release_copy fr) ns) (after (release_copy fr m) s)"
    by (simp add: bindA_def release_copy_eq)
  ultimately show ?case using \<open>h1 = h \<or> _\<close> by auto
qed

lemma release_waiting_fold:
  "release_waiting_copies fr q s = foldA (release_copy fr) (history_names fr (\<lambda>h. h_copy_of h = Some q \<and> releasable (h_status h)) s) s"
  by (simp add: release_waiting_copies_def bindA_def reads_def)

lemma keeps_recovers: "keeps (recovers n p) (recover_parent fr q)"
proof -
  have release: "recovers n p s (after (release_waiting_copies fr q) s)" for q s
  proof -
    let ?ns = "history_names fr (\<lambda>h. h_copy_of h = Some q \<and> releasable (h_status h)) s"
    have "recovering n p (after (foldA (release_copy fr) ?ns) s)" if rec: "recovering n p s"
    proof -
      obtain c h where c: "row_get (s_history s) n = Some c" "h_copy_of c = Some p" "releasable (h_status c)"
        and h: "row_get (s_history s) p = Some h" "terminal (h_status h)"
        using rec unfolding recovering_def by blast
      have "p \<notin> set ?ns" using history_names_row [of p fr _ s] h terminal_not_releasable by fastforce
      then have "row_get (s_history (after (foldA (release_copy fr) ?ns) s)) p = Some h"
        using release_fold_rows [of ?ns p fr s] h(1) by auto
      moreover obtain c' where "row_get (s_history (after (foldA (release_copy fr) ?ns) s)) n = Some c'"
        "c' = c \<or> c' = c\<lparr>h_status := Queued\<rparr>" using release_fold_row [OF c(1)] by blast
      ultimately show ?thesis using c h(2) by (auto simp: recovering_def releasable_def)
    qed
    moreover have "further s (after (foldA (release_copy fr) ?ns) s)"
      by (rule keepsD, rule keeps_foldA) (simp_all add: keeps_further_release)
    ultimately show ?thesis unfolding recovers_def release_waiting_fold using further_released by blast
  qed
  have "recovers n p s s" for s by (simp add: recovers_def)
  then show ?thesis using release by (auto simp: keeps_def recover_parent_eq split: option.splits)
qed

lemma recover_parent_returns: "outcome (recover_parent fr q) s = Inr ()"
  using release_waiting_copies_returns by (simp add: recover_parent_eq split: option.splits)

lemma recovered:
  assumes all: "lists_all fr" and job: "fr_enqueue fr (copy_job n) = None"
    and "Some p \<in> set qs" and "recovering n p s"
  shows "released n (after (foldA (recover_parent fr) qs) s)"
  using assms(3,4)
proof (induction qs arbitrary: s)
  case Nil
  then show ?case by simp
next
  case (Cons q qs)
  let ?t = "after (recover_parent fr q) s"
  have step: "after (foldA (recover_parent fr) (q # qs)) s = after (foldA (recover_parent fr) qs) ?t"
    using recover_parent_returns [of fr q s] by (cases "recover_parent fr q s") (simp add: bindA_def)
  have one: "recovers n p s ?t" using keeps_recovers by (rule keepsD)
  have rest: "recovers n p ?t (after (foldA (recover_parent fr) qs) ?t)"
    by (rule keepsD, rule keeps_foldA) (simp_all add: keeps_recovers)
  show ?case
  proof (cases "q = Some p")
    case True
    obtain c h where "row_get (s_history s) n = Some c" "h_copy_of c = Some p" "releasable (h_status c)"
      "row_get (s_history s) p = Some h" "terminal (h_status h)"
      using Cons.prems(2) unfolding recovering_def by blast
    then have "released n ?t" using copies_released [OF all _ _ _ job] by (simp add: True recover_parent_eq)
    then show ?thesis unfolding step using rest by (simp add: recovers_def)
  next
    case False
    then show ?thesis unfolding step using Cons one by (simp add: recovers_def)
  qed
qed

definition stays_released :: "pystr \<Rightarrow> site \<Rightarrow> site \<Rightarrow> bool" where
  "stays_released n s t \<longleftrightarrow> (released n s \<longrightarrow> released n t)"

lemma stays_released_preorder [simp]: "reflp (stays_released n)" "transp (stays_released n)"
  by (auto simp: stays_released_def reflp_def transp_def)

lemma keeps_retry_released:
  assumes "due_name row \<noteq> n" shows "keeps (stays_released n) (retry_row fr row)"
proof -
  have "keeps (stays_released n) (set_history (due_name row) f)" for f
    using assms by (auto simp: set_history_def stays_released_def released_def intro!: keeps_modifies split: option.splits)
  moreover have "keeps (stays_released n) (enqueue fr j)" for j
    by (auto simp: keeps_def enqueue_def stays_released_def released_def split: option.splits)
  moreover have "keeps (stays_released n) (now_datetime fr)"
    by (auto simp: keeps_def now_datetime_def tick_def stays_released_def released_def)
  ultimately show ?thesis
    unfolding retry_row_def by (auto intro!: keeps_bindA keeps_catchA)
qed

lemma due_not_queued: "row \<in> set (due_rows fr now s) \<Longrightarrow> released n s \<Longrightarrow> due_name row \<noteq> n"
  by (auto simp: due_rows_def List.map_filter_def released_def is_due_def dest!: in_set_takeD history_names_row)

text \<open>A pass of the retries queues again every copy whose original is out, as long as no more than
  50 copies wait.\<close>

lemma retry_recovers:
  assumes all: "lists_all fr" and job: "fr_enqueue fr (copy_job n) = None"
    and "row_get (s_history s) n = Some c" "h_copy_of c = Some p" "releasable (h_status c)" "is_group c"
    and "row_get (s_history s) p = Some h" "terminal (h_status h)"
    and "length (waiting_copies fr s) \<le> 50"
  shows "released n (after (retry_due_messages fr) s)"
proof -
  let ?t = "after (foldA (recover_parent fr) (waiting_parents fr s)) s"
  have "recovering n p s" using assms(3-5,7,8) by (simp add: recovering_def)
  then have t: "released n ?t"
    using recovered [OF all job] parent_listed [OF all assms(3-6,9)] by blast
  have returns: "outcome (foldA (recover_parent fr) qs) s = Inr ()" for qs s
  proof (induction qs arbitrary: s)
    case Nil
    then show ?case by (simp add: ret_def)
  next
    case (Cons q qs)
    then show ?case using recover_parent_returns [of fr q s] by (cases "recover_parent fr q s") (simp add: bindA_def)
  qed
  let ?u = "?t\<lparr>s_ticks := Suc (s_ticks ?t)\<rparr>"
  let ?rows = "due_rows fr (fr_clock fr (s_ticks ?t)) ?u"
  have u: "released n ?u" using t by (simp add: released_def)
  have "keeps (stays_released n) (foldA (retry_row fr) ?rows)"
    by (rule keeps_foldA) (use due_not_queued [OF _ u] keeps_retry_released in auto)
  then have "released n (after (foldA (retry_row fr) ?rows) ?u)"
    using u unfolding stays_released_def keeps_def by blast
  moreover have "after (retry_due_messages fr) s = after (foldA (retry_row fr) ?rows) ?u"
    using returns [of "waiting_parents fr s" s]
    by (cases "foldA (recover_parent fr) (waiting_parents fr s) s")
       (simp add: retry_due_messages_def bindA_def reads_def now_datetime_def tick_def)
  ultimately show ?thesis by simp
qed

end
