(* ===== verification/Copy_Contracts.thy ===== *)
theory Copy_Contracts
  imports Releases Example_Group
begin

text \<open>
  The two ways a waiting copy gets to the worker, stated over the worker and the scheduler.
\<close>

lemma lists_all_demo: "lists_all demo_frappe"
  by (simp add: lists_all_def demo_frappe_def)

lemma demo_enqueue: "fr_enqueue demo_frappe j = None"
  by (simp add: demo_frappe_def)

text \<open>In \<open>demo_out\<close> the original is out and its copy still waits.\<close>

lemma demo_out_pair:
  obtains h c where "row_get (s_history demo_out) (demo_name 3) = Some h" "terminal (h_status h)" "\<not> is_group h"
    and "row_get (s_history demo_out) (demo_name 7) = Some c" "h_copy_of c = Some (demo_name 3)"
      "h_status c = Waiting_for_Primary" "is_group c"
proof -
  from store_delivery_Inr [OF demo_copy_stored] obtain h u k where
    h: "row_of demo_frappe demo_group_stored demo_request (py ''+12025550123'') None h"
    "row_get (s_history demo_copied) (demo_name 3) = Some h" "stored_row demo_frappe demo_request demo_grouped u (demo_name 3) h"
    and k: "stored_row demo_frappe demo_request u demo_copied (demo_name 7) k"
    "row_of demo_frappe demo_group_stored demo_request demo_group (Some (demo_name 3)) k"
    "copy_matches h (demo_name 3) demo_group k"
    by (auto simp: demo_grouped_fields demo_request_def opt_value_def demo_group_found split: option.splits)
  let ?h = "h\<lparr>h_status := Submitted_to_WhatsApp\<rparr>"
  have "row_get (s_history demo_out) (demo_name 3) = Some ?h" "terminal (h_status ?h)" "\<not> is_group ?h"
    using h(2) row_of_original [OF h(1)] by (simp_all add: demo_out_rows terminal_def is_group_def)
  moreover have "row_get (s_history demo_out) (demo_name 7) = Some k"
    using k(1) by (simp add: demo_out_rows stored_row_def demo_name_def)
  moreover have "h_copy_of k = Some (demo_name 3)" "h_status k = Waiting_for_Primary" "is_group k"
    using k(3) by (auto simp: copy_matches_def)
  ultimately show thesis using that by blast
qed

lemma demo_out_few: "length (waiting_copies demo_frappe demo_out) \<le> 50"
proof -
  obtain h u k where "stored_row demo_frappe demo_request demo_grouped u (demo_name 3) h"
    "stored_row demo_frappe demo_request u demo_copied (demo_name 7) k"
    using store_delivery_Inr [OF demo_copy_stored]
    by (auto simp: demo_grouped_fields demo_request_def opt_value_def demo_group_found split: option.splits)
  then have "n = demo_name 3 \<or> n = demo_name 7" if "row_get (s_history demo_copied) n \<noteq> None" for n
    using that unfolding stored_row_def by (metis demo_grouped_fields(3) row_get_Nil)
  then have names: "set (waiting_copies demo_frappe demo_out) \<subseteq> {demo_name 3, demo_name 7}"
    using history_names_row [of _ demo_frappe _ demo_out] by (fastforce simp: waiting_copies_def demo_out_rows)
  have "distinct (waiting_copies demo_frappe demo_out)"
    by (simp add: waiting_copies_def history_names_def distinct_dict_fromkeys)
  then have "length (waiting_copies demo_frappe demo_out) \<le> card {demo_name 3, demo_name 7}"
    using card_mono [OF _ names] by (simp add: distinct_card [symmetric])
  also have "\<dots> \<le> 2" by (simp add: card_insert_le_m1)
  finally show ?thesis by simp
qed

text \<open>C5. The copy follows its original. When the worker has run the original and it has gone out, in
  this run or in an earlier one, every copy that waits for it is queued and its job is among those
  that wait for a worker, unless the queue refuses the job.\<close>

theorem copies_follow_their_original:
  assumes "lists_all fr" and "row_get (s_history s) p = Some h0"
    and "process_outbound_message fr p s = (r, t)"
    and "row_get (s_history t) p = Some h" "terminal (h_status h)" "\<not> is_group h"
    and "row_get (s_history s) n = Some c" "h_copy_of c = Some p" "releasable (h_status c)" "n \<noteq> p"
    and "fr_enqueue fr (copy_job n) = None"
  shows "released n t"
  by (rule process_releases [OF assms])

theorem copies_follow_their_original_witness:
  "released (demo_name 7) (after (process_outbound_message demo_frappe (demo_name 3)) demo_out)"
proof (rule demo_out_pair)
  fix h c assume h: "row_get (s_history demo_out) (demo_name 3) = Some h" "terminal (h_status h)" "\<not> is_group h"
    and c: "row_get (s_history demo_out) (demo_name 7) = Some c" "h_copy_of c = Some (demo_name 3)"
      "h_status c = Waiting_for_Primary" "is_group c"
  let ?ns = "history_names demo_frappe (\<lambda>h. h_copy_of h = Some (demo_name 3) \<and> releasable (h_status h)) demo_out"
  obtain r t where run: "process_outbound_message demo_frappe (demo_name 3) demo_out = (r, t)" by fastforce
  have t: "t = after (foldA (release_copy demo_frappe) ?ns) demo_out"
    using run h by (simp add: process_outbound_message_def bindA_def reads_def get_history_def release_if_original_def
      release_waiting_fold)
  have "demo_name 3 \<notin> set ?ns" using history_names_row [of "demo_name 3" demo_frappe _ demo_out] h terminal_not_releasable by fastforce
  then have "row_get (s_history t) (demo_name 3) = Some h"
    unfolding t using release_fold_rows [of ?ns "demo_name 3" demo_frappe demo_out] h(1) by auto
  from copies_follow_their_original [OF lists_all_demo h(1) run this h(2,3) c(1,2)] c(3) run demo_enqueue
  show ?thesis by (simp add: releasable_def demo_name_def)
qed



end
