(* ===== verification/Iso_Times.thy ===== *)
theory Iso_Times
  imports Datetimes
begin

text \<open>
  The timestamps the gateway writes, \<open>Date.prototype.toISOString()\<close>: read back exactly.
\<close>

definition digits2 :: "nat \<Rightarrow> pystr" where
  "digits2 n = [48 + n div 10 mod 10, 48 + n mod 10]"

definition digits3 :: "nat \<Rightarrow> pystr" where
  "digits3 n = (48 + n div 100 mod 10) # digits2 n"

definition digits4 :: "nat \<Rightarrow> pystr" where
  "digits4 n = (48 + n div 1000 mod 10) # digits3 n"

text \<open>\<open>YYYY-MM-DDTHH:mm:ss.sss\<close>, without the zone.\<close>

definition iso_clock :: "nat \<Rightarrow> nat \<Rightarrow> nat \<Rightarrow> nat \<Rightarrow> pystr" where
  "iso_clock h mi sec ms = digits2 h @ [58] @ digits2 mi @ [58] @ digits2 sec @ [46] @ digits3 ms"

definition iso_date :: "nat \<Rightarrow> nat \<Rightarrow> nat \<Rightarrow> pystr" where
  "iso_date y mo d = digits4 y @ [45] @ digits2 mo @ [45] @ digits2 d"

definition iso_text :: "nat \<Rightarrow> nat \<Rightarrow> nat \<Rightarrow> nat \<Rightarrow> nat \<Rightarrow> nat \<Rightarrow> nat \<Rightarrow> pystr" where
  "iso_text y mo d h mi sec ms = iso_date y mo d @ [84] @ iso_clock h mi sec ms @ [90]"

text \<open>The instant in microseconds.\<close>

definition iso_instant :: "nat \<Rightarrow> nat \<Rightarrow> nat \<Rightarrow> nat \<Rightarrow> nat \<Rightarrow> nat \<Rightarrow> nat \<Rightarrow> int" where
  "iso_instant y mo d h mi sec ms =
     days_of_date y mo d * 86400 * usec + int (h * 3600 + mi * 60 + sec) * usec + int (ms * 1000)"

lemmas iso_digits = digits2_def digits3_def digits4_def

lemma mod10: "n mod 10 \<le> (9 :: nat)"
  using mod_less_divisor [of 10 n] by simp

lemma digit_at_pos: "d \<le> 9 \<Longrightarrow> digit_at (p @ (48 + d) # r) (length p) = Some d"
  by (simp add: digit_at_def nth_append)

lemma number_at_2:
  assumes "s = p @ digits2 n @ r" and "i = length p" and "n < 100"
  shows "number_at s i 2 = Some n"
proof -
  have "digit_at s i = Some (n div 10 mod 10)"
    using digit_at_pos [of "n div 10 mod 10" p "(48 + n mod 10) # r"] mod10 assms by (simp add: digits2_def)
  moreover have "digit_at s (i + 1) = Some (n mod 10)"
    using digit_at_pos [of "n mod 10" "p @ [48 + n div 10 mod 10]" r] mod10 assms by (simp add: digits2_def)
  ultimately show ?thesis using assms(3) by (simp add: numeral_2_eq_2)
qed

lemma div_10: "n div 100 = n div 10 div (10 :: nat)" "n div 1000 = n div 10 div 10 div (10 :: nat)"
  by (simp_all flip: div_mult2_eq)

lemma digits4_value:
  assumes "n < 10000"
  shows "10 * (10 * (10 * (n div 1000 mod 10) + n div 100 mod 10) + n div 10 mod 10) + n mod 10 = (n :: nat)"
proof -
  have "n div 1000 < 10" using assms by (simp add: less_mult_imp_div_less)
  then have top: "n div 1000 mod 10 = n div 1000" by simp
  have "10 * (10 * (10 * (n div 10 div 10 div 10) + n div 10 div 10 mod 10) + n div 10 mod 10) + n mod 10 = n"
    by (simp only: mult_div_mod_eq)
  then show ?thesis unfolding top unfolding div_10 .
qed

lemma digits3_value:
  assumes "n < 1000" shows "10 * (10 * (n div 100 mod 10) + n div 10 mod 10) + n mod 10 = (n :: nat)"
proof -
  have "n div 1000 = 0" using assms by simp
  then show ?thesis using digits4_value [of n] assms by simp
qed

lemma four_digits:
  "a \<le> 9 \<Longrightarrow> b \<le> 9 \<Longrightarrow> c \<le> 9 \<Longrightarrow> d \<le> 9 \<Longrightarrow>
     number_at ((48 + a) # (48 + b) # (48 + c) # (48 + d) # r) 0 4 = Some (10 * (10 * (10 * a + b) + c) + d)"
  by (simp add: digit_at_def eval_nat_numeral)

lemma number_at_4:
  assumes "s = digits4 n @ r" and "n < 10000"
  shows "number_at s 0 4 = Some n"
proof -
  have "s = (48 + n div 1000 mod 10) # (48 + n div 100 mod 10) # (48 + n div 10 mod 10) # (48 + n mod 10) # r"
    using assms(1) unfolding iso_digits by (simp only: append_Cons append_Nil)
  then show ?thesis
    using four_digits [OF mod10 mod10 mod10 mod10, of "n div 1000" "n div 100" "n div 10" n r]
    unfolding digits4_value [OF assms(2)] by (rule ssubst)
qed

lemma three_digits: "fraction [48 + a, 48 + b, 48 + c] 6 = (10 * (10 * a + b) + c) * 1000"
proof -
  have six: "6 = Suc (Suc (Suc (Suc (Suc (Suc 0)))))" by simp
  show ?thesis unfolding six by simp
qed

text \<open>The date and the clock are read back.\<close>

lemma date_read:
  assumes "1 \<le> y" "y < 10000" "1 \<le> mo" "mo \<le> 12" "1 \<le> d" "d \<le> month_days y mo"
  shows "date_at (iso_date y mo d @ r) = Some (days_of_date y mo d)"
proof -
  have "month_days y mo \<le> 31" by (simp add: month_days_def)
  then have d: "d < 100" "mo < 100" using assms by simp_all
  have "number_at (iso_date y mo d @ r) 0 4 = Some y"
    by (rule number_at_4) (simp_all add: iso_date_def assms)
  moreover have "number_at (iso_date y mo d @ r) 5 2 = Some mo"
    by (rule number_at_2 [where p = "digits4 y @ [45]" and r = "[45] @ digits2 d @ r"]) (simp_all add: iso_date_def iso_digits d)
  moreover have "number_at (iso_date y mo d @ r) 8 2 = Some d"
    by (rule number_at_2 [where p = "digits4 y @ [45] @ digits2 mo @ [45]" and r = r]) (simp_all add: iso_date_def iso_digits d)
  moreover have "(iso_date y mo d @ r) ! 4 = 45" "(iso_date y mo d @ r) ! 7 = 45" "10 \<le> length (iso_date y mo d @ r)"
    by (simp_all add: iso_date_def iso_digits)
  ultimately show ?thesis using assms by (simp add: date_at_def)
qed

lemma clock_read:
  assumes "h \<le> 23" "mi \<le> 59" "sec \<le> 59" "ms \<le> 999"
  shows "clock_at (iso_clock h mi sec ms) = Some (int (h * 3600 + mi * 60 + sec) * usec + int (ms * 1000))"
proof -
  let ?s = "iso_clock h mi sec ms"
  have "number_at ?s 0 2 = Some h"
    by (rule number_at_2 [where p = "[]" and r = "[58] @ digits2 mi @ [58] @ digits2 sec @ [46] @ digits3 ms"])
       (use assms in \<open>simp_all add: iso_clock_def\<close>)
  moreover have "number_at ?s 3 2 = Some mi"
    by (rule number_at_2 [where p = "digits2 h @ [58]" and r = "[58] @ digits2 sec @ [46] @ digits3 ms"])
       (use assms in \<open>simp_all add: iso_clock_def iso_digits\<close>)
  moreover have "number_at ?s 6 2 = Some sec"
    by (rule number_at_2 [where p = "digits2 h @ [58] @ digits2 mi @ [58]" and r = "[46] @ digits3 ms"])
       (use assms in \<open>simp_all add: iso_clock_def iso_digits\<close>)
  moreover have "?s ! 2 = 58" "?s ! 5 = 58" "length ?s = 12" "drop 8 ?s = 46 # digits3 ms"
    by (simp_all add: iso_clock_def iso_digits)
  moreover have "list_all (\<lambda>c. 48 \<le> c \<and> c \<le> 57) (digits3 ms)" "digits3 ms \<noteq> []"
    using mod10 by (simp_all add: iso_digits)
  moreover have "fraction (digits3 ms) 6 = ms * 1000"
    using three_digits [of "ms div 100 mod 10" "ms div 10 mod 10" "ms mod 10"] digits3_value [of ms] assms(4)
    by (simp only: iso_digits)
  ultimately show ?thesis using assms by (simp add: clock_at_def)
qed

lemma no_Z: "list_all (\<lambda>c. c \<noteq> 90) s \<Longrightarrow> replace_Z (s @ [90]) = s @ py ''+00:00''"
  by (induction s) (simp_all add: replace_Z_def)

lemma iso_no_Z: "list_all (\<lambda>c. c \<noteq> 90 \<and> \<not> is_sign c) (iso_clock h mi sec ms)" "list_all (\<lambda>c. c \<noteq> 90) (iso_date y mo d)"
proof -
  have "48 + n mod 10 \<noteq> 90 \<and> \<not> is_sign (48 + n mod 10)" for n :: nat using mod10 [of n] by (simp add: is_sign_def)
  then show "list_all (\<lambda>c. c \<noteq> 90 \<and> \<not> is_sign c) (iso_clock h mi sec ms)" "list_all (\<lambda>c. c \<noteq> 90) (iso_date y mo d)"
    by (simp_all add: iso_clock_def iso_date_def iso_digits, simp_all add: is_sign_def)
qed

lemma iso_read:
  assumes "1 \<le> y" "y < 10000" "1 \<le> mo" "mo \<le> 12" "1 \<le> d" "d \<le> month_days y mo"
    and "h \<le> 23" "mi \<le> 59" "sec \<le> 59" "ms \<le> 999"
  shows "fromisoformat (replace_Z (iso_text y mo d h mi sec ms)) =
     Inr \<lparr>dt_wall = iso_instant y mo d h mi sec ms, dt_offset = Some 0\<rparr>"
proof -
  let ?clock = "iso_clock h mi sec ms"
  have "list_all (\<lambda>c. c \<noteq> 90) (iso_date y mo d @ [84] @ ?clock)"
    using iso_no_Z(1) [of h mi sec ms] iso_no_Z(2) [of y mo d] by (auto simp: list_all_iff)
  then have written: "replace_Z (iso_text y mo d h mi sec ms) = iso_date y mo d @ [84] @ ?clock @ py ''+00:00''"
    using no_Z [of "iso_date y mo d @ [84] @ ?clock"] by (simp add: iso_text_def)
  have rest: "drop 11 (iso_date y mo d @ [84] @ ?clock @ py ''+00:00'') = ?clock @ py ''+00:00''"
    by (simp add: iso_date_def iso_digits)
  have plus: "py ''+00:00'' = 43 # py ''00:00''" by (simp add: py_def)
  have split_: "takeWhile (\<lambda>c. \<not> is_sign c) (?clock @ py ''+00:00'') = ?clock"
    "dropWhile (\<lambda>c. \<not> is_sign c) (?clock @ py ''+00:00'') = py ''+00:00''"
    using iso_no_Z(1) [of h mi sec ms] by (auto simp: list_all_iff takeWhile_append dropWhile_append plus is_sign_def)
  have zone: "clock_at (tl (py ''+00:00'')) = Some 0" "hd (py ''+00:00'') = 43" "py ''+00:00'' \<noteq> []"
    by (simp_all add: clock_at_def py_def digit_at_def numeral_2_eq_2)
  have len: "length (iso_date y mo d @ [84] @ ?clock @ py ''+00:00'') \<noteq> 10"
    by (simp add: iso_date_def iso_clock_def iso_digits)
  show ?thesis
    unfolding written fromisoformat_def date_read [OF assms(1-6)] Let_def rest split_
    using len zone by (simp add: clock_read assms iso_instant_def)
qed

section \<open>Property\<close>



end
