(* ===== verification/Utf8.thy ===== *)
theory Utf8
  imports Gateway_Client Base64
begin

text \<open>
  What a receiver does with the bytes of a request: \<open>bytes.decode\<close> for the UTF-8 bodies that
  \<open>str.encode\<close> wrote, and the decoder behind \<open>base64.b64decode\<close>, which skips characters outside
  the alphabet. Both give back what was encoded.
\<close>

section \<open>UTF-8\<close>

definition continuation :: "nat \<Rightarrow> bool" where
  "continuation b \<longleftrightarrow> 128 \<le> b \<and> b < 192"

text \<open>\<open>json.loads\<close> decodes with \<open>surrogatepass\<close>, so an encoded surrogate is read; an overlong form,
  a stray continuation and a code point beyond the last plane are not.\<close>

fun decode :: "bytes \<Rightarrow> pystr option" where
  "decode [] = Some []"
| "decode (b # r) =
     (if b < 128 then map_option ((#) b) (decode r)
      else if 194 \<le> b \<and> b < 224 then
        (case r of
           c # r' \<Rightarrow>
             (if continuation c then map_option ((#) ((b - 192) * 64 + (c - 128))) (decode r') else None)
         | _ \<Rightarrow> None)
      else if 224 \<le> b \<and> b < 240 then
        (case r of
           c # d # r' \<Rightarrow>
             (if continuation c \<and> continuation d \<and> (b = 224 \<longrightarrow> 160 \<le> c)
              then map_option ((#) ((b - 224) * 4096 + (c - 128) * 64 + (d - 128))) (decode r') else None)
         | _ \<Rightarrow> None)
      else if 240 \<le> b \<and> b < 245 then
        (case r of
           c # d # e # r' \<Rightarrow>
             (if continuation c \<and> continuation d \<and> continuation e
                 \<and> (b = 240 \<longrightarrow> 144 \<le> c) \<and> (b = 244 \<longrightarrow> c < 144)
              then map_option ((#) ((b - 240) * 262144 + (c - 128) * 4096 + (d - 128) * 64 + (e - 128)))
                     (decode r') else None)
         | _ \<Rightarrow> None)
      else None)"

lemma split_two:
  fixes c :: nat
  assumes "128 \<le> c" "c < 2048"
  shows "194 \<le> 192 + c div 64" "192 + c div 64 < 224" "c div 64 * 64 + c mod 64 = c"
proof -
  have "2 \<le> c div 64" "c div 64 < 32" using assms by linarith+
  then show "194 \<le> 192 + c div 64" "192 + c div 64 < 224" by simp_all
  show "c div 64 * 64 + c mod 64 = c" by simp
qed

lemma split_three:
  fixes c :: nat
  assumes "2048 \<le> c" "c < 65536"
  shows "c div 4096 < 16" "c div 64 mod 64 < 64" "c div 4096 = 0 \<Longrightarrow> 32 \<le> c div 64 mod 64"
    "c div 4096 * 4096 + c div 64 mod 64 * 64 + c mod 64 = c"
proof -
  have d: "c div 4096 = c div 64 div 64" by (simp add: div_mult2_eq [symmetric])
  show "c div 4096 < 16" using assms by linarith
  show "c div 64 mod 64 < 64" by simp
  show "32 \<le> c div 64 mod 64" if "c div 4096 = 0"
  proof -
    have "c div 64 < 64" using that d by (simp add: div_eq_0_iff)
    then have "c div 64 mod 64 = c div 64" by simp
    then show ?thesis using assms by linarith
  qed
  have "c div 64 div 64 * 64 + c div 64 mod 64 = c div 64" "c div 64 * 64 + c mod 64 = c" by simp_all
  then show "c div 4096 * 4096 + c div 64 mod 64 * 64 + c mod 64 = c" unfolding d by linarith
qed

lemma split_four:
  fixes c :: nat
  assumes "65536 \<le> c" "c < 1114112"
  shows "c div 262144 < 5" "c div 262144 = 0 \<Longrightarrow> 16 \<le> c div 4096 mod 64"
    "c div 262144 = 4 \<Longrightarrow> c div 4096 mod 64 < 16"
    "c div 262144 * 262144 + c div 4096 mod 64 * 4096 + c div 64 mod 64 * 64 + c mod 64 = c"
proof -
  have d: "c div 262144 = c div 4096 div 64" "c div 4096 = c div 64 div 64"
    by (simp_all add: div_mult2_eq [symmetric])
  have q: "16 \<le> c div 4096" "c div 4096 < 272" using assms by linarith+
  have parts: "c div 4096 div 64 * 64 + c div 4096 mod 64 = c div 4096"
    "c div 64 div 64 * 64 + c div 64 mod 64 = c div 64" "c div 64 * 64 + c mod 64 = c" by simp_all
  show "c div 262144 < 5" using assms by linarith
  show "16 \<le> c div 4096 mod 64" if "c div 262144 = 0" using that d(1) parts(1) q by linarith
  show "c div 4096 mod 64 < 16" if "c div 262144 = 4" using that d(1) parts(1) q by linarith
  show "c div 262144 * 262144 + c div 4096 mod 64 * 4096 + c div 64 mod 64 * 64 + c mod 64 = c"
    using parts d by linarith
qed

lemma decode_char:
  assumes "utf8_char c = Inr b" and "c < 1114112"
  shows "decode (b @ r) = map_option ((#) c) (decode r)"
proof -
  consider "c < 128" | "128 \<le> c" "c < 2048" | "2048 \<le> c" "c < 65536" "\<not> (55296 \<le> c \<and> c \<le> 57343)"
    | "65536 \<le> c"
    using assms(1) by (fastforce simp: utf8_char_def split: if_splits)
  then show ?thesis
  proof cases
    case 1
    then show ?thesis using assms(1) by (auto simp: utf8_char_def)
  next
    case 2
    then have b: "b = [192 + c div 64, 128 + c mod 64]" using assms(1) by (simp add: utf8_char_def)
    show ?thesis using split_two [OF 2] by (simp add: b continuation_def)
  next
    case 3
    then have b: "b = [224 + c div 4096, 128 + c div 64 mod 64, 128 + c mod 64]"
      using assms(1) by (auto simp: utf8_char_def)
    show ?thesis using split_three [OF 3(1,2)] by (simp add: b continuation_def)
  next
    case 4
    then have b: "b = [240 + c div 262144, 128 + c div 4096 mod 64, 128 + c div 64 mod 64, 128 + c mod 64]"
      using assms(1) by (auto simp: utf8_char_def)
    show ?thesis using split_four [OF 4 assms(2)] by (simp add: b continuation_def)
  qed
qed

lemma decode_encode:
  assumes "encode s = Inr b" and "\<forall>c \<in> set s. c < 1114112"
  shows "decode b = Some s"
  using assms
proof (induction s arbitrary: b)
  case Nil
  then show ?case by simp
next
  case (Cons c s)
  then show ?case using decode_char by (auto simp: bindR_Inr_iff)
qed

section \<open>Base64\<close>

text \<open>
  \<open>binascii.a2b_base64\<close>, character by character: how many characters of the current group were
  read, the bits left over from the last one, and the padding seen. A full padding ends the text, a
  character that is not of the alphabet is skipped, and an unfinished group is an error.
\<close>

fun a2b :: "nat \<Rightarrow> nat \<Rightarrow> nat \<Rightarrow> pystr \<Rightarrow> bytes option" where
  "a2b quad left pads [] = (if quad = 0 then Some [] else None)"
| "a2b quad left pads (c # s) =
     (if c = 61 then
        (if 2 \<le> quad then (if 4 \<le> quad + Suc pads then Some [] else a2b quad left (Suc pads) s)
         else a2b quad left pads s)
      else case b64_value c of
        None \<Rightarrow> a2b quad left pads s
      | Some v \<Rightarrow>
          (if quad = 0 then a2b 1 v 0 s
           else if quad = 1 then map_option ((#) (left * 4 + v div 16)) (a2b 2 (v mod 16) 0 s)
           else if quad = 2 then map_option ((#) (left * 16 + v div 4)) (a2b 3 (v mod 4) 0 s)
           else map_option ((#) (left * 64 + v)) (a2b 0 0 0 s)))"

definition b64decode_bytes :: "pystr \<Rightarrow> bytes option" where
  "b64decode_bytes s = (if list_all (\<lambda>c. c < 128) s then a2b 0 0 0 s else None)"

lemma a2b_encode: "\<forall>b \<in> set s. b < 256 \<Longrightarrow> a2b 0 0 0 (b64encode s) = Some s"
proof (induction s rule: b64encode.induct)
  case (2 a)
  then show ?case using byte_parts [of a 0 0] by simp
next
  case (3 a b)
  then show ?case using byte_parts [of a b 0] by simp
next
  case (4 a b c s)
  then show ?case using byte_parts [of a b c] by simp
qed simp

lemma b64_char_ascii: "v < 64 \<Longrightarrow> b64_char v < 128"
  using b64_char_plain [of v] by linarith

lemma b64encode_ascii: "\<forall>b \<in> set s. b < 256 \<Longrightarrow> list_all (\<lambda>c. c < 128) (b64encode s)"
proof (induction s rule: b64encode.induct)
  case (2 a)
  then show ?case using byte_parts [of a 0 0] by (simp add: b64_char_ascii)
next
  case (3 a b)
  then show ?case using byte_parts [of a b 0] by (simp add: b64_char_ascii)
next
  case (4 a b c s)
  then show ?case using byte_parts [of a b c] by (simp add: b64_char_ascii)
qed simp

lemma b64decode_bytes_encode: "\<forall>b \<in> set s. b < 256 \<Longrightarrow> b64decode_bytes (b64encode s) = Some s"
  by (simp add: b64decode_bytes_def b64encode_ascii a2b_encode)

end
