(* ===== verification/Peer.thy ===== *)
theory Peer
  imports Utf8 Transports
begin

text \<open>
  \<open>ProtocolPeer\<close> of \<open>group_acceptance.py\<close>: the signed-request server that stands in for the
  gateway. It is the receiving end of \<open>gateway_request\<close>, so the two together show what the
  authentication is worth: an honest request is accepted once and only once, and nothing else is.
\<close>

section \<open>Equality of Python values\<close>

text \<open>\<open>v == w\<close>: a truth value equals the number it stands for, and the order of the items of a
  dictionary does not matter.\<close>

fun py_eq :: "pyval \<Rightarrow> pyval \<Rightarrow> bool" where
  "py_eq (PBool a) (PInt i) = (i = (if a then 1 else 0))"
| "py_eq (PInt i) (PBool a) = (i = (if a then 1 else 0))"
| "py_eq (PList xs) (PList ys) = list_all2 py_eq xs ys"
| "py_eq (PDict d) (PDict e) =
     (length d = length e \<and> list_all (\<lambda>(k, v). list_ex (\<lambda>(j, w). j = k \<and> py_eq v w) e) d)"
| "py_eq v w = (v = w)"

lemma py_eq_refl: "py_eq v v"
proof (induction v)
  case (PList xs)
  then show ?case by (simp add: list_all2_same)
next
  case (PDict d)
  then show ?case by (fastforce simp: list_all_iff list_ex_iff)
qed auto

lemma list_all2_trans_on:
  "\<forall>x \<in> set xs. \<forall>y z. P x y \<longrightarrow> P y z \<longrightarrow> P x z \<Longrightarrow> list_all2 P xs ys \<Longrightarrow> list_all2 P ys zs \<Longrightarrow>
     list_all2 P xs zs"
proof (induction xs arbitrary: ys zs)
  case Nil
  then show ?case by simp
next
  case (Cons x xs)
  then obtain y ys' where y: "ys = y # ys'" "P x y" "list_all2 P xs ys'" by (auto simp: list_all2_Cons1)
  then obtain z zs' where "zs = z # zs'" "P y z" "list_all2 P ys' zs'" using Cons.prems(3) by (auto simp: list_all2_Cons1)
  then show ?case using y Cons by auto
qed

lemma py_eq_list: "py_eq (PList xs) v \<longleftrightarrow> (\<exists>ys. v = PList ys \<and> list_all2 py_eq xs ys)"
  by (cases v) auto

lemma py_eq_dict:
  "py_eq (PDict d) v \<longleftrightarrow>
     (\<exists>e. v = PDict e \<and> length d = length e \<and> (\<forall>(k, a) \<in> set d. \<exists>b. (k, b) \<in> set e \<and> py_eq a b))"
  by (cases v) (auto simp: list_all_iff list_ex_iff split_beta; force)+

lemma py_eq_trans: "py_eq u v \<Longrightarrow> py_eq v w \<Longrightarrow> py_eq u w"
proof (induction u arbitrary: v w)
  case (PList xs)
  then obtain ys zs where l: "v = PList ys" "w = PList zs" "list_all2 py_eq xs ys" "list_all2 py_eq ys zs"
    by (auto simp: py_eq_list)
  have "\<forall>x \<in> set xs. \<forall>y z. py_eq x y \<longrightarrow> py_eq y z \<longrightarrow> py_eq x z" using PList.IH by blast
  from list_all2_trans_on [OF this l(3,4)] show ?case by (simp add: l)
next
  case (PDict d)
  then obtain e f where l: "v = PDict e" "w = PDict f" "length d = length e" "length e = length f"
    "\<forall>(k, a) \<in> set d. \<exists>b. (k, b) \<in> set e \<and> py_eq a b" "\<forall>(k, a) \<in> set e. \<exists>b. (k, b) \<in> set f \<and> py_eq a b"
    by (auto simp: py_eq_dict)
  have "\<exists>b. (k, b) \<in> set f \<and> py_eq a b" if item: "(k, a) \<in> set d" for k a
  proof -
    obtain b where "(k, b) \<in> set e" "py_eq a b" using l(5) item by blast
    moreover obtain c where "(k, c) \<in> set f" "py_eq b c" using l(6) calculation(1) by blast
    ultimately show ?thesis using PDict.IH [OF item, of a b c] by auto
  qed
  then show ?case unfolding py_eq_dict using l by auto
next
  case (PBool b)
  then show ?case by (cases v; cases w) (auto split: if_splits)
next
  case (PInt i)
  then show ?case by (cases v; cases w) (auto split: if_splits)
qed auto

text \<open>A table with Python values as keys.\<close>

definition lookup :: "(pyval \<times> 'b) list \<Rightarrow> pyval \<Rightarrow> 'b option" where
  "lookup t k = map_option snd (find (\<lambda>(j, _). py_eq j k) t)"

fun store :: "pyval \<Rightarrow> 'b \<Rightarrow> (pyval \<times> 'b) list \<Rightarrow> (pyval \<times> 'b) list" where
  "store k v [] = [(k, v)]"
| "store k v ((j, w) # t) = (if py_eq j k then (j, v) # t else (j, w) # store k v t)"

lemma lookup_store [simp]: "lookup (store k v t) k = Some v"
  by (induction t) (auto simp: lookup_def py_eq_refl)

section \<open>The peer\<close>

record capture =
  p_key :: bytes
  p_nonces :: "pystr list"
  p_deliveries :: "(pyval \<times> pyval) list"
  p_attempts :: "(pyval \<times> int) list"
  p_group_failures :: int
  p_uncertain :: bool

text \<open>A peer as \<open>__init__\<close> leaves it, with its key.\<close>

definition new_capture :: "bytes \<Rightarrow> capture" where
  "new_capture key =
     \<lparr>p_key = key, p_nonces = [], p_deliveries = [], p_attempts = [], p_group_failures = 0,
      p_uncertain = False\<rparr>"

definition FIXTURE_SITE :: pystr where
  "FIXTURE_SITE = py ''integration.local''"

definition GROUP :: pystr where
  "GROUP = py ''120000000000000000@g.us''"

definition OTHER_GROUP :: pystr where
  "OTHER_GROUP = py ''120000000000000001@g.us''"

text \<open>
  The time stamp, a header of Latin-1 characters: \<open>isdigit\<close> is true of the superscript digits too,
  which \<open>int\<close> refuses, as it refuses more than 4300 digits. The clock is in microseconds.
\<close>

definition latin_digit :: "nat \<Rightarrow> bool" where
  "latin_digit c \<longleftrightarrow> is_digit c \<or> c = 178 \<or> c = 179 \<or> c = 185"

definition stamp_ok :: "int \<Rightarrow> pystr \<Rightarrow> exn + bool" where
  "stamp_ok now stamp =
     (if stamp = [] \<or> \<not> list_all latin_digit stamp then Inr False
      else if \<not> list_all is_digit stamp \<or> 4300 < length stamp
      then raise ValueError ''invalid literal for int''
      else Inr (\<bar>now - int (nat_of_digits stamp) * 1000000\<bar> < 120 * 1000000))"

text \<open>\<open>compare_digest\<close> refuses text that is not ASCII.\<close>

definition compare_digest :: "pystr \<Rightarrow> pystr \<Rightarrow> exn + bool" where
  "compare_digest a b =
     (if list_all (\<lambda>c. c < 128) a \<and> list_all (\<lambda>c. c < 128) b then Inr (a = b)
      else raise TypeError ''comparing strings with non-ASCII characters is not supported'')"

definition authentic :: "frappe \<Rightarrow> int \<Rightarrow> http_request \<Rightarrow> capture \<Rightarrow> exn + bool" where
  "authentic fr now q p =
     bindR (encode (canonical (rq_timestamp q) (rq_nonce q) (rq_path q) (fr_sha256 fr (rq_body q)))) (\<lambda>text.
     bindR (stamp_ok now (rq_timestamp q)) (\<lambda>timely.
       if \<not> timely \<or> rq_nonce q = [] \<or> rq_nonce q \<in> set (p_nonces p) then Inr False
       else compare_digest (fr_hmac fr (p_key p) text) (rq_signature q)))"

definition reply_error :: "string \<Rightarrow> pyval" where
  "reply_error t = PDict [(py ''error'', PStr (py t))]"

text \<open>\<open>json.loads(body)\<close>, for UTF-8.\<close>

definition loads_body :: "bytes \<Rightarrow> exn + pyval" where
  "loads_body b =
     (case decode b of
        None \<Rightarrow> raise ValueError ''invalid body''
      | Some t \<Rightarrow> json_loads t)"

definition hashable_key :: "pyval \<Rightarrow> bool" where
  "hashable_key v = (case v of PList _ \<Rightarrow> False | PDict _ \<Rightarrow> False | _ \<Rightarrow> True)"

text \<open>\<open>payload['idempotency_key']\<close>, used as a key of a dictionary.\<close>

definition delivery_id :: "(pystr \<times> pyval) list \<Rightarrow> exn + pyval" where
  "delivery_id d =
     (case map_of d (py ''idempotency_key'') of
        None \<Rightarrow> raise KeyError ''idempotency_key''
      | Some k \<Rightarrow> (if hashable_key k then Inr k else raise TypeError ''unhashable type''))"

definition counted :: "pyval \<Rightarrow> capture \<Rightarrow> capture" where
  "counted k p =
     p\<lparr>p_attempts := store k ((case lookup (p_attempts p) k of None \<Rightarrow> 0 | Some n \<Rightarrow> n) + 1) (p_attempts p)\<rparr>"

text \<open>One PDF of the request: its content must be the text of a PDF document.\<close>

definition pdf_ok :: "pyval \<Rightarrow> exn + bool" where
  "pdf_ok v =
     (case v of
        PDict d \<Rightarrow>
          (case map_of d (py ''content_base64'') of
             None \<Rightarrow> raise KeyError ''content_base64''
           | Some (PStr t) \<Rightarrow>
               (case b64decode_bytes t of
                  None \<Rightarrow> raise ValueError ''Incorrect padding''
                | Some b \<Rightarrow> Inr (startswith b (py ''%PDF-'')))
           | Some _ \<Rightarrow> raise TypeError ''argument should be a bytes-like object or ASCII string'')
      | _ \<Rightarrow> raise TypeError ''indices must be integers'')"

fun pdfs_ok :: "pyval list \<Rightarrow> exn + bool" where
  "pdfs_ok [] = Inr True"
| "pdfs_ok (v # vs) = bindR (pdf_ok v) (\<lambda>ok. if ok then pdfs_ok vs else Inr False)"

text \<open>\<open>for pdf in payload.get('pdfs') or []\<close>: the elements of anything but a list cannot be
  indexed by a name.\<close>

definition request_pdfs :: "(pystr \<times> pyval) list \<Rightarrow> exn + bool" where
  "request_pdfs d =
     (let v = dget d (py ''pdfs'')
      in if \<not> truthy v then Inr True
         else case v of PList vs \<Rightarrow> pdfs_ok vs | _ \<Rightarrow> raise TypeError ''indices must be integers'')"

type_synonym answer = "int \<times> pyval"

text \<open>The end of a \<open>/v1/send\<close>: a key that was delivered must come with the same request.\<close>

definition deliver :: "pyval \<Rightarrow> pyval \<Rightarrow> capture \<Rightarrow> answer \<times> capture" where
  "deliver key payload p =
     (case lookup (p_deliveries p) key of
        Some old \<Rightarrow>
          (if \<not> py_eq old payload then ((409, reply_error ''Changed fixture request identity''), p)
           else ((200, PDict [(py ''message_ids'', PList [PStr (py ''synthetic-confirmed-id'')]),
                   (py ''submitted_at'', PStr (py ''2026-01-01T00:00:00Z''))]),
                 p\<lparr>p_deliveries := store key payload (p_deliveries p)\<rparr>))
      | None \<Rightarrow>
          ((200, PDict [(py ''message_ids'', PList [PStr (py ''synthetic-confirmed-id'')]),
              (py ''submitted_at'', PStr (py ''2026-01-01T00:00:00Z''))]),
           p\<lparr>p_deliveries := store key payload (p_deliveries p)\<rparr>))"

definition serve_send :: "(pystr \<times> pyval) list \<Rightarrow> (capture, answer) act" where
  "serve_send d =
     bindA (reads (\<lambda>_. delivery_id d)) (\<lambda>key.
     bindA (modifies (counted key)) (\<lambda>_.
     bindA (reads (\<lambda>p. Inr p)) (\<lambda>p.
       if dget d (py ''recipient_type'') = PStr (py ''Group'') \<and> p_group_failures p \<noteq> 0
       then bindA (modifies (\<lambda>p. p\<lparr>p_group_failures := p_group_failures p - 1\<rparr>)) (\<lambda>_.
              ret (400, PDict [(py ''error'', PStr (py ''Synthetic provider failure'')),
                               (py ''reconciliation_required'', PBool (p_uncertain p))]))
       else
         bindA (reads (\<lambda>_. request_pdfs d)) (\<lambda>ok.
         if \<not> ok then ret (400, reply_error ''Invalid fixture PDF'')
         else (\<lambda>p. let (answer, p') = deliver key (PDict d) p in (Inr answer, p'))))))"

definition serve :: "pystr \<Rightarrow> pyval \<Rightarrow> (capture, answer) act" where
  "serve path payload =
     (case payload of
        PDict d \<Rightarrow>
          (if dget d (py ''tenant_id'') \<noteq> PStr FIXTURE_SITE
           then ret (403, reply_error ''Foreign fixture site'')
           else if path = py ''/v1/groups''
           then ret (200, PDict [(py ''groups'', PList
                  [PDict [(py ''id'', PStr GROUP), (py ''name'', PStr (py ''Synthetic company group''))],
                   PDict [(py ''id'', PStr OTHER_GROUP), (py ''name'', PStr (py ''Synthetic other group''))]])])
           else if path = py ''/v1/status''
           then ret (200, PDict [(py ''status'', PStr (py ''Connected'')), (py ''connected'', PBool True)])
           else if path \<noteq> py ''/v1/send''
           then ret (404, reply_error ''Unsupported capture endpoint'')
           else serve_send d)
      | _ \<Rightarrow> fails (Exn AttributeError (py ''object has no attribute get'') False))"

definition handle :: "frappe \<Rightarrow> int \<Rightarrow> http_request \<Rightarrow> (capture, answer) act" where
  "handle fr now q =
     bindA (reads (authentic fr now q)) (\<lambda>valid.
       if \<not> valid then ret (403, reply_error ''Invalid local protocol authentication'')
       else
         bindA (modifies (\<lambda>p. p\<lparr>p_nonces := rq_nonce q # p_nonces p\<rparr>)) (\<lambda>_.
         bindA (reads (\<lambda>_. loads_body (rq_body q))) (\<lambda>payload.
           serve (rq_path q) payload)))"

text \<open>\<open>do_POST\<close>: an exception of the handler closes the connection without an answer.\<close>

definition do_POST :: "frappe \<Rightarrow> int \<Rightarrow> http_request \<Rightarrow> capture \<Rightarrow> peer_result \<times> capture" where
  "do_POST fr now q p =
     (case handle fr now q p of
        (Inl _, p') \<Rightarrow> (Unavailable, p')
      | (Inr (status, payload), p') \<Rightarrow> (Response status (json_dumps default_style payload), p'))"

section \<open>The body arrives\<close>

text \<open>A text of a request: every code point exists and is no surrogate.\<close>

definition plain_char :: "nat \<Rightarrow> bool" where
  "plain_char c \<longleftrightarrow> c < 1114112 \<and> \<not> (55296 \<le> c \<and> c \<le> 57343)"

lemma plain_ascii: "c < 128 \<Longrightarrow> plain_char c"
  by (simp add: plain_char_def)

lemma plain_py: "list_all (\<lambda>c. c < 128) (py s) \<Longrightarrow> list_all plain_char (py s)"
  by (auto simp: list_all_iff plain_ascii)

lemma encode_plain: "list_all plain_char s \<Longrightarrow> \<exists>b. encode s = Inr b"
  by (induction s) (auto simp: plain_char_def utf8_char_def bindR_Inr_iff)

lemma hex4_plain: "list_all plain_char (hex4 c)"
proof -
  have "plain_char (hex_digit (n mod 16))" for n
  proof -
    have "n mod 16 < 16" by simp
    then show ?thesis by (auto intro!: plain_ascii simp: hex_digit_def)
  qed
  then show ?thesis by (simp add: hex4_def)
qed

lemma json_char_plain: "plain_char c \<Longrightarrow> list_all plain_char (json_char False c)"
  using hex4_plain [of c] by (auto simp: json_char_def u_escape_def plain_ascii)

lemma json_string_plain: "list_all plain_char s \<Longrightarrow> list_all plain_char (json_string False s)"
  using json_char_plain by (auto simp: json_string_def list_all_iff plain_ascii)

lemma join_all: "list_all P sep \<Longrightarrow> list_all (list_all P) xs \<Longrightarrow> list_all P (join sep xs)"
  by (induction sep xs rule: join.induct) auto

lemma digits_plain: "list_all plain_char (digits_of_nat n)"
proof (induction n rule: digits_of_nat.induct)
  case (1 n)
  have "48 + n mod 10 < 128" by (simp add: less_imp_le_nat trans_less_add1)
  then show ?case using 1 by (subst digits_of_nat.simps) (auto simp: plain_ascii)
qed

lemma char_ok_plain: "char_ok True c = plain_char c"
  by (simp add: char_ok_def plain_char_def)

lemma json_dumps_plain: "json_ok True v \<Longrightarrow> list_all plain_char (json_dumps compact_style v)"
proof (induction v)
  case (PInt i)
  then show ?case using digits_plain by (simp add: str_of_int_def plain_ascii)
next
  case (PStr x)
  then show ?case using json_string_plain by (simp add: compact_style_def char_ok_plain [abs_def])
next
  case (PList xs)
  then have "list_all (list_all plain_char) (map (json_dumps compact_style) xs)" by (auto simp: list_all_iff)
  moreover have "list_all plain_char (item_sep compact_style)" by (simp add: compact_style_def py_def plain_ascii)
  ultimately show ?case using join_all by (simp add: plain_ascii)
next
  case (PDict d)
  have sep: "list_all plain_char (item_sep compact_style)" "list_all plain_char (key_sep compact_style)"
    by (simp_all add: compact_style_def py_def plain_ascii)
  have style: "\<not> sort_keys compact_style" "\<not> ensure_ascii compact_style" by (simp_all add: compact_style_def)
  have item: "list_all plain_char (member_text compact_style (k, v))" if "(k, v) \<in> set d" for k v
  proof -
    have "list_all plain_char (json_dumps compact_style v)"
      using PDict.IH [of "(k, v)" v] PDict.prems that by (fastforce simp: list_all_iff)
    moreover have "list_all plain_char k"
      using PDict.prems that by (fastforce simp: list_all_iff char_ok_plain)
    ultimately show ?thesis using sep json_string_plain style by (simp add: member_text_def)
  qed
  then have "list_all (list_all plain_char) (map (member_text compact_style) d)" by (auto simp: list_all_iff)
  then show ?case
    unfolding json_dumps_dict [OF style(1)] using join_all [OF sep(1)] by (simp add: plain_ascii)
qed (simp_all add: py_def plain_ascii)

lemma json_ok_weak: "json_ok True v \<Longrightarrow> json_ok False v"
  by (induction v) (auto simp: list_all_iff char_ok_def)

lemma body_arrives:
  assumes "encode (json_dumps compact_style v) = Inr b" and "json_ok True v"
  shows "loads_body b = Inr v"
proof -
  have "\<forall>c \<in> set (json_dumps compact_style v). c < 1114112"
    using json_dumps_plain [OF assms(2)] by (auto simp: list_all_iff plain_char_def)
  then have "decode b = Some (json_dumps compact_style v)" using decode_encode [OF assms(1)] by blast
  moreover have "json_loads (json_dumps compact_style v) = Inr v"
    by (rule json_loads_dumps [OF style_ok_used(2)])
       (use json_ok_weak [OF assms(2)] in \<open>simp add: compact_style_def\<close>)
  ultimately show ?thesis by (simp add: loads_body_def)
qed

lemma build_request_Inr:
  "build_request fr n path v = Inr q \<longleftrightarrow>
     (\<exists>b text k. encode (json_dumps compact_style v) = Inr b
        \<and> encode (canonical (str_of_int (fr_epoch fr n)) (fr_nonce fr n) path (fr_sha256 fr b)) = Inr text
        \<and> secret fr = Inr k
        \<and> q = \<lparr>rq_path = path, rq_payload = v, rq_body = b, rq_timestamp = str_of_int (fr_epoch fr n),
                rq_nonce = fr_nonce fr n, rq_signature = fr_hmac fr k text\<rparr>)"
  by (auto simp: build_request_def Let_def bindR_Inr_iff)

section \<open>What the authentication is worth\<close>

text \<open>The client's own time stamp is read back as the number it was written from.\<close>

lemma stamp_of_clock:
  assumes "0 \<le> t" and "length (str_of_int t) \<le> 4300"
  shows "stamp_ok now (str_of_int t) = Inr (\<bar>now - t * 1000000\<bar> < 120 * 1000000)"
proof -
  have d: "list_all is_digit (str_of_int t)" "str_of_int t \<noteq> []" "nat_of_digits (str_of_int t) = nat t"
    using assms digits_of_nat_digits [of "nat t"] nat_of_digits_of_nat [of "nat t"] by (auto simp: str_of_int_def)
  then have "list_all latin_digit (str_of_int t)" by (auto simp: list_all_iff latin_digit_def)
  then show ?thesis using d assms by (simp add: stamp_ok_def)
qed

lemma honest_request_authentic:
  assumes "build_request fr n path v = Inr q" and "secret fr = Inr (p_key p)"
    and "0 \<le> fr_epoch fr n" "length (str_of_int (fr_epoch fr n)) \<le> 4300"
    and "\<bar>now - fr_epoch fr n * 1000000\<bar> < 120 * 1000000"
    and "fr_nonce fr n \<noteq> []" "fr_nonce fr n \<notin> set (p_nonces p)"
    and "list_all (\<lambda>c. c < 128) (rq_signature q)"
  shows "authentic fr now q p = Inr True"
proof -
  obtain b signed where q: "encode (canonical (str_of_int (fr_epoch fr n)) (fr_nonce fr n) path (fr_sha256 fr b)) = Inr signed"
    "q = \<lparr>rq_path = path, rq_payload = v, rq_body = b, rq_timestamp = str_of_int (fr_epoch fr n),
          rq_nonce = fr_nonce fr n, rq_signature = fr_hmac fr (p_key p) signed\<rparr>"
    using assms(1,2) by (auto simp: build_request_Inr)
  show ?thesis
    using assms(3-) by (simp add: authentic_def q stamp_of_clock compare_digest_def)
qed

lemma authentic_True:
  "authentic fr now q p = Inr True \<longleftrightarrow>
     (\<exists>text. encode (canonical (rq_timestamp q) (rq_nonce q) (rq_path q) (fr_sha256 fr (rq_body q))) = Inr text
        \<and> stamp_ok now (rq_timestamp q) = Inr True \<and> rq_nonce q \<noteq> [] \<and> rq_nonce q \<notin> set (p_nonces p)
        \<and> compare_digest (fr_hmac fr (p_key p) text) (rq_signature q) = Inr True)"
  by (auto simp: authentic_def bindR_Inr_iff)

lemma handle_eq:
  "handle fr now q p =
     (case authentic fr now q p of
        Inl e \<Rightarrow> (Inl e, p)
      | Inr valid \<Rightarrow>
          (if \<not> valid then (Inr (403, reply_error ''Invalid local protocol authentication''), p)
           else (let p' = p\<lparr>p_nonces := rq_nonce q # p_nonces p\<rparr>
                 in case loads_body (rq_body q) of
                      Inl e \<Rightarrow> (Inl e, p')
                    | Inr payload \<Rightarrow> serve (rq_path q) payload p')))"
  by (simp add: handle_def bindA_def reads_def modifies_def ret_def Let_def split: sum.splits)

text \<open>What serving an authenticated request changes: never the key or the nonces.\<close>

lemma keeps_serve: "keeps (same (\<lambda>p. (p_key p, p_nonces p))) (serve path payload)"
proof -
  have "keeps (same (\<lambda>p. (p_key p, p_nonces p))) (\<lambda>p. let (answer, p') = deliver key v p in (Inr answer, p'))" for key v
    by (auto simp: keeps_def same_def deliver_def split: option.splits)
  then show ?thesis
    unfolding serve_def serve_send_def
    by (auto intro!: keeps_bindA keeps_modifies simp: same_def counted_def split: pyval.splits)
qed

lemma do_POST_nonces:
  "p_key (snd (do_POST fr now q p)) = p_key p
   \<and> p_nonces (snd (do_POST fr now q p)) =
       (if authentic fr now q p = Inr True then rq_nonce q # p_nonces p else p_nonces p)"
proof -
  have serve: "p_key (snd (serve path v p')) = p_key p' \<and> p_nonces (snd (serve path v p')) = p_nonces p'" for path v p'
    using keepsD [OF keeps_serve, of p' path v] by (simp add: same_def)
  have state: "snd (do_POST fr now q p) = snd (handle fr now q p)"
    by (simp add: do_POST_def split: prod.splits sum.splits)
  show ?thesis
    unfolding state handle_eq using serve by (auto simp: Let_def split: sum.splits)
qed

section \<open>Every request counts once\<close>

text \<open>The requests a receiver accepts out of a sequence.\<close>

fun accepted :: "('q \<Rightarrow> 'p \<Rightarrow> bool) \<Rightarrow> ('q \<Rightarrow> 'p \<Rightarrow> 'p) \<Rightarrow> 'q list \<Rightarrow> 'p \<Rightarrow> 'q list" where
  "accepted acc step [] p = []"
| "accepted acc step (q # qs) p = (if acc q p then [q] else []) @ accepted acc step qs (step q p)"

text \<open>A receiver that remembers the tags it has accepted, and refuses them.\<close>

locale replay_guard =
  fixes acc :: "'q \<Rightarrow> 'p \<Rightarrow> bool" and step :: "'q \<Rightarrow> 'p \<Rightarrow> 'p"
    and tag :: "'q \<Rightarrow> 'n" and seen :: "'p \<Rightarrow> 'n set"
  assumes refuses_seen: "tag q \<in> seen p \<Longrightarrow> \<not> acc q p"
    and remembers: "seen (step q p) = (if acc q p then insert (tag q) (seen p) else seen p)"
begin

lemma accepted_new: "tag ` set (accepted acc step qs p) \<inter> seen p = {}"
proof (induction qs arbitrary: p)
  case Nil
  then show ?case by simp
next
  case (Cons q qs)
  have "seen p \<subseteq> seen (step q p)" by (auto simp: remembers)
  then show ?case using Cons [of "step q p"] refuses_seen [of q p] by auto
qed

lemma accepted_once: "distinct (map tag (accepted acc step qs p))"
proof (induction qs arbitrary: p)
  case Nil
  then show ?case by simp
next
  case (Cons q qs)
  have "tag q \<notin> tag ` set (accepted acc step qs (step q p))" if "acc q p"
    using accepted_new [of qs "step q p"] that by (auto simp: remembers)
  then show ?case using Cons by simp
qed

end

definition peer_accepts :: "frappe \<Rightarrow> int \<times> http_request \<Rightarrow> capture \<Rightarrow> bool" where
  "peer_accepts fr x p \<longleftrightarrow> authentic fr (fst x) (snd x) p = Inr True"

definition peer_step :: "frappe \<Rightarrow> int \<times> http_request \<Rightarrow> capture \<Rightarrow> capture" where
  "peer_step fr x p = snd (do_POST fr (fst x) (snd x) p)"

interpretation peer_guard: replay_guard "peer_accepts fr" "peer_step fr" "\<lambda>x. rq_nonce (snd x)" "\<lambda>p. set (p_nonces p)"
  by unfold_locales (auto simp: peer_accepts_def peer_step_def authentic_True do_POST_nonces)

section \<open>What is delivered stays\<close>

lemma py_eq_text: "py_eq v (PStr t) \<longleftrightarrow> v = PStr t" "py_eq (PStr t) v \<longleftrightarrow> v = PStr t"
  by (cases v; auto)+

lemma lookup_store_other: "\<not> py_eq k (PStr t) \<Longrightarrow> lookup (store k v tab) (PStr t) = lookup tab (PStr t)"
  by (induction tab) (auto simp: lookup_def py_eq_text)

text \<open>\<open>kept p p'\<close>: no delivery of \<open>p\<close> is lost or changed.\<close>

definition kept :: "capture \<Rightarrow> capture \<Rightarrow> bool" where
  "kept p p' \<longleftrightarrow>
     (\<forall>t old. lookup (p_deliveries p) (PStr t) = Some old \<longrightarrow>
        (\<exists>new. lookup (p_deliveries p') (PStr t) = Some new \<and> py_eq old new))"

lemma deliver_keeps: "kept p (snd (deliver key payload p))"
proof -
  have "\<exists>new. lookup (p_deliveries (snd (deliver key payload p))) (PStr t) = Some new \<and> py_eq old new"
    if old: "lookup (p_deliveries p) (PStr t) = Some old" for t old
  proof (cases "py_eq key (PStr t)")
    case True
    then have "key = PStr t" by (simp add: py_eq_text)
    then show ?thesis using old by (auto simp: deliver_def py_eq_refl)
  next
    case False
    then show ?thesis using old by (auto simp: deliver_def lookup_store_other py_eq_refl split: option.splits)
  qed
  then show ?thesis by (simp add: kept_def)
qed

lemma kept_same: "p_deliveries p' = p_deliveries p \<Longrightarrow> kept p p'"
  by (auto simp: kept_def py_eq_refl)

lemma kept_from: "p_deliveries p' = p_deliveries p \<Longrightarrow> kept p' u \<Longrightarrow> kept p u"
  by (simp add: kept_def)

lemma serve_send_keeps: "kept p (snd (serve_send d p))"
proof (cases "delivery_id d")
  case (Inl e)
  then show ?thesis by (simp add: serve_send_def bindA_def reads_def kept_same)
next
  case (Inr key)
  have "p_deliveries (counted key p) = p_deliveries p" by (simp add: counted_def)
  note count = kept_same [OF this] kept_from [OF this, of "snd (deliver key (PDict d) (counted key p))"]
  show ?thesis
    using count deliver_keeps [of "counted key p" key "PDict d"]
    by (cases "request_pdfs d")
       (auto simp: serve_send_def bindA_def reads_def modifies_def ret_def Inr counted_def kept_same split_beta)
qed

lemma serve_keeps: "kept p (snd (serve path payload p))"
  using serve_send_keeps
  by (auto simp: serve_def ret_def fails_def kept_same split: pyval.splits)

lemma do_POST_keeps: "kept p (snd (do_POST fr now q p))"
proof -
  have state: "snd (do_POST fr now q p) = snd (handle fr now q p)"
    by (simp add: do_POST_def split: prod.splits sum.splits)
  let ?p = "p\<lparr>p_nonces := rq_nonce q # p_nonces p\<rparr>"
  have "kept p (snd (serve (rq_path q) v ?p))" for v
    by (rule kept_from [of ?p]) (simp, rule serve_keeps)
  then show ?thesis unfolding state handle_eq by (auto simp: Let_def kept_same split: sum.splits)
qed

lemma kept_trans: "kept p p' \<Longrightarrow> kept p' p'' \<Longrightarrow> kept p p''"
  unfolding kept_def by (meson py_eq_trans)

lemma kept_fold: "(\<And>x p. kept p (step x p)) \<Longrightarrow> kept p (fold step xs p)"
  by (induction xs arbitrary: p) (auto simp: kept_same intro: kept_trans)

section \<open>A delivery, from the client to the peer\<close>

definition confirmed :: pyval where
  "confirmed = PDict [(py ''message_ids'', PList [PStr (py ''synthetic-confirmed-id'')]),
     (py ''submitted_at'', PStr (py ''2026-01-01T00:00:00Z''))]"

lemma read_reply:
  assumes "json_ok True v"
  shows "read_response status (json_dumps default_style v) = (if 400 \<le> status then Inl (gateway_error v) else Inr v)"
proof -
  have "json_loads (json_dumps default_style v) = Inr v"
    by (rule json_loads_dumps [OF style_ok_used(1)]) (use assms in \<open>simp add: default_style_def\<close>)
  then show ?thesis using json_dumps_hd [of default_style v] by (simp add: read_response_def)
qed

lemma confirmed_ok: "json_ok True confirmed"
  by (simp add: confirmed_def py_def char_ok_def)

lemma deliver_first:
  "lookup (p_deliveries p) key = None \<Longrightarrow>
     deliver key payload p = ((200, confirmed), p\<lparr>p_deliveries := store key payload (p_deliveries p)\<rparr>)"
  by (simp add: deliver_def confirmed_def)

lemma serve_first:
  assumes "dget d (py ''tenant_id'') = PStr FIXTURE_SITE" and key: "map_of d (py ''idempotency_key'') = Some (PStr k)"
    and group: "dget d (py ''recipient_type'') = PStr (py ''Group'') \<longrightarrow> p_group_failures p = 0"
    and pdfs: "request_pdfs d = Inr True" and first: "lookup (p_deliveries p) (PStr k) = None"
  shows "serve (py ''/v1/send'') (PDict d) p = (Inr (200, confirmed),
      (counted (PStr k) p)\<lparr>p_deliveries := store (PStr k) (PDict d) (p_deliveries p)\<rparr>)"
proof -
  have id: "delivery_id d = Inr (PStr k)" using key by (simp add: delivery_id_def hashable_key_def)
  have state: "p_group_failures (counted (PStr k) p) = p_group_failures p"
    "p_deliveries (counted (PStr k) p) = p_deliveries p" by (simp_all add: counted_def)
  have paths: "py ''/v1/send'' \<noteq> py ''/v1/groups''" "py ''/v1/send'' \<noteq> py ''/v1/status''" by simp_all
  have send: "serve_send d p = (Inr (200, confirmed),
      (counted (PStr k) p)\<lparr>p_deliveries := store (PStr k) (PDict d) (p_deliveries p)\<rparr>)"
    using group
    by (cases "dget d (py ''recipient_type'') = PStr (py ''Group'')")
       (simp_all add: serve_send_def bindA_def reads_def modifies_def id state pdfs deliver_first first)
  then show ?thesis using assms(1) paths by (simp add: serve_def)
qed

lemma honest_answer:
  assumes "authentic fr now q p = Inr True" and "loads_body (rq_body q) = Inr v"
  shows "handle fr now q p = serve (rq_path q) v (p\<lparr>p_nonces := rq_nonce q # p_nonces p\<rparr>)"
  using assms by (simp add: handle_eq Let_def)

end
