(* ===== verification/Peer_Contracts.thy ===== *)
theory Peer_Contracts
  imports Peer Example
begin

text \<open>
  The properties of the signed exchange: the client of \<open>gateway_client.py\<close> and
  \<open>transports.py\<close> on one side, the peer of \<open>group_acceptance.py\<close> on the other.
\<close>

section \<open>What the digests of the standard library are known to be\<close>

text \<open>\<open>hexdigest()\<close> is text of hexadecimal digits, in particular ASCII.\<close>

definition hex_digests :: "frappe \<Rightarrow> bool" where
  "hex_digests fr \<longleftrightarrow>
     (\<forall>b. list_all (\<lambda>c. c < 128) (fr_sha256 fr b)) \<and> (\<forall>k b. list_all (\<lambda>c. c < 128) (fr_hmac fr k b))"

text \<open>The clock of the client, and the peer's, which is in microseconds.\<close>

definition clocks_agree :: "frappe \<Rightarrow> nat \<Rightarrow> int \<Rightarrow> bool" where
  "clocks_agree fr n now \<longleftrightarrow>
     0 \<le> fr_epoch fr n \<and> length (str_of_int (fr_epoch fr n)) \<le> 4300
     \<and> \<bar>now - fr_epoch fr n * 1000000\<bar> < 120 * 1000000"

text \<open>A nonce of \<open>token_urlsafe\<close>, new to the peer.\<close>

definition fresh_nonce :: "frappe \<Rightarrow> nat \<Rightarrow> capture \<Rightarrow> bool" where
  "fresh_nonce fr n p \<longleftrightarrow>
     fr_nonce fr n \<noteq> [] \<and> list_all (\<lambda>c. c < 128) (fr_nonce fr n) \<and> fr_nonce fr n \<notin> set (p_nonces p)"

lemma ascii_plain: "list_all (\<lambda>c. c < 128) s \<Longrightarrow> list_all plain_char s"
  by (auto simp: list_all_iff plain_ascii)

lemma number_plain: "list_all plain_char (str_of_int i)"
  using digits_plain by (simp add: str_of_int_def plain_ascii)

lemma honest_request_built:
  assumes "hex_digests fr" and "secret fr = Inr k" and "json_ok True v"
    and "list_all (\<lambda>c. c < 128) (fr_nonce fr n)" and "list_all plain_char path"
  shows "\<exists>q. build_request fr n path v = Inr q \<and> loads_body (rq_body q) = Inr v \<and> rq_path q = path
    \<and> rq_nonce q = fr_nonce fr n \<and> list_all (\<lambda>c. c < 128) (rq_signature q)"
proof -
  obtain b where b: "encode (json_dumps compact_style v) = Inr b"
    using encode_plain [OF json_dumps_plain [OF assms(3)]] by blast
  have digest: "list_all plain_char (fr_sha256 fr b)" using assms(1) by (simp add: hex_digests_def ascii_plain)
  have "list_all plain_char (canonical (str_of_int (fr_epoch fr n)) (fr_nonce fr n) path (fr_sha256 fr b))"
    using assms(4,5) digest number_plain ascii_plain by (simp add: canonical_def newline_def py_def plain_ascii)
  then obtain signed where "encode (canonical (str_of_int (fr_epoch fr n)) (fr_nonce fr n) path (fr_sha256 fr b)) = Inr signed"
    using encode_plain by blast
  with b assms(2) have "build_request fr n path v = Inr
      \<lparr>rq_path = path, rq_payload = v, rq_body = b, rq_timestamp = str_of_int (fr_epoch fr n),
       rq_nonce = fr_nonce fr n, rq_signature = fr_hmac fr k signed\<rparr>"
    by (auto simp: build_request_Inr)
  then show ?thesis using body_arrives [OF b assms(3)] assms(1) by (auto simp: hex_digests_def)
qed

text \<open>The peer's answer to an honest request is the handler's.\<close>

lemma honest_request_served:
  assumes "build_request fr n path v = Inr q" and "loads_body (rq_body q) = Inr v"
    and "secret fr = Inr (p_key p)" and "clocks_agree fr n now" and "fresh_nonce fr n p"
    and "list_all (\<lambda>c. c < 128) (rq_signature q)"
  shows "handle fr now q p = serve (rq_path q) v (p\<lparr>p_nonces := rq_nonce q # p_nonces p\<rparr>)"
proof -
  have "authentic fr now q p = Inr True"
    by (rule honest_request_authentic [OF assms(1,3)])
       (use assms(4-) in \<open>auto simp: clocks_agree_def fresh_nonce_def\<close>)
  then show ?thesis using honest_answer assms(2) by blast
qed

section \<open>The PDFs of a delivery pass\<close>

lemma pdfs_ok_encoded:
  "\<forall>x \<in> set pdfs. \<exists>f b. x = (f, b64encode b) \<and> startswith b (py ''%PDF-'') \<and> (\<forall>c \<in> set b. c < 256) \<Longrightarrow>
     pdfs_ok (map pdf_value pdfs) = Inr True"
  by (induction pdfs) (auto simp: pdf_value_def pdf_ok_def b64decode_bytes_encode)

definition snapshots_sent :: "pdf list \<Rightarrow> bool" where
  "snapshots_sent pdfs \<longleftrightarrow>
     (\<forall>x \<in> set pdfs. \<exists>f b. x = (f, b64encode b) \<and> startswith b (py ''%PDF-'') \<and> (\<forall>c \<in> set b. c < 256))"

lemma request_pdfs_sent:
  "dget d (py ''pdfs'') = PList (map pdf_value pdfs) \<Longrightarrow> snapshots_sent pdfs \<Longrightarrow> request_pdfs d = Inr True"
  using pdfs_ok_encoded [of pdfs] by (simp add: request_pdfs_def snapshots_sent_def)

lemma send_payload_fields:
  assumes "send_payload fr h st pdfs g = PDict d"
  shows "dget d (py ''tenant_id'') = PStr (fr_site fr)" "dget d (py ''pdfs'') = PList (map pdf_value pdfs)"
    "map_of d (py ''idempotency_key'') = Some (PStr (h_idempotency_key h))"
    "dget d (py ''recipient_type'') = PStr (recipient_kind_text (h_recipient_type h))"
    "dget d (py ''recipient'') = PStr (h_recipient h)"
  using assms by (auto simp: send_payload_def site_payload_def dget_def)

section \<open>A site whose gateway is the peer\<close>

definition peer_key :: bytes where
  "peer_key = replicate 32 65"

definition fixture_base :: frappe where
  "fixture_base = demo_frappe\<lparr>fr_site := FIXTURE_SITE, fr_sha256 := (\<lambda>_. [])\<rparr>"

text \<open>The peer is in state \<open>p\<close> when the request of tick \<open>0\<close> arrives, one second later.\<close>

definition fixture_frappe :: "capture \<Rightarrow> frappe" where
  "fixture_frappe p = fixture_base\<lparr>fr_peer := \<lambda>_ q. fst (do_POST fixture_base 6000000 q p)\<rparr>"

lemma peer_ignores_itself: "do_POST (fr\<lparr>fr_peer := x\<rparr>) = do_POST fr"
proof -
  have "fr_hmac (fr\<lparr>fr_peer := x\<rparr>) = fr_hmac fr" "fr_sha256 (fr\<lparr>fr_peer := x\<rparr>) = fr_sha256 fr" by simp_all
  then have "authentic (fr\<lparr>fr_peer := x\<rparr>) = authentic fr" unfolding authentic_def by (simp only:)
  then show ?thesis by (intro ext) (simp add: do_POST_def handle_def)
qed

lemma fixture_peer: "fr_peer (fixture_frappe p) n q = fst (do_POST (fixture_frappe p) 6000000 q p)"
  by (simp add: fixture_frappe_def peer_ignores_itself)

lemma fixture_fields:
  "fr_site (fixture_frappe p) = FIXTURE_SITE" "fr_nonce (fixture_frappe p) n = py ''n''"
  "fr_epoch (fixture_frappe p) n = 5" "hex_digests (fixture_frappe p)" "secret (fixture_frappe p) = Inr peer_key"
proof -
  have "strip_bytes (replicate 32 65) = replicate 32 65"
    by (simp add: strip_bytes_def byte_space_def numeral_eq_Suc)
  then show "secret (fixture_frappe p) = Inr peer_key"
    by (simp add: secret_def fixture_frappe_def fixture_base_def demo_frappe_def peer_key_def Let_def)
qed (simp_all add: fixture_frappe_def fixture_base_def demo_frappe_def hex_digests_def)

lemma fixture_clocks: "clocks_agree (fixture_frappe p) n 6000000"
  by (simp add: clocks_agree_def fixture_fields str_of_int_def digits_of_nat.simps [of 5])

lemma fixture_nonce: "py ''n'' \<notin> set (p_nonces p) \<Longrightarrow> fresh_nonce (fixture_frappe p) n p"
  by (simp add: fresh_nonce_def fixture_fields py_def)

section \<open>A send that arrives\<close>

text \<open>The peer after it has recorded a first delivery.\<close>

definition recorded :: "pystr \<Rightarrow> pystr \<Rightarrow> pyval \<Rightarrow> capture \<Rightarrow> capture" where
  "recorded nonce key payload p =
     (counted (PStr key) (p\<lparr>p_nonces := nonce # p_nonces p\<rparr>))\<lparr>p_deliveries := store (PStr key) payload (p_deliveries p)\<rparr>"

lemma recorded_fields [simp]:
  "p_deliveries (recorded nonce key payload p) = store (PStr key) payload (p_deliveries p)"
  "p_nonces (recorded nonce key payload p) = nonce # p_nonces p" "p_key (recorded nonce key payload p) = p_key p"
  "p_group_failures (recorded nonce key payload p) = p_group_failures p"
  by (simp_all add: recorded_def counted_def)

lemma group_text: "recipient_kind_text (h_recipient_type h) = py ''Group'' \<longleftrightarrow> is_group h"
  by (simp add: recipient_kind_text_def is_group_def split: option.split recipient_kind.split)

lemma signed_send:
  assumes "tr_gateway_provider t = Some g"
    and "hex_digests fr" and "secret fr = Inr (p_key p)" and "fr_site fr = FIXTURE_SITE"
    and "clocks_agree fr (s_ticks s) now" and "fresh_nonce fr (s_ticks s) p"
    and peer: "\<And>q. fr_peer fr (s_ticks s) q = fst (do_POST fr now q p)"
    and ok: "json_ok True (send_payload fr h st pdfs g)"
    and "snapshots_sent pdfs" and willing: "is_group h \<longrightarrow> p_group_failures p = 0"
    and "lookup (p_deliveries p) (PStr (h_idempotency_key h)) = None"
  shows "\<exists>q. send_via_bundled_gateway fr h st pdfs t s
      = (Inr confirmed, s\<lparr>s_ticks := Suc (s_ticks s), s_wire := s_wire s @ [Http q]\<rparr>)
    \<and> snd (do_POST fr now q p) = recorded (fr_nonce fr (s_ticks s)) (h_idempotency_key h) (send_payload fr h st pdfs g) p"
proof -
  let ?v = "send_payload fr h st pdfs g"
  have path: "list_all plain_char (py ''/v1/send'')" by (simp add: py_def plain_ascii)
  obtain q where q: "build_request fr (s_ticks s) (py ''/v1/send'') ?v = Inr q" "loads_body (rq_body q) = Inr ?v"
    "rq_path q = py ''/v1/send''" "list_all (\<lambda>c. c < 128) (rq_signature q)" "rq_nonce q = fr_nonce fr (s_ticks s)"
    using honest_request_built [OF assms(2,3) ok _ path] assms(6) by (auto simp: fresh_nonce_def)
  let ?p = "p\<lparr>p_nonces := rq_nonce q # p_nonces p\<rparr>"
  have served: "handle fr now q p = serve (py ''/v1/send'') ?v ?p"
    using honest_request_served [OF q(1,2) assms(3,5,6) q(4)] q(3) by simp
  obtain d where d: "?v = PDict d" by (simp add: send_payload_def site_payload_def)
  note fields = send_payload_fields [OF d]
  have group: "dget d (py ''recipient_type'') = PStr (py ''Group'') \<longrightarrow> p_group_failures ?p = 0"
    using willing unfolding fields(4) by (simp add: group_text)
  have "serve (py ''/v1/send'') (PDict d) ?p
      = (Inr (200, confirmed), recorded (rq_nonce q) (h_idempotency_key h) (PDict d) p)"
    using serve_first [of d "h_idempotency_key h" ?p] fields group assms(4,9,11) request_pdfs_sent [OF fields(2)]
    by (simp add: recorded_def counted_def)
  with served d q(5) have post: "do_POST fr now q p = (Response 200 (json_dumps default_style confirmed),
      recorded (fr_nonce fr (s_ticks s)) (h_idempotency_key h) ?v p)" by (simp add: do_POST_def)
  have "send_via_bundled_gateway fr h st pdfs t s
      = (Inr confirmed, s\<lparr>s_ticks := Suc (s_ticks s), s_wire := s_wire s @ [Http q]\<rparr>)"
    using q(1) by (simp add: send_via_bundled_gateway_def assms(1) act_iff peer post read_reply [OF confirmed_ok])
  with post show ?thesis by auto
qed

section \<open>Properties\<close>


definition fixture_transport :: transport where
  "fixture_transport = \<lparr>tr_send = Some bundled_sender, tr_gateway_provider = Some (py ''Baileys'')\<rparr>"

definition fixture_pdfs :: "pdf list" where
  "fixture_pdfs = [(py ''INV-1.pdf'', b64encode (py ''%PDF-1''))]"

lemma fixture_snapshots: "snapshots_sent fixture_pdfs"
proof -
  have "startswith (py ''%PDF-1'') (py ''%PDF-'')" "\<forall>c \<in> set (py ''%PDF-1''). c < 256"
    by (simp_all add: startswith_def py_def)
  then show ?thesis by (auto simp: snapshots_sent_def fixture_pdfs_def simp del: b64encode.simps)
qed

lemma demo_record_texts:
  "list_all plain_char (h_recipient demo_record)" "list_all plain_char (h_message_text demo_record)"
  "list_all plain_char (h_idempotency_key demo_record)"
proof -
  have "list_all plain_char (demo_name n)" for n by (simp add: demo_name_def plain_ascii list_all_iff)
  then show "list_all plain_char (h_recipient demo_record)" "list_all plain_char (h_message_text demo_record)"
    "list_all plain_char (h_idempotency_key demo_record)"
    by (simp_all add: demo_record_def new_history_def demo_request_def)
       (simp_all add: demo_frappe_def py_def plain_ascii)
qed

lemma fixture_payload_ok:
  "json_ok True (send_payload (fixture_frappe p) demo_record demo_settings fixture_pdfs (py ''Baileys''))"
proof -
  have "list_all plain_char (b64encode (py ''%PDF-1''))"
    by (rule ascii_plain, rule b64encode_ascii) (simp add: py_def)
  then have pdfs: "list_all (json_ok True) (map pdf_value fixture_pdfs)"
    unfolding fixture_pdfs_def pdf_value_def
    by (simp add: char_ok_plain [abs_def] py_def plain_ascii del: b64encode.simps)
  have kind: "list_all plain_char (recipient_kind_text k)" for k
    by (simp add: recipient_kind_text_def py_def plain_ascii split: option.split recipient_kind.split)
  show ?thesis
    using pdfs kind demo_record_texts
    by (simp add: send_payload_def site_payload_def fixture_fields char_ok_plain [abs_def] FIXTURE_SITE_def)
       (simp add: py_def plain_ascii)
qed


text \<open>C29. In any sequence of requests, each with the time it arrives at, the peer accepts no nonce
  twice, and none it had already seen: a captured request cannot be replayed.\<close>

theorem requests_accepted_once:
  "distinct (map (rq_nonce \<circ> snd) (accepted (peer_accepts fr) (peer_step fr) requests p))
   \<and> (rq_nonce \<circ> snd) ` set (accepted (peer_accepts fr) (peer_step fr) requests p) \<inter> set (p_nonces p) = {}"
  using peer_guard.accepted_once [of fr requests p] peer_guard.accepted_new [of fr requests p]
  by (simp add: comp_def)

text \<open>No delivery the peer has recorded is ever lost or changed, whatever is sent to it in whatever
  order: after any sequence of requests each recorded key holds an equal request.\<close>

lemma deliveries_are_kept:
  "case lookup (p_deliveries p) (PStr key) of
     None \<Rightarrow> True
   | Some old \<Rightarrow> (\<exists>new. lookup (p_deliveries (fold (peer_step fr) requests p)) (PStr key) = Some new \<and> py_eq old new)"
proof -
  have "kept p (fold (peer_step fr) requests p)"
    by (rule kept_fold) (simp add: peer_step_def do_POST_keeps)
  then show ?thesis by (auto simp: kept_def split: option.split)
qed

section \<open>Forged and repeated requests\<close>

lemma decode_plain: "encode s = Inr b \<Longrightarrow> list_all plain_char s \<Longrightarrow> decode b = Some s"
  by (rule decode_encode) (auto simp: list_all_iff plain_char_def)

text \<open>A header line: text of the connection, without a line break.\<close>

definition header_text :: "pystr \<Rightarrow> bool" where
  "header_text s \<longleftrightarrow> list_all plain_char s \<and> 10 \<notin> set s"

lemma stamp_header:
  assumes "stamp_ok now t = Inr True" shows "header_text t"
proof -
  have digits: "list_all is_digit t" using assms by (auto simp: stamp_ok_def split: if_splits)
  have "\<not> is_digit 10" "is_digit c \<Longrightarrow> plain_char c" for c by (auto simp: is_digit_def plain_ascii)
  then show ?thesis using digits by (auto simp: header_text_def list_all_iff)
qed

lemma number_header: "header_text (str_of_int i)"
  using no_newline_in_number number_plain by (simp add: header_text_def)

text \<open>C28. A signature is worth nothing for any other request. If the peer accepts a request that
  carries the signature of a request the client built, the two agree in time stamp, nonce, path and
  body, unless HMAC or SHA-256 collides on exactly these two requests. The nonces and paths are
  header text (\<open>token_urlsafe\<close> writes letters, digits, hyphen and underscore).\<close>

theorem signature_binds_request:
  assumes built: "build_request fr n path v = Inr q" and key: "secret fr = Inr (p_key p)" and digests: "hex_digests fr"
    and accepted: "authentic fr now q' p = Inr True" and "rq_signature q' = rq_signature q"
    and texts: "header_text (fr_nonce fr n)" "header_text path" "header_text (rq_nonce q')" "header_text (rq_path q')"
    and hmac: "\<And>t t'. encode (canonical (rq_timestamp q) (rq_nonce q) (rq_path q) (fr_sha256 fr (rq_body q))) = Inr t \<Longrightarrow>
        encode (canonical (rq_timestamp q') (rq_nonce q') (rq_path q') (fr_sha256 fr (rq_body q'))) = Inr t' \<Longrightarrow>
        fr_hmac fr (p_key p) t' = fr_hmac fr (p_key p) t \<Longrightarrow> t' = t"
    and sha: "fr_sha256 fr (rq_body q') = fr_sha256 fr (rq_body q) \<Longrightarrow> rq_body q' = rq_body q"
  shows "rq_timestamp q' = rq_timestamp q \<and> rq_nonce q' = rq_nonce q \<and> rq_path q' = rq_path q \<and> rq_body q' = rq_body q"
proof -
  let ?c = "canonical (rq_timestamp q) (rq_nonce q) (rq_path q) (fr_sha256 fr (rq_body q))"
  let ?c' = "canonical (rq_timestamp q') (rq_nonce q') (rq_path q') (fr_sha256 fr (rq_body q'))"
  obtain t where t: "encode ?c = Inr t" "rq_signature q = fr_hmac fr (p_key p) t"
    and q: "rq_timestamp q = str_of_int (fr_epoch fr n)" "rq_nonce q = fr_nonce fr n" "rq_path q = path"
    using built key by (auto simp: build_request_Inr)
  obtain t' where t': "encode ?c' = Inr t'" "stamp_ok now (rq_timestamp q') = Inr True"
    "compare_digest (fr_hmac fr (p_key p) t') (rq_signature q') = Inr True"
    using accepted by (auto simp: authentic_True)
  have "fr_hmac fr (p_key p) t' = rq_signature q'" using t'(3) by (auto simp: compare_digest_def split: if_splits)
  then have "t' = t" using hmac t t'(1) assms(5) by metis
  moreover have headers: "header_text (rq_timestamp q)" "header_text (rq_nonce q)" "header_text (rq_path q)" "header_text (rq_timestamp q')"
    using q texts number_header stamp_header [OF t'(2)] by simp_all
  have plain: "list_all plain_char (fr_sha256 fr b)" for b using digests by (simp add: hex_digests_def ascii_plain)
  have "list_all plain_char ?c" "list_all plain_char ?c'"
    using headers texts plain by (simp_all add: header_text_def canonical_def newline_def py_def plain_ascii)
  ultimately have "?c' = ?c" using decode_plain t(1) t'(1) by (metis option.inject)
  then have "rq_timestamp q' = rq_timestamp q \<and> rq_nonce q' = rq_nonce q \<and> rq_path q' = rq_path q
    \<and> fr_sha256 fr (rq_body q') = fr_sha256 fr (rq_body q)"
    by (subst (asm) canonical_inject) (use headers texts in \<open>auto simp: header_text_def\<close>)
  then show ?thesis using sha by blast
qed

theorem signature_binds_request_witness:
  "\<exists>q. build_request (fixture_frappe (new_capture peer_key)) 0 (py ''/v1/groups'') (site_payload (fixture_frappe (new_capture peer_key)) []) = Inr q
     \<and> authentic (fixture_frappe (new_capture peer_key)) 6000000 (q\<lparr>rq_payload := PNone\<rparr>) (new_capture peer_key) = Inr True
     \<and> rq_body (q\<lparr>rq_payload := PNone\<rparr>) = rq_body q"
proof -
  let ?fr = "fixture_frappe (new_capture peer_key)"
  have path: "list_all plain_char (py ''/v1/groups'')" "header_text (py ''/v1/groups'')" "header_text (py ''n'')"
    by (simp_all add: header_text_def py_def plain_ascii)
  have nonce: "list_all (\<lambda>c. c < 128) (fr_nonce ?fr 0)" by (simp add: fixture_fields py_def)
  have "json_ok True (site_payload ?fr [])"
    by (simp add: site_payload_def fixture_fields FIXTURE_SITE_def char_ok_plain [abs_def]) (simp add: py_def plain_ascii)
  then obtain q where q: "build_request ?fr 0 (py ''/v1/groups'') (site_payload ?fr []) = Inr q"
    "rq_path q = py ''/v1/groups''" "rq_nonce q = py ''n''" "list_all (\<lambda>c. c < 128) (rq_signature q)"
    using honest_request_built [OF fixture_fields(4,5) _ nonce path(1)] by (auto simp: fixture_fields)
  have peer: "p_key (new_capture peer_key) = peer_key" "p_nonces (new_capture peer_key) = []" by (simp_all add: new_capture_def)
  have "authentic ?fr 6000000 q (new_capture peer_key) = Inr True"
    by (rule honest_request_authentic [OF q(1)])
       (use fixture_clocks [of "new_capture peer_key" 0] in \<open>simp_all add: peer fixture_fields clocks_agree_def q py_def\<close>)
  then have accepted: "authentic ?fr 6000000 (q\<lparr>rq_payload := PNone\<rparr>) (new_capture peer_key) = Inr True"
    by (simp add: authentic_True)
  have "rq_timestamp (q\<lparr>rq_payload := PNone\<rparr>) = rq_timestamp q \<and> rq_nonce (q\<lparr>rq_payload := PNone\<rparr>) = rq_nonce q
      \<and> rq_path (q\<lparr>rq_payload := PNone\<rparr>) = rq_path q \<and> rq_body (q\<lparr>rq_payload := PNone\<rparr>) = rq_body q"
    by (rule signature_binds_request [OF q(1) _ fixture_fields(4) accepted])
       (simp_all add: fixture_fields peer path q)
  then show ?thesis using q accepted by blast
qed

text \<open>Sending again is safe. A \<open>/v1/send\<close> whose idempotency key the peer has already recorded is
  answered as the first one was if the request is the same, and refused with 409 if it is not;
  the record keeps an equal request, and the attempt is counted.\<close>

theorem repeated_send_is_recognised:
  assumes "authentic fr now q p = Inr True" and "loads_body (rq_body q) = Inr (PDict d)" and "rq_path q = py ''/v1/send''"
    and "dget d (py ''tenant_id'') = PStr FIXTURE_SITE" and "map_of d (py ''idempotency_key'') = Some (PStr k)"
    and "request_pdfs d = Inr True" and "p_group_failures p = 0" and old: "lookup (p_deliveries p) (PStr k) = Some old"
  shows "\<exists>p' new. do_POST fr now q p =
       (if py_eq old (PDict d) then Response 200 (json_dumps default_style confirmed)
        else Response 409 (json_dumps default_style (reply_error ''Changed fixture request identity'')), p')
     \<and> lookup (p_deliveries p') (PStr k) = Some new \<and> py_eq old new
     \<and> lookup (p_attempts p') (PStr k) = Some ((case lookup (p_attempts p) (PStr k) of None \<Rightarrow> 0 | Some n \<Rightarrow> n) + 1)"
proof -
  have id: "delivery_id d = Inr (PStr k)" using assms(5) by (simp add: delivery_id_def hashable_key_def)
  let ?p = "counted (PStr k) (p\<lparr>p_nonces := rq_nonce q # p_nonces p\<rparr>)"
  have state: "p_group_failures ?p = 0" "p_deliveries ?p = p_deliveries p"
    "lookup (p_attempts ?p) (PStr k) = Some ((case lookup (p_attempts p) (PStr k) of None \<Rightarrow> 0 | Some n \<Rightarrow> n) + 1)"
    using assms(7) by (simp_all add: counted_def)
  have paths: "py ''/v1/send'' \<noteq> py ''/v1/groups''" "py ''/v1/send'' \<noteq> py ''/v1/status''" by simp_all
  have "handle fr now q p = (Inr (fst (deliver (PStr k) (PDict d) ?p)), snd (deliver (PStr k) (PDict d) ?p))"
    using honest_answer [OF assms(1,2)] assms(3,4) paths
    by (simp add: serve_def serve_send_def bindA_def reads_def modifies_def id state assms(6) split_beta)
  then show ?thesis
    using old py_eq_refl [of old] by (auto simp: do_POST_def deliver_def state confirmed_def)
qed

text \<open>A repeated request, one clock tick later: the recorded answer again, and two attempts.\<close>

definition fixture_seen :: "capture" where
  "fixture_seen = (new_capture peer_key)\<lparr>
     p_deliveries := [(PStr (h_idempotency_key demo_record),
        send_payload (fixture_frappe (new_capture peer_key)) demo_record demo_settings fixture_pdfs (py ''Baileys''))],
     p_attempts := [(PStr (h_idempotency_key demo_record), 1)]\<rparr>"

theorem repeated_send_is_recognised_witness:
  "\<exists>q p'. build_request (fixture_frappe (new_capture peer_key)) 0 (py ''/v1/send'')
       (send_payload (fixture_frappe (new_capture peer_key)) demo_record demo_settings fixture_pdfs (py ''Baileys'')) = Inr q
     \<and> do_POST (fixture_frappe (new_capture peer_key)) 6000000 q fixture_seen
       = (Response 200 (json_dumps default_style confirmed), p')
     \<and> lookup (p_attempts p') (PStr (h_idempotency_key demo_record)) = Some 2"
proof -
  let ?fr = "fixture_frappe (new_capture peer_key)"
  let ?v = "send_payload ?fr demo_record demo_settings fixture_pdfs (py ''Baileys'')"
  have path: "list_all plain_char (py ''/v1/send'')" by (simp add: py_def plain_ascii)
  have nonce: "list_all (\<lambda>c. c < 128) (fr_nonce ?fr 0)" by (simp add: fixture_fields py_def)
  obtain q where q: "build_request ?fr 0 (py ''/v1/send'') ?v = Inr q" "loads_body (rq_body q) = Inr ?v"
    "rq_path q = py ''/v1/send''" "rq_nonce q = py ''n''" "list_all (\<lambda>c. c < 128) (rq_signature q)"
    using honest_request_built [OF fixture_fields(4,5) fixture_payload_ok nonce path] by (auto simp: fixture_fields)
  obtain d where d: "?v = PDict d" by (simp add: send_payload_def site_payload_def)
  note fields = send_payload_fields [OF d]
  have seen: "p_key fixture_seen = peer_key" "p_nonces fixture_seen = []" "p_group_failures fixture_seen = 0"
    "lookup (p_deliveries fixture_seen) (PStr (h_idempotency_key demo_record)) = Some ?v"
    "lookup (p_attempts fixture_seen) (PStr (h_idempotency_key demo_record)) = Some 1"
    by (simp_all add: fixture_seen_def new_capture_def lookup_def)
  have "authentic ?fr 6000000 q fixture_seen = Inr True"
    by (rule honest_request_authentic [OF q(1)])
       (use fixture_clocks [of "new_capture peer_key" 0] in \<open>simp_all add: seen fixture_fields clocks_agree_def q py_def\<close>)
  from repeated_send_is_recognised [OF this q(2) [unfolded d] q(3) _ fields(3) request_pdfs_sent [OF fields(2) fixture_snapshots] seen(3,4)]
  obtain p' where "do_POST ?fr 6000000 q fixture_seen = (Response 200 (json_dumps default_style confirmed), p')"
    "lookup (p_attempts p') (PStr (h_idempotency_key demo_record)) = Some 2"
    using fields(1) seen(5) d py_eq_refl [of ?v] by (auto simp: fixture_fields)
  with q(1) show ?thesis by blast
qed

end
