(* ===== verification/Installation.thy ===== *)
theory Installation
  imports Templates Settings_Doc Peer
begin

text \<open>
  \<open>acceptance.py\<close>: the checks that run on an installed site. A synthetic, disabled group
  configuration is saved once; after any number of migrations the checks find it unchanged, with
  the DocTypes, the roles and the default templates in place.
\<close>

section \<open>When a migration completes\<close>

text \<open>The built-in targets, each with the kind of its template.\<close>

definition built_in :: "(pystr \<times> pystr) list" where
  "built_in = map (\<lambda>e. (py ''Document'', fst e)) DEFAULT_DOCUMENT_ADAPTERS
     @ map (\<lambda>e. (py ''Report'', fst e)) DEFAULT_REPORT_ADAPTERS"

definition built_in_scope :: "pystr \<times> pystr \<Rightarrow> pystr \<times> pystr \<times> pystr \<times> pystr" where
  "built_in_scope b =
     (if fst b = py ''Document'' then (fst b, snd b, [], []) else (fst b, [], snd b, []))"

text \<open>No enabled default of a built-in scope has another name than the one the migration gives it.\<close>

definition no_rival_default :: "template rows \<Rightarrow> bool" where
  "no_rival_default rows \<longleftrightarrow>
     (\<forall>(n, q) \<in> set rows. t_enabled q \<longrightarrow> t_is_default q \<longrightarrow>
        (\<forall>b \<in> set built_in. template_scope q = built_in_scope b \<longrightarrow> n = default_name (snd b)))"

lemma built_in_kinds: "b \<in> set built_in \<Longrightarrow> fst b = py ''Document'' \<or> fst b = py ''Report''"
  by (auto simp: built_in_def)

lemma built_in_target: "b \<in> set built_in \<Longrightarrow> snd b \<noteq> []"
  by (auto simp: built_in_def DEFAULT_DOCUMENT_ADAPTERS_def DEFAULT_REPORT_ADAPTERS_def)

lemma scope_of_default:
  "b \<in> set built_in \<Longrightarrow> template_scope (default_template (fst b) (snd b) m) = built_in_scope b"
  by (auto simp: template_scope_def default_template_def built_in_scope_def blank_def)

lemma built_in_scope_inject:
  assumes "b \<in> set built_in" "c \<in> set built_in" "built_in_scope b = built_in_scope c"
  shows "b = c"
  using assms built_in_kinds [OF assms(1)] built_in_kinds [OF assms(2)]
  by (auto simp: built_in_scope_def prod_eq_iff split: if_splits)

lemma row_put_new: "k \<notin> set (row_keys t) \<Longrightarrow> row_put k r t = t @ [(k, r)]"
  by (induction t) (auto simp: row_put_def row_keys_def)

lemma insert_default_succeeds:
  assumes b: "b \<in> set built_in" and rows: "no_rival_default (s_templates s)"
    and new: "default_name (snd b) \<notin> set (row_keys (s_templates s))"
  shows "\<exists>t. insert_template (default_name (snd b)) (default_template (fst b) (snd b) m) s = (Inr (), t)
    \<and> no_rival_default (s_templates t)"
proof -
  let ?t = "default_template (fst b) (snd b) m"
  let ?n = "default_name (snd b)"
  have kind: "fst b = py ''Document'' \<or> fst b = py ''Report''" using built_in_kinds b by blast
  have same: "normalize_target ?t = ?t"
    using kind by (auto simp: normalize_target_def default_template_def)
  have free: "\<not> default_taken (s_templates s) ?n ?t"
    using rows b by (fastforce simp: default_taken_def list_ex_iff no_rival_default_def scope_of_default [OF b])
  have "validate_template (s_templates s) ?n ?t = Inr ?t"
    using kind built_in_target [OF b] free same
    by (auto simp: validate_template_def Let_def default_template_def blank_def)
  then have ins: "insert_template ?n ?t s = (Inr (), s\<lparr>s_templates := row_put ?n ?t (s_templates s)\<rparr>)"
    using new by (simp add: insert_template_def save_template_def bindA_def reads_def modifies_def)
  have "(n, q) \<in> set (row_put ?n ?t (s_templates s)) \<Longrightarrow> (n, q) \<in> set (s_templates s) \<or> (n, q) = (?n, ?t)" for n q
    by (auto simp: row_put_new [OF new])
  moreover have own: "n = default_name (snd c)" if "(n, q) = (?n, ?t)" "c \<in> set built_in" "template_scope q = built_in_scope c" for n q c
    using that built_in_scope_inject [OF b that(2)] scope_of_default [OF b, of m] by auto
  ultimately have "no_rival_default (row_put ?n ?t (s_templates s))"
    using rows own unfolding no_rival_default_def by blast
  then show ?thesis using ins by simp
qed

lemma ensure_default_succeeds:
  assumes "(kind, fst e) \<in> set built_in" and "a_default_message (snd e) \<noteq> None"
    and "no_rival_default (s_templates s)"
  shows "\<exists>t. ensure_template kind e s = (Inr (), t) \<and> no_rival_default (s_templates t)"
proof (cases "default_name (fst e) \<in> set (row_keys (s_templates s))")
  case True
  then show ?thesis using assms(3) by (simp add: ensure_template_def bindA_def reads_def ret_def)
next
  case False
  then show ?thesis
    using insert_default_succeeds [OF assms(1,3)] assms(2)
    by (auto simp: ensure_template_def bindA_def reads_def)
qed

lemma ensure_all_succeeds:
  assumes "\<forall>e \<in> set es. (kind, fst e) \<in> set built_in \<and> a_default_message (snd e) \<noteq> None"
    and "no_rival_default (s_templates s)"
  shows "\<exists>t. foldA (ensure_template kind) es s = (Inr (), t) \<and> no_rival_default (s_templates t)"
  using assms
proof (induction es arbitrary: s)
  case Nil
  then show ?case by (simp add: ret_def)
next
  case (Cons e es)
  then obtain t where "ensure_template kind e s = (Inr (), t)" "no_rival_default (s_templates t)"
    using ensure_default_succeeds [of kind e s] by auto
  then show ?case using Cons.IH [of t] Cons.prems(1) by (auto simp: bindA_def)
qed

lemma built_in_messages:
  "\<forall>e \<in> set DEFAULT_DOCUMENT_ADAPTERS. (py ''Document'', fst e) \<in> set built_in \<and> a_default_message (snd e) \<noteq> None"
  "\<forall>e \<in> set DEFAULT_REPORT_ADAPTERS. (py ''Report'', fst e) \<in> set built_in \<and> a_default_message (snd e) \<noteq> None"
proof -
  have "\<forall>e \<in> set DEFAULT_DOCUMENT_ADAPTERS. a_default_message (snd e) \<noteq> None"
    "\<forall>e \<in> set DEFAULT_REPORT_ADAPTERS. a_default_message (snd e) \<noteq> None"
    by (simp_all add: DEFAULT_DOCUMENT_ADAPTERS_def DEFAULT_REPORT_ADAPTERS_def)
  then show "\<forall>e \<in> set DEFAULT_DOCUMENT_ADAPTERS. (py ''Document'', fst e) \<in> set built_in \<and> a_default_message (snd e) \<noteq> None"
    "\<forall>e \<in> set DEFAULT_REPORT_ADAPTERS. (py ''Report'', fst e) \<in> set built_in \<and> a_default_message (snd e) \<noteq> None"
    by (auto simp: built_in_def)
qed

lemma after_migrate_succeeds:
  assumes "no_rival_default (s_templates s)"
  shows "\<exists>t. after_migrate fr s = (Inr (), t) \<and> no_rival_default (s_templates t)"
proof -
  obtain s1 where roles: "ensure_roles s = (Inr (), s1)" "s_templates s1 = s_templates s"
    by (auto simp: ensure_roles_def ROLES_def bindA_def ensure_role_def modifies_def ret_def)
  show ?thesis
  proof (cases "fr_doctype_exists fr TEMPLATE_DOCTYPE_NAME")
    case False
    then show ?thesis using roles assms by (simp add: after_migrate_def ensure_default_templates_def bindA_def ret_def)
  next
    case True
    obtain s2 where "foldA (ensure_template (py ''Document'')) DEFAULT_DOCUMENT_ADAPTERS s1 = (Inr (), s2)"
      "no_rival_default (s_templates s2)"
      using ensure_all_succeeds [OF built_in_messages(1), of s1] assms roles(2) by auto
    moreover obtain t where "foldA (ensure_template (py ''Report'')) DEFAULT_REPORT_ADAPTERS s2 = (Inr (), t)"
      "no_rival_default (s_templates t)"
      using ensure_all_succeeds [OF built_in_messages(2) calculation(2)] by blast
    ultimately show ?thesis
      using roles True by (simp add: after_migrate_def ensure_default_templates_def bindA_def)
  qed
qed

section \<open>The disposable site of the acceptance run\<close>

text \<open>
  What \<open>acceptance.py\<close> reads and writes besides the site: the names the framework gave the rows
  of the company group table, the global defaults and ERPNext's warehouse types. \<open>fixture\<close> is
  what ERPNext answers: its presets for a country, and what inserting a record comes to.
\<close>

record bench =
  be_site :: site
  be_row_names :: "pystr list"
  be_defaults :: "pystr rows"
  be_warehouse_types :: "pystr list"

record fixture =
  fx_presets :: "pystr \<Rightarrow> (pystr \<times> pyval) list list"
  fx_insert_type :: "pystr \<Rightarrow> exn option"
  fx_insert_company :: "exn + pystr"
  fx_row_field :: "pystr \<Rightarrow> pyval"

definition on_site :: "(site, 'a) act \<Rightarrow> (bench, 'a) act" where
  "on_site m b = (case m (be_site b) of (r, s) \<Rightarrow> (r, b\<lparr>be_site := s\<rparr>))"

text \<open>\<open>try: m; except Exception: frappe.db.rollback(); raise\<close>.\<close>

definition rolling_back :: "(bench, 'a) act \<Rightarrow> (bench, 'a) act" where
  "rolling_back m b =
     (case m b of
        (Inr x, t) \<Rightarrow> (Inr x, t)
      | (Inl e, t) \<Rightarrow> (Inl e, b\<lparr>be_site := (be_site b)\<lparr>s_wire := s_wire (be_site t), s_ticks := s_ticks (be_site t)\<rparr>\<rparr>))"

definition REQUIRED_DOCTYPES :: "pystr list" where
  "REQUIRED_DOCTYPES =
     [py ''ERPNext WhatsApp Settings'', py ''ERPNext WhatsApp Message Template'',
      py ''ERPNext WhatsApp Delivery History'', py ''ERPNext WhatsApp Company Group'']"

definition REQUIRED_ROLES :: "pystr list" where
  "REQUIRED_ROLES = [py ''ERPNext WhatsApp Manager'', py ''ERPNext WhatsApp Sender'']"

definition FIXTURE_KEY :: pystr where
  "FIXTURE_KEY = py ''whatsapp_group_preservation_fixture''"

text \<open>\<open>_prepare_company_prerequisites\<close>.\<close>

definition warehouse_records :: "fixture \<Rightarrow> pystr \<Rightarrow> (pystr \<times> pyval) list list" where
  "warehouse_records fx country =
     [d \<leftarrow> fx_presets fx country. dget d (py ''doctype'') = PStr (py ''Warehouse Type'')]"

definition record_name :: "(pystr \<times> pyval) list \<Rightarrow> pystr" where
  "record_name d = (case as_text (dget d (py ''name'')) of None \<Rightarrow> [] | Some t \<Rightarrow> t)"

definition ensure_warehouse_type :: "fixture \<Rightarrow> (pystr \<times> pyval) list \<Rightarrow> (bench, unit) act" where
  "ensure_warehouse_type fx d =
     bindA (reads (\<lambda>b. Inr (record_name d \<in> set (be_warehouse_types b)))) (\<lambda>present.
       if present then ret ()
       else case fx_insert_type fx (record_name d) of
              Some e \<Rightarrow> fails e
            | None \<Rightarrow> modifies (\<lambda>b. b\<lparr>be_warehouse_types := be_warehouse_types b @ [record_name d]\<rparr>))"

definition prepare_company_prerequisites :: "frappe \<Rightarrow> fixture \<Rightarrow> pystr \<Rightarrow> (bench, unit) act" where
  "prepare_company_prerequisites fr fx country =
     (if fr_site fr \<noteq> FIXTURE_SITE
      then fails (Exn RuntimeError (py ''Company prerequisites require the disposable integration site'') False)
      else if warehouse_records fx country = [] \<or> list_ex (\<lambda>d. record_name d = []) (warehouse_records fx country)
      then fails (Exn RuntimeError (py ''Native company Warehouse Type presets are missing or invalid'') False)
      else foldA (ensure_warehouse_type fx) (warehouse_records fx country))"

text \<open>\<open>prepare_group_preservation\<close>: the fixture's row, and what is noted down about it.\<close>

definition fixture_row :: "pystr \<Rightarrow> company_group" where
  "fixture_row company =
     \<lparr>g_company = company, g_enabled = False, g_group_id = PStr GROUP, g_group_name = py ''Synthetic disabled group''\<rparr>"

definition snapshot_value :: "pystr \<Rightarrow> pystr \<Rightarrow> pyval \<Rightarrow> pyval" where
  "snapshot_value company name g =
     PDict [(py ''company'', PStr company), (py ''name'', PStr name), (py ''group_id'', g), (py ''enabled'', PInt 0)]"

definition prepared_report :: pyval where
  "prepared_report = PDict [(py ''disabled_synthetic_group_fixture'', PStr (py ''READY'')), (py ''external_messages'', PBool False)]"

text \<open>The row is a new document: saving the settings gives it its name.\<close>

definition save_fixture_row :: "frappe \<Rightarrow> pystr \<Rightarrow> (bench, pystr) act" where
  "save_fixture_row fr company =
     bindA (reads (\<lambda>b. Inr (s_settings (be_site b)))) (\<lambda>st.
     bindA (on_site (save_settings fr (st\<lparr>st_company_groups := st_company_groups st @ [fixture_row company]\<rparr>))) (\<lambda>_.
     bindA (on_site (tick (fr_hash fr))) (\<lambda>name.
     bindA (modifies (\<lambda>b. b\<lparr>be_row_names := be_row_names b @ [name]\<rparr>)) (\<lambda>_. ret name))))"

definition prepare_group_preservation :: "frappe \<Rightarrow> fixture \<Rightarrow> (bench, pyval) act" where
  "prepare_group_preservation fr fx =
     bindA (reads (\<lambda>b.
       if fr_site fr \<noteq> FIXTURE_SITE
       then raise RuntimeError ''Group preservation requires the disposable integration site''
       else if st_company_groups (s_settings (be_site b)) \<noteq> []
       then raise RuntimeError ''Fresh group fixture must not overwrite existing configuration''
       else Inr ())) (\<lambda>_.
     bindA (rolling_back (
       bindA (prepare_company_prerequisites fr fx (py ''United States'')) (\<lambda>_.
       bindA (reads (\<lambda>_. fx_insert_company fx)) (\<lambda>company.
       bindA (save_fixture_row fr company) (\<lambda>name.
         modifies (\<lambda>b. b\<lparr>be_defaults := row_put FIXTURE_KEY
             (json_dumps default_style (snapshot_value company name (g_group_id (fixture_row company)))) (be_defaults b)\<rparr>)))))) (\<lambda>_.
       ret prepared_report))"

text \<open>\<open>validate_group_preservation\<close>. \<open>rows[0].get(key)\<close> reads a field of the row; fields of the
  framework are not in the model.\<close>

definition row_field :: "fixture \<Rightarrow> pystr \<Rightarrow> company_group \<Rightarrow> pystr \<Rightarrow> pyval" where
  "row_field fx name r key =
     (if key = py ''name'' then PStr name
      else if key = py ''company'' then PStr (g_company r)
      else if key = py ''enabled'' then PInt (if g_enabled r then 1 else 0)
      else if key = py ''group_id'' then g_group_id r
      else if key = py ''group_name'' then PStr (g_group_name r)
      else fx_row_field fx key)"

definition validate_group_preservation :: "frappe \<Rightarrow> fixture \<Rightarrow> bench \<Rightarrow> exn + unit" where
  "validate_group_preservation fr fx b =
     (if fr_site fr \<noteq> FIXTURE_SITE
      then raise RuntimeError ''Group preservation requires the disposable integration site''
      else
        let stored = (case row_get (be_defaults b) FIXTURE_KEY of None \<Rightarrow> [] | Some t \<Rightarrow> t)
        in bindR (json_loads (if stored = [] then py ''{}'' else stored)) (\<lambda>snapshot.
           if \<not> truthy snapshot then raise AssertionError ''Original group preservation fixture is missing''
           else case st_company_groups (s_settings (be_site b)) of
             [r] \<Rightarrow>
               (case snapshot of
                  PDict d \<Rightarrow>
                    (if list_ex (\<lambda>(k, v). \<not> py_eq (row_field fx (hd (be_row_names b)) r k) v) d
                     then raise AssertionError ''Migration changed original company group configuration''
                     else Inr ())
                | _ \<Rightarrow> raise AttributeError ''object has no attribute items'')
           | _ \<Rightarrow> raise AssertionError ''Migration changed original company group configuration''))"

definition installation_report :: pyval where
  "installation_report =
     PDict [(py ''app'', PStr (py ''erpnext_whatsapp_connection'')),
       (py ''doctypes'', PList (map PStr REQUIRED_DOCTYPES)), (py ''roles'', PList (map PStr REQUIRED_ROLES)),
       (py ''repeat_migration'', PStr (py ''passed'')), (py ''company_group_settings_preserved'', PBool True)]"

definition SEEDED_TEMPLATE :: pystr where
  "SEEDED_TEMPLATE = py ''Default Sales Invoice''"

text \<open>The checks of \<open>validate_installation\<close> after its two migrations.\<close>

definition installation_check :: "frappe \<Rightarrow> fixture \<Rightarrow> bench \<Rightarrow> exn + unit" where
  "installation_check fr fx b =
     bindR (foldR (\<lambda>d _. if fr_doctype_exists fr d then Inr ()
                         else Inl (Exn ValidationError (py ''Missing installed DocType: '' @ d) False)) REQUIRED_DOCTYPES ()) (\<lambda>_.
     bindR (foldR (\<lambda>r _. if r \<in> set (s_roles (be_site b)) then Inr ()
                         else Inl (Exn ValidationError (py ''Missing installed role: '' @ r) False)) REQUIRED_ROLES ()) (\<lambda>_.
       if SEEDED_TEMPLATE \<notin> set (row_keys (s_templates (be_site b)))
       then throw ''Default Sales Invoice message template was not seeded''
       else if length (filter (\<lambda>k. k = SEEDED_TEMPLATE) (row_keys (s_templates (be_site b)))) \<noteq> 1
       then throw ''Default Sales Invoice message template is not idempotent''
       else validate_group_preservation fr fx b))"

definition validate_installation :: "frappe \<Rightarrow> fixture \<Rightarrow> (bench, pyval) act" where
  "validate_installation fr fx =
     bindA (on_site (after_migrate fr)) (\<lambda>_.
     bindA (on_site (after_migrate fr)) (\<lambda>_.
     bindA (reads (installation_check fr fx)) (\<lambda>_. ret installation_report)))"

end
