(* ===== verification/Installation_Checks.thy ===== *)
theory Installation_Checks
  imports Installation Example
begin

text \<open>
  The properties of installing the add-on: a migration completes and is idempotent, and the
  configuration prepared before it passes the checks after it.
\<close>

section \<open>What a migration leaves alone\<close>

definition templates_wf :: "site \<Rightarrow> site \<Rightarrow> bool" where
  "templates_wf s t \<longleftrightarrow> (row_wf (s_templates s) \<longrightarrow> row_wf (s_templates t)) \<and> s_settings t = s_settings s"

lemma templates_wf_preorder [simp]: "reflp templates_wf" "transp templates_wf"
  by (auto simp: templates_wf_def reflp_def transp_def)

lemma keeps_after_migrate: "keeps templates_wf (after_migrate fr)"
proof -
  have put: "row_wf t \<Longrightarrow> row_wf (row_put k r t)" for k t and r :: template by (rule rows_store.wf_put)
  have "keeps templates_wf (insert_template n t)" for n t
    unfolding insert_template_def save_template_def
    by (auto intro!: keeps_bindA keeps_modifies simp: templates_wf_def put)
  then have "keeps templates_wf (ensure_template k e)" for k e
    unfolding ensure_template_def by (auto intro!: keeps_bindA split: option.splits)
  moreover have "keeps templates_wf (ensure_role r)" for r
    unfolding ensure_role_def by (auto intro!: keeps_modifies simp: templates_wf_def)
  ultimately show ?thesis
    unfolding after_migrate_def ensure_roles_def ensure_default_templates_def
    by (auto intro!: keeps_bindA keeps_foldA)
qed

section \<open>The fixture\<close>

lemma check_rows_disabled:
  "\<forall>r \<in> set rs. \<not> g_enabled r \<Longrightarrow> check_rows groups rs = Inr rs' \<Longrightarrow> rs' = rs"
  by (induction rs arbitrary: rs') (auto simp: check_row_def res_iff)

text \<open>Saving settings whose groups are all disabled keeps the rows as they are.\<close>

lemma save_disabled_rows:
  assumes "save_settings fr st s = (Inr u, t)" and "\<forall>r \<in> set (st_company_groups st). \<not> g_enabled r"
  shows "st_company_groups (s_settings t) = st_company_groups st"
proof -
  obtain v where "validate_settings fr (Some (s_settings s)) (clamp_settings st) s = (Inr (s_settings t), v)"
    using save_settings_Inr(2) [OF assms(1)] by blast
  then show ?thesis
    using assms(2) check_rows_disabled [of "st_company_groups st"]
    by (auto simp: validate_settings_def bindA_Inr_iff ret_iff reads_iff split: if_splits)
qed

lemma on_site_iff: "on_site m b = (r, c) \<longleftrightarrow> (\<exists>s. m (be_site b) = (r, s) \<and> c = b\<lparr>be_site := s\<rparr>)"
  by (auto simp: on_site_def split: prod.splits)

lemma rolling_back_Inr: "rolling_back m b = (Inr x, t) \<longleftrightarrow> m b = (Inr x, t)"
  by (auto simp: rolling_back_def split: prod.splits sum.splits)

lemma keeps_prerequisites:
  "keeps (same (\<lambda>b. (be_site b, be_row_names b))) (prepare_company_prerequisites fr fx country)"
proof -
  have "keeps (same (\<lambda>b. (be_site b, be_row_names b))) (ensure_warehouse_type fx d)" for d
    unfolding ensure_warehouse_type_def
    by (auto intro!: keeps_bindA keeps_modifies simp: same_def split: option.splits)
  then show ?thesis unfolding prepare_company_prerequisites_def by (auto intro!: keeps_foldA)
qed

text \<open>What \<open>prepare_group_preservation\<close> leaves behind.\<close>

lemma prepared_fixture:
  assumes "prepare_group_preservation fr fx b = (Inr v, c)" and "be_row_names b = []"
  shows "\<exists>company name n. fx_insert_company fx = Inr company \<and> name = fr_hash fr n \<and> fr_site fr = FIXTURE_SITE
    \<and> st_company_groups (s_settings (be_site c)) = [fixture_row company] \<and> be_row_names c = [name]
    \<and> row_get (be_defaults c) FIXTURE_KEY = Some (json_dumps default_style (snapshot_value company name (PStr GROUP)))"
proof -
  obtain b1 company b2 name where fresh: "fr_site fr = FIXTURE_SITE" "st_company_groups (s_settings (be_site b)) = []"
    and pre: "prepare_company_prerequisites fr fx (py ''United States'') b = (Inr (), b1)"
    and co: "fx_insert_company fx = Inr company" and row: "save_fixture_row fr company b1 = (Inr name, b2)"
    and c: "c = b2\<lparr>be_defaults := row_put FIXTURE_KEY
          (json_dumps default_style (snapshot_value company name (g_group_id (fixture_row company)))) (be_defaults b2)\<rparr>"
    using assms(1)
    by (auto simp: prepare_group_preservation_def bindA_Inr_iff reads_iff ret_iff modifies_iff rolling_back_Inr split: if_splits)
  have b1: "be_site b1 = be_site b" "be_row_names b1 = []"
    using keeps_result [OF keeps_prerequisites pre] assms(2) by (simp_all add: same_def)
  let ?st = "(s_settings (be_site b))\<lparr>st_company_groups := [fixture_row company]\<rparr>"
  obtain s where s: "save_settings fr ?st (be_site b) = (Inr (), s)" "name = fr_hash fr (s_ticks s)"
    "be_site b2 = s\<lparr>s_ticks := Suc (s_ticks s)\<rparr>" "be_row_names b2 = [name]"
    using row fresh(2) b1 by (auto simp: save_fixture_row_def bindA_Inr_iff reads_iff ret_iff modifies_iff on_site_iff tick_iff)
  have "st_company_groups (s_settings s) = [fixture_row company]"
    using save_disabled_rows [OF s(1)] by (simp add: fixture_row_def)
  then show ?thesis using co fresh(1) s by (auto simp: c fixture_row_def)
qed

lemma snapshot_matches:
  assumes "st_company_groups (s_settings (be_site b)) = [fixture_row company]" "be_row_names b = [name]"
    "row_get (be_defaults b) FIXTURE_KEY = Some (json_dumps default_style (snapshot_value company name (PStr GROUP)))"
    and "fr_site fr = FIXTURE_SITE" "list_all plain_char company" "list_all plain_char name"
  shows "validate_group_preservation fr fx b = Inr ()"
proof -
  have "json_ok True (snapshot_value company name (PStr GROUP))"
    using assms(5,6) by (simp add: snapshot_value_def char_ok_plain [abs_def] GROUP_def) (simp add: py_def plain_ascii)
  then have "json_loads (json_dumps default_style (snapshot_value company name (PStr GROUP)))
      = Inr (snapshot_value company name (PStr GROUP))"
    by (intro json_loads_dumps [OF style_ok_used(1)]) (simp add: default_style_def)
  moreover have "json_dumps default_style (snapshot_value company name (PStr GROUP)) \<noteq> []"
    using json_dumps_hd [of default_style "snapshot_value company name (PStr GROUP)"] by auto
  ultimately show ?thesis
    using assms(1-4)
    by (simp add: validate_group_preservation_def snapshot_value_def row_field_def fixture_row_def)
qed

lemma installed_checks:
  assumes "installed fr s" and "\<forall>d \<in> set REQUIRED_DOCTYPES. fr_doctype_exists fr d" and "row_wf (s_templates s)"
    and "be_site b = s" and "validate_group_preservation fr fx b = Inr ()"
  shows "installation_check fr fx b = Inr ()"
proof -
  have one: "length (filter (\<lambda>k. k = x) xs) = 1" if "distinct xs" "x \<in> set xs" for x :: pystr and xs
    using that by (induction xs) (auto simp: filter_empty_conv)
  have "TEMPLATE_DOCTYPE_NAME \<in> set REQUIRED_DOCTYPES" by (simp add: TEMPLATE_DOCTYPE_NAME_def REQUIRED_DOCTYPES_def)
  moreover have "SEEDED_TEMPLATE \<in> set default_names"
    by (simp add: SEEDED_TEMPLATE_def default_names_def default_name_def DEFAULT_DOCUMENT_ADAPTERS_def py_def)
  ultimately have "SEEDED_TEMPLATE \<in> set (row_keys (s_templates s))" using assms(1,2) by (auto simp: installed_def)
  moreover have "set REQUIRED_ROLES \<subseteq> set (s_roles s)" using assms(1) by (simp add: installed_def ROLES_def REQUIRED_ROLES_def)
  ultimately show ?thesis
    using assms(2-5) one [of "row_keys (s_templates s)" SEEDED_TEMPLATE]
    by (simp add: installation_check_def REQUIRED_DOCTYPES_def REQUIRED_ROLES_def row_wf_def)
qed

lemma migration_settles:
  assumes "no_rival_default (s_templates s)"
  shows "\<exists>t. after_migrate fr s = (Inr (), t) \<and> installed fr t \<and> after_migrate fr t = (Inr (), t)"
  using after_migrate_succeeds [OF assms, of fr] after_migrate_installed after_migrate_noop by blast

section \<open>Properties\<close>

text \<open>C37. A migration completes unless the site has an enabled default template of its own, under
  another name, for one of the built-in targets; it leaves the roles and all default templates in
  place, and migrating again changes nothing.\<close>

theorem migration_completes:
  assumes "no_rival_default (s_templates s)"
  shows "\<exists>t. after_migrate fr s = (Inr (), t) \<and> installed fr t \<and> after_migrate fr t = (Inr (), t)"
  by (rule migration_settles [OF assms])

theorem migration_completes_witness:
  "\<exists>t. after_migrate demo_frappe demo_site = (Inr (), t) \<and> installed demo_frappe t
     \<and> after_migrate demo_frappe t = (Inr (), t)"
  by (rule migration_completes) (simp add: demo_site_def no_rival_default_def)

text \<open>C38. The group configuration that is prepared on a fresh site is found unchanged by the checks
  of the installation, which migrate twice: they pass, and leave the settings as they were.\<close>

theorem fixture_survives_migrations:
  assumes prepared: "prepare_group_preservation fr fx b = (Inr v, c)" and "be_row_names b = []"
    and "no_rival_default (s_templates (be_site c))" and wf: "row_wf (s_templates (be_site c))"
    and doctypes: "\<forall>d \<in> set REQUIRED_DOCTYPES. fr_doctype_exists fr d"
    and texts: "\<And>company. fx_insert_company fx = Inr company \<Longrightarrow> list_all plain_char company"
      "\<And>n. list_all plain_char (fr_hash fr n)"
  shows "\<exists>t. validate_installation fr fx c = (Inr installation_report, c\<lparr>be_site := t\<rparr>)
    \<and> s_settings t = s_settings (be_site c) \<and> after_migrate fr t = (Inr (), t)"
proof -
  obtain t where t: "after_migrate fr (be_site c) = (Inr (), t)" "installed fr t" "after_migrate fr t = (Inr (), t)"
    using migration_settles [OF assms(3)] by blast
  have keeps: "s_settings t = s_settings (be_site c)" "row_wf (s_templates t)"
    using keeps_result [OF keeps_after_migrate t(1)] wf by (simp_all add: templates_wf_def)
  obtain company name n where left: "fx_insert_company fx = Inr company" "name = fr_hash fr n" "fr_site fr = FIXTURE_SITE"
    "st_company_groups (s_settings (be_site c)) = [fixture_row company]" "be_row_names c = [name]"
    "row_get (be_defaults c) FIXTURE_KEY = Some (json_dumps default_style (snapshot_value company name (PStr GROUP)))"
    using prepared_fixture [OF prepared assms(2)] by blast
  have "validate_group_preservation fr fx (c\<lparr>be_site := t\<rparr>) = Inr ()"
    by (rule snapshot_matches [where company = company and name = name]) (use left keeps(1) texts in auto)
  then have "installation_check fr fx (c\<lparr>be_site := t\<rparr>) = Inr ()"
    by (intro installed_checks [OF t(2) doctypes keeps(2)]) simp
  then have "validate_installation fr fx c = (Inr installation_report, c\<lparr>be_site := t\<rparr>)"
    using t by (simp add: validate_installation_def bindA_def on_site_def reads_def ret_def)
  then show ?thesis using keeps(1) t(3) by blast
qed

definition bench_frappe :: frappe where
  "bench_frappe = demo_frappe\<lparr>fr_site := FIXTURE_SITE\<rparr>"

definition bench_fixture :: fixture where
  "bench_fixture = \<lparr>fx_presets = (\<lambda>_. [[(py ''doctype'', PStr (py ''Warehouse Type'')), (py ''name'', PStr (py ''Transit''))]]),
     fx_insert_type = (\<lambda>_. None), fx_insert_company = Inr (py ''Co''), fx_row_field = (\<lambda>_. PNone)\<rparr>"

definition bench_fresh :: bench where
  "bench_fresh = \<lparr>be_site = demo_site, be_row_names = [], be_defaults = [], be_warehouse_types = []\<rparr>"

lemma bench_saved:
  "save_settings bench_frappe (demo_settings\<lparr>st_company_groups := [fixture_row (py ''Co'')]\<rparr>) demo_site
    = (Inr (), demo_site\<lparr>s_settings := demo_settings\<lparr>st_company_groups := [fixture_row (py ''Co'')]\<rparr>\<rparr>)"
proof -
  let ?st = "demo_settings\<lparr>st_company_groups := [fixture_row (py ''Co'')]\<rparr>"
  have st: "s_settings demo_site = demo_settings" "st_company_groups demo_settings = []" "st_provider ?st = LINKED_DEVICE"
    by (simp_all add: demo_site_def demo_settings_def)
  have clamped: "clamp_settings ?st = ?st"
    by (simp add: clamp_settings_def demo_settings_def clamp_throttle_def clamp_retries_def)
  have changed: "changed_companies (Some demo_settings) ?st = [py ''Co'']"
    by (simp add: changed_companies_def companies_def group_state_def st fixture_row_def dict_fromkeys_def)
  have "company_check bench_frappe demo_site (PStr (py ''Co'')) = Inr ()"
    by (simp add: company_check_Inr_iff) (simp add: bench_frappe_def demo_frappe_def demo_doc_def)
  moreover have one: "companies ?st = [py ''Co'']" by (simp add: companies_def fixture_row_def)
  moreover have off: "enabled_rows ?st = []" by (simp add: enabled_rows_def fixture_row_def)
  ultimately have guard: "settings_guard bench_frappe (Some demo_settings) ?st demo_site = Inr ()"
    by (simp add: settings_guard_Inr_iff changed)
  have group: "group_id (PStr GROUP) = Inr GROUP"
    unfolding group_id_def GROUP_def
    by (simp add: matches_group_def py_def is_ascii_digit_def digit_run_def Let_def)
  have row: "check_row [] (fixture_row (py ''Co'')) = Inr (fixture_row (py ''Co''))"
    by (simp add: check_row_def fixture_row_def group)
  have provider: "LINKED_DEVICE \<in> set PROVIDERS" by (simp add: PROVIDERS_def LINKED_DEVICE_def)
  show ?thesis
    by (simp add: save_settings_def validate_settings_doc_def validate_settings_def bindA_def reads_def
        st provider clamped guard changed off row ret_def modifies_def)
qed

lemma bench_prepared:
  "\<exists>c. prepare_group_preservation bench_frappe bench_fixture bench_fresh = (Inr prepared_report, c)
     \<and> s_templates (be_site c) = []"
proof -
  have st: "s_settings demo_site = demo_settings" "st_company_groups demo_settings = []" "s_templates demo_site = []"
    by (simp_all add: demo_site_def demo_settings_def)
  have site: "fr_site bench_frappe = FIXTURE_SITE" by (simp add: bench_frappe_def)
  have records: "warehouse_records bench_fixture (py ''United States'') =
      [[(py ''doctype'', PStr (py ''Warehouse Type'')), (py ''name'', PStr (py ''Transit''))]]"
    by (simp add: warehouse_records_def bench_fixture_def dget_def)
  have fx: "fx_insert_type bench_fixture n = None" "fx_insert_company bench_fixture = Inr (py ''Co'')" for n
    by (simp_all add: bench_fixture_def)
  have name: "record_name [(py ''doctype'', PStr (py ''Warehouse Type'')), (py ''name'', PStr (py ''Transit''))] = py ''Transit''"
    by (simp add: record_name_def dget_def as_text_def)
  have fresh: "be_site bench_fresh = demo_site" "be_warehouse_types bench_fresh = []" "be_row_names bench_fresh = []"
    by (simp_all add: bench_fresh_def)
  show ?thesis
    by (simp add: prepare_group_preservation_def prepare_company_prerequisites_def rolling_back_def save_fixture_row_def
        ensure_warehouse_type_def bindA_def reads_def site fresh st records name fx modifies_def ret_def on_site_def bench_saved tick_def)
qed

theorem fixture_survives_migrations_witness:
  "\<exists>c t. prepare_group_preservation bench_frappe bench_fixture bench_fresh = (Inr prepared_report, c)
     \<and> validate_installation bench_frappe bench_fixture c = (Inr installation_report, c\<lparr>be_site := t\<rparr>)"
proof -
  obtain c where c: "prepare_group_preservation bench_frappe bench_fixture bench_fresh = (Inr prepared_report, c)"
    "s_templates (be_site c) = []" using bench_prepared by blast
  have "list_all plain_char (fr_hash bench_frappe n)" for n
    by (simp add: bench_frappe_def demo_frappe_def demo_name_def plain_ascii list_all_iff)
  moreover have "fx_insert_company bench_fixture = Inr company \<Longrightarrow> list_all plain_char company" for company
    by (simp add: bench_fixture_def) (auto simp: py_def plain_ascii)
  ultimately show ?thesis
    using fixture_survives_migrations [OF c(1)] c
    by (simp add: bench_fresh_def no_rival_default_def row_wf_def row_keys_def bench_frappe_def demo_frappe_def) blast
qed

end
