(* ===== verification/Harness.thy ===== *)
theory Harness
  imports Peer Outbound
begin

text \<open>
  The rest of \<open>group_acceptance.py\<close> that is not plain input and output: running the queued jobs up
  to an expected delivery, pointing the gateway client at the peer and back, and the evidence that is
  printed at the end, with the script that reads it (\<open>scripts/verify-native-group-evidence.py\<close>).
\<close>

section \<open>The disposable site\<close>

definition require_fixture_site :: "frappe \<Rightarrow> bool \<Rightarrow> exn + unit" where
  "require_fixture_site fr enabled =
     (if fr_site fr \<noteq> FIXTURE_SITE \<or> \<not> enabled
      then raise RuntimeError ''Group acceptance requires the explicitly enabled disposable site''
      else Inr ())"

section \<open>Running the queued jobs\<close>

text \<open>
  Redis and RQ are the queue; \<open>rq\<close> is what they answer about a state \<open>'q\<close> of theirs: the jobs
  that wait, in order, a job by its id, the status of a job, and what a worker with
  \<open>max_jobs=1\<close> does. A job carries the site and the method it is for, and the record it is run with.
\<close>

record rq_job =
  jb_id :: pystr
  jb_site :: pyval
  jb_method :: pyval
  jb_message_name :: pystr

record 'q rq =
  rq_jobs :: "'q \<Rightarrow> rq_job list"
  rq_get_job :: "pystr \<Rightarrow> 'q \<Rightarrow> rq_job option"
  rq_status :: "rq_job \<Rightarrow> 'q \<Rightarrow> pystr"
  rq_work :: "'q \<Rightarrow> (exn + unit) \<times> 'q"

definition PROCESS_METHOD :: pystr where
  "PROCESS_METHOD = py ''erpnext_whatsapp_connection.outbound.process_outbound_message''"

definition assertion :: "string \<Rightarrow> exn" where
  "assertion m = Exn AssertionError (py m) False"

definition BACKLOG :: nat where
  "BACKLOG = 50"

fun worker_loop :: "'q rq \<Rightarrow> rq_job \<Rightarrow> nat \<Rightarrow> ('q, unit) act" where
  "worker_loop rq target 0 = fails (assertion ''Native delivery exceeded the disposable job bound'')"
| "worker_loop rq target (Suc n) =
     bindA (reads (\<lambda>q. case rq_jobs rq q of
         [] \<Rightarrow> Inl (assertion ''Missing or foreign job before expected native delivery'')
       | j # _ \<Rightarrow> (if jb_site j \<noteq> PStr FIXTURE_SITE
                  then Inl (assertion ''Missing or foreign job before expected native delivery'') else Inr j))) (\<lambda>job.
     bindA (rq_work rq) (\<lambda>_.
     bindA (reads (\<lambda>q. if rq_status rq job q \<noteq> py ''finished''
         then Inl (assertion ''Native queued job failed before expected delivery completed'') else Inr ())) (\<lambda>_.
     bindA (reads (\<lambda>q. Inr (rq_status rq target q))) (\<lambda>status.
       if status = py ''finished'' then ret ()
       else if status \<noteq> py ''queued'' then fails (assertion ''Expected native delivery did not finish successfully'')
       else worker_loop rq target n))))"

definition worker_target :: "'q rq \<Rightarrow> pystr \<Rightarrow> 'q \<Rightarrow> exn + rq_job" where
  "worker_target rq job_id q =
     (case rq_get_job rq job_id q of
        None \<Rightarrow> Inl (assertion ''Expected native delivery is not queued on the disposable site'')
      | Some t \<Rightarrow>
          (if jb_site t \<noteq> PStr FIXTURE_SITE \<or> jb_method t \<noteq> PStr PROCESS_METHOD \<or> rq_status rq t q \<noteq> py ''queued''
           then Inl (assertion ''Expected native delivery is not queued on the disposable site'')
           else if rq_jobs rq q = [] \<or> BACKLOG < length (rq_jobs rq q)
           then Inl (assertion ''Unexpected disposable long-queue backlog'') else Inr t))"

definition worker_once :: "frappe \<Rightarrow> bool \<Rightarrow> 'q rq \<Rightarrow> pystr \<Rightarrow> ('q, unit) act" where
  "worker_once fr enabled rq job_id =
     bindA (reads (\<lambda>_. require_fixture_site fr enabled)) (\<lambda>_.
     bindA (reads (worker_target rq job_id)) (\<lambda>target. worker_loop rq target BACKLOG))"

text \<open>The id under which \<open>run_worker\<close> expects the job of a delivery, or of its retry.\<close>

definition run_job_id :: "pystr \<Rightarrow> int option \<Rightarrow> pystr" where
  "run_job_id message_name retry_attempt =
     (case retry_attempt of
        None \<Rightarrow> py ''whatsapp:'' @ message_name
      | Some n \<Rightarrow> py ''whatsapp-retry:'' @ message_name @ py '':'' @ str_of_int n)"

section \<open>Pointing the client at the peer\<close>

text \<open>The process: the two constants of the client's module, and the environment.\<close>

record process =
  pc_socket :: pystr
  pc_key_file :: pystr
  pc_environ :: "pystr rows"

definition capture_keys :: "pystr \<Rightarrow> pystr \<Rightarrow> (pystr \<times> pystr) list" where
  "capture_keys socket key_file =
     [(py ''ERPNEXT_WHATSAPP_SOCKET'', socket), (py ''ERPNEXT_WHATSAPP_HMAC_KEY_FILE'', key_file), (py ''CI'', py ''1'')]"

definition restore_variable :: "pystr \<times> pystr option \<Rightarrow> pystr rows \<Rightarrow> pystr rows" where
  "restore_variable kv environ =
     (case snd kv of None \<Rightarrow> AList.delete (fst kv) environ | Some v \<Rightarrow> row_put (fst kv) v environ)"

definition captured_gateway :: "pystr \<Rightarrow> pystr \<Rightarrow> (process, 'a) act \<Rightarrow> (process, 'a) act" where
  "captured_gateway socket key_file body =
     bindA (reads (\<lambda>p. Inr (pc_socket p, pc_key_file p,
         map (\<lambda>(k, _). (k, row_get (pc_environ p) k)) (capture_keys socket key_file)))) (\<lambda>(old_socket, old_key, environment).
       finallyA
         (bindA (modifies (\<lambda>p. p\<lparr>pc_environ := fold (\<lambda>(k, v). row_put k v) (capture_keys socket key_file) (pc_environ p)\<rparr>)) (\<lambda>_.
          bindA (modifies (\<lambda>p. p\<lparr>pc_socket := socket, pc_key_file := key_file\<rparr>)) (\<lambda>_. body)))
         (modifies (\<lambda>p. p\<lparr>pc_socket := old_socket, pc_key_file := old_key,
            pc_environ := fold restore_variable environment (pc_environ p)\<rparr>)))"

section \<open>The evidence\<close>

definition EVIDENCE_MARKER :: pystr where
  "EVIDENCE_MARKER = py ''WHATSAPP_NATIVE_GROUP_ACCEPTANCE=''"

definition evidence :: "pystr \<Rightarrow> pyval" where
  "evidence version =
     PDict [(py ''native_enabled_group_acceptance'', PStr (py ''PASS'')), (py ''site'', PStr (py ''integration.local'')),
       (py ''app_version'', PStr version), (py ''document_and_report_workers'', PBool True),
       (py ''private_pdf_and_separate_history'', PBool True), (py ''company_disabled_and_revocation'', PBool True),
       (py ''copy_only_retry_without_primary_resend'', PBool True), (py ''native_source_revocation_before_transport'', PBool True),
       (py ''forged_group_and_cross_company_requests_denied'', PBool True),
       (py ''native_receivable_party_filter'', PBool True),
       (py ''uncertain_copy_no_replay'', PBool True), (py ''enabled_mapping_repeated_migration'', PBool True),
       (py ''actual_settings_browser'', PBool True), (py ''external_messages'', PBool False)]"

text \<open>What \<open>print\<close> writes of it, without the line break.\<close>

definition evidence_line :: "pystr \<Rightarrow> pystr" where
  "evidence_line version = EVIDENCE_MARKER @ json_dumps default_style (evidence version)"

text \<open>\<open>str.splitlines()\<close>.\<close>

definition line_break :: "nat \<Rightarrow> bool" where
  "line_break c \<longleftrightarrow> (10 \<le> c \<and> c \<le> 13) \<or> (28 \<le> c \<and> c \<le> 30) \<or> c = 133 \<or> c = 8232 \<or> c = 8233"

fun split_lines :: "pystr \<Rightarrow> pystr \<Rightarrow> pystr list" where
  "split_lines line [] = (if line = [] then [] else [rev line])"
| "split_lines line [c] = (if line_break c then [rev line] else [rev (c # line)])"
| "split_lines line (c # d # t) =
     (if c = 13 \<and> d = 10 then rev line # split_lines [] t
      else if line_break c then rev line # split_lines [] (d # t)
      else split_lines (c # line) (d # t))"

definition splitlines :: "pystr \<Rightarrow> pystr list" where
  "splitlines t = split_lines [] t"

text \<open>\<open>line.split(marker, 1)[1]\<close>, for a line that contains the marker.\<close>

fun after_marker :: "pystr \<Rightarrow> pystr \<Rightarrow> pystr option" where
  "after_marker m [] = (if m = [] then Some [] else None)"
| "after_marker m (c # s) = (if startswith (c # s) m then Some (drop (length m) (c # s)) else after_marker m s)"

fun load_rows :: "pystr list \<Rightarrow> exn + pyval list" where
  "load_rows [] = Inr []"
| "load_rows (t # ts) = bindR (json_loads t) (\<lambda>v. bindR (load_rows ts) (\<lambda>vs. Inr (v # vs)))"

definition required_evidence :: "pystr list" where
  "required_evidence =
     [py ''document_and_report_workers'', py ''private_pdf_and_separate_history'',
      py ''company_disabled_and_revocation'', py ''uncertain_copy_no_replay'',
      py ''enabled_mapping_repeated_migration'', py ''actual_settings_browser'',
      py ''copy_only_retry_without_primary_resend'', py ''native_source_revocation_before_transport'',
      py ''forged_group_and_cross_company_requests_denied'', py ''native_receivable_party_filter'']"

definition verify :: "pystr \<Rightarrow> pystr \<Rightarrow> exn + pyval" where
  "verify text expected_version =
     bindR (load_rows (List.map_filter (after_marker EVIDENCE_MARKER) (splitlines text))) (\<lambda>rows.
       case rows of
         [result] \<Rightarrow>
           (case result of
              PDict d \<Rightarrow>
                (if dget d (py ''native_enabled_group_acceptance'') \<noteq> PStr (py ''PASS'')
                    \<or> dget d (py ''site'') \<noteq> PStr (py ''integration.local'')
                    \<or> dget d (py ''app_version'') \<noteq> PStr expected_version
                    \<or> dget d (py ''external_messages'') \<noteq> PBool False
                    \<or> list_ex (\<lambda>key. dget d key \<noteq> PBool True) required_evidence
                 then raise ValueError ''Enabled-group acceptance evidence is missing, false or mismatched''
                 else Inr result)
            | _ \<Rightarrow> raise AttributeError ''object has no attribute get'')
       | _ \<Rightarrow> raise ValueError ''Exactly one enabled-group acceptance record is required'')"

end
