(* ===== verification/Harness_Checks.thy ===== *)
theory Harness_Checks
  imports Harness Delivery Example
begin

text \<open>
  The properties of the acceptance harness: the worker loop reaches the delivery it waits for, the
  process is put back as it was, and the evidence that is printed is the evidence that is read.
\<close>

section \<open>The expected job is the one that was queued\<close>

lemma expected_jobs:
  "run_job_id name None = j_job_id (worker_job name)"
  "due_name row = name \<Longrightarrow> run_job_id name (Some (due_retry_count row + 1)) = j_job_id (retry_job row)"
  by (simp_all add: run_job_id_def worker_job_def retry_job_def)

section \<open>The worker loop\<close>

text \<open>A queue hands its jobs out in order, and running one changes the status of no other.\<close>

definition first_in_first_out :: "'q rq \<Rightarrow> bool" where
  "first_in_first_out rq \<longleftrightarrow>
     (\<forall>q j js. rq_jobs rq q = j # js \<longrightarrow>
        (\<exists>q'. rq_work rq q = (Inr (), q') \<and> rq_jobs rq q' = js
           \<and> (\<forall>i. jb_id i \<noteq> jb_id j \<longrightarrow> rq_status rq i q' = rq_status rq i q)))"

definition succeeds :: "'q rq \<Rightarrow> rq_job \<Rightarrow> bool" where
  "succeeds rq j \<longleftrightarrow>
     (\<forall>q js. rq_jobs rq q = j # js \<longrightarrow> rq_status rq j (snd (rq_work rq q)) = py ''finished'')"

lemma worker_loop_reaches:
  assumes fifo: "first_in_first_out rq" and "rq_jobs rq q = before @ target # rest" and "length before < n"
    and "\<forall>j \<in> set (target # before). jb_site j = PStr FIXTURE_SITE \<and> succeeds rq j"
    and "distinct (map jb_id (target # before))" and "rq_status rq target q = py ''queued''"
  shows "\<exists>q'. worker_loop rq target n q = (Inr (), q') \<and> rq_jobs rq q' = rest \<and> rq_status rq target q' = py ''finished''
    \<and> (\<forall>i. jb_id i \<notin> jb_id ` set (target # before) \<longrightarrow> rq_status rq i q' = rq_status rq i q)"
  using assms(2-)
proof (induction before arbitrary: q n)
  case Nil
  obtain m where n: "n = Suc m" using Nil.prems(2) by (cases n) auto
  obtain q' where q': "rq_work rq q = (Inr (), q')" "rq_jobs rq q' = rest"
    "\<forall>i. jb_id i \<noteq> jb_id target \<longrightarrow> rq_status rq i q' = rq_status rq i q"
    using fifo Nil.prems(1) unfolding first_in_first_out_def by (metis append_Nil)
  have "rq_status rq target q' = py ''finished''" using Nil.prems(1,3) q'(1) by (auto simp: succeeds_def)
  then show ?case using Nil.prems q' by (simp add: n bindA_def reads_def ret_def)
next
  case (Cons j before)
  obtain m where n: "n = Suc m" "length before < m" using Cons.prems(2) by (cases n) auto
  obtain q1 where q1: "rq_work rq q = (Inr (), q1)" "rq_jobs rq q1 = before @ target # rest"
    "\<forall>i. jb_id i \<noteq> jb_id j \<longrightarrow> rq_status rq i q1 = rq_status rq i q"
    using fifo Cons.prems(1) unfolding first_in_first_out_def by (metis append_Cons)
  have j: "rq_status rq j q1 = py ''finished''" using Cons.prems(1,3) q1(1) by (auto simp: succeeds_def)
  have target: "rq_status rq target q1 = py ''queued''" using Cons.prems(4,5) q1(3) by auto
  obtain q' where "worker_loop rq target m q1 = (Inr (), q')" "rq_jobs rq q' = rest"
    "rq_status rq target q' = py ''finished''"
    "\<forall>i. jb_id i \<notin> jb_id ` set (target # before) \<longrightarrow> rq_status rq i q' = rq_status rq i q1"
    using Cons.IH [OF q1(2) n(2) _ _ target] Cons.prems(3,4) by auto
  then show ?case using Cons.prems(1,3) q1 j target by (simp add: n(1) bindA_def reads_def)
qed

section \<open>Printable JSON\<close>

definition printable :: "nat \<Rightarrow> bool" where
  "printable c \<longleftrightarrow> 32 \<le> c \<and> c \<le> 126"

lemma printable_range: "32 \<le> c \<Longrightarrow> c \<le> 126 \<Longrightarrow> printable c"
  by (simp add: printable_def)

lemma hex4_printable: "list_all printable (hex4 c)"
proof -
  have "printable (hex_digit (n mod 16))" for n
  proof -
    have "n mod 16 < 16" by simp
    then show ?thesis by (auto simp: hex_digit_def printable_def)
  qed
  then show ?thesis by (simp add: hex4_def)
qed

lemma json_string_printable: "list_all printable (json_string True s)"
proof -
  have "list_all printable (json_char True c)" for c
    using hex4_printable by (auto simp: json_char_def u_escape_def printable_def Let_def)
  then show ?thesis by (auto simp: json_string_def list_all_iff printable_def)
qed

lemma digits_printable: "list_all printable (digits_of_nat n)"
proof (induction n rule: digits_of_nat.induct)
  case (1 n)
  have "n mod 10 < 10" by simp
  then show ?case using 1 by (subst digits_of_nat.simps) (auto simp: printable_range)
qed

lemma json_dumps_printable: "list_all printable (json_dumps default_style v)"
proof (induction v)
  case (PInt i)
  then show ?case using digits_printable by (simp add: str_of_int_def printable_range)
next
  case (PStr x)
  then show ?case using json_string_printable by (simp add: default_style_def)
next
  case (PList xs)
  then have "list_all (list_all printable) (map (json_dumps default_style) xs)" by (auto simp: list_all_iff)
  moreover have "list_all printable (item_sep default_style)" by (simp add: default_style_def py_def printable_range)
  ultimately show ?case using join_all by (simp add: printable_range)
next
  case (PDict d)
  have style: "\<not> sort_keys default_style" "ensure_ascii default_style"
    "list_all printable (item_sep default_style)" "list_all printable (key_sep default_style)"
    by (simp_all add: default_style_def py_def printable_range)
  have "list_all printable (member_text default_style (k, v))" if "(k, v) \<in> set d" for k v
  proof -
    have "list_all printable (json_dumps default_style v)" using PDict.IH [OF that, of v] by simp
    then show ?thesis using style json_string_printable by (simp add: member_text_def)
  qed
  then have "list_all (list_all printable) (map (member_text default_style) d)" by (auto simp: list_all_iff)
  then show ?case unfolding json_dumps_dict [OF style(1)] using join_all [OF style(3)] by (simp add: printable_range)
qed (simp_all add: py_def printable_range)

lemma printable_no_break: "list_all printable l \<Longrightarrow> list_all (\<lambda>c. \<not> line_break c) l"
  by (auto simp: list_all_iff printable_def line_break_def)

section \<open>Lines\<close>

lemma split_lines_line:
  "list_all (\<lambda>c. \<not> line_break c) l \<Longrightarrow> split_lines acc (l @ 10 # t) = (rev acc @ l) # split_lines [] t"
proof (induction l arbitrary: acc)
  case Nil
  then show ?case by (cases t) (simp_all add: line_break_def)
next
  case (Cons c l)
  obtain d u where next_: "l @ 10 # t = d # u" by (cases l) auto
  have "\<not> line_break c" "c \<noteq> 13" using Cons.prems by (auto simp: line_break_def)
  then have "split_lines acc ((c # l) @ 10 # t) = split_lines (c # acc) (l @ 10 # t)" by (simp add: next_)
  then show ?case using Cons by simp
qed

definition printed :: "pystr list \<Rightarrow> pystr" where
  "printed ls = concat (map (\<lambda>l. l @ [10]) ls)"

lemma splitlines_printed: "\<forall>l \<in> set ls. list_all (\<lambda>c. \<not> line_break c) l \<Longrightarrow> splitlines (printed ls) = ls"
  by (induction ls) (simp_all add: splitlines_def printed_def split_lines_line)

lemma after_marker_first: "m \<noteq> [] \<Longrightarrow> after_marker m (m @ t) = Some t"
  by (cases m) (simp_all add: startswith_def)

lemma after_marker_evidence: "after_marker EVIDENCE_MARKER (evidence_line v) = Some (json_dumps default_style (evidence v))"
proof -
  have "EVIDENCE_MARKER \<noteq> []" by (simp add: EVIDENCE_MARKER_def)
  then show ?thesis unfolding evidence_line_def by (rule after_marker_first)
qed

lemma evidence_line_plain: "list_all (\<lambda>c. \<not> line_break c) (evidence_line v)"
proof -
  have "list_all printable EVIDENCE_MARKER" by (simp add: EVIDENCE_MARKER_def py_def printable_def)
  then show ?thesis using json_dumps_printable by (simp add: evidence_line_def printable_no_break)
qed

lemma load_evidence:
  assumes "list_all plain_char v"
  shows "json_loads (json_dumps default_style (evidence v)) = Inr (evidence v)"
proof -
  have "json_ok True (evidence v)"
    using assms by (simp add: evidence_def char_ok_plain [abs_def]) (simp add: py_def plain_ascii)
  then show ?thesis by (intro json_loads_dumps [OF style_ok_used(1)]) (simp add: default_style_def)
qed

lemma load_evidences:
  "list_all plain_char v \<Longrightarrow> load_rows (replicate k (json_dumps default_style (evidence v))) = Inr (replicate k (evidence v))"
  by (induction k) (simp_all add: load_evidence)

lemma marked_rows:
  "List.map_filter (after_marker EVIDENCE_MARKER) (replicate k (evidence_line v)) = replicate k (json_dumps default_style (evidence v))"
  by (induction k) (simp_all add: List.map_filter_simps after_marker_evidence)

lemma unmarked_rows: "\<forall>l \<in> set ls. after_marker m l = None \<Longrightarrow> List.map_filter (after_marker m) ls = []"
  by (induction ls) (simp_all add: List.map_filter_simps)

lemma map_filter_append: "List.map_filter f (xs @ ys) = List.map_filter f xs @ List.map_filter f ys"
  by (simp add: List.map_filter_def)

section \<open>Properties\<close>

text \<open>The worker loop reaches the delivery it waits for. If the queue hands out its jobs in order
  and every job up to the delivery succeeds, with fewer than 50 before it and all of this site, the
  loop returns, the delivery's job has finished, and every job behind it still waits, untouched.\<close>

theorem worker_reaches_delivery:
  assumes "first_in_first_out rq" and "require_fixture_site fr enabled = Inr ()"
    and "rq_get_job rq job_id q = Some target" and "jb_method target = PStr PROCESS_METHOD"
    and "rq_status rq target q = py ''queued''"
    and jobs: "rq_jobs rq q = before @ target # rest" and "length (before @ target # rest) \<le> BACKLOG"
    and "\<forall>j \<in> set (target # before). jb_site j = PStr FIXTURE_SITE \<and> succeeds rq j"
    and "distinct (map jb_id (target # before))"
  shows "\<exists>q'. worker_once fr enabled rq job_id q = (Inr (), q') \<and> rq_jobs rq q' = rest
    \<and> rq_status rq target q' = py ''finished''
    \<and> (\<forall>i. jb_id i \<notin> jb_id ` set (target # before) \<longrightarrow> rq_status rq i q' = rq_status rq i q)"
proof -
  have "worker_target rq job_id q = Inr target"
    using assms(3-8) by (simp add: worker_target_def)
  moreover have "length before < BACKLOG" using assms(7) by simp
  ultimately show ?thesis
    using worker_loop_reaches [OF assms(1) jobs _ assms(8,9,5)] assms(2)
    by (simp add: worker_once_def bindA_def reads_def)
qed

text \<open>A queue that remembers what it has finished: a search index job waits before the delivery.\<close>

definition plain_queue :: "(rq_job list \<times> pystr list) rq" where
  "plain_queue = \<lparr>rq_jobs = fst, rq_get_job = (\<lambda>n q. find (\<lambda>j. jb_id j = n) (fst q)),
     rq_status = (\<lambda>j q. if jb_id j \<in> set (snd q) then py ''finished'' else py ''queued''),
     rq_work = (\<lambda>q. (Inr (), (tl (fst q), jb_id (hd (fst q)) # snd q)))\<rparr>"

definition index_job :: rq_job where
  "index_job = \<lparr>jb_id = py ''index'', jb_site = PStr FIXTURE_SITE, jb_method = PStr (py ''frappe.search''), jb_message_name = []\<rparr>"

definition delivery_job :: rq_job where
  "delivery_job = \<lparr>jb_id = py ''whatsapp:D1'', jb_site = PStr FIXTURE_SITE, jb_method = PStr PROCESS_METHOD,
     jb_message_name = py ''D1''\<rparr>"

theorem worker_reaches_delivery_witness:
  "\<exists>q'. worker_once (demo_frappe\<lparr>fr_site := FIXTURE_SITE\<rparr>) True plain_queue (py ''whatsapp:D1'')
       ([index_job, delivery_job, index_job], []) = (Inr (), q') \<and> fst q' = [index_job]"
proof -
  have fifo: "first_in_first_out plain_queue" by (auto simp: first_in_first_out_def plain_queue_def)
  have jobs: "rq_jobs plain_queue ([index_job, delivery_job, index_job], []) = [index_job] @ delivery_job # [index_job]"
    by (simp add: plain_queue_def)
  have "succeeds plain_queue j" for j by (auto simp: succeeds_def plain_queue_def)
  then have ok: "\<forall>j \<in> set (delivery_job # [index_job]). jb_site j = PStr FIXTURE_SITE \<and> succeeds plain_queue j"
    by (simp add: index_job_def delivery_job_def)
  have site: "require_fixture_site (demo_frappe\<lparr>fr_site := FIXTURE_SITE\<rparr>) True = Inr ()" by (simp add: require_fixture_site_def)
  have "\<exists>q'. worker_once (demo_frappe\<lparr>fr_site := FIXTURE_SITE\<rparr>) True plain_queue (py ''whatsapp:D1'')
       ([index_job, delivery_job, index_job], []) = (Inr (), q') \<and> rq_jobs plain_queue q' = [index_job]
      \<and> rq_status plain_queue delivery_job q' = py ''finished''
      \<and> (\<forall>i. jb_id i \<notin> jb_id ` set (delivery_job # [index_job]) \<longrightarrow>
           rq_status plain_queue i q' = rq_status plain_queue i ([index_job, delivery_job, index_job], []))"
    by (rule worker_reaches_delivery [OF fifo site _ _ _ jobs _ ok])
       (simp_all add: plain_queue_def delivery_job_def index_job_def BACKLOG_def)
  then show ?thesis by (auto simp: plain_queue_def)
qed

text \<open>Whatever runs while the gateway client is pointed at the peer, and however it ends, the
  client's module and the three environment variables are afterwards as they were; every other
  variable is as the run left it, and its outcome is passed on. During the run the client reads
  the peer's socket and key.\<close>

theorem captured_gateway_restores:
  "\<exists>p1. pc_socket p1 = socket \<and> pc_key_file p1 = key_file
     \<and> map (\<lambda>(k, _). row_get (pc_environ p1) k) (capture_keys socket key_file)
         = map (\<lambda>(_, v). Some v) (capture_keys socket key_file)
     \<and> outcome (captured_gateway socket key_file body) p = outcome body p1
     \<and> pc_socket (after (captured_gateway socket key_file body) p) = pc_socket p
     \<and> pc_key_file (after (captured_gateway socket key_file body) p) = pc_key_file p
     \<and> (\<forall>k. row_get (pc_environ (after (captured_gateway socket key_file body) p)) k =
           (if k \<in> set (map fst (capture_keys socket key_file)) then row_get (pc_environ p) k
            else row_get (pc_environ (after body p1)) k))"
proof -
  let ?keys = "capture_keys socket key_file"
  let ?p1 = "p\<lparr>pc_environ := fold (\<lambda>(k, v). row_put k v) ?keys (pc_environ p), pc_socket := socket, pc_key_file := key_file\<rparr>"
  have restored: "row_get (restore_variable kv e) k = (if k = fst kv then snd kv else row_get e k)" for kv e k
    by (auto simp: restore_variable_def row_get_def delete_conv' row_put_def update_conv' split: option.splits)
  have set_: "map (\<lambda>(k, _). row_get (pc_environ ?p1) k) ?keys = map (\<lambda>(_, v). Some v) ?keys"
    by (simp add: capture_keys_def)
  obtain r u where body: "body ?p1 = (r, u)" by (cases "body ?p1")
  have run: "captured_gateway socket key_file body p =
      (r, u\<lparr>pc_socket := pc_socket p, pc_key_file := pc_key_file p,
         pc_environ := fold restore_variable (map (\<lambda>(k, _). (k, row_get (pc_environ p) k)) ?keys) (pc_environ u)\<rparr>)"
    using body by (simp add: captured_gateway_def bindA_def reads_def modifies_def finallyA_def)
  have "row_get (fold restore_variable (map (\<lambda>(k, _). (k, row_get (pc_environ p) k)) ?keys) (pc_environ u)) k =
      (if k \<in> set (map fst ?keys) then row_get (pc_environ p) k else row_get (pc_environ u) k)" for k
    by (simp add: capture_keys_def restored)
  then show ?thesis using set_ body run by (intro exI [of _ ?p1]) simp
qed

text \<open>The evidence that is printed is the evidence that is read. Among any other lines of
  output, none of which holds the marker, one evidence line is accepted exactly for the version it
  names, and no evidence line or more than one is refused.\<close>

theorem evidence_is_read_back:
  assumes "list_all plain_char version"
    and "\<forall>l \<in> set (before @ behind). list_all (\<lambda>c. \<not> line_break c) l \<and> after_marker EVIDENCE_MARKER l = None"
  shows "verify (printed (before @ replicate k (evidence_line version) @ behind)) expected =
     (if k \<noteq> 1 then raise ValueError ''Exactly one enabled-group acceptance record is required''
      else if version \<noteq> expected
      then raise ValueError ''Enabled-group acceptance evidence is missing, false or mismatched''
      else Inr (evidence version))"
proof -
  let ?lines = "before @ replicate k (evidence_line version) @ behind"
  have lines: "splitlines (printed ?lines) = ?lines"
    by (rule splitlines_printed) (use assms(2) evidence_line_plain in auto)
  have rows: "List.map_filter (after_marker EVIDENCE_MARKER) ?lines = replicate k (json_dumps default_style (evidence version))"
    using assms(2) by (simp add: map_filter_append marked_rows unmarked_rows)
  have loaded: "load_rows (List.map_filter (after_marker EVIDENCE_MARKER) (splitlines (printed ?lines))) = Inr (replicate k (evidence version))"
    unfolding lines rows by (rule load_evidences [OF assms(1)])
  show ?thesis
  proof (cases "k = 1")
    case True
    then show ?thesis
      using loaded by (simp add: verify_def evidence_def dget_def required_evidence_def)
  next
    case False
    then consider "k = 0" | m where "k = Suc (Suc m)" by (metis One_nat_def not0_implies_Suc)
    then show ?thesis using loaded by cases (simp_all add: verify_def)
  qed
qed

theorem evidence_is_read_back_witness:
  "verify (printed [py ''ok'', evidence_line (py ''1.0.0''), py ''done'']) (py ''1.0.0'') = Inr (evidence (py ''1.0.0''))
   \<and> verify (printed [py ''ok'', py ''done'']) (py ''1.0.0'')
       = raise ValueError ''Exactly one enabled-group acceptance record is required''"
proof -
  have plain: "list_all plain_char (py ''1.0.0'')" by (simp add: py_def plain_ascii)
  have marker: "\<not> startswith l EVIDENCE_MARKER" if "length l < 20" for l
    using that by (auto simp: startswith_def EVIDENCE_MARKER_def dest!: arg_cong [of _ _ length])
  have none: "length l < 20 \<Longrightarrow> after_marker EVIDENCE_MARKER l = None" for l
    by (induction l) (simp_all add: marker, simp add: EVIDENCE_MARKER_def)
  have "\<forall>l \<in> set ([py ''ok''] @ [py ''done'']). list_all (\<lambda>c. \<not> line_break c) l \<and> after_marker EVIDENCE_MARKER l = None"
    by (simp add: none) (simp add: py_def line_break_def)
  note read = evidence_is_read_back [OF plain this, of _ "py ''1.0.0''"]
  show ?thesis using read [of 1] read [of 0] by simp
qed

end
