(* ===== verification/Diagnostics.thy ===== *)
theory Diagnostics
  imports Peer
begin

text \<open>
  The diagnostics of \<open>group_browser_acceptance.py\<close>: what is kept of the events of a browser. Only
  static source paths, method names, line numbers and known kinds of exceptions are recorded, in
  bounded lists.
\<close>

section \<open>The path of a URL\<close>

text \<open>
  \<open>urlsplit(url).path\<close> of the standard library, step by step: leading control characters and
  blanks, then every tab and line break are dropped; a scheme and a host are cut off, and the
  fragment and the query. The checks of the host (brackets, addresses, normal forms) only decide
  whether a \<open>ValueError\<close> is raised; they are the argument \<open>host_ok\<close>.
\<close>

definition ascii_letter :: "nat \<Rightarrow> bool" where
  "ascii_letter c \<longleftrightarrow> (65 \<le> c \<and> c \<le> 90) \<or> (97 \<le> c \<and> c \<le> 122)"

definition scheme_char :: "nat \<Rightarrow> bool" where
  "scheme_char c \<longleftrightarrow> ascii_letter c \<or> is_digit c \<or> c = 43 \<or> c = 45 \<or> c = 46"

definition clean_url :: "pystr \<Rightarrow> pystr" where
  "clean_url url = filter (\<lambda>c. c \<noteq> 9 \<and> c \<noteq> 10 \<and> c \<noteq> 13) (dropWhile (\<lambda>c. c \<le> 32) url)"

definition cut_scheme :: "pystr \<Rightarrow> pystr" where
  "cut_scheme url =
     (let name = takeWhile (\<lambda>c. c \<noteq> 58) url
      in if name \<noteq> url \<and> name \<noteq> [] \<and> ascii_letter (hd name) \<and> list_all scheme_char name
         then drop (Suc (length name)) url else url)"

definition host_end :: "nat \<Rightarrow> bool" where
  "host_end c \<longleftrightarrow> c = 47 \<or> c = 63 \<or> c = 35"

definition url_host :: "pystr \<Rightarrow> pystr" where
  "url_host url = (if startswith url (py ''//'') then takeWhile (\<lambda>c. \<not> host_end c) (drop 2 url) else [])"

definition cut_host :: "pystr \<Rightarrow> pystr" where
  "cut_host url = (if startswith url (py ''//'') then dropWhile (\<lambda>c. \<not> host_end c) (drop 2 url) else url)"

definition url_path :: "(pystr \<Rightarrow> bool) \<Rightarrow> pystr \<Rightarrow> exn + pystr" where
  "url_path host_ok url =
     (let rest = cut_scheme (clean_url url)
      in if \<not> host_ok (url_host rest) then raise ValueError ''Invalid URL''
         else Inr (takeWhile (\<lambda>c. c \<noteq> 63) (takeWhile (\<lambda>c. c \<noteq> 35) (cut_host rest))))"

section \<open>What is recorded\<close>

definition ASSET_PREFIXES :: "pystr list" where
  "ASSET_PREFIXES = [py ''/assets/frappe/'', py ''/assets/erpnext/'', py ''/assets/erpnext_whatsapp_connection/'']"

definition METHOD_PREFIX :: pystr where
  "METHOD_PREFIX = py ''/api/method/''"

definition method_char :: "nat \<Rightarrow> bool" where
  "method_char c \<longleftrightarrow> ascii_letter c \<or> is_digit c \<or> c = 46 \<or> c = 95"

definition REDACTED :: pystr where
  "REDACTED = py ''[redacted]''"

text \<open>\<open>urlsplit(url or '')\<close> takes text only: a list or a dictionary cannot be cached, a number
  cannot be decoded.\<close>

definition diagnostic_path :: "(pystr \<Rightarrow> bool) \<Rightarrow> pyval \<Rightarrow> exn + pystr" where
  "diagnostic_path host_ok url =
     bindR (case or_else url (PStr []) of
         PStr t \<Rightarrow> url_path host_ok t
       | PList _ \<Rightarrow> raise TypeError ''unhashable type''
       | PDict _ \<Rightarrow> raise TypeError ''unhashable type''
       | _ \<Rightarrow> raise AttributeError ''object has no attribute decode'') (\<lambda>path.
       Inr (if list_ex (startswith path) ASSET_PREFIXES then path
            else if startswith path METHOD_PREFIX \<and> drop (length METHOD_PREFIX) path \<noteq> []
                 \<and> list_all method_char (drop (length METHOD_PREFIX) path) then path
            else REDACTED))"

definition KINDS :: "pystr list" where
  "KINDS = [py ''Error'', py ''TypeError'', py ''ReferenceError'', py ''SyntaxError'', py ''RangeError'', py ''Object'', py ''DOMException'']"

text \<open>\<open>(details.get(key) or {}).get(inner)\<close>.\<close>

definition inner_get :: "pyval \<Rightarrow> string \<Rightarrow> string \<Rightarrow> exn + pyval" where
  "inner_get details key inner =
     bindR (response_get details key) (\<lambda>v. response_get (or_else v (PDict [])) inner)"

definition frame_report :: "(pystr \<Rightarrow> bool) \<Rightarrow> pyval \<Rightarrow> exn + pyval" where
  "frame_report host_ok frame =
     bindR (response_get frame ''url'') (\<lambda>url.
     bindR (diagnostic_path host_ok url) (\<lambda>source.
     bindR (response_get frame ''lineNumber'') (\<lambda>line.
     bindR (response_get frame ''columnNumber'') (\<lambda>column.
       Inr (PDict [(py ''source'', PStr source), (py ''line'', line), (py ''column'', column)])))))"

fun frame_reports :: "(pystr \<Rightarrow> bool) \<Rightarrow> pyval list \<Rightarrow> exn + pyval list" where
  "frame_reports host_ok [] = Inr []"
| "frame_reports host_ok (f # fs) =
     bindR (frame_report host_ok f) (\<lambda>r. bindR (frame_reports host_ok fs) (\<lambda>rs. Inr (r # rs)))"

text \<open>\<open>frames[:8]\<close>; a text has slices too, but its characters have no \<open>get\<close>.\<close>

definition first_frames :: "pyval \<Rightarrow> exn + pyval list" where
  "first_frames frames =
     (if \<not> truthy frames then Inr []
      else case frames of
        PList fs \<Rightarrow> Inr (take 8 fs)
      | PStr t \<Rightarrow> Inr (map (\<lambda>c. PStr [c]) (take 8 t))
      | PDict _ \<Rightarrow> raise KeyError ''slice''
      | _ \<Rightarrow> raise TypeError ''object is not subscriptable'')"

definition kind_of :: "pyval \<Rightarrow> exn + pystr" where
  "kind_of kind =
     (case kind of
        PStr k \<Rightarrow> Inr (if k \<in> set KINDS then k else py ''Other'')
      | PList _ \<Rightarrow> raise TypeError ''unhashable type''
      | PDict _ \<Rightarrow> raise TypeError ''unhashable type''
      | _ \<Rightarrow> Inr (py ''Other''))"

definition exception_location :: "(pystr \<Rightarrow> bool) \<Rightarrow> pyval \<Rightarrow> exn + pyval" where
  "exception_location host_ok details =
     bindR (inner_get details ''exception'' ''className'') (\<lambda>class.
     bindR (inner_get details ''stackTrace'' ''callFrames'') (\<lambda>frames.
     bindR (kind_of class) (\<lambda>kind.
     bindR (bindR (response_get details ''url'') (diagnostic_path host_ok)) (\<lambda>source.
     bindR (response_get details ''lineNumber'') (\<lambda>line.
     bindR (response_get details ''columnNumber'') (\<lambda>column.
     bindR (bindR (first_frames frames) (frame_reports host_ok)) (\<lambda>reports.
       Inr (PDict [(py ''kind'', PStr kind), (py ''source'', PStr source), (py ''line'', line),
         (py ''column'', column), (py ''frames'', PList reports)]))))))))"

section \<open>The reader of a browser\<close>

record browser =
  br_errors :: "pyval list"
  br_http_errors :: "pyval list"
  br_exception_objects :: "pyval list"
  br_responses :: "pyval list"
  br_reader_error :: "exn option"

definition new_browser :: browser where
  "new_browser = \<lparr>br_errors = [], br_http_errors = [], br_exception_objects = [], br_responses = [], br_reader_error = None\<rparr>"

definition ERROR_BOUND :: nat where
  "ERROR_BOUND = 50"

definition QUEUE_BOUND :: nat where
  "QUEUE_BOUND = 16"

text \<open>\<open>event['params'][key]\<close>.\<close>

definition item :: "pyval \<Rightarrow> string \<Rightarrow> exn + pyval" where
  "item v key =
     (case v of
        PDict d \<Rightarrow> (case map_of d (py key) of None \<Rightarrow> Inl (Exn KeyError (py key) False) | Some w \<Rightarrow> Inr w)
      | _ \<Rightarrow> raise TypeError ''object is not subscriptable'')"

definition event_params :: "pyval \<Rightarrow> string \<Rightarrow> exn + pyval" where
  "event_params event key = bindR (item event ''params'') (\<lambda>p. item p key)"

text \<open>\<open>response.get('status', 0) >= 400\<close>.\<close>

definition failed_status :: "pyval \<Rightarrow> exn + bool" where
  "failed_status response =
     (case response of
        PDict d \<Rightarrow>
          (case map_of d (py ''status'') of
             None \<Rightarrow> Inr False
           | Some (PInt i) \<Rightarrow> Inr (400 \<le> i)
           | Some (PBool b) \<Rightarrow> Inr False
           | Some _ \<Rightarrow> raise TypeError ''not supported between instances'')
      | _ \<Rightarrow> raise AttributeError ''object has no attribute get'')"

definition http_report :: "(pystr \<Rightarrow> bool) \<Rightarrow> pyval \<Rightarrow> exn + pyval" where
  "http_report host_ok response =
     bindR (response_get response ''url'') (\<lambda>url.
     bindR (diagnostic_path host_ok url) (\<lambda>source.
     bindR (item response ''status'') (\<lambda>status.
       Inr (PDict [(py ''source'', PStr source), (py ''status'', status)]))))"

definition exception_event :: "(pystr \<Rightarrow> bool) \<Rightarrow> pyval \<Rightarrow> (browser, unit) act" where
  "exception_event host_ok event =
     bindA (reads (\<lambda>b. if ERROR_BOUND \<le> length (br_errors b)
       then raise RuntimeError ''Browser exception buffer exhausted'' else Inr ())) (\<lambda>_.
     bindA (reads (\<lambda>_. event_params event ''exceptionDetails'')) (\<lambda>details.
     bindA (reads (\<lambda>_. exception_location host_ok details)) (\<lambda>report.
     bindA (modifies (\<lambda>b. b\<lparr>br_errors := br_errors b @ [report]\<rparr>)) (\<lambda>_.
     bindA (reads (\<lambda>_. inner_get details ''exception'' ''objectId'')) (\<lambda>object.
       modifies (\<lambda>b. b\<lparr>br_exception_objects := br_exception_objects b @ [object]\<rparr>))))))"

definition response_event :: "(pystr \<Rightarrow> bool) \<Rightarrow> pyval \<Rightarrow> (browser, unit) act" where
  "response_event host_ok event =
     bindA (reads (\<lambda>_. event_params event ''response'')) (\<lambda>response.
     bindA (reads (\<lambda>_. failed_status response)) (\<lambda>failed.
     bindA (reads (\<lambda>b. Inr (length (br_http_errors b)))) (\<lambda>n.
       if failed \<and> n < ERROR_BOUND
       then bindA (reads (\<lambda>_. http_report host_ok response)) (\<lambda>report.
              modifies (\<lambda>b. b\<lparr>br_http_errors := br_http_errors b @ [report]\<rparr>))
       else ret ())))"

definition answer_event :: "pyval \<Rightarrow> (browser, unit) act" where
  "answer_event event =
     bindA (reads (\<lambda>b. if QUEUE_BOUND \<le> length (br_responses b)
       then Inl (Exn QueueFull [] False) else Inr ())) (\<lambda>_.
       modifies (\<lambda>b. b\<lparr>br_responses := br_responses b @ [event]\<rparr>))"

definition read_event :: "(pystr \<Rightarrow> bool) \<Rightarrow> pyval \<Rightarrow> (browser, unit) act" where
  "read_event host_ok event =
     (case event of
        PDict d \<Rightarrow>
          (if dget d (py ''method'') = PStr (py ''Runtime.exceptionThrown'') then exception_event host_ok event
           else if dget d (py ''method'') = PStr (py ''Network.responseReceived'') then response_event host_ok event
           else if map_of d (py ''id'') \<noteq> None then answer_event event
           else ret ())
      | _ \<Rightarrow> fails (Exn AttributeError (py ''object has no attribute get'') False))"

text \<open>\<open>read\<close>: an exception ends the loop and is kept for the commands to report.\<close>

fun read :: "(pystr \<Rightarrow> bool) \<Rightarrow> pyval list \<Rightarrow> browser \<Rightarrow> browser" where
  "read host_ok [] b = b"
| "read host_ok (event # events) b =
     (case read_event host_ok event b of
        (Inl e, t) \<Rightarrow> t\<lparr>br_reader_error := Some e\<rparr>
      | (Inr _, t) \<Rightarrow> read host_ok events t)"

text \<open>What a command takes off the queue: answers to other commands are dropped.\<close>

fun take_response :: "int \<Rightarrow> pyval list \<Rightarrow> (exn + pyval) option \<times> pyval list" where
  "take_response n [] = (None, [])"
| "take_response n (PDict d # rs) =
     (if py_eq (dget d (py ''id'')) (PInt n)
      then (Some (if map_of d (py ''error'') \<noteq> None
                  then raise AssertionError ''Browser protocol command failed''
                  else Inr (case map_of d (py ''result'') of None \<Rightarrow> PDict [] | Some v \<Rightarrow> v)), rs)
      else take_response n rs)"
| "take_response n (_ # rs) = (Some (raise AttributeError ''object has no attribute get''), rs)"

section \<open>Nothing but static identifiers\<close>

definition safe_source :: "pystr \<Rightarrow> bool" where
  "safe_source s \<longleftrightarrow>
     s = REDACTED \<or>
     (list_ex (startswith s) ASSET_PREFIXES \<or> (\<exists>m. s = METHOD_PREFIX @ m \<and> m \<noteq> [] \<and> list_all method_char m))
       \<and> list_all (\<lambda>c. c \<notin> {9, 10, 13, 35, 63}) s"

definition safe_frame :: "pyval \<Rightarrow> bool" where
  "safe_frame v \<longleftrightarrow>
     (\<exists>source line column. v = PDict [(py ''source'', PStr source), (py ''line'', line), (py ''column'', column)]
        \<and> safe_source source)"

definition safe_report :: "pyval \<Rightarrow> bool" where
  "safe_report v \<longleftrightarrow>
     (\<exists>kind source line column frames.
        v = PDict [(py ''kind'', PStr kind), (py ''source'', PStr source), (py ''line'', line),
              (py ''column'', column), (py ''frames'', PList frames)]
        \<and> kind \<in> set (py ''Other'' # KINDS) \<and> safe_source source \<and> length frames \<le> 8 \<and> list_all safe_frame frames)"

definition safe_http_report :: "pyval \<Rightarrow> bool" where
  "safe_http_report v \<longleftrightarrow>
     (\<exists>source status. v = PDict [(py ''source'', PStr source), (py ''status'', status)] \<and> safe_source source)"

definition safe_browser :: "browser \<Rightarrow> bool" where
  "safe_browser b \<longleftrightarrow>
     length (br_errors b) \<le> ERROR_BOUND \<and> list_all safe_report (br_errors b)
     \<and> length (br_http_errors b) \<le> ERROR_BOUND \<and> list_all safe_http_report (br_http_errors b)
     \<and> length (br_exception_objects b) \<le> length (br_errors b)
     \<and> length (br_responses b) \<le> QUEUE_BOUND"

lemma url_path_clean:
  assumes "url_path host_ok url = Inr path"
  shows "list_all (\<lambda>c. c \<notin> {9, 10, 13, 35, 63}) path"
proof -
  have path: "path = takeWhile (\<lambda>c. c \<noteq> 63) (takeWhile (\<lambda>c. c \<noteq> 35) (cut_host (cut_scheme (clean_url url))))"
    using assms by (auto simp: url_path_def Let_def split: if_splits)
  have "set (takeWhile P (takeWhile Q u)) \<subseteq> set u" for P Q and u :: pystr by (auto dest: set_takeWhileD)
  moreover have "set (cut_host u) \<subseteq> set u" "set (cut_scheme u) \<subseteq> set u" for u
    by (auto simp: cut_host_def cut_scheme_def Let_def dest: in_set_dropD set_dropWhileD)
  ultimately have "set path \<subseteq> set (clean_url url)" unfolding path by (meson subset_trans)
  moreover have "c \<noteq> 9 \<and> c \<noteq> 10 \<and> c \<noteq> 13" if "c \<in> set (clean_url url)" for c
    using that by (auto simp: clean_url_def)
  moreover have "c \<noteq> 63 \<and> c \<noteq> 35" if "c \<in> set path" for c
    using that unfolding path by (auto dest: set_takeWhileD)
  ultimately show ?thesis by (auto simp: list_all_iff)
qed

lemma diagnostic_path_safe:
  assumes "diagnostic_path host_ok url = Inr source" shows "safe_source source"
proof -
  obtain t path where path: "url_path host_ok t = Inr path"
    and source: "source = (if list_ex (startswith path) ASSET_PREFIXES then path
       else if startswith path METHOD_PREFIX \<and> drop (length METHOD_PREFIX) path \<noteq> []
                 \<and> list_all method_char (drop (length METHOD_PREFIX) path) then path
       else REDACTED)"
    using assms by (auto simp: diagnostic_path_def bindR_Inr_iff split: pyval.splits)
  have "startswith path METHOD_PREFIX \<Longrightarrow> path = METHOD_PREFIX @ drop (length METHOD_PREFIX) path"
    by (metis append_take_drop_id startswith_def)
  then show ?thesis using url_path_clean [OF path] source by (auto simp: safe_source_def)
qed

lemma frame_reports_safe:
  "frame_reports host_ok fs = Inr rs \<Longrightarrow> length rs = length fs \<and> list_all safe_frame rs"
  by (induction fs arbitrary: rs)
     (fastforce simp: bindR_Inr_iff frame_report_def safe_frame_def dest: diagnostic_path_safe)+

lemma first_frames_bound: "first_frames v = Inr fs \<Longrightarrow> length fs \<le> 8"
  by (auto simp: first_frames_def split: if_splits pyval.splits)

lemma exception_location_safe:
  assumes "exception_location host_ok details = Inr report" shows "safe_report report"
proof -
  obtain klass kind url source line column frames first reports where
    parts: "kind_of klass = Inr kind" "diagnostic_path host_ok url = Inr source"
      "first_frames frames = Inr first" "frame_reports host_ok first = Inr reports"
    and report: "report = PDict [(py ''kind'', PStr kind), (py ''source'', PStr source), (py ''line'', line),
         (py ''column'', column), (py ''frames'', PList reports)]"
    using assms by (auto simp: exception_location_def bindR_Inr_iff)
  have "kind \<in> set (py ''Other'' # KINDS)"
    using parts(1) by (auto simp: kind_of_def split: pyval.splits if_splits)
  then show ?thesis
    using diagnostic_path_safe [OF parts(2)] first_frames_bound [OF parts(3)] frame_reports_safe [OF parts(4)]
    unfolding safe_report_def report by auto
qed

text \<open>Every event keeps the records safe and bounded, also one that ends the reader.\<close>

definition stays_safe :: "browser \<Rightarrow> browser \<Rightarrow> bool" where
  "stays_safe b t \<longleftrightarrow> (safe_browser b \<longrightarrow> safe_browser t)"

lemma stays_safe_preorder [simp]: "reflp stays_safe" "transp stays_safe"
  by (auto simp: stays_safe_def reflp_def transp_def)

lemma read_event_safe: "safe_browser b \<Longrightarrow> safe_browser (after (read_event host_ok event) b)"
proof -
  assume safe: "safe_browser b"
  have exception: "safe_browser (after (exception_event host_ok event) b)"
    using safe exception_location_safe [of host_ok]
    by (auto simp: exception_event_def bindA_def reads_def modifies_def safe_browser_def split: sum.splits)
  have response: "safe_browser (after (response_event host_ok event) b)"
    using safe
    by (auto simp: response_event_def bindA_def reads_def modifies_def ret_def safe_browser_def http_report_def
        bindR_Inr_iff safe_http_report_def dest: diagnostic_path_safe split: sum.splits)
  have answer: "safe_browser (after (answer_event event) b)"
    using safe by (auto simp: answer_event_def bindA_def reads_def modifies_def safe_browser_def)
  show ?thesis
    using safe exception response answer by (auto simp: read_event_def ret_def fails_def split: pyval.splits)
qed

lemma read_safe: "safe_browser b \<Longrightarrow> safe_browser (read host_ok events b)"
proof (induction events arbitrary: b)
  case Nil
  then show ?case by simp
next
  case (Cons event events)
  have "safe_browser (after (read_event host_ok event) b)" using Cons.prems by (rule read_event_safe)
  moreover have "safe_browser (t\<lparr>br_reader_error := e\<rparr>) = safe_browser t" for t e by (simp add: safe_browser_def)
  ultimately show ?case
    using Cons.IH by (auto split: prod.splits sum.splits)
qed

section \<open>Property\<close>

lemma new_browser_safe: "safe_browser new_browser"
  by (simp add: safe_browser_def new_browser_def)

text \<open>Whatever events a browser sends, the diagnostics hold nothing but static identifiers: at most
  50 exceptions and 50 failed responses are kept, each located by an asset path or method name of the
  add-on, Frappe or ERPNext, without query or fragment, or by the word redacted; an exception has
  one of the known kinds and at most eight frames. This holds also when an event ends the reader.\<close>

theorem diagnostics_are_static:
  "length (br_errors (read host_ok events new_browser)) \<le> 50
   \<and> length (br_http_errors (read host_ok events new_browser)) \<le> 50
   \<and> list_all safe_report (br_errors (read host_ok events new_browser))
   \<and> list_all safe_http_report (br_http_errors (read host_ok events new_browser))
   \<and> length (br_responses (read host_ok events new_browser)) \<le> 16"
  using read_safe [OF new_browser_safe, of host_ok events]
  by (simp add: safe_browser_def ERROR_BOUND_def QUEUE_BOUND_def)

end
