(* ===== verification/Browser_Driver.thy ===== *)
theory Browser_Driver
  imports Diagnostics Harness
begin

text \<open>
  The rest of the class \<open>Browser\<close> of \<open>group_browser_acceptance.py\<close>: the commands sent to the
  browser, with their answers and their deadlines, and \<open>native_http\<close>, which starts and stops the
  server the browser talks to. The loops of the source look at a clock again and again; they are
  functions that may not return (\<open>None\<close>), and the locale \<open>deadline_loop\<close> shows that they do.
\<close>

section \<open>Loops with a deadline\<close>

partial_function (option) iterate :: "('s \<Rightarrow> ('s + 'r) option) \<Rightarrow> 's \<Rightarrow> 'r option" where
  "iterate body s =
     (case body s of
        None \<Rightarrow> None
      | Some again \<Rightarrow> (case again of Inl t \<Rightarrow> iterate body t | Inr r \<Rightarrow> Some r))"

text \<open>A clock that never goes back and passes every point in time; readings are numbered.\<close>

definition clock_runs :: "(nat \<Rightarrow> int) \<Rightarrow> bool" where
  "clock_runs clock \<longleftrightarrow> mono clock \<and> (\<forall>t. \<exists>n. t < clock n)"

text \<open>Whoever goes round such a loop has read the clock and found that it is not yet too late.\<close>

locale deadline_loop =
  fixes clock :: "nat \<Rightarrow> int" and ticks :: "'s \<Rightarrow> nat"
    and body :: "'s \<Rightarrow> ('s + 'r) option" and deadline :: int
  assumes in_time: "body s = Some (Inl t) \<Longrightarrow> \<exists>n. ticks s \<le> n \<and> n < ticks t \<and> clock n \<le> deadline"
begin

lemma returns:
  assumes "clock_runs clock" and "\<forall>s. body s \<noteq> None"
  shows "iterate body s \<noteq> None"
proof -
  obtain last where late: "deadline < clock last" using assms(1) by (auto simp: clock_runs_def)
  have mono: "mono clock" using assms(1) by (simp add: clock_runs_def)
  show ?thesis
  proof (induction "last - ticks s" arbitrary: s rule: less_induct)
    case less
    obtain again where body: "body s = Some again" using assms(2) by auto
    show ?case
    proof (cases again)
      case (Inr r)
      then show ?thesis using body by (simp add: iterate.simps [of body s])
    next
      case (Inl t)
      obtain n where n: "ticks s \<le> n" "n < ticks t" "clock n \<le> deadline" using in_time body Inl by blast
      have "n < last"
      proof (rule ccontr)
        assume "\<not> n < last"
        then have "clock last \<le> clock n" using mono by (simp add: monoD)
        then show False using late n(3) by simp
      qed
      then have "iterate body t \<noteq> None" using less.hyps n(1,2) by simp
      then show ?thesis using body Inl by (simp add: iterate.simps [of body s])
    qed
  qed
qed

end

text \<open>What holds of the state at the end of a loop, if every round keeps it.\<close>

lemma iterate_result:
  assumes "iterate body s = Some r" and "I s"
    and "\<And>s t. body s = Some (Inl t) \<Longrightarrow> I s \<Longrightarrow> I t" and "\<And>s r. body s = Some (Inr r) \<Longrightarrow> I s \<Longrightarrow> Q r"
  shows "Q r"
proof -
  have "body = body \<longrightarrow> I s \<longrightarrow> Q r"
  proof (rule iterate.raw_induct [where P = "\<lambda>b s r. b = body \<longrightarrow> I s \<longrightarrow> Q r", OF _ assms(1)])
    fix f b s r
    assume IH: "\<And>b s r. f b s = Some r \<Longrightarrow> b = body \<longrightarrow> I s \<longrightarrow> Q r"
      and step: "(case b s of None \<Rightarrow> None | Some again \<Rightarrow> (case again of Inl t \<Rightarrow> f b t | Inr r \<Rightarrow> Some r)) = Some r"
    show "b = body \<longrightarrow> I s \<longrightarrow> Q r"
    proof (intro impI)
      assume "b = body" "I s"
      then show "Q r" using step IH assms(3,4) by (auto split: option.splits sum.splits)
    qed
  qed
  then show ?thesis using assms(2) by blast
qed

section \<open>The driver\<close>

text \<open>
  The browser, the connection to it and the clock are outside: \<open>devtools\<close> says what
  \<open>time.monotonic()\<close> reads, which events the reader thread takes off the connection and
  whether sending fails, each at a point of time of the driver. The driver's points of time are the
  readings of the clock, the looks into the queue and the commands it sends.
\<close>

record devtools =
  dt_clock :: "nat \<Rightarrow> int"
  dt_events :: "nat \<Rightarrow> pyval list"
  dt_send :: "nat \<Rightarrow> exn option"
  dt_host_ok :: "pystr \<Rightarrow> bool"

record driver =
  dr_browser :: browser
  dr_sequence :: int
  dr_sent :: "pystr list"
  dr_ticks :: nat

definition new_driver :: driver where
  "new_driver = \<lparr>dr_browser = new_browser, dr_sequence = 0, dr_sent = [], dr_ticks = 0\<rparr>"

definition seconds :: int where
  "seconds = 1000000"

text \<open>The reader thread runs beside the driver, unless an event has ended it.\<close>

definition reader :: "devtools \<Rightarrow> driver \<Rightarrow> driver" where
  "reader dt d =
     (if br_reader_error (dr_browser d) = None
      then d\<lparr>dr_browser := read (dt_host_ok dt) (dt_events dt (dr_ticks d)) (dr_browser d), dr_ticks := Suc (dr_ticks d)\<rparr>
      else d\<lparr>dr_ticks := Suc (dr_ticks d)\<rparr>)"

text \<open>Operations of the driver that may not return, and their sequence.\<close>

type_synonym ('s, 'a) looping = "'s \<Rightarrow> ((exn + 'a) \<times> 's) option"
type_synonym 'a drive = "(driver, 'a) looping"

definition bindD :: "('s, 'a) looping \<Rightarrow> ('a \<Rightarrow> ('s, 'b) looping) \<Rightarrow> ('s, 'b) looping" where
  "bindD m f d =
     (case m d of
        None \<Rightarrow> None
      | Some (Inl e, t) \<Rightarrow> Some (Inl e, t)
      | Some (Inr x, t) \<Rightarrow> f x t)"

definition liftR :: "exn + 'a \<Rightarrow> ('s, 'a) looping" where
  "liftR r d = Some (r, d)"

definition message_error :: "exn_class \<Rightarrow> string \<Rightarrow> pystr \<Rightarrow> exn" where
  "message_error cls m detail = Exn cls (py m @ detail) False"

subsection \<open>\<open>command\<close>\<close>

text \<open>\<open>self.responses.get(timeout=.5)\<close>.\<close>

definition next_response :: "devtools \<Rightarrow> driver \<Rightarrow> pyval option \<times> driver" where
  "next_response dt d =
     (let d = reader dt d
      in case br_responses (dr_browser d) of
           [] \<Rightarrow> (None, d)
         | r # rs \<Rightarrow> (Some r, d\<lparr>dr_browser := (dr_browser d)\<lparr>br_responses := rs\<rparr>\<rparr>))"

text \<open>The answer, if it is one to this command.\<close>

definition result_of :: "(pystr \<times> pyval) list \<Rightarrow> pyval" where
  "result_of r = (case map_of r (py ''result'') of None \<Rightarrow> PDict [] | Some v \<Rightarrow> v)"

definition answer_to :: "int \<Rightarrow> pystr \<Rightarrow> pyval \<Rightarrow> (exn + pyval) option" where
  "answer_to n method response =
     (case response of
        PDict r \<Rightarrow>
          (if \<not> py_eq (dget r (py ''id'')) (PInt n) then None
           else if map_of r (py ''error'') \<noteq> None
           then Some (Inl (message_error AssertionError ''Browser protocol command failed: '' method))
           else Some (Inr (result_of r)))
      | _ \<Rightarrow> Some (raise AttributeError ''object has no attribute get''))"

definition command_round ::
  "devtools \<Rightarrow> pystr \<Rightarrow> int \<Rightarrow> driver \<Rightarrow> (driver + (exn + pyval) \<times> driver) option" where
  "command_round dt method deadline d =
     Some (let t = reader dt d
           in if \<not> dt_clock dt (dr_ticks d) < deadline
              then Inr (Inl (message_error TimeoutError ''Browser command timed out: '' method), t)
              else if br_reader_error (dr_browser t) \<noteq> None
              then Inr (raise RuntimeError ''Browser protocol reader failed'', t)
              else case next_response dt t of
                     (None, u) \<Rightarrow> Inl u
                   | (Some response, u) \<Rightarrow>
                       (case answer_to (dr_sequence u) method response of
                          None \<Rightarrow> Inl u
                        | Some r \<Rightarrow> Inr (r, u)))"

definition send_command :: "devtools \<Rightarrow> pystr \<Rightarrow> pyval \<Rightarrow> unit drive" where
  "send_command dt method params d =
     (let d = d\<lparr>dr_sequence := dr_sequence d + 1\<rparr>;
          t = reader dt d
      in Some (case dt_send dt (dr_ticks d) of
           Some e \<Rightarrow> (Inl e, t)
         | None \<Rightarrow> (Inr (), t\<lparr>dr_sent := dr_sent t @ [json_dumps default_style
             (PDict [(py ''id'', PInt (dr_sequence t)), (py ''method'', PStr method), (py ''params'', or_else params (PDict []))])]\<rparr>)))"

definition command :: "devtools \<Rightarrow> pystr \<Rightarrow> pyval \<Rightarrow> pyval drive" where
  "command dt method params =
     bindD (send_command dt method params) (\<lambda>_ d.
       iterate (command_round dt method (dt_clock dt (dr_ticks d) + 45 * seconds)) (reader dt d))"

subsection \<open>\<open>evaluate\<close>, \<open>wait\<close>, \<open>click\<close>\<close>

text \<open>\<open>v.get(key, default)\<close>.\<close>

definition get_default :: "pyval \<Rightarrow> string \<Rightarrow> pyval \<Rightarrow> exn + pyval" where
  "get_default v key other =
     (case v of
        PDict d \<Rightarrow> Inr (case map_of d (py key) of None \<Rightarrow> other | Some w \<Rightarrow> w)
      | _ \<Rightarrow> raise AttributeError ''object has no attribute get'')"

text \<open>A failed assertion whose message ends in a value of the browser, which must be text.\<close>

definition assert_failed :: "string \<Rightarrow> pyval \<Rightarrow> exn" where
  "assert_failed m detail =
     (case detail of
        PStr t \<Rightarrow> message_error AssertionError m t
      | _ \<Rightarrow> Exn TypeError (py ''can only concatenate str'') False)"

definition evaluated :: "pyval \<Rightarrow> exn + pyval" where
  "evaluated result =
     bindR (response_get result ''exceptionDetails'') (\<lambda>details.
       if truthy details
       then bindR (get_default details ''text'' (PStr (py ''Uncaught exception''))) (\<lambda>t.
              Inl (assert_failed ''Native browser expression failed: '' t))
       else bindR (get_default result ''result'' (PDict [])) (\<lambda>r. response_get r ''value''))"

definition evaluate :: "devtools \<Rightarrow> pystr \<Rightarrow> pyval drive" where
  "evaluate dt expression =
     bindD (command dt (py ''Runtime.evaluate'') (PDict [(py ''expression'', PStr expression),
         (py ''returnByValue'', PBool True), (py ''awaitPromise'', PBool True)])) (\<lambda>result.
       liftR (evaluated result))"

text \<open>The pause between two evaluations is a point of time of its own.\<close>

definition wait_round :: "devtools \<Rightarrow> pystr \<Rightarrow> int \<Rightarrow> driver \<Rightarrow> (driver + (exn + unit) \<times> driver) option" where
  "wait_round dt expression deadline d =
     (if \<not> dt_clock dt (dr_ticks d) < deadline
      then Some (Inr (raise AssertionError ''Native settings browser did not reach its required state'', reader dt d))
      else case evaluate dt expression (reader dt d) of
             None \<Rightarrow> None
           | Some (Inl e, t) \<Rightarrow> Some (Inr (Inl e, t))
           | Some (Inr v, t) \<Rightarrow> Some (if truthy v then Inr (Inr (), t) else Inl (reader dt t)))"

definition wait :: "devtools \<Rightarrow> pystr \<Rightarrow> unit drive" where
  "wait dt expression d =
     iterate (wait_round dt expression (dt_clock dt (dr_ticks d) + 60 * seconds)) (reader dt d)"

definition click_head :: pystr where
  "click_head =
     py ''(() => {\<newline>'' @
     py ''            const element = (''"

definition click_tail :: pystr where
  "click_tail =
     py '');\<newline>'' @
     py ''            if (!element) return {unavailable:'missing'};\<newline>'' @
     py ''            if (element.disabled) return {unavailable:'disabled'};\<newline>'' @
     py ''            element.scrollIntoView({block:'center', inline:'center'});\<newline>'' @
     py ''            const rect = element.getBoundingClientRect();\<newline>'' @
     py ''            if (!rect.width || !rect.height) return {unavailable:'hidden'};\<newline>'' @
     py ''            return {x:rect.x + rect.width/2, y:rect.y + rect.height/2};\<newline>'' @
     py ''        })()''"

text \<open>\<open>{**d, **point}\<close>.\<close>

definition dict_merge :: "(pystr \<times> pyval) list \<Rightarrow> (pystr \<times> pyval) list \<Rightarrow> (pystr \<times> pyval) list" where
  "dict_merge d point = fold (\<lambda>(k, v) d. dset d k v) point d"

definition mouse_event :: "string \<Rightarrow> int \<Rightarrow> (pystr \<times> pyval) list \<Rightarrow> pyval" where
  "mouse_event kind buttons point =
     PDict (dict_merge [(py ''type'', PStr (py kind)), (py ''button'', PStr (py ''left'')),
       (py ''buttons'', PInt buttons), (py ''clickCount'', PInt 1)] point)"

text \<open>Where to click: the page must have found the control.\<close>

definition click_point :: "pyval \<Rightarrow> exn + (pystr \<times> pyval) list" where
  "click_point point =
     (case point of
        PDict d \<Rightarrow>
          (if truthy (dget d (py ''unavailable''))
           then Inl (assert_failed ''Required native browser control is '' (dget d (py ''unavailable'')))
           else Inr d)
      | _ \<Rightarrow> raise AttributeError ''object has no attribute get'')"

definition click :: "devtools \<Rightarrow> pystr \<Rightarrow> unit drive" where
  "click dt expression =
     bindD (evaluate dt (click_head @ expression @ click_tail)) (\<lambda>point.
     bindD (liftR (click_point point)) (\<lambda>point.
     bindD (command dt (py ''Input.dispatchMouseEvent'') (mouse_event ''mousePressed'' 1 point)) (\<lambda>_.
     bindD (command dt (py ''Input.dispatchMouseEvent'') (mouse_event ''mouseReleased'' 0 point)) (\<lambda>_.
       liftR (Inr ())))))"

subsection \<open>\<open>diagnostics\<close>\<close>

definition status_function :: pystr where
  "status_function =
     py ''function() {\<newline>'' @
     py ''                    const known = new Set(['PermissionError','ValidationError','AuthenticationError',\<newline>'' @
     py ''                        'MandatoryError','DoesNotExistError','CSRFTokenError','SessionExpired']);\<newline>'' @
     py ''                    const kind = this.responseJSON?.exc_type || this.exc_type;\<newline>'' @
     py ''                    return {status: Number.isInteger(this.status) ? this.status : null,\<newline>'' @
     py ''                        dom_exception: ['NotAllowedError','AbortError','SecurityError'].includes(this.name)\<newline>'' @
     py ''                            ? this.name : null,\<newline>'' @
     py ''                        exception_type: known.has(kind) ? kind : 'Other'};\<newline>'' @
     py ''                }''"

definition object_status :: "devtools \<Rightarrow> pyval \<Rightarrow> pyval list drive" where
  "object_status dt object_id =
     (if \<not> truthy object_id then liftR (Inr [])
      else bindD (command dt (py ''Runtime.callFunctionOn'') (PDict [(py ''objectId'', object_id),
               (py ''returnByValue'', PBool True), (py ''functionDeclaration'', PStr status_function)])) (\<lambda>result.
           liftR (bindR (response_get result ''exceptionDetails'') (\<lambda>details.
             if truthy details then Inr []
             else bindR (get_default result ''result'' (PDict [])) (\<lambda>r.
                  bindR (response_get r ''value'') (\<lambda>v. Inr [v]))))))"

fun object_statuses :: "devtools \<Rightarrow> pyval list \<Rightarrow> pyval list drive" where
  "object_statuses dt [] = liftR (Inr [])"
| "object_statuses dt (object # objects) =
     bindD (object_status dt object) (\<lambda>vs.
     bindD (object_statuses dt objects) (\<lambda>ws. liftR (Inr (vs @ ws))))"

definition diagnostics :: "devtools \<Rightarrow> pyval drive" where
  "diagnostics dt d =
     bindD (object_statuses dt (br_exception_objects (dr_browser d))) (\<lambda>statuses t.
       Some (Inr (PDict [(py ''exceptions'', PList (br_errors (dr_browser t))),
         (py ''http_errors'', PList (br_http_errors (dr_browser t))),
         (py ''rejected_requests'', PList statuses)]), t)) d"

section \<open>Everything returns\<close>

lemma reader_fields [simp]:
  "dr_ticks (reader dt d) = Suc (dr_ticks d)" "dr_sequence (reader dt d) = dr_sequence d" "dr_sent (reader dt d) = dr_sent d"
  by (simp_all add: reader_def)

lemma next_response_fields:
  assumes "next_response dt d = (r, t)"
  shows "dr_ticks t = Suc (dr_ticks d)" "dr_sequence t = dr_sequence d" "dr_sent t = dr_sent d"
  using assms by (auto simp: next_response_def Let_def split: list.splits)

interpretation command_loop: deadline_loop "dt_clock dt" dr_ticks "command_round dt name late" late for dt name late
proof unfold_locales
  fix d t assume "command_round dt name late d = Some (Inl t)"
  then have "dt_clock dt (dr_ticks d) < late" "dr_ticks d < dr_ticks t"
    by (auto simp: command_round_def Let_def split: if_splits prod.splits option.splits dest: next_response_fields)
  then show "\<exists>n. dr_ticks d \<le> n \<and> n < dr_ticks t \<and> dt_clock dt n \<le> late" by force
qed

lemma command_returns: "clock_runs (dt_clock dt) \<Longrightarrow> command dt method params d \<noteq> None"
  using command_loop.returns [of dt "method"]
  by (auto simp: command_def bindD_def send_command_def Let_def command_round_def split: option.splits)

text \<open>Operations only go forward: the sequence number and the time grow, the records stay safe.\<close>

definition onward :: "driver \<Rightarrow> driver \<Rightarrow> bool" where
  "onward d t \<longleftrightarrow> dr_ticks d \<le> dr_ticks t \<and> dr_sequence d \<le> dr_sequence t \<and> stays_safe (dr_browser d) (dr_browser t)"

lemma onward_refl: "onward d d"
  by (simp add: onward_def stays_safe_def)

lemma onward_trans: "onward d t \<Longrightarrow> onward t u \<Longrightarrow> onward d u"
  by (auto simp: onward_def stays_safe_def)

definition goes_on :: "'a drive \<Rightarrow> bool" where
  "goes_on m \<longleftrightarrow> (\<forall>d r t. m d = Some (r, t) \<longrightarrow> onward d t)"

lemma goes_onD: "goes_on m \<Longrightarrow> m d = Some (r, t) \<Longrightarrow> onward d t"
  by (auto simp: goes_on_def)

lemma goes_on_bindD: "goes_on m \<Longrightarrow> (\<And>x. goes_on (f x)) \<Longrightarrow> goes_on (bindD m f)"
  unfolding goes_on_def bindD_def by (auto split: option.splits sum.splits) (meson onward_trans)+

lemma goes_on_liftR [simp]: "goes_on (liftR r)"
  by (simp add: goes_on_def liftR_def onward_refl)

lemma onward_reader: "onward d (reader dt d)"
  by (auto simp: onward_def reader_def stays_safe_def read_safe)

lemma onward_next_response: "next_response dt d = (r, t) \<Longrightarrow> onward d t"
  using onward_reader [of d dt]
  by (auto simp: next_response_def Let_def onward_def stays_safe_def safe_browser_def split: list.splits)

lemma goes_on_iterate:
  assumes "\<And>s t. body s = Some (Inl t) \<Longrightarrow> onward s t" and "\<And>s r t. body s = Some (Inr (r, t)) \<Longrightarrow> onward s t"
  shows "goes_on (iterate body)"
  unfolding goes_on_def
proof (intro allI impI)
  fix d r t assume "iterate body d = Some (r, t)"
  then have "onward d (snd (r, t))"
    by (rule iterate_result [where I = "onward d" and Q = "\<lambda>x. onward d (snd x)"])
       (use assms in \<open>auto intro: onward_refl onward_trans\<close>)
  then show "onward d t" by simp
qed

lemma command_round_onward:
  "command_round dt method deadline d = Some (Inl t) \<Longrightarrow> onward d t"
  "command_round dt method deadline d = Some (Inr (r, t)) \<Longrightarrow> onward d t"
  using onward_reader [of d dt]
  by (auto simp: command_round_def Let_def split: if_splits prod.splits option.splits
      intro: onward_trans dest: onward_next_response)

lemma goes_on_command [simp]: "goes_on (command dt method params)"
proof -
  have loop: "goes_on (iterate (command_round dt method deadline))" for deadline
    by (rule goes_on_iterate) (auto dest: command_round_onward)
  have "goes_on (\<lambda>d. iterate (command_round dt method (dt_clock dt (dr_ticks d) + 45 * seconds)) (reader dt d))"
    unfolding goes_on_def using goes_onD [OF loop] onward_reader onward_trans by blast
  moreover have "goes_on (send_command dt method params)"
    by (auto simp: goes_on_def send_command_def Let_def onward_def reader_def stays_safe_def read_safe
        split: option.splits if_splits)
  ultimately show ?thesis unfolding command_def by (intro goes_on_bindD) simp_all
qed

lemma goes_on_evaluate [simp]: "goes_on (evaluate dt expression)"
  unfolding evaluate_def by (intro goes_on_bindD) simp_all

lemma evaluate_returns: "clock_runs (dt_clock dt) \<Longrightarrow> evaluate dt expression d \<noteq> None"
  using command_returns by (auto simp: evaluate_def bindD_def liftR_def split: option.splits sum.splits)

interpretation wait_loop: deadline_loop "dt_clock dt" dr_ticks "wait_round dt expression deadline" deadline
  for dt expression deadline
proof unfold_locales
  fix d t assume "wait_round dt expression deadline d = Some (Inl t)"
  then obtain v u where "dt_clock dt (dr_ticks d) < deadline" "evaluate dt expression (reader dt d) = Some (Inr v, u)" "t = reader dt u"
    by (auto simp: wait_round_def split: if_splits option.splits sum.splits)
  moreover from this have "onward (reader dt d) u" by (auto dest: goes_onD [OF goes_on_evaluate])
  ultimately have "dt_clock dt (dr_ticks d) < deadline" "dr_ticks d < dr_ticks t" by (simp_all add: onward_def)
  then show "\<exists>n. dr_ticks d \<le> n \<and> n < dr_ticks t \<and> dt_clock dt n \<le> deadline" by force
qed

lemma wait_returns: "clock_runs (dt_clock dt) \<Longrightarrow> wait dt expression d \<noteq> None"
proof -
  assume clock: "clock_runs (dt_clock dt)"
  have "wait_round dt expression deadline s \<noteq> None" for deadline s
    using evaluate_returns [OF clock, of expression "reader dt s"]
    by (cases "evaluate dt expression (reader dt s)") (auto simp: wait_round_def split: sum.splits)
  then show ?thesis using wait_loop.returns [OF clock] by (simp add: wait_def)
qed

lemma bindD_returns: "(\<And>d. m d \<noteq> None) \<Longrightarrow> (\<And>x d. f x d \<noteq> None) \<Longrightarrow> bindD m f d \<noteq> None"
  by (auto simp: bindD_def split: option.splits sum.splits)

lemma liftR_returns: "liftR r d \<noteq> None"
  by (simp add: liftR_def)

lemma click_returns: "clock_runs (dt_clock dt) \<Longrightarrow> click dt expression d \<noteq> None"
  unfolding click_def by (intro bindD_returns liftR_returns evaluate_returns command_returns)

lemma object_statuses_return: "clock_runs (dt_clock dt) \<Longrightarrow> object_statuses dt objects d \<noteq> None"
proof (induction objects arbitrary: d)
  case Nil
  then show ?case by (simp add: liftR_def)
next
  case (Cons object objects)
  have one: "object_status dt object d \<noteq> None" for d
  proof (cases "truthy object")
    case True
    then have "\<not> \<not> truthy object" by simp
    then show ?thesis
      unfolding object_status_def if_not_P [OF \<open>\<not> \<not> truthy object\<close>]
      by (intro bindD_returns command_returns [OF Cons.prems] liftR_returns)
  next
    case False
    then show ?thesis by (simp add: object_status_def liftR_def)
  qed
  show ?case
    unfolding object_statuses.simps by (intro bindD_returns liftR_returns one Cons)
qed

lemma diagnostics_return: "clock_runs (dt_clock dt) \<Longrightarrow> diagnostics dt d \<noteq> None"
  unfolding diagnostics_def by (intro bindD_returns object_statuses_return) simp_all

section \<open>Answers belong to their command\<close>

lemma read_responses: "set (br_responses (read host_ok events b)) \<subseteq> set (br_responses b) \<union> set events"
proof (induction events arbitrary: b)
  case Nil
  then show ?case by simp
next
  case (Cons event events)
  have one: "set (br_responses (after (read_event host_ok event) b)) \<subseteq> insert event (set (br_responses b))"
    by (auto simp: read_event_def exception_event_def response_event_def answer_event_def bindA_def reads_def modifies_def
        ret_def fails_def split: pyval.splits sum.splits if_splits)
  then show ?case using Cons by (fastforce split: prod.splits sum.splits)
qed

text \<open>What a driver may find in its queue: what was there, and what has arrived since.\<close>

definition in_reach :: "devtools \<Rightarrow> driver \<Rightarrow> driver \<Rightarrow> bool" where
  "in_reach dt d t \<longleftrightarrow>
     dr_ticks d \<le> dr_ticks t \<and>
     set (br_responses (dr_browser t))
       \<subseteq> set (br_responses (dr_browser d)) \<union> (\<Union>n \<in> {dr_ticks d ..< dr_ticks t}. set (dt_events dt n))"

lemma in_reach_reader: "in_reach dt d t \<Longrightarrow> in_reach dt d (reader dt t)"
proof -
  assume reach: "in_reach dt d t"
  then have "{dr_ticks d ..< Suc (dr_ticks t)} = insert (dr_ticks t) {dr_ticks d ..< dr_ticks t}"
    by (auto simp: in_reach_def)
  then show ?thesis
    using reach read_responses [of "dt_host_ok dt" "dt_events dt (dr_ticks t)" "dr_browser t"]
    by (auto simp: in_reach_def reader_def)
qed

lemma next_response_reach:
  assumes "next_response dt t = (r, u)" and "in_reach dt d t"
  shows "in_reach dt d u"
    and "r = Some v \<Longrightarrow> v \<in> set (br_responses (dr_browser d)) \<union> (\<Union>n \<in> {dr_ticks d ..< dr_ticks u}. set (dt_events dt n))"
  using assms(1) in_reach_reader [OF assms(2)]
  by (auto simp: next_response_def Let_def in_reach_def split: list.splits)

text \<open>The value of a command is the result of such an answer, to this very command.\<close>

definition answered :: "devtools \<Rightarrow> driver \<Rightarrow> driver \<Rightarrow> pyval \<Rightarrow> bool" where
  "answered dt d t v \<longleftrightarrow>
     (\<exists>r. PDict r \<in> set (br_responses (dr_browser d)) \<union> (\<Union>n \<in> {dr_ticks d ..< dr_ticks t}. set (dt_events dt n))
        \<and> py_eq (dget r (py ''id'')) (PInt (dr_sequence t)) \<and> map_of r (py ''error'') = None
        \<and> v = result_of r)"

lemma command_round_again:
  "command_round dt method deadline u = Some (Inl t) \<Longrightarrow> \<exists>x. next_response dt (reader dt u) = (x, t)"
  by (auto simp: command_round_def Let_def split: if_splits option.splits prod.splits)

lemma command_round_answer:
  assumes "command_round dt method deadline u = Some (Inr (Inr v, t))"
  shows "\<exists>r. next_response dt (reader dt u) = (Some (PDict r), t) \<and> py_eq (dget r (py ''id'')) (PInt (dr_sequence t))
    \<and> map_of r (py ''error'') = None \<and> v = result_of r"
  using assms
  by (auto simp: command_round_def Let_def answer_to_def split: if_splits option.splits prod.splits pyval.splits)

lemma answeredI:
  "PDict r \<in> set (br_responses (dr_browser d)) \<union> (\<Union>n \<in> {dr_ticks d ..< dr_ticks t}. set (dt_events dt n)) \<Longrightarrow>
     py_eq (dget r (py ''id'')) (PInt (dr_sequence t)) \<Longrightarrow> map_of r (py ''error'') = None \<Longrightarrow>
     answered dt d t (result_of r)"
  unfolding answered_def by blast

lemma command_answered:
  assumes "command dt method params d = Some (Inr v, t)"
  shows "dr_sequence t = dr_sequence d + 1 \<and> answered dt d t v"
proof -
  obtain s deadline where s: "in_reach dt d s" "dr_sequence s = dr_sequence d + 1"
    and loop: "iterate (command_round dt method deadline) s = Some (Inr v, t)"
  proof -
    obtain u where send: "send_command dt method params d = Some (Inr (), u)"
      and loop: "iterate (command_round dt method (dt_clock dt (dr_ticks u) + 45 * seconds)) (reader dt u) = Some (Inr v, t)"
      using assms by (auto simp: command_def bindD_def split: option.splits sum.splits)
    have "in_reach dt d (d\<lparr>dr_sequence := dr_sequence d + 1\<rparr>)" by (simp add: in_reach_def)
    then have "in_reach dt d u" "dr_sequence u = dr_sequence d + 1"
      using send in_reach_reader by (fastforce simp: send_command_def Let_def in_reach_def split: option.splits)+
    then show thesis using that [OF in_reach_reader _ loop] by simp
  qed
  define I where "I = (\<lambda>u. in_reach dt d u \<and> dr_sequence u = dr_sequence d + 1)"
  define Q where "Q = (\<lambda>(r :: exn + pyval, u). case r of Inl e \<Rightarrow> True | Inr w \<Rightarrow> dr_sequence u = dr_sequence d + 1 \<and> answered dt d u w)"
  have round: "(\<forall>t. command_round dt method deadline u = Some (Inl t) \<longrightarrow> I t)
      \<and> (\<forall>r. command_round dt method deadline u = Some (Inr r) \<longrightarrow> Q r)" if "I u" for u
  proof -
    have reach: "in_reach dt d (reader dt u)" "dr_sequence u = dr_sequence d + 1"
      using that in_reach_reader by (simp_all add: I_def)
    have again: "I t" if t: "command_round dt method deadline u = Some (Inl t)" for t
    proof -
      obtain x where got: "next_response dt (reader dt u) = (x, t)" using command_round_again [OF t] by blast
      show ?thesis
        using next_response_reach(1) [OF got reach(1)] next_response_fields(2) [OF got] reach(2) by (simp add: I_def)
    qed
    have "Q (Inr v, t)" if t: "command_round dt method deadline u = Some (Inr (Inr v, t))" for v t
    proof -
      obtain r where got: "next_response dt (reader dt u) = (Some (PDict r), t)"
        and r: "py_eq (dget r (py ''id'')) (PInt (dr_sequence t))" "map_of r (py ''error'') = None" "v = result_of r"
        using command_round_answer [OF t] by blast
      have "answered dt d t v"
        unfolding r(3) using answeredI [OF next_response_reach(2) [OF got reach(1)] r(1,2)] by simp
      then show ?thesis using next_response_fields(2) [OF got] reach(2) by (simp add: Q_def)
    qed
    moreover have "Q (Inl e, t)" for e t by (simp add: Q_def)
    ultimately have "Q (r, t)" if "command_round dt method deadline u = Some (Inr (r, t))" for r t
      using that by (cases r) simp_all
    then show ?thesis using again by (metis surj_pair)
  qed
  have "I s" using s by (simp add: I_def)
  then have "Q (Inr v, t)" by (rule iterate_result [OF loop]) (use round in blast)+
  then show ?thesis by (simp add: Q_def)
qed

section \<open>The server of the browser\<close>

text \<open>
  \<open>native_http\<close>: a server process is started, pinged until it answers, and stopped at the end,
  whatever happened meanwhile. The process and the network are outside: the status of a ping
  (\<open>None\<close> for a \<open>RequestException\<close>), whether the process has exited, and whether a wait for
  it ends in time, at each point of time.
\<close>

record web_host =
  wh_clock :: "nat \<Rightarrow> int"
  wh_ping :: "nat \<Rightarrow> int option"
  wh_exited :: "nat \<Rightarrow> bool"
  wh_stops :: "nat \<Rightarrow> bool"

record web =
  wb_ticks :: nat
  wb_started :: bool
  wb_session_open :: bool
  wb_terminated :: bool
  wb_killed :: bool

definition finallyD :: "('s, 'a) looping \<Rightarrow> ('s, unit) looping \<Rightarrow> ('s, 'a) looping" where
  "finallyD m f s =
     (case m s of
        None \<Rightarrow> None
      | Some (r, t) \<Rightarrow>
          (case f t of
             None \<Rightarrow> None
           | Some (Inl e, u) \<Rightarrow> Some (Inl e, u)
           | Some (Inr _, u) \<Rightarrow> Some (r, u)))"

definition changesD :: "('s \<Rightarrow> 's) \<Rightarrow> ('s, unit) looping" where
  "changesD f s = Some (Inr (), f s)"

definition health_round :: "web_host \<Rightarrow> int \<Rightarrow> web \<Rightarrow> (web + (exn + unit) \<times> web) option" where
  "health_round wh deadline w =
     Some (if wh_ping wh (wb_ticks w) = Some 200 then Inr (Inr (), w)
           else if wh_exited wh (wb_ticks w) \<or> deadline < wh_clock wh (wb_ticks w)
           then Inr (raise AssertionError ''Disposable native HTTP server did not start'', w)
           else Inl (w\<lparr>wb_ticks := Suc (wb_ticks w)\<rparr>))"

definition await_server :: "web_host \<Rightarrow> (web, unit) looping" where
  "await_server wh w =
     iterate (health_round wh (wh_clock wh (wb_ticks w) + 30 * seconds)) (w\<lparr>wb_ticks := Suc (wb_ticks w)\<rparr>)"

definition stop_server :: "web_host \<Rightarrow> (web, unit) looping" where
  "stop_server wh =
     bindD (changesD (\<lambda>w. w\<lparr>wb_session_open := False\<rparr>)) (\<lambda>_.
     bindD (changesD (\<lambda>w. w\<lparr>wb_terminated := True\<rparr>)) (\<lambda>_ w.
       if wh_stops wh (wb_ticks w) then Some (Inr (), w\<lparr>wb_ticks := Suc (wb_ticks w)\<rparr>)
       else let k = w\<lparr>wb_killed := True, wb_ticks := Suc (wb_ticks w)\<rparr>
            in Some (if wh_stops wh (wb_ticks k) then Inr () else Inl (Exn TimeoutExpired [] False), k)))"

definition native_http :: "frappe \<Rightarrow> bool \<Rightarrow> web_host \<Rightarrow> (web, 'a) looping \<Rightarrow> (web, 'a) looping" where
  "native_http fr enabled wh body =
     bindD (liftR (require_fixture_site fr enabled)) (\<lambda>_.
     bindD (changesD (\<lambda>w. w\<lparr>wb_started := True, wb_session_open := True\<rparr>)) (\<lambda>_.
       finallyD (bindD (await_server wh) (\<lambda>_. body)) (stop_server wh)))"

interpretation health_loop: deadline_loop "wh_clock wh" wb_ticks "health_round wh deadline" deadline
  for wh deadline
proof unfold_locales
  fix w t assume "health_round wh deadline w = Some (Inl t)"
  then have "wb_ticks w < wb_ticks t" "wh_clock wh (wb_ticks w) \<le> deadline"
    by (auto simp: health_round_def split: if_splits)
  then show "\<exists>n. wb_ticks w \<le> n \<and> n < wb_ticks t \<and> wh_clock wh n \<le> deadline" by blast
qed

lemma finallyD_returns:
  assumes "\<And>s. m s \<noteq> None" and "\<And>s. f s \<noteq> None" shows "finallyD m f s \<noteq> None"
proof -
  obtain r t where "m s = Some (r, t)" using assms(1) [of s] by auto
  moreover obtain q u where "f t = Some (q, u)" using assms(2) [of t] by auto
  ultimately show ?thesis by (simp add: finallyD_def split: sum.split)
qed

lemma native_http_returns:
  assumes "clock_runs (wh_clock wh)" and "\<And>w. body w \<noteq> None"
  shows "native_http fr enabled wh body w \<noteq> None"
proof -
  have await: "await_server wh w \<noteq> None" for w
    using health_loop.returns [OF assms(1)] unfolding await_server_def by (auto simp: health_round_def)
  have stop: "stop_server wh w \<noteq> None" for w
    by (simp add: stop_server_def bindD_def changesD_def Let_def)
  show ?thesis
    unfolding native_http_def
    by (intro bindD_returns liftR_returns finallyD_returns await stop assms(2)) (simp add: changesD_def)
qed

text \<open>Once the server runs it is always asked to stop, and killed when it does not.\<close>

lemma server_is_stopped:
  assumes "native_http fr enabled wh body w = Some (r, t)" and "require_fixture_site fr enabled = Inr ()"
  shows "\<not> wb_session_open t \<and> wb_terminated t \<and> (wb_killed t \<or> wh_stops wh (wb_ticks t - 1))"
  using assms
  by (auto simp: native_http_def bindD_def liftR_def changesD_def finallyD_def stop_server_def Let_def
      split: option.splits sum.splits if_splits)

section \<open>Properties\<close>

text \<open>A browser that stays silent, and one that answers the first command; the clock shows seconds.\<close>

definition silent_browser :: devtools where
  "silent_browser = \<lparr>dt_clock = (\<lambda>n. int n * seconds), dt_events = (\<lambda>_. []), dt_send = (\<lambda>_. None), dt_host_ok = (\<lambda>_. True)\<rparr>"

definition first_answer :: pyval where
  "first_answer = PDict [(py ''id'', PInt 1), (py ''result'', PDict [(py ''value'', PInt 7)])]"

definition answering_browser :: devtools where
  "answering_browser = silent_browser\<lparr>dt_events := (\<lambda>n. if n = 3 then [first_answer] else [])\<rparr>"

lemma silent_clock: "clock_runs (dt_clock silent_browser)"
proof -
  have "t < int (nat (t + 1)) * seconds" for t :: int by (simp add: seconds_def)
  then have "\<exists>n. t < int n * seconds" for t by blast
  then show ?thesis by (simp add: clock_runs_def silent_browser_def mono_def seconds_def)
qed

text \<open>The acceptance run cannot hang on the browser: as long as the clock runs, every command,
  evaluation, wait and click ends, with a result or an exception, and so does reading the
  diagnostics, whatever the browser sends or leaves unanswered.\<close>

theorem browser_operations_return:
  assumes "clock_runs (dt_clock dt)"
  shows "command dt method params d \<noteq> None \<and> evaluate dt expression d \<noteq> None \<and> wait dt expression d \<noteq> None
    \<and> click dt expression d \<noteq> None \<and> diagnostics dt d \<noteq> None"
  using command_returns [OF assms] evaluate_returns [OF assms] wait_returns [OF assms] click_returns [OF assms]
    diagnostics_return [OF assms] by simp

theorem browser_operations_return_witness:
  "command silent_browser [] PNone new_driver \<noteq> None \<and> wait silent_browser (py ''document.title'') new_driver \<noteq> None"
  using browser_operations_return [OF silent_clock, of "[]" PNone new_driver "py ''document.title''"] by blast

text \<open>A command returns the answer to itself: a value it returns is the result of an answer without
  an error, received by then, which carries the number of this command, and every command has a
  number of its own. Late answers to commands that timed out are never taken for it.\<close>

theorem command_gets_its_answer:
  assumes "command dt method params d = Some (Inr v, t)"
  shows "dr_sequence t = dr_sequence d + 1 \<and> answered dt d t v"
  using command_answered [OF assms] .

theorem command_gets_its_answer_witness:
  "\<exists>t. answered answering_browser new_driver t (PDict [(py ''value'', PInt 7)])"
proof -
  have "\<exists>t. command answering_browser (py ''Page.enable'') PNone new_driver = Some (Inr (PDict [(py ''value'', PInt 7)]), t)"
    by (simp add: command_def bindD_def send_command_def Let_def 
        iterate.simps [of "command_round dt m l" "\<lparr>dr_browser = b, dr_sequence = n, dr_sent = x, dr_ticks = Suc (Suc 0)\<rparr>" for dt m l b n x]
        command_round_def next_response_def reader_def answering_browser_def silent_browser_def new_driver_def new_browser_def
        seconds_def read_event_def answer_event_def bindA_def reads_def modifies_def first_answer_def dget_def answer_to_def
        result_of_def QUEUE_BOUND_def py_def)
  then show ?thesis using command_gets_its_answer by blast
qed

end
