(* ===== verification/Browser_Session.thy ===== *)
theory Browser_Session
  imports Browser_Driver Company_Groups
begin

text \<open>
  The beginning and the end of a session with the browser: \<open>Browser.__enter__\<close> and
  \<open>Browser.__exit__\<close> of \<open>group_browser_acceptance.py\<close>. Chromium is started on a profile of its own,
  waited for, connected to, and at the end its whole process group is stopped and the profile removed.
\<close>

section \<open>Exceptions and loops\<close>

text \<open>\<open>try: m except cls: handler\<close>.\<close>

definition exceptD :: "exn_class \<Rightarrow> ('s, 'a) looping \<Rightarrow> ('s, 'a) looping \<Rightarrow> ('s, 'a) looping" where
  "exceptD cls m handler s =
     (case m s of
        None \<Rightarrow> None
      | Some (Inl e, t) \<Rightarrow> (if exn_class e = cls then handler t else Some (Inl e, t))
      | Some (Inr x, t) \<Rightarrow> Some (Inr x, t))"

lemma exceptD_returns: "(\<And>s. m s \<noteq> None) \<Longrightarrow> (\<And>s. h s \<noteq> None) \<Longrightarrow> exceptD cls m h s \<noteq> None"
  by (auto simp: exceptD_def split: option.splits sum.splits)

lemma changesD_returns: "changesD f s \<noteq> None"
  by (simp add: changesD_def)

named_theorems loop_iff

lemma bindD_iff [loop_iff]:
  "bindD m f s = Some (r, u) \<longleftrightarrow>
     (\<exists>x t. m s = Some (Inr x, t) \<and> f x t = Some (r, u)) \<or> (\<exists>e. m s = Some (Inl e, u) \<and> r = Inl e)"
  by (auto simp: bindD_def split: option.splits sum.splits)

lemma bindD_Inr_iff: "bindD m f s = Some (Inr y, u) \<longleftrightarrow> (\<exists>x t. m s = Some (Inr x, t) \<and> f x t = Some (Inr y, u))"
  by (simp add: bindD_iff)

lemma liftR_iff [loop_iff]: "liftR q s = Some (r, u) \<longleftrightarrow> r = q \<and> u = s"
  by (auto simp: liftR_def)

lemma changesD_iff [loop_iff]: "changesD f s = Some (r, u) \<longleftrightarrow> r = Inr () \<and> u = f s"
  by (auto simp: changesD_def)

lemma finallyD_iff [loop_iff]:
  "finallyD m f s = Some (r, u) \<longleftrightarrow>
     (\<exists>t q. m s = Some (q, t) \<and> ((f t = Some (Inr (), u) \<and> r = q) \<or> (\<exists>e. f t = Some (Inl e, u) \<and> r = Inl e)))"
  by (auto simp: finallyD_def split: option.splits sum.splits)

section \<open>Chromium\<close>

text \<open>
  The operating system and the browser are outside: whether the profile can be made and removed and the
  program started, whether at a point of time the port file is there, the process has exited, a
  wait for it ends in time and its group has a process; the text of the port file, the pages the
  browser lists, and whether the connection can be opened and closed.
\<close>

record chromium_host =
  co_devtools :: devtools
  co_profile :: "exn option"
  co_spawn :: "exn option"
  co_port_file :: "nat \<Rightarrow> bool"
  co_exited :: "nat \<Rightarrow> bool"
  co_waited :: "nat \<Rightarrow> bool"
  co_group :: "nat \<Rightarrow> bool"
  co_port_text :: "exn + pystr"
  co_pages :: "int \<Rightarrow> exn + pyval"
  co_open :: "pyval \<Rightarrow> exn option"
  co_close :: "exn option"
  co_cleanup :: "exn option"

datatype chromium_signal = Process_Terminate | Group_Terminate | Group_Kill

record chromium =
  ch_driver :: driver
  ch_profile :: bool
  ch_started :: bool
  ch_signals :: "chromium_signal list"
  ch_connected :: bool
  ch_stop :: bool

definition new_chromium :: chromium where
  "new_chromium = \<lparr>ch_driver = new_driver, ch_profile = False, ch_started = False, ch_signals = [],
     ch_connected = False, ch_stop = False\<rparr>"

definition now_of :: "chromium \<Rightarrow> nat" where
  "now_of c = dr_ticks (ch_driver c)"

definition later :: "chromium \<Rightarrow> chromium" where
  "later c = c\<lparr>ch_driver := (ch_driver c)\<lparr>dr_ticks := Suc (dr_ticks (ch_driver c))\<rparr>\<rparr>"

text \<open>An operation of the driver, for the browser of the session.\<close>

definition driving :: "'a drive \<Rightarrow> (chromium, 'a) looping" where
  "driving m c =
     (case m (ch_driver c) of
        None \<Rightarrow> None
      | Some (r, d) \<Rightarrow> Some (r, c\<lparr>ch_driver := d\<rparr>))"

text \<open>An operation that fails with an exception of the system, or changes the state.\<close>

definition unless_error :: "exn option \<Rightarrow> (chromium \<Rightarrow> chromium) \<Rightarrow> (chromium, unit) looping" where
  "unless_error failure f c = (case failure of Some e \<Rightarrow> Some (Inl e, c) | None \<Rightarrow> Some (Inr (), f c))"

definition wait_process :: "chromium_host \<Rightarrow> (chromium, unit) looping" where
  "wait_process co c =
     Some (if co_waited co (now_of c) then Inr () else Inl (Exn TimeoutExpired [] False), later c)"

definition killpg :: "chromium_host \<Rightarrow> chromium_signal \<Rightarrow> (chromium, unit) looping" where
  "killpg co signal c =
     Some (if co_group co (now_of c) then (Inr (), later (c\<lparr>ch_signals := ch_signals c @ [signal]\<rparr>))
           else (Inl (Exn ProcessLookupError [] False), later c))"

definition remove_profile :: "chromium_host \<Rightarrow> (chromium, unit) looping" where
  "remove_profile co = unless_error (co_cleanup co) (\<lambda>c. c\<lparr>ch_profile := False\<rparr>)"

subsection \<open>Waiting for the port\<close>

definition start_round :: "chromium_host \<Rightarrow> int \<Rightarrow> chromium \<Rightarrow> (chromium + (exn + bool) \<times> chromium) option" where
  "start_round co deadline c =
     Some (if co_port_file co (now_of c) then Inr (Inr True, c)
           else if co_exited co (now_of c) \<or> deadline < dt_clock (co_devtools co) (now_of c) then Inr (Inr False, c)
           else Inl (later c))"

text \<open>Chromium did not start: its process is terminated and waited for, its profile removed.\<close>

definition give_up :: "chromium_host \<Rightarrow> (chromium, 'a) looping" where
  "give_up co =
     bindD (changesD (\<lambda>c. c\<lparr>ch_signals := ch_signals c @ [Process_Terminate]\<rparr>)) (\<lambda>_.
     bindD (wait_process co) (\<lambda>_.
     bindD (remove_profile co) (\<lambda>_.
       liftR (raise AssertionError ''Isolated Chromium did not start''))))"

definition await_port :: "chromium_host \<Rightarrow> (chromium, unit) looping" where
  "await_port co =
     bindD (\<lambda>c. iterate (start_round co (dt_clock (co_devtools co) (now_of c) + 20 * seconds)) (later c)) (\<lambda>there.
       if there then liftR (Inr ()) else give_up co)"

subsection \<open>Connecting\<close>

text \<open>\<open>int(text)\<close> for ASCII text: blanks around it, a sign, and single underscores between the digits.\<close>

fun number_digits :: "bool \<Rightarrow> pystr \<Rightarrow> pystr option" where
  "number_digits after_digit [] = (if after_digit then Some [] else None)"
| "number_digits after_digit (c # s) =
     (if is_digit c then map_option (Cons c) (number_digits True s)
      else if c = 95 \<and> after_digit then number_digits False s
      else None)"

definition unsigned_number :: "pystr \<Rightarrow> exn + int" where
  "unsigned_number t =
     (case number_digits False t of
        None \<Rightarrow> raise ValueError ''invalid literal for int() with base 10''
      | Some ds \<Rightarrow> (if 4300 < length ds then raise ValueError ''Exceeds the limit (4300 digits) for integer string conversion''
                    else Inr (int (nat_of_digits ds))))"

definition int_of_text :: "pystr \<Rightarrow> exn + int" where
  "int_of_text t =
     (case strip t of
        [] \<Rightarrow> raise ValueError ''invalid literal for int() with base 10''
      | c # s \<Rightarrow>
          (if c = 45 then bindR (unsigned_number s) (\<lambda>n. Inr (- n))
           else if c = 43 then unsigned_number s
           else unsigned_number (c # s)))"

definition first_line :: "pystr \<Rightarrow> exn + pystr" where
  "first_line t =
     (case splitlines t of [] \<Rightarrow> raise IndexError ''list index out of range'' | l # _ \<Rightarrow> Inr l)"

text \<open>\<open>next(row for row in rows if row['type'] == 'page')\<close>; a dictionary or text has rows that are text.\<close>

fun page_row :: "pyval list \<Rightarrow> exn + pyval" where
  "page_row [] = raise StopIteration ''''"
| "page_row (row # rows) =
     bindR (item row ''type'') (\<lambda>kind. if kind = PStr (py ''page'') then Inr row else page_row rows)"

definition first_page :: "pyval \<Rightarrow> exn + pyval" where
  "first_page v =
     (case v of
        PList rows \<Rightarrow> page_row rows
      | PDict [] \<Rightarrow> raise StopIteration ''''
      | PStr [] \<Rightarrow> raise StopIteration ''''
      | PDict _ \<Rightarrow> raise TypeError ''string indices must be integers''
      | PStr _ \<Rightarrow> raise TypeError ''string indices must be integers''
      | _ \<Rightarrow> raise TypeError ''object is not iterable'')"

definition debugger_url :: "chromium_host \<Rightarrow> exn + pyval" where
  "debugger_url co =
     bindR (co_port_text co) (\<lambda>t.
     bindR (first_line t) (\<lambda>l.
     bindR (int_of_text l) (\<lambda>port.
     bindR (co_pages co port) (\<lambda>rows.
     bindR (first_page rows) (\<lambda>page.
       item page ''webSocketDebuggerUrl'')))))"

definition connect_page :: "chromium_host \<Rightarrow> (chromium, unit) looping" where
  "connect_page co =
     bindD (liftR (debugger_url co)) (\<lambda>url.
     bindD (unless_error (co_open co url) (\<lambda>c. c\<lparr>ch_connected := True\<rparr>)) (\<lambda>_.
     bindD (driving (command (co_devtools co) (py ''Page.enable'') PNone)) (\<lambda>_.
     bindD (driving (command (co_devtools co) (py ''Runtime.enable'') PNone)) (\<lambda>_.
     bindD (driving (command (co_devtools co) (py ''Network.enable'') PNone)) (\<lambda>_.
       liftR (Inr ()))))))"

subsection \<open>\<open>__enter__\<close> and \<open>__exit__\<close>\<close>

definition enter :: "chromium_host \<Rightarrow> (chromium, unit) looping" where
  "enter co =
     bindD (unless_error (co_profile co) (\<lambda>c. c\<lparr>ch_profile := True\<rparr>)) (\<lambda>_.
     bindD (unless_error (co_spawn co) (\<lambda>c. c\<lparr>ch_started := True\<rparr>)) (\<lambda>_.
     bindD (await_port co) (\<lambda>_.
       connect_page co)))"

definition ignoring :: "exn_class \<Rightarrow> (chromium, unit) looping \<Rightarrow> (chromium, unit) looping" where
  "ignoring cls m = exceptD cls m (liftR (Inr ()))"

definition stop_process :: "chromium_host \<Rightarrow> (chromium, unit) looping" where
  "stop_process co =
     bindD (ignoring ProcessLookupError (killpg co Group_Terminate)) (\<lambda>_.
       exceptD TimeoutExpired (wait_process co)
         (bindD (killpg co Group_Kill) (\<lambda>_. wait_process co)))"

definition leave :: "chromium_host \<Rightarrow> (chromium, unit) looping" where
  "leave co =
     bindD (changesD (\<lambda>c. c\<lparr>ch_stop := True\<rparr>)) (\<lambda>_.
     bindD (unless_error (co_close co) (\<lambda>c. c\<lparr>ch_connected := False\<rparr>)) (\<lambda>_.
     bindD (stop_process co) (\<lambda>_.
     bindD (ignoring ProcessLookupError (killpg co Group_Kill)) (\<lambda>_.
       remove_profile co))))"

text \<open>\<open>with Browser() as browser: body\<close>.\<close>

definition with_browser :: "chromium_host \<Rightarrow> (chromium, 'a) looping \<Rightarrow> (chromium, 'a) looping" where
  "with_browser co body = bindD (enter co) (\<lambda>_. finallyD body (leave co))"

section \<open>Sessions end\<close>

interpretation start_loop: deadline_loop "dt_clock (co_devtools co)" now_of "start_round co deadline" deadline
  for co deadline
proof unfold_locales
  fix c t assume "start_round co deadline c = Some (Inl t)"
  then have "now_of c < now_of t" "dt_clock (co_devtools co) (now_of c) \<le> deadline"
    by (auto simp: start_round_def later_def now_of_def split: if_splits)
  then show "\<exists>n. now_of c \<le> n \<and> n < now_of t \<and> dt_clock (co_devtools co) n \<le> deadline" by blast
qed

lemma driving_returns: "(\<And>d. m d \<noteq> None) \<Longrightarrow> driving m c \<noteq> None"
  by (auto simp: driving_def split: option.splits)

lemma unless_error_returns: "unless_error failure f c \<noteq> None"
  by (simp add: unless_error_def split: option.splits)

lemma wait_process_returns: "wait_process co c \<noteq> None"
  by (simp add: wait_process_def)

lemma killpg_returns: "killpg co signal c \<noteq> None"
  by (simp add: killpg_def)

lemmas step_returns = driving_returns unless_error_returns wait_process_returns killpg_returns
  bindD_returns exceptD_returns liftR_returns changesD_returns finallyD_returns

lemma await_port_returns:
  assumes "clock_runs (dt_clock (co_devtools co))" shows "await_port co c \<noteq> None"
proof -
  have "iterate (start_round co deadline) s \<noteq> None" for deadline s
    using start_loop.returns [OF assms] by (simp add: start_round_def)
  moreover have "give_up co s \<noteq> None" for s
    unfolding give_up_def remove_profile_def by (intro step_returns)
  moreover have "(if there then liftR (Inr ()) else give_up co) s \<noteq> None" for there s
    using calculation(2) [of s] by (cases there) (simp_all add: liftR_def)
  ultimately show ?thesis unfolding await_port_def by (intro bindD_returns)
qed

lemma enter_returns: "clock_runs (dt_clock (co_devtools co)) \<Longrightarrow> enter co c \<noteq> None"
  unfolding enter_def connect_page_def by (intro step_returns await_port_returns command_returns)

lemma leave_returns: "leave co c \<noteq> None"
  unfolding leave_def stop_process_def ignoring_def remove_profile_def by (intro step_returns)

lemma with_browser_returns:
  "clock_runs (dt_clock (co_devtools co)) \<Longrightarrow> (\<And>c. body c \<noteq> None) \<Longrightarrow> with_browser co body c \<noteq> None"
  unfolding with_browser_def by (intro bindD_returns finallyD_returns enter_returns leave_returns)

section \<open>What is left behind\<close>

lemma unless_error_iff [loop_iff]:
  "unless_error failure f c = Some (r, t) \<longleftrightarrow>
     (failure = None \<and> r = Inr () \<and> t = f c) \<or> (\<exists>e. failure = Some e \<and> r = Inl e \<and> t = c)"
  by (auto simp: unless_error_def split: option.splits)

lemma exceptD_iff [loop_iff]:
  "exceptD cls m h s = Some (r, u) \<longleftrightarrow>
     (\<exists>x. m s = Some (Inr x, u) \<and> r = Inr x) \<or> (\<exists>e. m s = Some (Inl e, u) \<and> exn_class e \<noteq> cls \<and> r = Inl e)
     \<or> (\<exists>e t. m s = Some (Inl e, t) \<and> exn_class e = cls \<and> h t = Some (r, u))"
  by (auto simp: exceptD_def split: option.splits sum.splits if_splits)

text \<open>The group got its last signal just now, or had no process any more.\<close>

definition group_gone :: "chromium_host \<Rightarrow> chromium \<Rightarrow> bool" where
  "group_gone co c \<longleftrightarrow> Group_Kill \<in> set (ch_signals c) \<or> \<not> co_group co (now_of c - 1)"

definition cleared :: "chromium_host \<Rightarrow> chromium \<Rightarrow> bool" where
  "cleared co c \<longleftrightarrow> ch_stop c \<and> \<not> ch_connected c \<and> \<not> ch_profile c \<and> group_gone co c"

lemma stop_process_keeps:
  "stop_process co c = Some (r, t) \<Longrightarrow>
     ch_stop t = ch_stop c \<and> ch_connected t = ch_connected c \<and> ch_profile t = ch_profile c"
  by (auto simp: stop_process_def ignoring_def loop_iff killpg_def wait_process_def later_def split: if_splits)

lemma last_kill:
  "ignoring ProcessLookupError (killpg co Group_Kill) c = Some (r, t) \<Longrightarrow>
     r = Inr () \<and> group_gone co t \<and> ch_stop t = ch_stop c \<and> ch_connected t = ch_connected c \<and> ch_profile t = ch_profile c"
  by (auto simp: ignoring_def loop_iff killpg_def group_gone_def later_def now_of_def split: if_splits)

lemma leave_clears:
  assumes "leave co c = Some (Inr (), t)" shows "cleared co t"
  using assms
  by (auto simp: leave_def loop_iff remove_profile_def cleared_def group_gone_def now_of_def
      dest!: stop_process_keeps last_kill)

text \<open>The end of a session fails only when the system does: a process that survives the first signal and
  ten seconds and is then gone, or survives everything.\<close>

lemma stop_process_error:
  assumes "stop_process co c = Some (Inl e, t)"
  shows "\<exists>n. \<not> co_waited co n \<and> (e = Exn ProcessLookupError [] False \<or> e = Exn TimeoutExpired [] False)"
  using assms
  by (auto simp: stop_process_def ignoring_def loop_iff killpg_def wait_process_def split: if_splits)

lemma leave_error:
  assumes "leave co c = Some (Inl e, t)"
  shows "co_close co = Some e \<or> co_cleanup co = Some e
    \<or> (\<exists>n. \<not> co_waited co n \<and> (e = Exn ProcessLookupError [] False \<or> e = Exn TimeoutExpired [] False))"
  using assms by (auto simp: leave_def loop_iff remove_profile_def dest!: stop_process_error last_kill)

lemma session_is_cleared:
  assumes "with_browser co body c = Some (r, t)" and "enter co c = Some (Inr (), c1)"
    and "\<And>n. co_waited co n" and "co_close co = None" and "co_cleanup co = None"
  shows "cleared co t \<and> (\<exists>c2. body c1 = Some (r, c2))"
  using assms by (auto simp: with_browser_def loop_iff dest: leave_clears leave_error)

lemma give_up_clears:
  assumes "give_up co c = Some (r, t)"
  shows "Process_Terminate \<in> set (ch_signals t) \<and> (\<exists>e. r = Inl e)
    \<and> (\<not> ch_profile t \<or> (\<exists>n. \<not> co_waited co n) \<or> co_cleanup co \<noteq> None)"
  using assms by (auto simp: give_up_def loop_iff remove_profile_def wait_process_def later_def split: if_splits)

text \<open>
  But whoever fails after the port is there has no \<open>__exit__\<close>: the statement \<open>with\<close> calls it only once
  \<open>__enter__\<close> has returned. Chromium then goes on running, on a profile that is not removed.
\<close>

definition surface :: "chromium \<Rightarrow> bool \<times> bool \<times> chromium_signal list \<times> bool" where
  "surface c = (ch_profile c, ch_started c, ch_signals c, ch_stop c)"

lemma driving_keeps: "driving m c = Some (r, t) \<Longrightarrow> surface t = surface c"
  by (auto simp: driving_def surface_def split: option.splits)

lemma surface_connected [simp]: "surface (c\<lparr>ch_connected := x\<rparr>) = surface c"
  by (simp add: surface_def)

lemma connect_page_keeps: "connect_page co c = Some (r, t) \<Longrightarrow> surface t = surface c"
  by (auto simp: connect_page_def loop_iff dest!: driving_keeps)

lemma await_port_keeps:
  assumes "await_port co c = Some (Inr (), t)" shows "surface t = surface c"
proof -
  have give_up: "give_up co s \<noteq> Some (Inr (), u)" for s u using give_up_clears by fastforce
  obtain deadline where loop: "iterate (start_round co deadline) (later c) = Some (Inr True, t)"
    using assms give_up by (auto simp: await_port_def loop_iff split: if_splits)
  have "surface (snd (Inr True :: exn + bool, t)) = surface c"
    by (rule iterate_result [OF loop, where I = "\<lambda>s. surface s = surface c" and Q = "\<lambda>q. surface (snd q) = surface c"])
       (auto simp: start_round_def later_def surface_def split: if_splits)
  then show ?thesis by simp
qed

lemma failed_connection_leaves_chromium:
  assumes "enter co c = Some (Inl e, t)" and "await_port co (c\<lparr>ch_profile := True, ch_started := True\<rparr>) = Some (Inr (), c1)"
    and "co_profile co = None" and "co_spawn co = None"
  shows "ch_profile t \<and> ch_started t \<and> ch_signals t = ch_signals c \<and> ch_stop t = ch_stop c"
proof -
  have "connect_page co c1 = Some (Inl e, t)" using assms by (auto simp: enter_def loop_iff)
  then have "surface t = surface (c\<lparr>ch_profile := True, ch_started := True\<rparr>)"
    using connect_page_keeps await_port_keeps [OF assms(2)] by metis
  then show ?thesis by (simp add: surface_def)
qed

end
