(* ===== verification/Browser_Checks.thy ===== *)
theory Browser_Checks
  imports Browser_Session
begin

text \<open>
  \<open>validate_browser\<close> of \<open>group_browser_acceptance.py\<close>: an editor configures the group of a company in
  the real settings page, and then the API must refuse the groups of another company, refuse them
  once the editor's right to change the settings is revoked, and refuse them to a sender.
\<close>

section \<open>The settings page\<close>

text \<open>What is done in the page, one after the other; JavaScript is text here.\<close>

datatype browser_step =
    Send pystr pyval
  | Wait pystr
  | Evaluate pystr
  | Require pystr string
  | Require_False pystr
  | Click pystr

definition perform :: "devtools \<Rightarrow> browser_step \<Rightarrow> unit drive" where
  "perform dt step =
     (case step of
        Send m params \<Rightarrow> bindD (command dt m params) (\<lambda>_. liftR (Inr ()))
      | Wait e \<Rightarrow> wait dt e
      | Evaluate e \<Rightarrow> bindD (evaluate dt e) (\<lambda>_. liftR (Inr ()))
      | Require e m \<Rightarrow> bindD (evaluate dt e) (\<lambda>v. liftR (if truthy v then Inr () else raise AssertionError m))
      | Require_False e \<Rightarrow> bindD (evaluate dt e) (\<lambda>v. liftR (if v = PBool False then Inr () else raise AssertionError ''''))
      | Click e \<Rightarrow> click dt e)"

fun performs :: "devtools \<Rightarrow> browser_step list \<Rightarrow> unit drive" where
  "performs dt [] = liftR (Inr ())"
| "performs dt (step # steps) = bindD (perform dt step) (\<lambda>_. performs dt steps)"

definition js_text :: "pystr \<Rightarrow> pystr" where
  "js_text t = json_dumps default_style (PStr t)"

text \<open>Text in double quotes, in a script.\<close>

definition quoted :: "string \<Rightarrow> pystr" where
  "quoted t = 34 # py t @ [34]"

definition session_cookie :: "pystr \<Rightarrow> pyval" where
  "session_cookie sid =
     PDict [(py ''name'', PStr (py ''sid'')), (py ''value'', PStr sid), (py ''domain'', PStr (py ''integration.local'')),
       (py ''path'', PStr (py ''/'')), (py ''httpOnly'', PBool True)]"

definition open_settings :: "pystr \<Rightarrow> browser_step list" where
  "open_settings sid =
     [Send (py ''Network.setCookie'') (session_cookie sid),
      Send (py ''Page.navigate'') (PDict [(py ''url'', PStr (py ''http://integration.local:8000/desk/erpnext-whatsapp-settings''))]),
      Wait (py ''Boolean(window.cur_frm?.doctype === 'ERPNext WhatsApp Settings' && cur_frm.doc && !cur_frm.doc.__islocal)''),
      Require (py ''Array.from(document.scripts).some(s=>s.src.includes('send_by_whatsapp.js'))'') ''Actual add-on asset was not loaded'',
      Wait (py ''Boolean(typeof window.erpnext_whatsapp_connection?.attach_document_button === 'function' && typeof window.erpnext_whatsapp_connection?.attach_report_button === 'function')''),
      Require (py ''Boolean(Array.from(document.querySelectorAll('button')).find(b=>b.textContent.trim()==='Configure Company Group'))'') ''''
     ]"

definition configure_group :: "pystr \<Rightarrow> browser_step list" where
  "configure_group company =
     [Evaluate (py ''Array.from(document.querySelectorAll('button')).find(b=>b.textContent.trim()==='Configure Company Group').click(); true''),
      Wait (py ''Boolean(window.cur_dialog?.title === 'Company Group Copy')''),
      Evaluate (py ''cur_dialog.set_value('' @ quoted ''company'' @ py '','' @ js_text company @ py '')''),
      Require_False (py ''Boolean(cur_dialog.get_value('' @ quoted ''enabled'' @ py ''))''),
      Evaluate (py ''cur_dialog.fields_dict.load_groups.df.click(); true''),
      Wait (py ''Boolean(cur_dialog.fields_dict.group.df.options.some(row=>row.value==='' @ js_text GROUP @ py ''))''),
      Evaluate (py ''cur_dialog.set_value('' @ quoted ''group'' @ py '','' @ js_text GROUP @ py '')''),
      Evaluate (py ''cur_dialog.set_value('' @ quoted ''enabled'' @ py '',1)''),
      Evaluate (py ''cur_dialog.get_primary_btn().trigger('click'); true''),
      Wait (py ''Boolean(!cur_dialog?.$wrapper.is(':visible') && cur_frm.is_dirty())''),
      Wait (py ''Boolean(!document.querySelector('.modal-backdrop'))'')
     ]"

definition save_and_reopen :: "pystr \<Rightarrow> browser_step list" where
  "save_and_reopen company =
     [Click (py ''cur_frm.page.btn_primary[0]''),
      Wait (py ''Boolean(!cur_frm.is_dirty() && frappe.request.ajax_count === 0)''),
      Evaluate (py ''cur_frm.reload_doc().then(()=>true)''),
      Require (py ''cur_frm.doc.company_groups.some(row=>row.company==='' @ js_text company @ py '' && row.group_id===''
          @ js_text GROUP @ py '' && row.enabled===1)'') ''Actual settings save/reopen lost company configuration'',
      Wait (py ''Boolean(window.frappe?.request && frappe.request.ajax_count === 0)'')]"

text \<open>No exception may have been left uncaught by the page.\<close>

definition diagnostics_style :: json_style where
  "diagnostics_style = compact_style\<lparr>ensure_ascii := True\<rparr>"

definition no_errors :: "devtools \<Rightarrow> unit drive" where
  "no_errors dt d =
     (if br_errors (dr_browser d) = [] then Some (Inr (), d)
      else bindD (diagnostics dt) (\<lambda>v. liftR (Inl (message_error AssertionError
             ''Actual target assets raised uncaught browser exceptions: '' (json_dumps diagnostics_style v)))) d)"

definition settings_page :: "devtools \<Rightarrow> pystr \<Rightarrow> pystr \<Rightarrow> unit drive" where
  "settings_page dt sid company =
     bindD (performs dt (open_settings sid @ configure_group company @ save_and_reopen company)) (\<lambda>_. no_errors dt)"

section \<open>The checks\<close>

text \<open>
  The framework and its web server are outside, on a state \<open>'w\<close> of theirs: the session user of the
  harness, the wizard, committing, logging in (a request that fails, or the cookie \<open>sid\<close>), a request
  to \<open>list_groups\<close> with a session's cookie, and saving a user with other roles.
\<close>

record http_reply =
  rp_status :: int
  rp_json :: "exn + pyval"

record 'w web_site =
  ws_set_user :: "pystr \<Rightarrow> ('w, unit) act"
  ws_setup_complete :: "pystr \<Rightarrow> ('w, unit) act"
  ws_commit :: "('w, unit) act"
  ws_login :: "pystr \<Rightarrow> pystr \<Rightarrow> ('w, pystr option) act"
  ws_list_groups :: "pystr \<Rightarrow> pystr \<Rightarrow> ('w, http_reply) act"
  ws_set_roles :: "pystr \<Rightarrow> pystr list \<Rightarrow> ('w, unit) act"

record 'w checks =
  ck_world :: 'w
  ck_chromium :: chromium
  ck_sessions :: "pystr list"

definition worldly :: "('w, 'a) act \<Rightarrow> ('w checks, 'a) looping" where
  "worldly m k = (case m (ck_world k) of (r, w) \<Rightarrow> Some (r, k\<lparr>ck_world := w\<rparr>))"

text \<open>A session with a new browser.\<close>

definition browsing :: "(chromium, 'a) looping \<Rightarrow> ('w checks, 'a) looping" where
  "browsing m k =
     (case m new_chromium of
        None \<Rightarrow> None
      | Some (r, c) \<Rightarrow> Some (r, k\<lparr>ck_chromium := c\<rparr>))"

definition login :: "'w web_site \<Rightarrow> pystr \<Rightarrow> pystr \<Rightarrow> ('w checks, pystr) looping" where
  "login ws user pwd =
     bindD (worldly (ws_login ws user pwd)) (\<lambda>sid.
       case sid of
         Some (c # cs) \<Rightarrow> bindD (changesD (\<lambda>k. k\<lparr>ck_sessions := ck_sessions k @ [c # cs]\<rparr>)) (\<lambda>_. liftR (Inr (c # cs)))
       | _ \<Rightarrow> liftR (raise AssertionError ''Synthetic login did not create a session''))"

definition denied_reply :: "http_reply \<Rightarrow> exn + bool" where
  "denied_reply reply =
     (if rp_status reply \<noteq> 403 then Inr False
      else bindR (rp_json reply) (\<lambda>v. bindR (response_get v ''exc_type'') (\<lambda>t. Inr (t = PStr (py ''PermissionError'')))))"

definition must_deny :: "'w web_site \<Rightarrow> pystr \<Rightarrow> pystr \<Rightarrow> string \<Rightarrow> ('w checks, unit) looping" where
  "must_deny ws sid company m =
     bindD (worldly (ws_list_groups ws sid company)) (\<lambda>reply.
     bindD (liftR (denied_reply reply)) (\<lambda>denied.
       liftR (if denied then Inr () else raise AssertionError m)))"

definition revoke_editor :: "'w web_site \<Rightarrow> pystr \<Rightarrow> ('w checks, unit) looping" where
  "revoke_editor ws editor =
     bindD (worldly (ws_set_user ws (py ''Administrator''))) (\<lambda>_.
     bindD (worldly (ws_set_roles ws editor [py ''ERPNext WhatsApp Manager''])) (\<lambda>_.
       worldly (ws_commit ws)))"

definition browser_checks ::
  "'w web_site \<Rightarrow> chromium_host \<Rightarrow> pystr \<Rightarrow> pystr \<Rightarrow> pystr \<Rightarrow> pystr \<Rightarrow> pystr \<Rightarrow> pystr \<Rightarrow> ('w checks, unit) looping" where
  "browser_checks ws co company other sender password editor editor_password =
     bindD (login ws editor editor_password) (\<lambda>editing.
     bindD (browsing (with_browser co (driving (settings_page (co_devtools co) editing company)))) (\<lambda>_.
     bindD (must_deny ws editing other ''Editor discovered groups through a forbidden Company'') (\<lambda>_.
     bindD (revoke_editor ws editor) (\<lambda>_.
     bindD (must_deny ws editing company ''Revoked Settings Write retained group discovery'') (\<lambda>_.
     bindD (login ws sender password) (\<lambda>denied.
       must_deny ws denied company ''Sender without Settings Write discovered groups''))))))"

definition close_sessions :: "('w checks, unit) looping" where
  "close_sessions = changesD (\<lambda>k. k\<lparr>ck_sessions := []\<rparr>)"

definition validate_browser ::
  "frappe \<Rightarrow> bool \<Rightarrow> 'w web_site \<Rightarrow> chromium_host \<Rightarrow> pystr \<Rightarrow> pystr \<Rightarrow> pystr \<Rightarrow> pystr \<Rightarrow> pystr \<Rightarrow> pystr \<Rightarrow> ('w checks, unit) looping" where
  "validate_browser fr enabled ws co company other sender password editor editor_password =
     bindD (liftR (require_fixture_site fr enabled)) (\<lambda>_.
     bindD (worldly (ws_set_user ws (py ''Administrator''))) (\<lambda>_.
     bindD (worldly (foldA (ws_setup_complete ws) [py ''frappe'', py ''erpnext''])) (\<lambda>_.
     bindD (worldly (ws_commit ws)) (\<lambda>_.
     bindD (changesD (\<lambda>k. k\<lparr>ck_sessions := []\<rparr>)) (\<lambda>_.
       finallyD (browser_checks ws co company other sender password editor editor_password) close_sessions)))))"

section \<open>The checks return\<close>

lemma worldly_returns: "worldly m k \<noteq> None"
  by (simp add: worldly_def split: prod.split)

lemma browsing_returns: "(\<And>c. m c \<noteq> None) \<Longrightarrow> browsing m k \<noteq> None"
  by (auto simp: browsing_def split: option.splits)

lemma performs_return:
  assumes "clock_runs (dt_clock dt)" shows "performs dt steps d \<noteq> None"
proof (induction steps arbitrary: d)
  case Nil
  then show ?case by (simp add: liftR_def)
next
  case (Cons step steps)
  have "perform dt step d \<noteq> None" for d
    unfolding perform_def
    by (cases step; simp only: browser_step.case)
       (intro step_returns command_returns evaluate_returns wait_returns click_returns assms)+
  then show ?case unfolding performs.simps by (intro bindD_returns Cons)
qed

lemma no_errors_returns: "clock_runs (dt_clock dt) \<Longrightarrow> no_errors dt d \<noteq> None"
  unfolding no_errors_def
  by (cases "br_errors (dr_browser d) = []"; simp only: if_True if_False)
     (simp, intro step_returns diagnostics_return)

lemma login_returns: "login ws user pwd k \<noteq> None"
proof -
  have "(case sid of Some (c # cs) \<Rightarrow> bindD (changesD (\<lambda>k. k\<lparr>ck_sessions := ck_sessions k @ [c # cs]\<rparr>)) (\<lambda>_. liftR (Inr (c # cs)))
      | _ \<Rightarrow> liftR (raise AssertionError ''Synthetic login did not create a session'')) k \<noteq> None" for sid and k :: "'a checks"
    by (simp add: bindD_def changesD_def liftR_def split: option.split list.split)
  then show ?thesis unfolding login_def by (intro bindD_returns worldly_returns)
qed

lemma must_deny_returns: "must_deny ws sid company m k \<noteq> None"
  unfolding must_deny_def by (intro step_returns worldly_returns)

lemma settings_page_returns: "clock_runs (dt_clock dt) \<Longrightarrow> settings_page dt sid company d \<noteq> None"
  unfolding settings_page_def by (intro bindD_returns performs_return no_errors_returns)

lemma validate_browser_returns_always:
  assumes "clock_runs (dt_clock (co_devtools co))"
  shows "validate_browser fr enabled ws co company other sender password editor editor_password k \<noteq> None"
  unfolding validate_browser_def browser_checks_def revoke_editor_def close_sessions_def
  by (intro step_returns worldly_returns browsing_returns login_returns must_deny_returns with_browser_returns assms
      settings_page_returns)

section \<open>What the checks show\<close>

text \<open>Who gets past the guards of \<open>list_groups\<close>.\<close>

definition may_list :: "frappe \<Rightarrow> pystr \<Rightarrow> pystr \<Rightarrow> bool" where
  "may_list fr user company \<longleftrightarrow> company \<noteq> [] \<and> fr_can fr user (py ''write'') SETTINGS None
     \<and> fr_can fr user (py ''read'') (py ''Company'') (Some company)"

text \<open>
  What the web server does, on the committed database and with the answers of the framework at that
  moment: a cookie of a login stands for the user who logged in, a request to the method runs it as
  that user, and exactly a \<open>PermissionError\<close> is answered with status 403 and its name.
\<close>

definition refusal :: "http_reply \<Rightarrow> bool" where
  "refusal reply \<longleftrightarrow> rp_status reply = 403
     \<and> (case rp_json reply of
          Inr (PDict d) \<Rightarrow> map_of d (py ''exc_type'') = Some (PStr (py ''PermissionError''))
        | _ \<Rightarrow> False)"

definition serves :: "'w web_site \<Rightarrow> ('w \<Rightarrow> frappe) \<Rightarrow> ('w \<Rightarrow> site) \<Rightarrow> (pystr \<Rightarrow> pystr) \<Rightarrow> bool" where
  "serves ws framework database whose \<longleftrightarrow>
     (\<forall>user pwd w sid w'. ws_login ws user pwd w = (Inr (Some sid), w') \<longrightarrow> whose sid = user)
     \<and> (\<forall>sid company w reply w'. ws_list_groups ws sid company w = (Inr reply, w') \<longrightarrow>
          (refusal reply \<longleftrightarrow>
             (\<exists>e. fst (list_groups (framework w) (PStr company) ((database w)\<lparr>s_user := whose sid\<rparr>)) = Inl e
                \<and> exn_class e = PermissionError)))"

text \<open>Nothing after the guards raises a \<open>PermissionError\<close>: not the request to the gateway, not reading the groups.\<close>

definition never_denied :: "exn + 'a \<Rightarrow> bool" where
  "never_denied r \<longleftrightarrow> (\<forall>e. r = Inl e \<longrightarrow> exn_class e \<noteq> PermissionError)"

lemma never_denied_simps [simp]:
  "never_denied (Inr x)" "never_denied (Inl e) \<longleftrightarrow> exn_class e \<noteq> PermissionError"
  by (simp_all add: never_denied_def)

lemma never_denied_bindR [intro]:
  "never_denied m \<Longrightarrow> (\<And>x. m = Inr x \<Longrightarrow> never_denied (f x)) \<Longrightarrow> never_denied (bindR m f)"
  by (cases m) simp_all

lemma never_denied_encode [simp]: "never_denied (encode t)"
proof (induction t)
  case Nil
  then show ?case by simp
next
  case (Cons c t)
  have "never_denied (utf8_char c)" by (simp add: utf8_char_def)
  then show ?case using Cons by (auto intro!: never_denied_bindR)
qed

lemma never_denied_response_get [simp]: "never_denied (response_get v k)"
  by (simp add: response_get_def split: pyval.split)

lemma never_denied_build: "never_denied (build_request fr n path payload)"
proof -
  have "never_denied (secret fr)" by (simp add: secret_def Let_def split: option.split)
  then show ?thesis by (auto simp: build_request_def Let_def intro!: never_denied_bindR)
qed

lemma never_denied_response: "never_denied (read_response status raw)"
proof -
  have "exn_class (gateway_error v) \<noteq> PermissionError" for v
    using never_denied_response_get [of v "''error''"] never_denied_response_get [of v "''reconciliation_required''"]
    by (cases "response_get v ''error''"; cases "response_get v ''reconciliation_required''")
       (simp_all add: gateway_error_def)
  then show ?thesis by (simp add: read_response_def split: sum.split)
qed

lemma never_denied_gateway: "never_denied (fst (gateway_request fr path payload timeout s))"
proof -
  obtain r t where run: "gateway_request fr path payload timeout s = (r, t)" by fastforce
  have "never_denied r"
    using run never_denied_build [of fr "s_ticks s" path payload] never_denied_response
    by (auto simp: gateway_request_iff split: sum.splits peer_result.splits)
  then show ?thesis by (simp add: run)
qed

lemma never_denied_read_groups: "never_denied (read_groups v)"
proof -
  have row: "never_denied (joined_row row groups)" for row groups
    by (auto simp: joined_row_def group_id_def split: pyval.split option.split intro!: never_denied_bindR)
  have "never_denied (foldR joined_row rows groups)" for rows groups
    using row by (induction rows arbitrary: groups) (auto intro!: never_denied_bindR)
  then show ?thesis by (auto simp: read_groups_def split: pyval.split intro!: never_denied_bindR)
qed

lemma never_denied_joined_groups: "never_denied (fst (joined_groups fr s))"
proof -
  obtain r t where run: "gateway_request fr (py ''/v1/groups'') (site_payload fr []) default_timeout s = (r, t)" by fastforce
  then have "never_denied r" using never_denied_gateway by (metis fst_conv)
  then show ?thesis
    using never_denied_read_groups by (cases r) (simp_all add: joined_groups_def bindA_def reads_def run)
qed

lemma list_groups_denied:
  assumes "fst (list_groups fr (PStr company) s) = Inl e" and "exn_class e = PermissionError"
  shows "\<not> may_list fr (s_user s) company"
proof
  assume may: "may_list fr (s_user s) company"
  obtain r t where groups: "joined_groups fr s = (r, t)" by fastforce
  then have "never_denied r" using never_denied_joined_groups by (metis fst_conv)
  then show False
    using assms may groups
    by (auto simp: list_groups_def may_list_def bindA_def reads_def company_check_def get_doc_def check_permission_def ret_def
        split: if_splits option.splits sum.splits)
qed

text \<open>The world right after the editor's roles were changed and committed.\<close>

definition revoked :: "'w web_site \<Rightarrow> pystr \<Rightarrow> 'w \<Rightarrow> bool" where
  "revoked ws editor w \<longleftrightarrow>
     (\<exists>w0 w1. ws_set_roles ws editor [py ''ERPNext WhatsApp Manager''] w0 = (Inr (), w1) \<and> ws_commit ws w1 = (Inr (), w))"

lemma worldly_iff [loop_iff]:
  "worldly m k = Some (r, t) \<longleftrightarrow> (\<exists>w. m (ck_world k) = (r, w) \<and> t = k\<lparr>ck_world := w\<rparr>)"
  by (auto simp: worldly_def split: prod.splits)

lemma login_user:
  assumes "serves ws framework database whose" and "login ws user pwd k = Some (Inr sid, t)"
  shows "whose sid = user"
proof -
  obtain got k1 where asked: "worldly (ws_login ws user pwd) k = Some (Inr got, k1)"
    and rest: "(case got of Some (c # cs) \<Rightarrow> bindD (changesD (\<lambda>k. k\<lparr>ck_sessions := ck_sessions k @ [c # cs]\<rparr>)) (\<lambda>_. liftR (Inr (c # cs)))
        | _ \<Rightarrow> liftR (raise AssertionError ''Synthetic login did not create a session'')) k1 = Some (Inr sid, t)"
    using assms(2) unfolding login_def by (auto simp: bindD_iff)
  have "got = Some sid" using rest by (auto simp: loop_iff split: option.splits list.splits)
  then obtain w where "ws_login ws user pwd (ck_world k) = (Inr (Some sid), w)" using asked by (auto simp: loop_iff)
  then show ?thesis using assms(1) unfolding serves_def by blast
qed

lemma denied_reply_refusal: "denied_reply reply = Inr True \<longleftrightarrow> refusal reply"
  by (auto simp: denied_reply_def refusal_def response_get_def dget_def bindR_Inr_iff split: sum.splits pyval.splits option.splits)

lemma must_deny_refused:
  assumes "serves ws framework database whose" and "must_deny ws sid company m k = Some (Inr (), t)"
  shows "\<not> may_list (framework (ck_world k)) (whose sid) company"
proof -
  obtain reply w where request: "ws_list_groups ws sid company (ck_world k) = (Inr reply, w)"
    and denied: "refusal reply"
    using assms(2) by (auto simp: must_deny_def loop_iff denied_reply_refusal [symmetric] split: if_splits)
  obtain e where "fst (list_groups (framework (ck_world k)) (PStr company) ((database (ck_world k))\<lparr>s_user := whose sid\<rparr>)) = Inl e"
    "exn_class e = PermissionError"
    using assms(1) [unfolded serves_def, THEN conjunct2, rule_format, OF request] denied by blast
  from list_groups_denied [OF this] show ?thesis by simp
qed

lemma revoke_editor_revoked:
  "revoke_editor ws editor k = Some (Inr (), t) \<Longrightarrow> revoked ws editor (ck_world t)"
  unfolding revoke_editor_def loop_iff revoked_def by fastforce

lemma browser_checks_refuse:
  assumes serves: "serves ws framework database whose"
    and run: "browser_checks ws co company other sender password editor editor_password k = Some (Inr (), t)"
  shows "\<exists>w1 w2 w3. \<not> may_list (framework w1) editor other
    \<and> revoked ws editor w2 \<and> \<not> may_list (framework w2) editor company \<and> \<not> may_list (framework w3) sender company"
proof -
  obtain editing k1 k2 k3 k4 k5 denied k6 where editing: "login ws editor editor_password k = Some (Inr editing, k1)"
    and first: "must_deny ws editing other ''Editor discovered groups through a forbidden Company'' k2 = Some (Inr (), k3)"
    and change: "revoke_editor ws editor k3 = Some (Inr (), k4)"
    and second: "must_deny ws editing company ''Revoked Settings Write retained group discovery'' k4 = Some (Inr (), k5)"
    and sending: "login ws sender password k5 = Some (Inr denied, k6)"
    and third: "must_deny ws denied company ''Sender without Settings Write discovered groups'' k6 = Some (Inr (), t)"
    using run by (auto simp: browser_checks_def bindD_Inr_iff)
  show ?thesis
    using must_deny_refused [OF serves first] must_deny_refused [OF serves second] must_deny_refused [OF serves third]
      login_user [OF serves editing] login_user [OF serves sending] revoke_editor_revoked [OF change] by blast
qed

lemma validate_browser_closes:
  assumes "validate_browser fr enabled ws co company other sender password editor editor_password k = Some (Inr (), t)"
  shows "ck_sessions t = [] \<and> (\<exists>k1 t1. browser_checks ws co company other sender password editor editor_password k1 = Some (Inr (), t1))"
  using assms by (auto simp: validate_browser_def close_sessions_def bindD_Inr_iff finallyD_iff changesD_iff)

text \<open>After the session with the browser nothing more happens to it.\<close>

definition keeps_browser :: "('w checks, 'a) looping \<Rightarrow> bool" where
  "keeps_browser m \<longleftrightarrow> (\<forall>k r t. m k = Some (r, t) \<longrightarrow> ck_chromium t = ck_chromium k)"

lemma keeps_browser_simps [simp]: "keeps_browser (liftR r)" "keeps_browser (worldly m)"
  by (auto simp: keeps_browser_def loop_iff)

lemma keeps_browser_bindD: "keeps_browser m \<Longrightarrow> (\<And>x. keeps_browser (f x)) \<Longrightarrow> keeps_browser (bindD m f)"
  unfolding keeps_browser_def bindD_iff by metis

lemma keeps_browser_login [simp]: "keeps_browser (login ws user pwd)"
  unfolding login_def
  by (intro keeps_browser_bindD) (auto simp: keeps_browser_def loop_iff split: option.splits list.splits)

lemma keeps_browser_must_deny [simp]: "keeps_browser (must_deny ws sid company m)"
  unfolding must_deny_def by (intro keeps_browser_bindD) simp_all

lemma keeps_browser_revoke [simp]: "keeps_browser (revoke_editor ws editor)"
  unfolding revoke_editor_def by (intro keeps_browser_bindD) simp_all

lemma browser_checks_clear:
  assumes run: "browser_checks ws co company other sender password editor editor_password k = Some (Inr (), t)"
    and host: "\<And>n. co_waited co n" "co_close co = None" "co_cleanup co = None"
  shows "cleared co (ck_chromium t)"
proof -
  obtain editing k1 k2 where session: "browsing (with_browser co (driving (settings_page (co_devtools co) editing company))) k1 = Some (Inr (), k2)"
    and rest: "bindD (must_deny ws editing other ''Editor discovered groups through a forbidden Company'') (\<lambda>_.
      bindD (revoke_editor ws editor) (\<lambda>_.
      bindD (must_deny ws editing company ''Revoked Settings Write retained group discovery'') (\<lambda>_.
      bindD (login ws sender password) (\<lambda>denied.
        must_deny ws denied company ''Sender without Settings Write discovered groups'')))) k2 = Some (Inr (), t)"
    using run unfolding browser_checks_def bindD_Inr_iff by (metis old.unit.exhaust)
  have "keeps_browser (bindD (must_deny ws editing other ''Editor discovered groups through a forbidden Company'') (\<lambda>_.
      bindD (revoke_editor ws editor) (\<lambda>_.
      bindD (must_deny ws editing company ''Revoked Settings Write retained group discovery'') (\<lambda>_.
      bindD (login ws sender password) (\<lambda>denied.
        must_deny ws denied company ''Sender without Settings Write discovered groups'')))))"
    by (intro keeps_browser_bindD) simp_all
  then have "ck_chromium t = ck_chromium k2" using rest by (simp add: keeps_browser_def)
  moreover obtain c where c: "with_browser co (driving (settings_page (co_devtools co) editing company)) new_chromium = Some (Inr (), c)"
    and k2: "ck_chromium k2 = c"
    using session by (auto simp: browsing_def split: option.splits)
  obtain c1 where "enter co new_chromium = Some (Inr (), c1)" using c by (auto simp: with_browser_def bindD_Inr_iff)
  from session_is_cleared [OF c this host] have "cleared co c" by simp
  ultimately show ?thesis using k2 by simp
qed

end
