(* ===== verification/Browser_Run.thy ===== *)
theory Browser_Run
  imports Browser_Checks Example_Group
begin

text \<open>
  A run of \<open>validate_browser\<close> that passes, on a page that answers every command in time, and the
  properties of such runs.
\<close>

section \<open>A run that passes\<close>

text \<open>A page that always answers in time: the events that arrive while the steps are performed, one
  list for each point of time, and the answers to the commands \<open>k + 1\<close>, \<open>k + 2\<close>, ...\<close>

definition answer :: "int \<Rightarrow> pyval \<Rightarrow> pyval" where
  "answer k v = PDict [(py ''id'', PInt k), (py ''result'', v)]"

definition value_answer :: "pyval \<Rightarrow> pyval" where
  "value_answer v = PDict [(py ''result'', PDict [(py ''value'', v)])]"

definition batches :: "int \<Rightarrow> pyval \<Rightarrow> pyval list list" where
  "batches k v = [[], [], [], [answer k v]]"

definition step_batches :: "int \<Rightarrow> browser_step \<Rightarrow> pyval list list" where
  "step_batches k step =
     (case step of
        Send _ _ \<Rightarrow> batches (k + 1) (PDict [])
      | Wait _ \<Rightarrow> [[], []] @ batches (k + 1) (value_answer (PBool True))
      | Evaluate _ \<Rightarrow> batches (k + 1) (value_answer (PBool True))
      | Require _ _ \<Rightarrow> batches (k + 1) (value_answer (PBool True))
      | Require_False _ \<Rightarrow> batches (k + 1) (value_answer (PBool False))
      | Click _ \<Rightarrow> batches (k + 1) (value_answer (PDict [])) @ batches (k + 2) (PDict []) @ batches (k + 3) (PDict []))"

definition commands_of :: "browser_step \<Rightarrow> int" where
  "commands_of step = (case step of Click _ \<Rightarrow> 3 | _ \<Rightarrow> 1)"

fun all_batches :: "int \<Rightarrow> browser_step list \<Rightarrow> pyval list list" where
  "all_batches k [] = []"
| "all_batches k (step # steps) = step_batches k step @ all_batches (k + commands_of step) steps"

definition follows :: "devtools \<Rightarrow> nat \<Rightarrow> pyval list list \<Rightarrow> bool" where
  "follows dt n bs \<longleftrightarrow> (\<forall>i < length bs. dt_events dt (n + i) = bs ! i)"

definition prompt :: "devtools \<Rightarrow> bool" where
  "prompt dt \<longleftrightarrow> dt_clock dt = (\<lambda>n. int n * seconds) \<and> (\<forall>n. dt_send dt n = None)"

definition quiet :: "driver \<Rightarrow> nat \<Rightarrow> int \<Rightarrow> bool" where
  "quiet d n k \<longleftrightarrow> dr_browser d = new_browser \<and> dr_ticks d = n \<and> dr_sequence d = k"

lemma follows_append [simp]: "follows dt n (a @ b) \<longleftrightarrow> follows dt n a \<and> follows dt (n + length a) b"
proof
  assume "follows dt n (a @ b)"
  then show "follows dt n a \<and> follows dt (n + length a) b"
    unfolding follows_def by (auto simp: nth_append) (metis add.assoc add_less_cancel_left add_diff_cancel_left' not_add_less1)
next
  assume "follows dt n a \<and> follows dt (n + length a) b"
  then show "follows dt n (a @ b)"
    unfolding follows_def by (auto simp: nth_append) (metis add.assoc add_diff_inverse_nat nat_add_left_cancel_less)
qed

lemma follows_Cons [simp]: "follows dt n (x # xs) \<longleftrightarrow> dt_events dt n = x \<and> follows dt (Suc n) xs"
  using follows_append [of dt n "[x]" xs] by (simp add: follows_def)

lemma follows_Nil [simp]: "follows dt n []"
  by (simp add: follows_def)

lemma reader_quiet: "quiet d n k \<Longrightarrow> dt_events dt n = [] \<Longrightarrow> quiet (reader dt d) (Suc n) k"
  by (simp add: quiet_def reader_def new_browser_def)

lemma next_response_quiet:
  "quiet d n k \<Longrightarrow> dt_events dt n = [answer j v] \<Longrightarrow>
     \<exists>t. next_response dt d = (Some (answer j v), t) \<and> quiet t (Suc n) k"
  by (auto simp: quiet_def next_response_def Let_def reader_def new_browser_def read_event_def answer_event_def bindA_def reads_def
      modifies_def answer_def dget_def QUEUE_BOUND_def py_def)

lemma answer_to_answer: "answer_to k m (answer k v) = Some (Inr v)"
  by (simp add: answer_to_def answer_def result_of_def dget_def py_def)

lemma command_quiet:
  assumes prompt: "prompt dt" and d: "quiet d n k" and follows: "follows dt n (batches (k + 1) v)"
  shows "\<exists>t. command dt m params d = Some (Inr v, t) \<and> quiet t (n + 4) (k + 1)"
proof -
  have events: "dt_events dt n = []" "dt_events dt (Suc n) = []" "dt_events dt (Suc (Suc n)) = []"
    "dt_events dt (Suc (Suc (Suc n))) = [answer (k + 1) v]"
    using follows by (simp_all add: batches_def)
  obtain u where send: "send_command dt m params d = Some (Inr (), u)" and u: "quiet u (Suc n) (k + 1)"
  proof -
    have "quiet (reader dt (d\<lparr>dr_sequence := dr_sequence d + 1\<rparr>)) (Suc n) (k + 1)"
      using d events(1) by (intro reader_quiet) (simp_all add: quiet_def)
    then show thesis
      using that prompt by (auto simp: send_command_def Let_def prompt_def quiet_def)
  qed
  have late: "dr_ticks u = Suc n" using u by (simp add: quiet_def)
  let ?deadline = "dt_clock dt (Suc n) + 45 * seconds"
  have first: "quiet (reader dt u) (Suc (Suc n)) (k + 1)" by (rule reader_quiet [OF u events(2)])
  have second: "quiet (reader dt (reader dt u)) (Suc (Suc (Suc n))) (k + 1)" by (rule reader_quiet [OF first events(3)])
  obtain t where got: "next_response dt (reader dt (reader dt u)) = (Some (answer (k + 1) v), t)"
    and t: "quiet t (Suc (Suc (Suc (Suc n)))) (k + 1)"
    using next_response_quiet [OF second events(4)] by blast
  have "command_round dt m ?deadline (reader dt u) = Some (Inr (Inr v, t))"
  proof -
    have "br_reader_error (dr_browser (reader dt (reader dt u))) = None" using second by (simp add: quiet_def new_browser_def)
    moreover have "dt_clock dt (dr_ticks (reader dt u)) < ?deadline"
      using prompt by (simp add: late prompt_def seconds_def)
    moreover have "dr_sequence t = k + 1" using t by (simp add: quiet_def)
    ultimately show ?thesis by (simp add: command_round_def got answer_to_answer)
  qed
  then have "iterate (command_round dt m ?deadline) (reader dt u) = Some (Inr v, t)"
    by (simp add: iterate.simps [of "command_round dt m l" "reader dt u" for l])
  then have "command dt m params d = Some (Inr v, t)" by (simp add: command_def bindD_def send late)
  moreover have "quiet t (n + 4) (k + 1)" using t by (simp add: numeral_eq_Suc)
  ultimately show ?thesis by blast
qed

lemma evaluate_quiet:
  assumes "prompt dt" and "quiet d n k" and "follows dt n (batches (k + 1) (value_answer v))"
  shows "\<exists>t. evaluate dt e d = Some (Inr v, t) \<and> quiet t (n + 4) (k + 1)"
proof -
  obtain t where "command dt (py ''Runtime.evaluate'') (PDict [(py ''expression'', PStr e),
         (py ''returnByValue'', PBool True), (py ''awaitPromise'', PBool True)]) d = Some (Inr (value_answer v), t)"
      "quiet t (n + 4) (k + 1)"
    using command_quiet [OF assms] by blast
  moreover have "evaluated (value_answer v) = Inr v"
    by (simp add: evaluated_def value_answer_def response_get_def get_default_def dget_def py_def)
  ultimately show ?thesis by (auto simp: evaluate_def bindD_def liftR_def)
qed

lemma wait_quiet:
  assumes prompt: "prompt dt" and d: "quiet d n k"
    and follows: "follows dt n ([[], []] @ batches (k + 1) (value_answer (PBool True)))"
  shows "\<exists>t. wait dt e d = Some (Inr (), t) \<and> quiet t (n + 6) (k + 1)"
proof -
  have events: "dt_events dt n = []" "dt_events dt (Suc n) = []"
    and rest: "follows dt (Suc (Suc n)) (batches (k + 1) (value_answer (PBool True)))"
    using follows by simp_all
  have first: "quiet (reader dt d) (Suc n) k" by (rule reader_quiet [OF d events(1)])
  have second: "quiet (reader dt (reader dt d)) (Suc (Suc n)) k" by (rule reader_quiet [OF first events(2)])
  obtain t where t: "evaluate dt e (reader dt (reader dt d)) = Some (Inr (PBool True), t)" "quiet t (n + 6) (k + 1)"
    using evaluate_quiet [OF prompt second rest, of e] by (auto simp: add.commute numeral_eq_Suc)
  let ?deadline = "dt_clock dt (dr_ticks d) + 60 * seconds"
  have "wait_round dt e ?deadline (reader dt d) = Some (Inr (Inr (), t))"
    using prompt t(1) by (simp add: wait_round_def prompt_def seconds_def)
  then have "wait dt e d = Some (Inr (), t)"
    by (simp add: wait_def iterate.simps [of "wait_round dt e l" "reader dt d" for l])
  then show ?thesis using t(2) by blast
qed

lemma click_quiet:
  assumes prompt: "prompt dt" and d: "quiet d n k"
    and follows: "follows dt n (batches (k + 1) (value_answer (PDict [])) @ batches (k + 2) (PDict []) @ batches (k + 3) (PDict []))"
  shows "\<exists>t. click dt e d = Some (Inr (), t) \<and> quiet t (n + 12) (k + 3)"
proof -
  have parts: "follows dt n (batches (k + 1) (value_answer (PDict [])))"
    "follows dt (n + 4) (batches (k + 1 + 1) (PDict []))" "follows dt (n + 4 + 4) (batches (k + 1 + 1 + 1) (PDict []))"
    using follows by (simp_all add: batches_def numeral_eq_Suc add.commute add.assoc)
  obtain t1 where t1: "evaluate dt (click_head @ e @ click_tail) d = Some (Inr (PDict []), t1)" "quiet t1 (n + 4) (k + 1)"
    using evaluate_quiet [OF prompt d parts(1)] by blast
  obtain t2 where t2: "command dt (py ''Input.dispatchMouseEvent'') (mouse_event ''mousePressed'' 1 []) t1 = Some (Inr (PDict []), t2)"
      "quiet t2 (n + 4 + 4) (k + 1 + 1)"
    using command_quiet [OF prompt t1(2) parts(2)] by blast
  obtain t3 where t3: "command dt (py ''Input.dispatchMouseEvent'') (mouse_event ''mouseReleased'' 0 []) t2 = Some (Inr (PDict []), t3)"
      "quiet t3 (n + 4 + 4 + 4) (k + 1 + 1 + 1)"
    using command_quiet [OF prompt t2(2) parts(3)] by blast
  have "click dt e d = Some (Inr (), t3)"
    by (simp add: click_def bindD_def liftR_def t1(1) t2(1) t3(1) click_point_def dget_def)
  moreover have "quiet t3 (n + 12) (k + 3)" using t3(2) by (simp add: numeral_eq_Suc add.assoc)
  ultimately show ?thesis by blast
qed

lemma perform_quiet:
  assumes "prompt dt" and "quiet d n k" and "follows dt n (step_batches k step)"
  shows "\<exists>t. perform dt step d = Some (Inr (), t) \<and> quiet t (n + length (step_batches k step)) (k + commands_of step)"
proof (cases step)
  case (Send m params)
  obtain t where "command dt m params d = Some (Inr (PDict []), t)" "quiet t (n + 4) (k + 1)"
    using command_quiet [OF assms(1,2), of "PDict []" m params] assms(3) by (auto simp: Send step_batches_def)
  then show ?thesis by (auto simp: Send perform_def bindD_def liftR_def step_batches_def batches_def commands_of_def numeral_eq_Suc)
next
  case (Wait e)
  show ?thesis using wait_quiet [OF assms(1,2), of e] assms(3) by (simp add: Wait perform_def step_batches_def batches_def commands_of_def numeral_eq_Suc)
next
  case (Evaluate e)
  obtain t where "evaluate dt e d = Some (Inr (PBool True), t)" "quiet t (n + 4) (k + 1)"
    using evaluate_quiet [OF assms(1,2), of "PBool True" e] assms(3) by (auto simp: Evaluate step_batches_def)
  then show ?thesis by (auto simp: Evaluate perform_def bindD_def liftR_def step_batches_def batches_def commands_of_def numeral_eq_Suc)
next
  case (Require e m)
  obtain t where "evaluate dt e d = Some (Inr (PBool True), t)" "quiet t (n + 4) (k + 1)"
    using evaluate_quiet [OF assms(1,2), of "PBool True" e] assms(3) by (auto simp: Require step_batches_def)
  then show ?thesis
    by (auto simp: Require perform_def bindD_def liftR_def step_batches_def batches_def commands_of_def numeral_eq_Suc)
next
  case (Require_False e)
  obtain t where "evaluate dt e d = Some (Inr (PBool False), t)" "quiet t (n + 4) (k + 1)"
    using evaluate_quiet [OF assms(1,2), of "PBool False" e] assms(3) by (auto simp: Require_False step_batches_def)
  then show ?thesis by (auto simp: Require_False perform_def bindD_def liftR_def step_batches_def batches_def commands_of_def numeral_eq_Suc)
next
  case (Click e)
  show ?thesis using click_quiet [OF assms(1,2), of e] assms(3) by (simp add: Click perform_def step_batches_def batches_def commands_of_def numeral_eq_Suc)
qed

lemma performs_quiet:
  assumes "prompt dt"
  shows "quiet d n k \<Longrightarrow> follows dt n (all_batches k steps) \<Longrightarrow>
    \<exists>t n' k'. performs dt steps d = Some (Inr (), t) \<and> quiet t n' k'"
proof (induction steps arbitrary: d n k)
  case Nil
  then show ?case by (auto simp: liftR_def)
next
  case (Cons step steps)
  obtain t where "perform dt step d = Some (Inr (), t)"
    and "quiet t (n + length (step_batches k step)) (k + commands_of step)"
    using perform_quiet [OF assms Cons.prems(1), of step] Cons.prems(2) by auto
  with Cons.IH [OF this(2)] Cons.prems(2) show ?case by (auto simp: bindD_def)
qed

section \<open>The whole run\<close>

text \<open>The page of the run, which also answers the three commands of the beginning; its port file is there
  at the first look, its process ends when asked to.\<close>

definition demo_batches :: "pyval list list" where
  "demo_batches =
     [[]] @ batches 1 (PDict []) @ batches 2 (PDict []) @ batches 3 (PDict [])
     @ all_batches 3 (open_settings (py ''editor'') @ configure_group (py ''ACME Ltd'') @ save_and_reopen (py ''ACME Ltd''))"

definition demo_page :: devtools where
  "demo_page = \<lparr>dt_clock = (\<lambda>n. int n * seconds), dt_events = (\<lambda>n. if n < length demo_batches then demo_batches ! n else []),
     dt_send = (\<lambda>_. None), dt_host_ok = (\<lambda>_. True)\<rparr>"

definition demo_chromium :: chromium_host where
  "demo_chromium = \<lparr>co_devtools = demo_page, co_profile = None, co_spawn = None, co_port_file = (\<lambda>_. True),
     co_exited = (\<lambda>_. False), co_waited = (\<lambda>_. True), co_group = (\<lambda>_. True), co_port_text = Inr (py ''9222''),
     co_pages = (\<lambda>_. Inr (PList [PDict [(py ''type'', PStr (py ''page'')), (py ''webSocketDebuggerUrl'', PStr (py ''ws://127.0.0.1'')) ]])),
     co_open = (\<lambda>_. None), co_close = None, co_cleanup = None\<rparr>"

text \<open>The site of the run: the editor may read \<open>ACME Ltd\<close> only, and change the settings until the roles
  are changed; the sender may not change them. The state says whether they have been.\<close>

definition demo_rights :: "bool \<Rightarrow> frappe" where
  "demo_rights changed = demo_frappe\<lparr>fr_site := FIXTURE_SITE,
     fr_can := (\<lambda>user action dt name. if dt = SETTINGS then user = py ''editor'' \<and> \<not> changed else name = Some (py ''ACME Ltd'')),
     fr_doc := (\<lambda>_ _. Some demo_plain)\<rparr>"

definition reply_of :: "exn + 'a \<Rightarrow> http_reply" where
  "reply_of r =
     (case r of
        Inr _ \<Rightarrow> \<lparr>rp_status = 200, rp_json = Inr (PDict [])\<rparr>
      | Inl e \<Rightarrow>
          (if exn_class e = PermissionError
           then \<lparr>rp_status = 403, rp_json = Inr (PDict [(py ''exc_type'', PStr (py ''PermissionError''))])\<rparr>
           else \<lparr>rp_status = 500, rp_json = Inr (PDict [])\<rparr>))"

definition demo_web :: "bool web_site" where
  "demo_web = \<lparr>ws_set_user = (\<lambda>_. ret ()), ws_setup_complete = (\<lambda>_. ret ()), ws_commit = ret (),
     ws_login = (\<lambda>user _. ret (Some user)),
     ws_list_groups = (\<lambda>sid company. reads (\<lambda>w. Inr (reply_of (fst (list_groups (demo_rights w) (PStr company) (demo_site\<lparr>s_user := sid\<rparr>)))))),
     ws_set_roles = (\<lambda>_ _. modifies (\<lambda>_. True))\<rparr>"

lemma demo_serves: "serves demo_web demo_rights (\<lambda>_. demo_site) (\<lambda>sid. sid)"
proof -
  have "refusal (reply_of r) \<longleftrightarrow> (\<exists>e. r = Inl e \<and> exn_class e = PermissionError)" for r :: "exn + 'a"
    by (auto simp: refusal_def reply_of_def split: sum.splits)
  then show ?thesis by (auto simp: serves_def demo_web_def ret_def reads_def)
qed

lemma demo_prompt: "prompt demo_page"
  by (simp add: prompt_def demo_page_def)

lemma demo_follows: "follows demo_page 0 demo_batches"
  by (simp add: follows_def demo_page_def)

lemma demo_session:
  "\<exists>c. with_browser demo_chromium (driving (settings_page demo_page (py ''editor'') (py ''ACME Ltd''))) new_chromium = Some (Inr (), c)"
proof -
  let ?steps = "open_settings (py ''editor'') @ configure_group (py ''ACME Ltd'') @ save_and_reopen (py ''ACME Ltd'')"
  have parts: "follows demo_page (Suc 0) (batches (0 + 1) (PDict []))" "follows demo_page (Suc 0 + 4) (batches (0 + 1 + 1) (PDict []))"
    "follows demo_page (Suc 0 + 4 + 4) (batches (0 + 1 + 1 + 1) (PDict []))"
    "follows demo_page (Suc 0 + 4 + 4 + 4) (all_batches (0 + 1 + 1 + 1) ?steps)"
    using demo_follows by (simp_all add: demo_batches_def batches_def numeral_eq_Suc)
  let ?c = "later (new_chromium\<lparr>ch_profile := True, ch_started := True\<rparr>)"
  have port: "await_port demo_chromium (new_chromium\<lparr>ch_profile := True, ch_started := True\<rparr>) = Some (Inr (), ?c)"
    by (simp add: await_port_def bindD_def start_round_def demo_chromium_def liftR_def
        iterate.simps [of "start_round x l" "later y" for x l y])
  have start: "quiet (ch_driver ?c) (Suc 0) 0" by (simp add: quiet_def later_def new_chromium_def new_driver_def)
  have url: "debugger_url demo_chromium = Inr (PStr (py ''ws://127.0.0.1''))"
    by (simp add: debugger_url_def demo_chromium_def first_line_def splitlines_def first_page_def item_def py_def
        line_break_def int_of_text_def strip_def unsigned_number_def nat_of_digits_def is_digit_def is_space_def)
  obtain d1 where d1: "command demo_page (py ''Page.enable'') PNone (ch_driver ?c) = Some (Inr (PDict []), d1)" "quiet d1 (Suc 0 + 4) (0 + 1)"
    using command_quiet [OF demo_prompt start parts(1)] by blast
  obtain d2 where d2: "command demo_page (py ''Runtime.enable'') PNone d1 = Some (Inr (PDict []), d2)" "quiet d2 (Suc 0 + 4 + 4) (0 + 1 + 1)"
    using command_quiet [OF demo_prompt d1(2) parts(2)] by blast
  obtain d3 where d3: "command demo_page (py ''Network.enable'') PNone d2 = Some (Inr (PDict []), d3)" "quiet d3 (Suc 0 + 4 + 4 + 4) (0 + 1 + 1 + 1)"
    using command_quiet [OF demo_prompt d2(2) parts(3)] by blast
  obtain d4 n k where d4: "performs demo_page ?steps d3 = Some (Inr (), d4)" "quiet d4 n k"
    using performs_quiet [OF demo_prompt d3(2) parts(4)] by blast
  have fields: "co_devtools demo_chromium = demo_page" "co_open demo_chromium u = None" "co_close demo_chromium = None"
      "co_cleanup demo_chromium = None" "co_waited demo_chromium m" "co_group demo_chromium m"
      "co_profile demo_chromium = None" "co_spawn demo_chromium = None" for u m
    by (simp_all add: demo_chromium_def)
  let ?e = "?c\<lparr>ch_connected := True, ch_driver := d3\<rparr>"
  have "connect_page demo_chromium ?c = Some (Inr (), ?e)"
    using d1(1) by (simp add: connect_page_def bindD_def liftR_def url unless_error_def fields driving_def later_def d2(1) d3(1))
  then have enter: "enter demo_chromium new_chromium = Some (Inr (), ?e)"
    by (simp add: enter_def bindD_def unless_error_def fields port)
  have page: "driving (settings_page demo_page (py ''editor'') (py ''ACME Ltd'')) ?e = Some (Inr (), ?e\<lparr>ch_driver := d4\<rparr>)"
    using d4 by (simp add: driving_def settings_page_def bindD_def no_errors_def quiet_def new_browser_def)
  have "\<exists>c. leave demo_chromium d = Some (Inr (), c)" for d
    by (simp add: leave_def stop_process_def ignoring_def bindD_def changesD_def unless_error_def exceptD_def killpg_def
        wait_process_def remove_profile_def liftR_def fields)
  then show ?thesis unfolding with_browser_def bindD_Inr_iff finallyD_iff using enter page by blast
qed

lemma demo_run:
  "\<exists>t. validate_browser (demo_rights False) True demo_web demo_chromium (py ''ACME Ltd'') (py ''Other'') (py ''ann'') (py ''p'')
     (py ''editor'') (py ''q'') \<lparr>ck_world = False, ck_chromium = new_chromium, ck_sessions = []\<rparr> = Some (Inr (), t)"
proof -
  obtain c where session: "with_browser demo_chromium (driving (settings_page demo_page (py ''editor'') (py ''ACME Ltd''))) new_chromium = Some (Inr (), c)"
    using demo_session by blast
  have page: "co_devtools demo_chromium = demo_page" by (simp add: demo_chromium_def)
  have other: "fst (list_groups (demo_rights False) (PStr (py ''Other'')) (demo_site\<lparr>s_user := py ''editor''\<rparr>)) = Inl (Exn PermissionError (py ''not permitted'') False)"
    by (simp add: list_groups_def bindA_def reads_def company_check_def get_doc_def check_permission_def demo_rights_def SETTINGS_def py_def)
  have settings: "fst (list_groups (demo_rights True) (PStr c) (demo_site\<lparr>s_user := u\<rparr>))
      = Inl (Exn PermissionError (py ''WhatsApp Settings Write permission is required.'') False)" for c u
    by (simp add: list_groups_def bindA_def reads_def demo_rights_def)
  have denies: "denied_reply (reply_of (Inl (Exn PermissionError m b))) = Inr True" for m b
    by (simp add: denied_reply_def reply_of_def response_get_def dget_def)
  have login: "login demo_web u p k = Some (Inr u, k\<lparr>ck_sessions := ck_sessions k @ [u]\<rparr>)" if "u \<noteq> []" for u p k
    using that by (cases u) (simp_all add: login_def bindD_def worldly_def demo_web_def ret_def changesD_def liftR_def)
  have asked: "ws_list_groups demo_web sid company w = (Inr (reply_of (fst (list_groups (demo_rights w) (PStr company) (demo_site\<lparr>s_user := sid\<rparr>)))), w)"
    for sid company w by (simp add: demo_web_def reads_def)
  have first: "must_deny demo_web (py ''editor'') (py ''Other'') m k = Some (Inr (), k)" if "\<not> ck_world k" for m k
    using that by (simp add: must_deny_def bindD_def worldly_def asked other denies liftR_def)
  have later: "must_deny demo_web u c m k = Some (Inr (), k)" if "ck_world k" for u c m k
    using that by (simp add: must_deny_def bindD_def worldly_def asked settings denies liftR_def)
  have change: "revoke_editor demo_web u k = Some (Inr (), k\<lparr>ck_world := True\<rparr>)" for u k
    by (simp add: revoke_editor_def bindD_def worldly_def demo_web_def ret_def modifies_def)
  have site: "require_fixture_site (demo_rights False) True = Inr ()" by (simp add: require_fixture_site_def demo_rights_def)
  have idle: "ws_set_user demo_web u = ret ()" "ws_setup_complete demo_web u = ret ()" "ws_commit demo_web = ret ()" for u
    by (simp_all add: demo_web_def)
  have named: "py ''editor'' \<noteq> []" "py ''ann'' \<noteq> []" by (simp_all add: py_def)
  show ?thesis
    by (simp add: validate_browser_def bindD_def named liftR_def site idle worldly_def ret_def bindA_def changesD_def finallyD_def
        browser_checks_def login first later change browsing_def page session close_sessions_def)
qed

section \<open>Properties\<close>

text \<open>After a check that passes no session is open and, on a system where Chromium can be stopped, its
  process group is gone and its profile removed.\<close>

lemma browser_check_clears:
  assumes "validate_browser fr enabled ws co company other sender password editor editor_password k = Some (Inr (), t)"
    and "\<And>n. co_waited co n" and "co_close co = None" and "co_cleanup co = None"
  shows "cleared co (ck_chromium t) \<and> ck_sessions t = []"
proof -
  obtain k1 t1 where "browser_checks ws co company other sender password editor editor_password k1 = Some (Inr (), t1)"
    and "ck_chromium t = ck_chromium t1" "ck_sessions t = []"
    using assms(1) by (auto simp: validate_browser_def close_sessions_def bindD_Inr_iff finallyD_iff changesD_iff)
  then show ?thesis using browser_checks_clear [OF _ assms(2-4)] by simp
qed





end
