(* ===== verification/Live_Delivery.thy ===== *)
theory Live_Delivery
  imports Peer_Contracts Guarantees Releases
begin

text \<open>
  The site and the protocol peer run together: a delivery that was queued goes out with its next
  job, the peer records it, its copy is released, passes its check and goes out too. Everything here
  is about runs in which nothing is revoked, changed or lost meanwhile; the other runs are the
  subject of the invariants.
\<close>

section \<open>An attempt that succeeds\<close>

text \<open>The answer of the peer is what a submitted record is made from.\<close>

lemma submitted_confirmed: "\<exists>at. submitted fr h confirmed = Inr (h\<lparr>h_status := Submitted_to_WhatsApp, h_submitted_at := Some at,
     h_provider_message_ids := Some (json_dumps default_style (PList [PStr (py ''synthetic-confirmed-id'')])),
     h_result_message := py ''Submitted to WhatsApp'', h_error_message := [], h_next_retry_at := None\<rparr>)"
proof -
  have "case fromisoformat (replace_Z (py ''2026-01-01T00:00:00Z'')) of Inl _ \<Rightarrow> False | Inr _ \<Rightarrow> True" by code_simp
  then have "\<exists>d. fromisoformat (replace_Z (py ''2026-01-01T00:00:00Z'')) = Inr d" by (auto split: sum.splits)
  then have "\<exists>at. provider_datetime (Text (py ''2026-01-01T00:00:00Z'')) (fr_zone fr) = Inr (Some at)"
    by (auto simp: provider_datetime_def)
  then show ?thesis
    by (auto simp: submitted_def confirmed_def response_get_def dget_def dt_of_def or_else_def)
qed

text \<open>A record after an attempt that was confirmed.\<close>

definition submitted_row :: "history \<Rightarrow> history \<Rightarrow> bool" where
  "submitted_row h h' \<longleftrightarrow>
     h_status h' = Submitted_to_WhatsApp \<and> identity_of h' = identity_of h \<and> h_error_message h' = []
     \<and> nonempty (h_provider_message_ids h') \<and> h_retry_count h' = h_retry_count h + 1"

lemma save_history_runs:
  assumes "row_get (s_history s) n = Some b" "identity_of h = identity_of b" "references_ok h"
    and "terminal (h_status h) \<Longrightarrow> nonempty (h_provider_message_ids h)"
  shows "save_history n h s = (Inr (), put_history n h s)"
proof -
  have "validate_history (Some b) h = Inr ()" using assms(2-4) by (simp add: validate_history_Inr_iff)
  then show ?thesis using assms(1) by (simp add: save_history_def bindA_def reads_def modifies_def)
qed

lemma is_group_started: "is_group (started h now) = is_group h"
  by (simp add: started_def is_group_def)

lemma references_ok_started [simp]: "references_ok (started h now) = references_ok h"
  by (simp add: references_ok_def started_def split: reference_kind.split)

section \<open>The site beside the peer\<close>

text \<open>
  The peer answers from its present state, at the time \<open>now\<close>; a run of the worker leaves it in the
  state after the requests that were put on the wire. A run sends at most one.
\<close>

record bench =
  bn_site :: site
  bn_peer :: capture

definition connected :: "frappe \<Rightarrow> int \<Rightarrow> capture \<Rightarrow> frappe" where
  "connected fr now p = fr\<lparr>fr_peer := \<lambda>_ q. fst (do_POST fr now q p)\<rparr>"

fun receives :: "frappe \<Rightarrow> int \<Rightarrow> wire list \<Rightarrow> capture \<Rightarrow> capture" where
  "receives fr now [] p = p"
| "receives fr now (Http q # ws) p = receives fr now ws (snd (do_POST fr now q p))"
| "receives fr now (External _ _ # ws) p = receives fr now ws p"

definition on_bench :: "frappe \<Rightarrow> (nat \<Rightarrow> int) \<Rightarrow> (frappe \<Rightarrow> (site, 'a) act) \<Rightarrow> (bench, 'a) act" where
  "on_bench fr clock act b =
     (let s = bn_site b; now = clock (s_ticks s)
      in case act (connected fr now (bn_peer b)) s of
           (r, t) \<Rightarrow> (r, \<lparr>bn_site = t, bn_peer = receives fr now (drop (length (s_wire s)) (s_wire t)) (bn_peer b)\<rparr>))"

definition worker_run :: "frappe \<Rightarrow> (nat \<Rightarrow> int) \<Rightarrow> pystr \<Rightarrow> (bench, unit) act" where
  "worker_run fr clock n = on_bench fr clock (\<lambda>fr. process_outbound_message fr n)"

text \<open>
  The connection works: both sides hold the same key, their clocks agree whenever a request goes
  out, the nonces to come are fresh and distinct, and the peer does not refuse groups.
\<close>

definition line_works :: "frappe \<Rightarrow> (nat \<Rightarrow> int) \<Rightarrow> bench \<Rightarrow> bool" where
  "line_works fr clock b \<longleftrightarrow>
     hex_digests fr \<and> secret fr = Inr (p_key (bn_peer b)) \<and> fr_site fr = FIXTURE_SITE
     \<and> (\<forall>n. clocks_agree fr (Suc n) (clock n))
     \<and> (\<forall>n. s_ticks (bn_site b) \<le> n \<longrightarrow> fresh_nonce fr n (bn_peer b)) \<and> inj (fr_nonce fr)"

text \<open>The transport of linked devices is the bundled one, not replaced by another app.\<close>

definition linked_device :: transport where
  "linked_device = \<lparr>tr_send = Some bundled_sender, tr_gateway_provider = Some (py ''Baileys'')\<rparr>"

definition texts_plain :: "frappe \<Rightarrow> history \<Rightarrow> pdf list \<Rightarrow> bool" where
  "texts_plain fr h pdfs \<longleftrightarrow>
     list_all plain_char (h_recipient h) \<and> list_all plain_char (h_message_text h) \<and> list_all plain_char (h_idempotency_key h)
     \<and> list_all (\<lambda>(f, b). list_all plain_char f \<and> list_all plain_char b) pdfs"

lemma payload_ok:
  assumes "texts_plain fr h pdfs" and "fr_site fr = FIXTURE_SITE"
  shows "json_ok True (send_payload fr h st pdfs (py ''Baileys''))"
proof -
  have pdf: "list_all (json_ok True) (map pdf_value pdfs)"
  proof -
    have "json_ok True (pdf_value x)" if "x \<in> set pdfs" for x
      using assms(1) that
      by (cases x) (fastforce simp: texts_plain_def list_all_iff pdf_value_def char_ok_plain [abs_def] py_def plain_ascii)
    then show ?thesis by (simp add: list_all_iff)
  qed
  have kind: "list_all plain_char (recipient_kind_text k)" for k
    by (simp add: recipient_kind_text_def py_def plain_ascii split: option.split recipient_kind.split)
  show ?thesis
    using assms pdf kind
    by (simp add: send_payload_def site_payload_def char_ok_plain [abs_def] FIXTURE_SITE_def texts_plain_def)
       (simp add: py_def plain_ascii)
qed

section \<open>The checks do not ask the peer\<close>

lemma connected_fields [simp]:
  "fr_site (connected fr now p) = fr_site fr" "fr_clock (connected fr now p) = fr_clock fr"
  "fr_nonce (connected fr now p) = fr_nonce fr" "fr_epoch (connected fr now p) = fr_epoch fr"
  "fr_listing (connected fr now p) = fr_listing fr" "fr_enqueue (connected fr now p) = fr_enqueue fr"
  "fr_user_enabled (connected fr now p) = fr_user_enabled fr" "fr_can (connected fr now p) = fr_can fr"
  "fr_doc (connected fr now p) = fr_doc fr" "fr_roles (connected fr now p) = fr_roles fr"
  "fr_sha256 (connected fr now p) = fr_sha256 fr" "fr_hmac (connected fr now p) = fr_hmac fr"
  "fr_key_file (connected fr now p) = fr_key_file fr" "fr_transport_providers (connected fr now p) = fr_transport_providers fr"
  "fr_document_providers (connected fr now p) = fr_document_providers fr"
  "fr_report_providers (connected fr now p) = fr_report_providers fr"
  "fr_print_format_rows (connected fr now p) = fr_print_format_rows fr"
  "fr_print_format_has_disabled (connected fr now p) = fr_print_format_has_disabled fr"
  "fr_report_permitted (connected fr now p) = fr_report_permitted fr"
  "fr_peer (connected fr now p) n q = fst (do_POST fr now q p)"
  by (simp_all add: connected_def)

lemma connected_checks [simp]:
  "secret (connected fr now p) = secret fr" "hex_digests (connected fr now p) = hex_digests fr"
  "clocks_agree (connected fr now p) = clocks_agree fr" "fresh_nonce (connected fr now p) = fresh_nonce fr"
  "get_transport (connected fr now p) = get_transport fr" "send_payload (connected fr now p) = send_payload fr"
  "pdf_payload (connected fr now p) = pdf_payload fr"
  by (unfold secret_def [abs_def] hex_digests_def [abs_def] clocks_agree_def [abs_def] fresh_nonce_def [abs_def] get_transport_def [abs_def]
      transport_registry_def [abs_def] send_payload_def [abs_def] site_payload_def [abs_def] pdf_payload_def [abs_def] connected_fields, (rule refl)+)

lemma connected_peer [simp]: "do_POST (connected fr now p) = do_POST fr"
  by (simp add: connected_def peer_ignores_itself)

lemma connected_release [simp]:
  "release_waiting_copies (connected fr now p) = release_waiting_copies fr"
  "release_if_original (connected fr now p) = release_if_original fr"
  by (unfold release_if_original_def [abs_def] release_waiting_copies_def [abs_def] release_copy_def [abs_def] history_names_def [abs_def]
      enqueue_def [abs_def] connected_fields, (rule refl)+)

lemma connected_authority [simp]: "check_authority (connected fr now p) = check_authority fr"
  by (unfold check_authority_def [abs_def] require_sender_def [abs_def] can_send_def [abs_def] is_manager_def [abs_def] get_roles_def [abs_def]
      configured_group_def [abs_def] company_check_def [abs_def] check_source_def [abs_def] check_document_source_def [abs_def] check_report_source_def [abs_def]
      validate_document_def [abs_def] validate_report_def [abs_def] report_company_def [abs_def] may_run_def [abs_def] validate_print_format_def [abs_def] print_formats_def [abs_def]
      document_adapter_def [abs_def] document_adapters_def [abs_def] report_adapter_def [abs_def] report_adapters_def [abs_def]
      check_permission_def [abs_def] get_doc_def [abs_def] connected_fields, (rule refl)+)

lemma connected_copy [simp]: "validate_copy (connected fr now p) = validate_copy fr"
  by (unfold validate_copy_def [abs_def] check_as_owner_def [abs_def] check_owner_def [abs_def] connected_fields connected_authority, (rule refl)+)

lemma connected_outside [simp]:
  "fr_hash (connected fr now p) = fr_hash fr" "fr_name (connected fr now p) = fr_name fr" "fr_file_name (connected fr now p) = fr_file_name fr"
  "fr_print (connected fr now p) = fr_print fr" "fr_customer_contacts (connected fr now p) = fr_customer_contacts fr"
  "fr_doctype_exists (connected fr now p) = fr_doctype_exists fr"
  by (simp_all add: connected_def)

lemma connected_store [simp]: "store_delivery (connected fr now p) = store_delivery fr"
  by (unfold store_delivery_def [abs_def] store_one_def [abs_def] group_of_delivery_def [abs_def] now_datetime_def [abs_def] new_history_def [abs_def]
      insert_history_def [abs_def] save_file_def [abs_def] enqueue_def [abs_def] configured_group_def [abs_def] company_check_def [abs_def] check_permission_def [abs_def] get_doc_def [abs_def]
      connected_fields connected_outside, rule refl)

lemma connected_request [simp]: "document_request (connected fr now p) = document_request fr"
  by (unfold document_request_def [abs_def] require_sender_def [abs_def] can_send_def [abs_def] is_manager_def [abs_def] get_roles_def [abs_def]
      validate_document_def [abs_def] document_adapter_def [abs_def] document_adapters_def [abs_def] check_permission_def [abs_def]
      numbers_of_party_def [abs_def] customer_numbers_def [abs_def] validate_print_format_def [abs_def] print_formats_def [abs_def]
      validate_selected_template_def [abs_def] get_doc_def [abs_def]
      add_address_def [abs_def] add_contact_def [abs_def] contact_names_def [abs_def] connected_fields connected_outside, rule refl)

section \<open>A run that sends\<close>

lemma release_if_original_returns: "outcome (release_if_original fr n h) s = Inr ()"
  using release_waiting_copies_returns by (simp add: release_if_original_def ret_def)

lemma release_wire: "s_wire (after (release_if_original fr n h) s) = s_wire s"
proof -
  have "keeps (same surroundings) (release_if_original fr n h)"
    by (rule keeps_release_if_original(2) [where g = h_owner]) simp
  then have "surroundings (after (release_if_original fr n h) s) = surroundings s" by (simp add: keeps_def same_def)
  then show ?thesis by (simp add: surroundings_def)
qed

text \<open>A copy that passes every part of its check, and still does once its record is marked as being
  processed.\<close>

definition copy_ready :: "frappe \<Rightarrow> history \<Rightarrow> site \<Rightarrow> bool" where
  "copy_ready fr h s \<longleftrightarrow>
     check_parent h s = Inr True \<and> check_owner fr h = Inr ()
     \<and> check_authority fr (s_settings s) h (s\<lparr>s_user := h_owner h\<rparr>) = Inr ()"

lemma copy_ready_passes:
  assumes ready: "copy_ready fr h s" and group: "is_group h" and row: "row_get (s_history s) n = Some h"
  shows "outcome (validate_copy fr (started h now) (s_settings s)) (put_history n (started h now) (s\<lparr>s_ticks := k\<rparr>)) = Inr True"
proof -
  let ?s1 = "put_history n (started h now) (s\<lparr>s_ticks := k\<rparr>)"
  obtain p parent where p: "h_copy_of h = Some p" "row_get (s_history s) p = Some parent" "terminal (h_status parent)"
    "\<not> is_group parent" "\<not> is_copy parent" "content_of h = content_of parent"
    using ready by (auto simp: copy_ready_def check_parent_True)
  have "p \<noteq> n" using p(2,4) row group by auto
  then have "row_get (s_history ?s1) p = Some parent" using p(2) by simp
  moreover have "h_copy_of (started h now) = h_copy_of h" "content_of (started h now) = content_of h"
    by (simp_all add: started_def content_of_def)
  ultimately have parent: "check_parent (started h now) ?s1 = Inr True" using p by (simp add: check_parent_True)
  have owner: "check_owner fr (started h now) = Inr ()" "h_owner (started h now) = h_owner h"
    using ready by (auto simp: copy_ready_def check_owner_def started_def split: if_splits)
  have auth: "check_authority fr (s_settings s) (started h now) (?s1\<lparr>s_user := h_owner h\<rparr>) = Inr ()"
    using ready check_authority_cong [of "?s1\<lparr>s_user := h_owner h\<rparr>" "s\<lparr>s_user := h_owner h\<rparr>" fr]
    by (simp add: check_authority_started copy_ready_def)
  show ?thesis by (simp add: validate_copy_eq parent check_as_owner_eq owner auth Let_def)
qed

text \<open>Everything about the record and the site that an attempt checks is in order.\<close>

definition sendable :: "frappe \<Rightarrow> pystr \<Rightarrow> history \<Rightarrow> pdf list \<Rightarrow> site \<Rightarrow> bool" where
  "sendable fr n h pdfs s \<longleftrightarrow>
     row_get (s_history s) n = Some h \<and> attemptable h s (fr_clock fr (s_ticks s)) \<and> references_ok h
     \<and> st_enabled (s_settings s) \<and> get_transport fr (h_provider h) = Inr linked_device
     \<and> (is_group h \<longrightarrow> copy_ready fr h s)
     \<and> pdf_payload fr n h s = Inr pdfs \<and> snapshots_sent pdfs \<and> texts_plain fr h pdfs"

lemma connected_sendable [simp]: "sendable (connected fr now p) = sendable fr"
  by (unfold sendable_def [abs_def] copy_ready_def [abs_def] check_owner_def [abs_def] texts_plain_def [abs_def] connected_fields
      connected_checks connected_authority, rule refl)

text \<open>The site when the request goes out.\<close>

definition trying :: "frappe \<Rightarrow> pystr \<Rightarrow> history \<Rightarrow> site \<Rightarrow> site" where
  "trying fr n h s = put_history n (started h (fr_clock fr (s_ticks s))) (s\<lparr>s_ticks := Suc (s_ticks s)\<rparr>)"

lemma trying_fields [simp]:
  "s_ticks (trying fr n h s) = Suc (s_ticks s)" "s_wire (trying fr n h s) = s_wire s"
  "s_settings (trying fr n h s) = s_settings s" "s_files (trying fr n h s) = s_files s" "s_jobs (trying fr n h s) = s_jobs s"
  "row_get (s_history (trying fr n h s)) m = (if m = n then Some (started h (fr_clock fr (s_ticks s))) else row_get (s_history s) m)"
  by (simp_all add: trying_def)

lemma started_payload:
  "send_payload fr (started h now) st pdfs g = send_payload fr h st pdfs g"
  "h_idempotency_key (started h now) = h_idempotency_key h" "h_provider (started h now) = h_provider h"
  by (simp_all add: send_payload_def started_def)

text \<open>An attempt is one try to send, and what it makes of the record.\<close>

lemma attempt_runs:
  fixes fr n h s
  defines "d \<equiv> started h (fr_clock fr (s_ticks s))"
  assumes row: "row_get (s_history s) n = Some h" "attemptable h s (fr_clock fr (s_ticks s))" "references_ok h"
  shows "process_outbound_message fr n s =
      bindA (catchA (try_send fr n d) (attempt_failed fr d))
        (\<lambda>h'. bindA (save_history n h') (\<lambda>_. release_if_original fr n h')) (trying fr n h s)"
proof -
  have same: "identity_of d = identity_of h" by (simp add: identity_of_def content_of_def started_def d_def)
  have busy: "\<not> terminal (h_status d)" by (simp add: started_def terminal_def d_def)
  have process: "process_outbound_message fr n s = run_attempt fr n h (fr_clock fr (s_ticks s)) (s\<lparr>s_ticks := Suc (s_ticks s)\<rparr>)"
    using row by (simp add: process_outbound_message_def bindA_steps get_history_def now_datetime_def attemptable_def)
  have save: "save_history n d (s\<lparr>s_ticks := Suc (s_ticks s)\<rparr>) = (Inr (), trying fr n h s)"
    unfolding trying_def d_def [symmetric] by (rule save_history_runs [of _ _ h]) (use row same busy in \<open>simp_all add: d_def\<close>)
  show ?thesis unfolding process
    by (simp add: run_attempt_def Let_def d_def [symmetric] bindA_def catchA_def save)
qed

text \<open>Where all is in order it comes to the transport, and what the transport answers decides it.\<close>

lemma attempt_sends:
  fixes fr n h s
  defines "d \<equiv> started h (fr_clock fr (s_ticks s))"
  assumes ok: "sendable fr n h pdfs s"
  shows "try_send fr n d (trying fr n h s) = bindA (send_via_bundled_gateway fr d (s_settings s) pdfs linked_device)
        (\<lambda>result. reads (\<lambda>_. submitted fr d result)) (trying fr n h s)"
proof -
  note k = ok [unfolded sendable_def]
  have "outcome (validate_copy fr d (s_settings s)) (trying fr n h s) = Inr True" if "is_group h"
    unfolding trying_def d_def using copy_ready_passes k that by blast
  then have "outcome (check_copy fr d (s_settings s)) (trying fr n h s) = Inr ()"
    by (simp add: check_copy_eq is_group_started d_def)
  moreover have "pdf_payload fr n d (trying fr n h s) = Inr pdfs"
    using k pdf_payload_cong [of "trying fr n h s" s] by (simp add: d_def)
  moreover have "tr_send linked_device = Some bundled_sender" by (simp add: linked_device_def)
  ultimately show ?thesis
    using k by (simp add: try_send_eq check_enabled_def bindA_def reads_def send_delivery_def started_payload d_def)
qed

lemma attempt_succeeds:
  assumes ok: "sendable fr n h pdfs s"
    and sent: "send_via_bundled_gateway fr (started h (fr_clock fr (s_ticks s))) (s_settings s) pdfs linked_device (trying fr n h s)
      = (Inr confirmed, s2)"
  shows "\<exists>h'. submitted_row h h' \<and>
    process_outbound_message fr n s = release_if_original fr n h' (put_history n h' s2)"
proof -
  let ?d = "started h (fr_clock fr (s_ticks s))"
  obtain at where h': "submitted fr ?d confirmed = Inr (?d\<lparr>h_status := Submitted_to_WhatsApp, h_submitted_at := Some at,
     h_provider_message_ids := Some (json_dumps default_style (PList [PStr (py ''synthetic-confirmed-id'')])),
     h_result_message := py ''Submitted to WhatsApp'', h_error_message := [], h_next_retry_at := None\<rparr>)" (is "_ = Inr ?h'")
    using submitted_confirmed by blast
  have same: "identity_of ?h' = identity_of h" "identity_of ?d = identity_of h"
    by (simp_all add: identity_of_def content_of_def started_def)
  have ids: "nonempty (h_provider_message_ids ?h')" by (simp add: nonempty_def)
  have refs: "references_ok ?h'"
    using ok by (cases "h_reference_type h") (simp_all add: sendable_def references_ok_def started_def)
  have send: "send_delivery fr ?d (s_settings s) pdfs (trying fr n h s) = (Inr confirmed, s2)"
    using sent ok by (simp add: send_delivery_def bindA_def reads_def started_payload sendable_def) (simp add: linked_device_def)
  obtain k w where "s2 = (trying fr n h s)\<lparr>s_ticks := k\<rparr> \<or> s2 = (trying fr n h s)\<lparr>s_ticks := k, s_wire := s_wire s @ [w]\<rparr>"
    using send_delivery_effect [OF send] by (auto simp del: trying_fields) (metis trying_fields(2))
  then have "row_get (s_history s2) n = Some ?d" by auto
  then have "save_history n ?h' s2 = (Inr (), put_history n ?h' s2)"
    by (rule save_history_runs) (use same ids refs in simp_all)
  moreover have "try_send fr n ?d (trying fr n h s) = (Inr ?h', s2)"
    using sent h' by (simp add: attempt_sends [OF ok] bindA_def reads_def)
  moreover note attempt_runs [of s n h fr]
  ultimately have "process_outbound_message fr n s = release_if_original fr n ?h' (put_history n ?h' s2)"
    using ok by (simp add: sendable_def bindA_def catchA_def)
  moreover have "submitted_row h ?h'" using same ids by (simp add: submitted_row_def)
  ultimately show ?thesis by blast
qed

text \<open>The site after the attempt, before copies are released.\<close>

definition sent_site :: "pystr \<Rightarrow> history \<Rightarrow> http_request \<Rightarrow> site \<Rightarrow> site" where
  "sent_site n h' q s = put_history n h' (s\<lparr>s_ticks := s_ticks s + 2, s_wire := s_wire s @ [Http q]\<rparr>)"

lemma put_trying:
  "put_history n h' ((trying fr n h s)\<lparr>s_ticks := Suc (Suc (s_ticks s)), s_wire := s_wire s @ [Http q]\<rparr>) = sent_site n h' q s"
  by (simp add: put_history_def row_put_def sent_site_def trying_def)

lemma worker_sends:
  assumes line: "line_works fr clock b" and ok: "sendable fr n h pdfs (bn_site b)"
    and new: "lookup (p_deliveries (bn_peer b)) (PStr (h_idempotency_key h)) = None"
    and willing: "is_group h \<Longrightarrow> p_group_failures (bn_peer b) = 0"
  shows "\<exists>h' q. submitted_row h h' \<and> worker_run fr clock n b =
    (Inr (), \<lparr>bn_site = after (release_if_original fr n h') (sent_site n h' q (bn_site b)),
       bn_peer = recorded (fr_nonce fr (Suc (s_ticks (bn_site b)))) (h_idempotency_key h)
         (send_payload fr h (s_settings (bn_site b)) pdfs (py ''Baileys'')) (bn_peer b)\<rparr>)"
proof -
  let ?s = "bn_site b" and ?p = "bn_peer b" and ?now = "clock (s_ticks (bn_site b))"
  let ?fr = "connected fr ?now ?p" and ?d = "started h (fr_clock fr (s_ticks ?s))" and ?st = "s_settings ?s"
  let ?s1 = "trying ?fr n h ?s"
  have texts: "texts_plain fr h pdfs" "snapshots_sent pdfs" using ok by (simp_all add: sendable_def)
  have "json_ok True (send_payload ?fr ?d ?st pdfs (py ''Baileys''))"
    using payload_ok [OF texts(1)] line by (simp add: line_works_def started_payload)
  then obtain q where q: "send_via_bundled_gateway ?fr ?d ?st pdfs linked_device ?s1
      = (Inr confirmed, ?s1\<lparr>s_ticks := Suc (s_ticks ?s1), s_wire := s_wire ?s1 @ [Http q]\<rparr>)"
    "snd (do_POST fr ?now q ?p) = recorded (fr_nonce fr (Suc (s_ticks ?s))) (h_idempotency_key h) (send_payload fr h ?st pdfs (py ''Baileys'')) ?p"
    using signed_send [of linked_device "py ''Baileys''" ?fr ?p ?s1 ?now ?d ?st pdfs] line texts(2) new willing
    by (auto simp: linked_device_def line_works_def started_payload is_group_started)
  obtain h' where h': "submitted_row h h'"
    "process_outbound_message ?fr n ?s = release_if_original fr n h' (sent_site n h' q ?s)"
    using attempt_succeeds [of ?fr n h pdfs ?s] ok q(1) by (auto simp: put_trying)
  then have run: "process_outbound_message ?fr n ?s = (Inr (), after (release_if_original fr n h') (sent_site n h' q ?s))"
    using release_if_original_returns [of fr n h' "sent_site n h' q ?s"] by (metis prod.collapse)
  have "drop (length (s_wire ?s)) (s_wire (after (release_if_original fr n h') (sent_site n h' q ?s))) = [Http q]"
    by (simp add: release_wire sent_site_def)
  then have "worker_run fr clock n b = (Inr (), \<lparr>bn_site = after (release_if_original fr n h') (sent_site n h' q ?s),
      bn_peer = snd (do_POST fr ?now q ?p)\<rparr>)"
    by (simp add: worker_run_def on_bench_def Let_def run)
  with h'(1) q(2) show ?thesis by auto
qed

section \<open>What was accepted passes again\<close>

text \<open>
  A delivery that \<open>queue_document\<close> or \<open>queue_report\<close> accepted; the filters of a report can be
  written as JSON, and no report registers one filter twice.
\<close>

definition filters_storable :: "frappe \<Rightarrow> site \<Rightarrow> pystr \<Rightarrow> pyval \<Rightarrow> bool" where
  "filters_storable fr s n f \<longleftrightarrow>
     (case validate_report fr s n f of
        Inl _ \<Rightarrow> True
      | Inr (a, d, _, _) \<Rightarrow> a_party_type_filter a \<noteq> a_customer_filter a \<and> json_ok False (PDict d))"

definition accepted_delivery :: "frappe \<Rightarrow> site \<Rightarrow> delivery_request \<Rightarrow> pystr \<Rightarrow> bool" where
  "accepted_delivery fr s d number \<longleftrightarrow>
     (\<exists>dt n r pf m sm mt. document_request fr dt n r pf m sm mt s = Inr (d, number))
     \<or> (\<exists>n f r m mt. report_request fr n f r m mt s = Inr (d, number) \<and> filters_storable fr s n f)"

lemma row_of_source:
  "row_of fr st d r c h \<Longrightarrow>
     h_company h = dr_company d \<and> h_reference_type h = dr_reference_type d \<and> h_reference_doctype h = dr_reference_doctype d
     \<and> h_reference_name h = dr_reference_name d \<and> h_report_name h = dr_report_name d
     \<and> h_report_filters h = dr_report_filters d \<and> h_source_modified h = dr_source_modified d
     \<and> h_print_format h = dr_print_format d \<and> h_recipient h = r \<and> h_provider h = st_provider st
     \<and> h_message_text h = dr_message d"
  by (auto simp: row_of_def new_history_def)

lemma print_format_again:
  "validate_print_format fr dt pf = Inr q \<Longrightarrow>
     \<exists>q'. validate_print_format fr dt (case stored_format q of None \<Rightarrow> [] | Some p \<Rightarrow> p) = Inr q'"
  by (auto simp: validate_print_format_def stored_format_def Let_def print_formats_def split: if_splits)

lemma document_checks_again:
  assumes req: "document_request fr dt n r pf m sm mt s = Inr (d, number)"
    and row: "row_of fr st d g c h" and company: "opt_value (dr_company d) = PStr co"
  shows "require_sender fr s = Inr () \<and> check_source fr h s = Inr ()"
proof -
  obtain doc adapter q where ok: "require_sender fr s = Inr ()" "validate_document fr s dt n = Inr (doc, adapter)"
    "b_modified doc = sm" "validate_print_format fr dt pf = Inr q" "dr_print_format d = stored_format q"
    "dr_company d = as_text (field doc (a_company_field adapter))" "dr_reference_type d = Document"
    "dr_reference_doctype d = Some dt" "dr_reference_name d = Some n" "dr_source_modified d = Some sm"
    using document_request_Inr [OF req] by metis
  have "field doc (a_company_field adapter) = opt_value (dr_company d)"
    using ok(6) company by (auto simp: as_text_def opt_value_def split: pyval.splits)
  moreover obtain q' where "validate_print_format fr dt (case stored_format q of None \<Rightarrow> [] | Some p \<Rightarrow> p) = Inr q'"
    using print_format_again [OF ok(4)] ..
  ultimately show ?thesis
    using ok row_of_source [OF row] by (simp add: check_source_def check_document_source_def)
qed

lemma report_checks_again:
  assumes req: "report_request fr n f r m mt s = Inr (d, number)" and storable: "filters_storable fr s n f"
    and row: "row_of fr st d g c h"
  shows "require_sender fr s = Inr () \<and> check_source fr h s = Inr ()"
proof -
  obtain a fs customer co where ok: "require_sender fr s = Inr ()" "validate_report fr s n f = Inr (a, fs, customer, co)"
    "dr_company d = Some co" "dr_reference_type d = Report" "dr_report_name d = Some n"
    "dr_report_filters d = Some (json_dumps compact_style (PDict fs))"
    using report_request_Inr [OF req] by metis
  have json: "json_loads (json_dumps compact_style (PDict fs)) = Inr (PDict fs)"
    by (rule json_loads_dumps [OF style_ok_used(2)])
       (use storable ok(2) in \<open>simp add: filters_storable_def compact_style_def\<close>)
  have again: "validate_report fr s n (PStr (json_dumps compact_style (PDict fs))) = Inr (a, fs, customer, co)"
    by (rule revalidate [OF ok(2) _ read_filters_text [OF json]]) (use storable ok(2) in \<open>simp add: filters_storable_def\<close>)
  obtain report where "get_doc fr (py ''Report'') n = Inr report" "fr_report_permitted fr (s_user s) n"
    using ok(2) by (auto simp: validate_report_Inr_iff may_run_def get_doc_Inr_iff)
  then show ?thesis
    using ok again row_of_source [OF row]
    by (simp add: check_source_def check_report_source_def opt_value_def)
qed

lemma queued_copy_ready:
  assumes accepted: "accepted_delivery fr s d number"
    and group: "configured_group fr (s_settings s) (opt_value (dr_company d)) s = Inr (Some g)"
    and copy: "row_of fr (s_settings s) d g (Some p) k" "h_owner k = s_user s" and enabled: "fr_user_enabled fr (s_user s)"
    and later: "s_settings t = s_settings s" "row_get (s_history t) p = Some h'"
      "terminal (h_status h')" "\<not> is_group h'" "\<not> is_copy h'" "content_of k = content_of h'"
  shows "copy_ready fr k t"
proof -
  obtain co where company: "opt_value (dr_company d) = PStr co"
    using configured_group_Some [OF group] by metis
  have source: "require_sender fr s = Inr () \<and> check_source fr k s = Inr ()"
    using accepted document_checks_again [OF _ copy(1) company] report_checks_again [OF _ _ copy(1)]
    unfolding accepted_delivery_def by metis
  have "check_authority fr (s_settings s) k s = Inr ()"
    using source group row_of_source [OF copy(1)] by (simp add: check_authority_Inr_iff)
  moreover have "check_authority fr (s_settings s) k (t\<lparr>s_user := s_user s\<rparr>) = check_authority fr (s_settings s) k s"
    by (rule check_authority_cong) (simp_all add: later)
  moreover have "s_user s \<noteq> py ''Guest''" using source by (auto simp: require_sender_def split: if_splits)
  moreover have "h_copy_of k = Some p" using row_of_copy [OF copy(1)] by simp
  ultimately show ?thesis
    using later enabled copy(2) by (simp add: copy_ready_def check_parent_True check_owner_def)
qed

section \<open>Plain texts\<close>

lemma decimal_plain: "is_decimal c \<Longrightarrow> plain_char c"
  by (auto simp: is_decimal_def nd_zeros_def plain_char_def)

lemma normalized_plain: "normalize_number v = Inr n \<Longrightarrow> list_all plain_char n"
proof -
  assume "normalize_number v = Inr n"
  then obtain ds where "n = py ''+'' @ ds" "matches_number ds"
    by (auto simp: normalize_number_def Let_def split: if_splits)
  then show ?thesis
    using decimal_plain by (auto simp: matches_number_def list_all_iff py_plus plain_ascii split: list.splits)
qed

lemma group_plain: "matches_group g \<Longrightarrow> list_all plain_char g"
proof -
  assume g: "matches_group g"
  have digits: "is_ascii_digit c \<Longrightarrow> plain_char c" for c by (simp add: is_ascii_digit_def plain_ascii)
  have taken: "list_all plain_char (takeWhile is_ascii_digit x)" for x
    using digits by (auto simp: list_all_iff dest: set_takeWhileD)
  have suffix: "list_all plain_char (py ''@g.us'')" by (simp add: group_suffix plain_ascii)
  have split: "x = takeWhile is_ascii_digit x @ dropWhile is_ascii_digit x" for x by simp
  consider "dropWhile is_ascii_digit g = py ''@g.us''"
    | r where "dropWhile is_ascii_digit g = 45 # r" "dropWhile is_ascii_digit r = py ''@g.us''"
    using g by (cases "dropWhile is_ascii_digit g") (auto simp: matches_group_def Let_def startswith_def py_def)
  then show ?thesis
  proof cases
    case 1
    then show ?thesis using split [of g] taken [of g] suffix by (metis list_all_append)
  next
    case (2 r)
    have "list_all plain_char r" using split [of r] taken [of r] suffix 2(2) by (metis list_all_append)
    then have "list_all plain_char (45 # r)" by (simp add: plain_ascii)
    then show ?thesis using split [of g] taken [of g] 2(1) by (metis list_all_append)
  qed
qed

section \<open>What releasing leaves alone\<close>

lemma distinct_single: "set xs = {a} \<Longrightarrow> distinct xs \<Longrightarrow> xs = [a]"
proof (cases xs)
  case (Cons x ys)
  assume "set xs = {a}" "distinct xs"
  then show ?thesis using Cons by (cases ys) auto
qed simp

text \<open>No other record names the original: its copy is queued, and its job, and that is all.\<close>

lemma release_only_copy:
  assumes "lists_all fr" and "row_get (s_history s) n = Some k" "h_copy_of k = Some p" "h_status k = Waiting_for_Primary"
    and "terminal (h_status h)" "\<not> is_group h" and "fr_enqueue fr (copy_job n) = None"
    and only: "\<forall>m x. row_get (s_history s) m = Some x \<and> h_copy_of x = Some p \<longrightarrow> m = n"
  shows "after (release_if_original fr p h) s
    = (put_history n (k\<lparr>h_status := Queued\<rparr>) s)\<lparr>s_jobs := s_jobs s @ [copy_job n]\<rparr>"
proof -
  let ?ns = "history_names fr (\<lambda>h. h_copy_of h = Some p \<and> releasable (h_status h)) s"
  have "set ?ns = {n}"
    using listed [OF assms(1)] assms(2-4) only by (auto simp: releasable_def)
  moreover have "distinct ?ns" by (simp add: history_names_def)
  ultimately have names: "?ns = [n]" by (rule distinct_single)
  have "after (release_if_original fr p h) s = after (release_copy fr n) s"
    using assms(5,6) by (simp add: release_if_original_def release_waiting_fold names bindA_def ret_def release_copy_eq)
  then show ?thesis using assms(2,7) by (simp add: release_copy_eq put_history_def)
qed

section \<open>From the queue to the peer\<close>

definition plain_delivery :: "frappe \<Rightarrow> delivery_request \<Rightarrow> bool" where
  "plain_delivery fr d \<longleftrightarrow>
     list_all plain_char (dr_message d) \<and> list_all plain_char (fr_file_name fr (dr_filename d))
     \<and> (\<forall>n. list_all plain_char (fr_hash fr n))
     \<and> startswith (dr_pdf d) pdf_header \<and> (\<forall>b \<in> set (dr_pdf d). b < 256)"

text \<open>The peer has deliveries of this site's records only.\<close>

definition has_key :: "pystr \<Rightarrow> site \<Rightarrow> bool" where
  "has_key key s \<longleftrightarrow> (\<exists>n h. row_get (s_history s) n = Some h \<and> h_idempotency_key h = key)"

lemma has_key_taken: "has_key key s \<Longrightarrow> key_taken key s"
  by (auto simp: has_key_def key_taken_def row_get_def list_ex_iff dest!: map_of_SomeD)

definition peer_of_site :: "capture \<Rightarrow> site \<Rightarrow> bool" where
  "peer_of_site p s \<longleftrightarrow> (\<forall>key. lookup (p_deliveries p) (PStr key) = None \<or> has_key key s)"

definition snapshot_pdfs :: "frappe \<Rightarrow> delivery_request \<Rightarrow> pdf list" where
  "snapshot_pdfs fr d = [(fr_file_name fr (dr_filename d), b64encode (dr_pdf d))]"

lemma snapshot_payload:
  assumes "stored_row fr d s u n h" and "plain_delivery fr d"
    and "row_get (s_files t) (the (h_pdf_file h)) = row_get (s_files u) (the (h_pdf_file h))"
  shows "pdf_payload fr n h t = Inr (snapshot_pdfs fr d)"
proof -
  obtain f where "h_pdf_file h = Some f" "f \<noteq> []" "row_get (s_files u) f = Some (snapshot_of fr d n)"
    using assms(1) by (auto simp: stored_row_def)
  then show ?thesis
    using assms by (simp add: pdf_payload_def nonempty_def snapshot_of_def stored_row_def plain_delivery_def snapshot_pdfs_def)
qed

lemma snapshot_pdfs_sent: "plain_delivery fr d \<Longrightarrow> snapshots_sent (snapshot_pdfs fr d)"
  by (auto simp: snapshots_sent_def snapshot_pdfs_def plain_delivery_def pdf_header_def)

lemma row_texts_plain:
  assumes "row_of fr st d r c h" and "plain_delivery fr d" and "list_all plain_char r" and "fr_site fr = FIXTURE_SITE"
  shows "texts_plain fr h (snapshot_pdfs fr d)"
proof -
  have "list_all plain_char (b64encode (dr_pdf d))"
    using assms(2) by (intro ascii_plain b64encode_ascii) (simp add: plain_delivery_def)
  moreover have "list_all plain_char (py ''wa:'' @ FIXTURE_SITE @ py '':'' @ x) = list_all plain_char x" for x
    by (simp add: FIXTURE_SITE_def py_def plain_ascii)
  ultimately show ?thesis
    using assms by (auto simp: row_of_def new_history_def texts_plain_def snapshot_pdfs_def plain_delivery_def)
qed

lemma accepted_number_plain: "accepted_delivery fr s d number \<Longrightarrow> list_all plain_char number"
  unfolding accepted_delivery_def
  by (auto simp: check_recipient_Inr_iff elim!: document_request_Inr report_request_Inr dest: normalized_plain)

lemma payload_of_identity:
  "identity_of h' = identity_of h \<Longrightarrow> send_payload fr h' = send_payload fr h"
  by (simp add: identity_of_def content_of_def send_payload_def fun_eq_iff)

lemma fresh_attemptable:
  assumes "h_status h = Queued" "\<not> h_reconciliation_required h" "h_retry_count h = 0" "\<not> original_pending h s"
  shows "attemptable h s now"
  using assms by (simp add: attemptable_def terminal_def attempt_limit_def backing_off_def)

lemma line_stays:
  assumes "line_works fr clock b" and "s_ticks t = s_ticks (bn_site b) + 2"
  shows "line_works fr clock \<lparr>bn_site = t, bn_peer = recorded (fr_nonce fr (Suc (s_ticks (bn_site b)))) key v (bn_peer b)\<rparr>"
proof -
  have "fr_nonce fr n \<noteq> fr_nonce fr (Suc (s_ticks (bn_site b)))" if "s_ticks t \<le> n" for n
    using assms that by (auto simp: line_works_def dest: injD)
  then show ?thesis using assms by (auto simp: line_works_def fresh_nonce_def)
qed

text \<open>The situation after queueing: both rows, their snapshots, and what they agree in.\<close>

definition own_snapshot :: "frappe \<Rightarrow> delivery_request \<Rightarrow> pystr \<Rightarrow> history \<Rightarrow> site \<Rightarrow> bool" where
  "own_snapshot fr d n h s \<longleftrightarrow> (\<exists>f. h_pdf_file h = Some f \<and> row_get (s_files s) f = Some (snapshot_of fr d n))"

definition queued_pair ::
  "frappe \<Rightarrow> delivery_request \<Rightarrow> pystr \<Rightarrow> site \<Rightarrow> site \<Rightarrow> pystr \<Rightarrow> pystr \<Rightarrow> history \<Rightarrow> history \<Rightarrow> pystr \<Rightarrow> bool" where
  "queued_pair fr d number s t p c h k g \<longleftrightarrow>
     row_of fr (s_settings s) d number None h \<and> row_of fr (s_settings s) d g (Some p) k
     \<and> row_get (s_history t) p = Some h \<and> row_get (s_history t) c = Some k \<and> c \<noteq> p \<and> c \<noteq> []
     \<and> pdf_payload fr p h t = Inr (snapshot_pdfs fr d) \<and> pdf_payload fr c k t = Inr (snapshot_pdfs fr d)
     \<and> references_ok h \<and> references_ok k \<and> content_of k = content_of h \<and> h_owner k = s_user s
     \<and> configured_group fr (s_settings s) (opt_value (dr_company d)) s = Inr (Some g) \<and> st_enabled (s_settings s)
     \<and> \<not> has_key (h_idempotency_key h) s \<and> \<not> has_key (h_idempotency_key k) s
     \<and> h_idempotency_key h \<noteq> h_idempotency_key k \<and> s_settings t = s_settings s
     \<and> (\<forall>n. n \<noteq> p \<and> n \<noteq> c \<longrightarrow> row_get (s_history t) n = row_get (s_history s) n)
     \<and> own_snapshot fr d p h t \<and> own_snapshot fr d c k t \<and> h_pdf_file h \<noteq> h_pdf_file k"

lemma stored_pair:
  assumes stored: "store_delivery fr d number s = (Inr (p, Some c), t)" and plain: "plain_delivery fr d"
  obtains h k g where "queued_pair fr d number s t (sd_name p) (sd_name c) h k g"
proof -
  obtain h u g k where h: "stored_row fr d s u (sd_name p) h" "row_of fr (s_settings s) d number None h"
      "row_get (s_history t) (sd_name p) = Some h"
    and group: "configured_group fr (s_settings s) (opt_value (dr_company d)) s = Inr (Some g)" "st_enabled (s_settings s)"
    and k: "stored_row fr d u t (sd_name c) k" "row_of fr (s_settings s) d g (Some (sd_name p)) k" "copy_matches h (sd_name p) g k"
    using store_delivery_Inr [OF stored] by (auto split: option.splits)
  have u: "row_get (s_history u) (sd_name p) = Some h" "s_settings u = s_settings s" "s_user u = s_user s"
    using h(1) by (auto simp: stored_row_def)
  have "has_key (h_idempotency_key h) u" using u(1) by (auto simp: has_key_def)
  then have keys: "h_idempotency_key h \<noteq> h_idempotency_key k" using k(1) has_key_taken by (auto simp: stored_row_def)
  have "has_key x u" if has: "has_key x s" for x
  proof -
    obtain n x' where row: "row_get (s_history s) n = Some x'" "h_idempotency_key x' = x" using has by (auto simp: has_key_def)
    then have "row_get (s_history u) n = Some x'" using h(1) by (cases "n = sd_name p") (auto simp: stored_row_def)
    then show ?thesis using row by (auto simp: has_key_def)
  qed
  then have new: "\<not> has_key (h_idempotency_key k) s" "\<not> has_key (h_idempotency_key h) s"
    using h(1) k(1) has_key_taken by (auto simp: stored_row_def)
  obtain f where f: "h_pdf_file h = Some f" "row_get (s_files u) f = Some (snapshot_of fr d (sd_name p))"
    using h(1) by (auto simp: stored_row_def)
  obtain f' where f': "h_pdf_file k = Some f'" "row_get (s_files t) f' = Some (snapshot_of fr d (sd_name c))"
    "row_get (s_files u) f' = None" "\<forall>x. x \<noteq> f' \<longrightarrow> row_get (s_files t) x = row_get (s_files u) x"
    using k(1) by (auto simp: stored_row_def)
  have "f \<noteq> f'" using f(2) f'(3) by auto
  then have files: "own_snapshot fr d (sd_name p) h t" "own_snapshot fr d (sd_name c) k t" "h_pdf_file h \<noteq> h_pdf_file k"
    and "row_get (s_files t) (the (h_pdf_file h)) = row_get (s_files u) (the (h_pdf_file h))"
    using f f' by (auto simp: own_snapshot_def)
  then have pdfs: "pdf_payload fr (sd_name p) h t = Inr (snapshot_pdfs fr d)" "pdf_payload fr (sd_name c) k t = Inr (snapshot_pdfs fr d)"
    using snapshot_payload [OF h(1) plain] snapshot_payload [OF k(1) plain] by simp_all
  have rows: "\<forall>n. n \<noteq> sd_name p \<and> n \<noteq> sd_name c \<longrightarrow> row_get (s_history t) n = row_get (s_history s) n"
    using h(1) k(1) by (auto simp: stored_row_def)
  show thesis
    by (rule that [of h k g]) (use h k group u keys new pdfs files rows in \<open>auto simp: queued_pair_def stored_row_def copy_matches_def\<close>)
qed

text \<open>The run of the original: it is sent, and the copy is released. Its name is new, so no older
  record calls itself a copy of it.\<close>

definition not_copied :: "pystr \<Rightarrow> site \<Rightarrow> bool" where
  "not_copied p s \<longleftrightarrow> (\<forall>n h. row_get (s_history s) n = Some h \<longrightarrow> h_copy_of h \<noteq> Some p)"

lemma first_run:
  assumes pair: "queued_pair fr d number s t p c h k g" and plain: "plain_delivery fr d"
    and number: "list_all plain_char number" and line: "line_works fr clock \<lparr>bn_site = t, bn_peer = P\<rparr>"
    and transport: "get_transport fr LINKED_DEVICE = Inr linked_device" and peer: "peer_of_site P s"
    and release: "lists_all fr" "fr_enqueue fr (copy_job c) = None" and only: "not_copied p s"
  obtains t1 h' where "worker_run fr clock p \<lparr>bn_site = t, bn_peer = P\<rparr> = (Inr (), \<lparr>bn_site = t1,
        bn_peer = recorded (fr_nonce fr (Suc (s_ticks t))) (h_idempotency_key h)
          (send_payload fr h (s_settings s) (snapshot_pdfs fr d) (py ''Baileys'')) P\<rparr>)"
    and "row_get (s_history t1) p = Some h'" "submitted_row h h'" "row_get (s_history t1) c = Some (k\<lparr>h_status := Queued\<rparr>)"
    and "s_jobs t1 = s_jobs t @ [copy_job c]" "s_ticks t1 = s_ticks t + 2" "s_settings t1 = s_settings s" "s_files t1 = s_files t"
    and "\<forall>n. n \<noteq> p \<and> n \<noteq> c \<longrightarrow> row_get (s_history t1) n = row_get (s_history t) n"
proof -
  let ?b = "\<lparr>bn_site = t, bn_peer = P\<rparr>"
  note q = pair [unfolded queued_pair_def]
  have h: "h_status h = Queued" "\<not> is_group h" "\<not> is_copy h" "h_retry_count h = 0" "\<not> h_reconciliation_required h"
    using row_of_original [of fr "s_settings s" d number h] q by auto
  have provider: "h_provider h = LINKED_DEVICE"
    using q row_of_source [of fr "s_settings s" d number None h] configured_group_Some [of fr "s_settings s" _ s g] by auto
  have new: "lookup (p_deliveries P) (PStr (h_idempotency_key h)) = None"
    using peer q by (auto simp: peer_of_site_def)
  have texts: "texts_plain fr h (snapshot_pdfs fr d)"
    using row_texts_plain [OF _ plain number] q line by (auto simp: line_works_def)
  have can: "attemptable h t (fr_clock fr (s_ticks t))"
    by (rule fresh_attemptable) (use h in \<open>simp_all add: original_pending_def\<close>)
  have ok: "sendable fr p h (snapshot_pdfs fr d) t"
    using q can h(2) transport provider snapshot_pdfs_sent [OF plain] texts by (simp add: sendable_def)
  obtain h' r where h': "submitted_row h h'" and run: "worker_run fr clock p ?b =
    (Inr (), \<lparr>bn_site = after (release_if_original fr p h') (sent_site p h' r t),
       bn_peer = recorded (fr_nonce fr (Suc (s_ticks t))) (h_idempotency_key h)
         (send_payload fr h (s_settings t) (snapshot_pdfs fr d) (py ''Baileys'')) P\<rparr>)"
    using worker_sends [OF line, of p h "snapshot_pdfs fr d"] ok new h(2) q by auto
  let ?s1 = "sent_site p h' r t"
  have out: "terminal (h_status h')" "\<not> is_group h'" "\<not> releasable (h_status h')"
    using h' h(2) by (auto simp: submitted_row_def terminal_def releasable_def identity_of_def is_group_def)
  have rows: "row_get (s_history ?s1) p = Some h'" "row_get (s_history ?s1) c = Some k"
    using q by (simp_all add: sent_site_def)
  have waiting: "h_copy_of k = Some p" "h_status k = Waiting_for_Primary" using row_of_copy [of fr "s_settings s" d g p k] q by auto
  have "row_get (s_history ?s1) n = (if n = p then Some h' else if n = c then Some k else row_get (s_history s) n)" for n
    using q by (simp add: sent_site_def)
  moreover have "h_copy_of h = None" using q by (auto simp: row_of_def new_history_def)
  then have "h_copy_of h' \<noteq> Some p" using h' by (simp add: submitted_row_def identity_of_def)
  ultimately have "\<forall>m x. row_get (s_history ?s1) m = Some x \<and> h_copy_of x = Some p \<longrightarrow> m = c"
    using only by (auto simp: not_copied_def split: if_splits)
  then have rel: "after (release_if_original fr p h') ?s1 = (put_history c (k\<lparr>h_status := Queued\<rparr>) ?s1)\<lparr>s_jobs := s_jobs ?s1 @ [copy_job c]\<rparr>"
    using release_only_copy [OF release(1) rows(2) waiting out(1,2) release(2)] by simp
  have settings: "s_settings t = s_settings s" and other: "p \<noteq> c" using q by auto
  show thesis
    by (rule that [OF run [unfolded rel settings]]) (use h' q other in \<open>simp_all add: sent_site_def put_history_def\<close>)
qed

text \<open>What a copy is checked for is part of what it keeps for good.\<close>

lemma copy_ready_identity:
  assumes "identity_of x = identity_of k"
  shows "copy_ready fr x s = copy_ready fr k s"
proof -
  have parts: "h_company x = h_company k" "h_recipient x = h_recipient k" "h_reference_type x = h_reference_type k"
    "h_reference_doctype x = h_reference_doctype k" "h_reference_name x = h_reference_name k" "h_report_name x = h_report_name k"
    "h_report_filters x = h_report_filters k" "h_source_modified x = h_source_modified k" "h_print_format x = h_print_format k"
    "h_owner x = h_owner k" "h_copy_of x = h_copy_of k" "content_of x = content_of k"
    using assms by (simp_all add: identity_of_def content_of_def)
  have "check_authority fr st x u = check_authority fr st k u" for st u
    unfolding check_authority_def check_source_def check_document_source_def check_report_source_def parts ..
  then show ?thesis by (simp add: copy_ready_def check_parent_True check_owner_def parts)
qed

lemma payload_identity:
  assumes "identity_of x = identity_of k"
  shows "pdf_payload fr n x s = pdf_payload fr n k s" "texts_plain fr x pdfs = texts_plain fr k pdfs"
    "h_provider x = h_provider k" "references_ok x = references_ok k" "is_group x = is_group k"
    "h_idempotency_key x = h_idempotency_key k"
proof -
  have parts: "h_pdf_file x = h_pdf_file k" "h_pdf_sha256 x = h_pdf_sha256 k" "h_recipient x = h_recipient k"
    "h_message_text x = h_message_text k" "h_idempotency_key x = h_idempotency_key k"
    "h_reference_type x = h_reference_type k" "h_reference_doctype x = h_reference_doctype k"
    "h_reference_name x = h_reference_name k" "h_report_name x = h_report_name k"
    using assms by (simp_all add: identity_of_def content_of_def)
  show "pdf_payload fr n x s = pdf_payload fr n k s" unfolding pdf_payload_def parts ..
  show "texts_plain fr x pdfs = texts_plain fr k pdfs" unfolding texts_plain_def parts ..
  show "references_ok x = references_ok k" unfolding references_ok_def parts ..
  show "h_provider x = h_provider k" "is_group x = is_group k" "h_idempotency_key x = h_idempotency_key k"
    using assms by (simp_all add: identity_of_def content_of_def is_group_def)
qed

text \<open>The copy can be sent once its original is out, whatever has become of its own counters.\<close>

lemma copy_sendable:
  assumes pair: "queued_pair fr d number s t p c h k g" and plain: "plain_delivery fr d"
    and accepted: "accepted_delivery fr s d number" and enabled: "fr_user_enabled fr (s_user s)"
    and transport: "get_transport fr LINKED_DEVICE = Inr linked_device" and site: "fr_site fr = FIXTURE_SITE"
    and rows: "row_get (s_history t1) p = Some h'" "submitted_row h h'" "row_get (s_history t1) c = Some x"
    and kept: "s_settings t1 = s_settings s" "s_files t1 = s_files t"
    and x: "identity_of x = identity_of k" "h_status x = Queued" "\<not> h_reconciliation_required x" "h_retry_count x < attempt_limit x"
  shows "sendable fr c x (snapshot_pdfs fr d) t1"
proof -
  note q = pair [unfolded queued_pair_def]
  note same = payload_identity [OF x(1)]
  have copy: "is_group k" "h_copy_of k = Some p"
    using row_of_copy [of fr "s_settings s" d g p k] q by auto
  have original: "\<not> is_group h" "\<not> is_copy h" using row_of_original [of fr "s_settings s" d number h] q by auto
  have id: "identity_of h' = identity_of h" using rows(2) by (simp add: submitted_row_def)
  then have parent: "terminal (h_status h')" "\<not> is_group h'" "\<not> is_copy h'" "content_of k = content_of h'"
    using rows(2) original q by (simp_all add: submitted_row_def terminal_def identity_of_def is_group_def is_copy_def)
  have "copy_ready fr k t1"
    by (rule queued_copy_ready [OF accepted, of g p k t1 h']) (use q enabled kept rows(1) parent in simp_all)
  then have ready: "copy_ready fr x t1" using copy_ready_identity [OF x(1)] by simp
  have provider: "h_provider k = LINKED_DEVICE"
    using q row_of_source [of fr "s_settings s" d g "Some p" k] configured_group_Some [of fr "s_settings s" _ s g] by auto
  have matches: "matches_group g" using q configured_group_Some [of fr "s_settings s" _ s g] by auto
  have texts: "texts_plain fr k (snapshot_pdfs fr d)"
    using row_texts_plain [OF _ plain group_plain [OF matches], of "s_settings s" "Some p" k] q site by simp
  have "h_copy_of x = Some p" using x(1) copy(2) by (simp add: identity_of_def)
  then have can: "attemptable x t1 (fr_clock fr (s_ticks t1))"
    using x(2-4) rows(1) parent(1) by (simp add: attemptable_def terminal_def original_pending_def backing_off_def)
  have pdf: "pdf_payload fr c k t1 = Inr (snapshot_pdfs fr d)"
    using q unfolding pdf_payload_def kept(2) by simp
  show ?thesis
    using rows(3) can ready transport provider pdf texts snapshot_pdfs_sent [OF plain] q kept(1) same
    by (simp add: sendable_def)
qed

text \<open>The run of the copy, when the peer takes it.\<close>

lemma copy_run:
  assumes line: "line_works fr clock \<lparr>bn_site = t1, bn_peer = P1\<rparr>" and ok: "sendable fr c x pdfs t1" and group: "is_group x"
    and willing: "p_group_failures P1 = 0" and new: "lookup (p_deliveries P1) (PStr (h_idempotency_key x)) = None"
  obtains t2 k' where "worker_run fr clock c \<lparr>bn_site = t1, bn_peer = P1\<rparr> = (Inr (), \<lparr>bn_site = t2,
        bn_peer = recorded (fr_nonce fr (Suc (s_ticks t1))) (h_idempotency_key x)
          (send_payload fr x (s_settings t1) pdfs (py ''Baileys'')) P1\<rparr>)"
    and "\<forall>n. n \<noteq> c \<longrightarrow> row_get (s_history t2) n = row_get (s_history t1) n"
    and "row_get (s_history t2) c = Some k'" "submitted_row x k'" "s_jobs t2 = s_jobs t1"
proof -
  obtain k' r where k': "submitted_row x k'" and run: "worker_run fr clock c \<lparr>bn_site = t1, bn_peer = P1\<rparr> =
    (Inr (), \<lparr>bn_site = after (release_if_original fr c k') (sent_site c k' r t1),
       bn_peer = recorded (fr_nonce fr (Suc (s_ticks t1))) (h_idempotency_key x)
         (send_payload fr x (s_settings t1) pdfs (py ''Baileys'')) P1\<rparr>)"
    using worker_sends [OF line, of c x pdfs] ok willing new by auto
  have "is_group k'" using k' group by (simp add: submitted_row_def identity_of_def is_group_def)
  then have t2: "after (release_if_original fr c k') (sent_site c k' r t1) = sent_site c k' r t1"
    by (simp add: release_if_original_def ret_def)
  show thesis
    by (rule that [of "sent_site c k' r t1" k']) (use run t2 k' in \<open>simp_all add: sent_site_def put_history_def\<close>)
qed

lemma second_run:
  assumes pair: "queued_pair fr d number s t p c h k g" and plain: "plain_delivery fr d"
    and accepted: "accepted_delivery fr s d number" and enabled: "fr_user_enabled fr (s_user s)"
    and line: "line_works fr clock \<lparr>bn_site = t1, bn_peer = P1\<rparr>"
    and transport: "get_transport fr LINKED_DEVICE = Inr linked_device"
    and new: "lookup (p_deliveries P1) (PStr (h_idempotency_key k)) = None" and willing: "p_group_failures P1 = 0"
    and rows: "row_get (s_history t1) p = Some h'" "submitted_row h h'" "row_get (s_history t1) c = Some (k\<lparr>h_status := Queued\<rparr>)"
    and kept: "s_settings t1 = s_settings s" "s_files t1 = s_files t"
  obtains t2 k' where "worker_run fr clock c \<lparr>bn_site = t1, bn_peer = P1\<rparr> = (Inr (), \<lparr>bn_site = t2,
        bn_peer = recorded (fr_nonce fr (Suc (s_ticks t1))) (h_idempotency_key k)
          (send_payload fr k (s_settings s) (snapshot_pdfs fr d) (py ''Baileys'')) P1\<rparr>)"
    and "row_get (s_history t2) p = Some h'" "row_get (s_history t2) c = Some k'" "submitted_row k k'" "s_jobs t2 = s_jobs t1"
      "\<forall>n. n \<noteq> c \<longrightarrow> row_get (s_history t2) n = row_get (s_history t1) n"
proof -
  let ?k = "k\<lparr>h_status := Queued\<rparr>"
  note q = pair [unfolded queued_pair_def]
  have copy: "is_group k" "h_retry_count k = 0" "\<not> h_reconciliation_required k" "p \<noteq> c"
    using row_of_copy [of fr "s_settings s" d g p k] q by auto
  have id: "identity_of ?k = identity_of k" by (simp add: identity_of_def content_of_def)
  have ok: "sendable fr c ?k (snapshot_pdfs fr d) t1"
    by (rule copy_sendable [OF pair plain accepted enabled transport _ rows kept id])
       (use line copy in \<open>simp_all add: line_works_def attempt_limit_def\<close>)
  obtain t2 k' where "worker_run fr clock c \<lparr>bn_site = t1, bn_peer = P1\<rparr> = (Inr (), \<lparr>bn_site = t2,
        bn_peer = recorded (fr_nonce fr (Suc (s_ticks t1))) (h_idempotency_key ?k)
          (send_payload fr ?k (s_settings t1) (snapshot_pdfs fr d) (py ''Baileys'')) P1\<rparr>)"
    and out: "\<forall>n. n \<noteq> c \<longrightarrow> row_get (s_history t2) n = row_get (s_history t1) n"
    "row_get (s_history t2) c = Some k'" "submitted_row ?k k'" "s_jobs t2 = s_jobs t1"
    by (rule copy_run [OF line ok _ willing]) (use copy(1) new in \<open>simp_all add: is_group_def\<close>)
  then show thesis
    by (intro that [of t2 k']) (use payload_of_identity [OF id] kept(1) id copy(4) rows(1) out in \<open>simp_all add: submitted_row_def\<close>)
qed

text \<open>
  A delivery that was accepted and queued with its copy, on a site where nothing stands in its way:
  its texts and its snapshot can be sent, its owner's account is enabled, the connection works, the
  framework lists every record and takes the copy's job, and its name is new; and, for
  \<open>undisturbed\<close>, the peer refuses no group.
\<close>

definition prepared ::
  "frappe \<Rightarrow> (nat \<Rightarrow> int) \<Rightarrow> delivery_request \<Rightarrow> pystr \<Rightarrow> site \<Rightarrow> stored \<Rightarrow> stored \<Rightarrow> site \<Rightarrow> capture \<Rightarrow> bool" where
  "prepared fr clock d number s p c t P \<longleftrightarrow>
     accepted_delivery fr s d number \<and> store_delivery fr d number s = (Inr (p, Some c), t)
     \<and> plain_delivery fr d \<and> fr_user_enabled fr (s_user s)
     \<and> get_transport fr LINKED_DEVICE = Inr linked_device \<and> line_works fr clock \<lparr>bn_site = t, bn_peer = P\<rparr>
     \<and> peer_of_site P s \<and> lists_all fr \<and> fr_enqueue fr (copy_job (sd_name c)) = None \<and> not_copied (sd_name p) s"

definition undisturbed ::
  "frappe \<Rightarrow> (nat \<Rightarrow> int) \<Rightarrow> delivery_request \<Rightarrow> pystr \<Rightarrow> site \<Rightarrow> stored \<Rightarrow> stored \<Rightarrow> site \<Rightarrow> capture \<Rightarrow> bool" where
  "undisturbed fr clock d number s p c t P \<longleftrightarrow> prepared fr clock d number s p c t P \<and> p_group_failures P = 0"

text \<open>After the original's run: both sides of the connection, and the two rows.\<close>

definition copy_released ::
  "frappe \<Rightarrow> (nat \<Rightarrow> int) \<Rightarrow> delivery_request \<Rightarrow> site \<Rightarrow> pystr \<Rightarrow> pystr \<Rightarrow> site \<Rightarrow> capture
    \<Rightarrow> history \<Rightarrow> history \<Rightarrow> history \<Rightarrow> site \<Rightarrow> capture \<Rightarrow> bool" where
  "copy_released fr clock d s p c t P h h' k t1 P1 \<longleftrightarrow>
     P1 = recorded (fr_nonce fr (Suc (s_ticks t))) (h_idempotency_key h)
       (send_payload fr h (s_settings s) (snapshot_pdfs fr d) (py ''Baileys'')) P
     \<and> row_get (s_history t1) p = Some h' \<and> submitted_row h h' \<and> row_get (s_history t1) c = Some (k\<lparr>h_status := Queued\<rparr>)
     \<and> (\<forall>n. n \<noteq> p \<and> n \<noteq> c \<longrightarrow> row_get (s_history t1) n = row_get (s_history s) n)
     \<and> s_jobs t1 = s_jobs t @ [copy_job c] \<and> s_settings t1 = s_settings s \<and> s_files t1 = s_files t
     \<and> line_works fr clock \<lparr>bn_site = t1, bn_peer = P1\<rparr>
     \<and> lookup (p_deliveries P1) (PStr (h_idempotency_key k)) = None"

lemma other_text: "a \<noteq> b \<Longrightarrow> \<not> py_eq (PStr a) (PStr b)"
  by simp

lemma original_run:
  assumes prepared: "prepared fr clock d number s p c t P"
  obtains h k g h' t1 P1 where "queued_pair fr d number s t (sd_name p) (sd_name c) h k g"
    and "worker_run fr clock (sd_name p) \<lparr>bn_site = t, bn_peer = P\<rparr> = (Inr (), \<lparr>bn_site = t1, bn_peer = P1\<rparr>)"
    and "copy_released fr clock d s (sd_name p) (sd_name c) t P h h' k t1 P1"
proof -
  have accepted: "accepted_delivery fr s d number" and stored: "store_delivery fr d number s = (Inr (p, Some c), t)"
    and plain: "plain_delivery fr d" and transport: "get_transport fr LINKED_DEVICE = Inr linked_device"
    and line: "line_works fr clock \<lparr>bn_site = t, bn_peer = P\<rparr>" and peer: "peer_of_site P s"
    and release: "lists_all fr" "fr_enqueue fr (copy_job (sd_name c)) = None" and only: "not_copied (sd_name p) s"
    using prepared by (simp_all add: prepared_def)
  obtain h k g where pair: "queued_pair fr d number s t (sd_name p) (sd_name c) h k g"
    using stored_pair [OF stored plain] .
  note q = pair [unfolded queued_pair_def]
  let ?P1 = "recorded (fr_nonce fr (Suc (s_ticks t))) (h_idempotency_key h)
    (send_payload fr h (s_settings s) (snapshot_pdfs fr d) (py ''Baileys'')) P"
  obtain t1 h' where one: "worker_run fr clock (sd_name p) \<lparr>bn_site = t, bn_peer = P\<rparr> = (Inr (), \<lparr>bn_site = t1, bn_peer = ?P1\<rparr>)"
    and first: "row_get (s_history t1) (sd_name p) = Some h'" "submitted_row h h'"
      "row_get (s_history t1) (sd_name c) = Some (k\<lparr>h_status := Queued\<rparr>)"
      "s_jobs t1 = s_jobs t @ [copy_job (sd_name c)]"
      "s_ticks t1 = s_ticks t + 2" "s_settings t1 = s_settings s" "s_files t1 = s_files t"
      "\<forall>n. n \<noteq> sd_name p \<and> n \<noteq> sd_name c \<longrightarrow> row_get (s_history t1) n = row_get (s_history t) n"
    by (rule first_run [OF pair plain accepted_number_plain [OF accepted] line transport peer release only])
  have line1: "line_works fr clock \<lparr>bn_site = t1, bn_peer = ?P1\<rparr>" using line_stays [OF line, of t1] first(5) by simp
  have "lookup (p_deliveries P) (PStr (h_idempotency_key k)) = None" using peer q by (auto simp: peer_of_site_def)
  then have new: "lookup (p_deliveries ?P1) (PStr (h_idempotency_key k)) = None"
    using q by (simp add: lookup_store_other [OF other_text, of "h_idempotency_key h" "h_idempotency_key k"])
  have rows: "\<forall>n. n \<noteq> sd_name p \<and> n \<noteq> sd_name c \<longrightarrow> row_get (s_history t1) n = row_get (s_history s) n"
    using first(8) q by simp
  have "copy_released fr clock d s (sd_name p) (sd_name c) t P h h' k t1 ?P1"
    unfolding copy_released_def using first line1 new rows by blast
  then show thesis by (rule that [OF pair one])
qed

text \<open>Both runs.\<close>

lemma both_runs:
  assumes undisturbed: "undisturbed fr clock d number s p c t P"
  obtains b1 b2 h h' k k' g where "queued_pair fr d number s t (sd_name p) (sd_name c) h k g"
    and "worker_run fr clock (sd_name p) \<lparr>bn_site = t, bn_peer = P\<rparr> = (Inr (), b1)"
    and "row_get (s_history (bn_site b1)) (sd_name p) = Some h'" "submitted_row h h'"
      "row_get (s_history (bn_site b1)) (sd_name c) = Some (k\<lparr>h_status := Queued\<rparr>)"
      "s_jobs (bn_site b1) = s_jobs t @ [copy_job (sd_name c)]"
    and "worker_run fr clock (sd_name c) b1 = (Inr (), b2)" "s_jobs (bn_site b2) = s_jobs (bn_site b1)"
    and "row_get (s_history (bn_site b2)) (sd_name p) = Some h'"
      "row_get (s_history (bn_site b2)) (sd_name c) = Some k'" "submitted_row k k'"
      "\<forall>n. n \<noteq> sd_name p \<and> n \<noteq> sd_name c \<longrightarrow> row_get (s_history (bn_site b2)) n = row_get (s_history s) n"
    and "lookup (p_deliveries (bn_peer b2)) (PStr (h_idempotency_key h))
        = Some (send_payload fr h (s_settings s) (snapshot_pdfs fr d) (py ''Baileys''))"
      "lookup (p_deliveries (bn_peer b2)) (PStr (h_idempotency_key k))
        = Some (send_payload fr k (s_settings s) (snapshot_pdfs fr d) (py ''Baileys''))"
proof -
  have ready: "prepared fr clock d number s p c t P" and willing: "p_group_failures P = 0"
    using undisturbed by (simp_all add: undisturbed_def)
  then have accepted: "accepted_delivery fr s d number" and plain: "plain_delivery fr d" and enabled: "fr_user_enabled fr (s_user s)"
    and transport: "get_transport fr LINKED_DEVICE = Inr linked_device"
    by (simp_all add: prepared_def)
  obtain h k g h' t1 P1 where pair: "queued_pair fr d number s t (sd_name p) (sd_name c) h k g"
    and one: "worker_run fr clock (sd_name p) \<lparr>bn_site = t, bn_peer = P\<rparr> = (Inr (), \<lparr>bn_site = t1, bn_peer = P1\<rparr>)"
    and rel: "copy_released fr clock d s (sd_name p) (sd_name c) t P h h' k t1 P1"
    by (rule original_run [OF ready])
  note q = pair [unfolded queued_pair_def] and first = rel [unfolded copy_released_def]
  have f: "line_works fr clock \<lparr>bn_site = t1, bn_peer = P1\<rparr>" "lookup (p_deliveries P1) (PStr (h_idempotency_key k)) = None"
    "p_group_failures P1 = 0" "row_get (s_history t1) (sd_name p) = Some h'" "submitted_row h h'"
    "row_get (s_history t1) (sd_name c) = Some (k\<lparr>h_status := Queued\<rparr>)" "s_settings t1 = s_settings s" "s_files t1 = s_files t"
    using first willing by (blast, blast, simp, blast+)
  let ?v = "\<lambda>h. send_payload fr h (s_settings s) (snapshot_pdfs fr d) (py ''Baileys'')"
  obtain t2 k' where two: "worker_run fr clock (sd_name c) \<lparr>bn_site = t1, bn_peer = P1\<rparr> = (Inr (), \<lparr>bn_site = t2,
        bn_peer = recorded (fr_nonce fr (Suc (s_ticks t1))) (h_idempotency_key k) (?v k) P1\<rparr>)"
    and second: "row_get (s_history t2) (sd_name p) = Some h'" "row_get (s_history t2) (sd_name c) = Some k'" "submitted_row k k'" "s_jobs t2 = s_jobs t1"
      "\<forall>n. n \<noteq> sd_name c \<longrightarrow> row_get (s_history t2) n = row_get (s_history t1) n"
    by (rule second_run [OF pair plain accepted enabled f(1) transport f(2) f(3-8)])
  have "lookup (store (PStr (h_idempotency_key k)) (?v k) (store (PStr (h_idempotency_key h)) (?v h) (p_deliveries P)))
      (PStr (h_idempotency_key h)) = Some (?v h)"
    using q by (auto simp: lookup_store_other [OF other_text, of "h_idempotency_key k" "h_idempotency_key h"])
  then show thesis
    by (intro that [OF pair one _ _ _ _ two _ _ _ second(3)]) (use first second(1,2,4,5) in simp_all)
qed

end
