(* ===== verification/Acceptance.thy ===== *)
theory Acceptance
  imports Live_Delivery Harness_Checks Example_Group
begin

text \<open>
  The acceptance run of a delivery (\<open>check_delivery\<close> and \<open>run_worker\<close> in
  \<open>group_acceptance.py\<close>): each queued job is run by a worker in its own process, and the records
  and the peer are inspected between the runs.
\<close>

section \<open>The harness\<close>

text \<open>
  The state \<open>'w\<close> is all of it: the site and the peer, read through \<open>nt_bench\<close>, and the queue.
  \<open>nt_commit\<close> makes what the harness itself did to the site, and the jobs it queued, visible.
  \<open>nt_execute\<close> is \<open>bench --site integration.local execute\<close> with a function and its keyword
  arguments: the return code of the process, or an exception when it does not end in time.
\<close>

record 'w native =
  nt_rq :: "'w rq"
  nt_bench :: "'w \<Rightarrow> bench"
  nt_commit :: "bench \<Rightarrow> 'w \<Rightarrow> 'w"
  nt_execute :: "pystr \<Rightarrow> pystr \<Rightarrow> ('w, int) act"

definition WORKER_ONCE :: pystr where
  "WORKER_ONCE = py ''erpnext_whatsapp_connection.group_acceptance.worker_once''"

definition worker_arguments :: "pystr \<Rightarrow> pystr" where
  "worker_arguments job_id = json_dumps default_style (PDict [(py ''job_id'', PStr job_id)])"

definition run_worker :: "frappe \<Rightarrow> bool \<Rightarrow> 'w native \<Rightarrow> pystr \<Rightarrow> int option \<Rightarrow> ('w, unit) act" where
  "run_worker fr enabled nt message_name retry_attempt =
     bindA (reads (\<lambda>_. require_fixture_site fr enabled)) (\<lambda>_.
     bindA (nt_execute nt WORKER_ONCE (worker_arguments (run_job_id message_name retry_attempt))) (\<lambda>returncode.
       if returncode \<noteq> 0
       then fails (Exn AssertionError (py ''Native isolated RQ worker failed; exit='' @ str_of_int returncode) False)
       else ret ()))"

definition asserts :: "bool \<Rightarrow> string \<Rightarrow> exn + unit" where
  "asserts b m = (if b then Inr () else Inl (assertion m))"

definition native_history :: "'w native \<Rightarrow> pystr \<Rightarrow> 'w \<Rightarrow> exn + history" where
  "native_history nt name w = get_history name (bn_site (nt_bench nt w))"

text \<open>The snapshot of a record is private and its own.\<close>

definition check_snapshot :: "'w native \<Rightarrow> pystr \<Rightarrow> history \<Rightarrow> 'w \<Rightarrow> exn + unit" where
  "check_snapshot nt name h w =
     (case Option.bind (h_pdf_file h) (row_get (s_files (bn_site (nt_bench nt w)))) of
        None \<Rightarrow> raise DoesNotExistError ''file not found''
      | Some f \<Rightarrow> asserts (f_is_private f \<and> f_attached_to_name f = name) '''')"

text \<open>\<open>peer.deliveries[key][entry]\<close>\<close>

definition peer_delivery :: "'w native \<Rightarrow> pystr \<Rightarrow> pystr \<Rightarrow> 'w \<Rightarrow> exn + pyval" where
  "peer_delivery nt key entry w =
     (case lookup (p_deliveries (bn_peer (nt_bench nt w))) (PStr key) of
        Some (PDict d) \<Rightarrow> (case map_of d entry of None \<Rightarrow> Inl (Exn KeyError entry False) | Some v \<Rightarrow> Inr v)
      | Some _ \<Rightarrow> raise TypeError ''not subscriptable''
      | None \<Rightarrow> Inl (Exn KeyError key False))"

text \<open>What is checked of the pair before anything runs, and of the copy once it has run.\<close>

definition check_queued_pair :: "'w native \<Rightarrow> pystr \<Rightarrow> history \<Rightarrow> pystr \<Rightarrow> 'w \<Rightarrow> exn + history" where
  "check_queued_pair nt primary_name primary copy_name w =
     bindR (native_history nt copy_name w) (\<lambda>copy.
     bindR (asserts (h_status copy = Waiting_for_Primary \<and> h_copy_of copy = Some primary_name) '''') (\<lambda>_.
     bindR (asserts (h_pdf_sha256 primary = h_pdf_sha256 copy) '''') (\<lambda>_.
     bindR (asserts (h_pdf_file primary \<noteq> h_pdf_file copy
        \<and> h_idempotency_key primary \<noteq> h_idempotency_key copy) '''') (\<lambda>_.
     bindR (check_snapshot nt primary_name primary w) (\<lambda>_.
     bindR (check_snapshot nt copy_name copy w) (\<lambda>_. Inr copy))))))"

definition check_sent_copy :: "'w native \<Rightarrow> history \<Rightarrow> history \<Rightarrow> 'w \<Rightarrow> exn + unit" where
  "check_sent_copy nt primary copy w =
     bindR (asserts (terminal (h_status copy)) ''Native copy worker did not confirm submission'') (\<lambda>_.
     bindR (peer_delivery nt (h_idempotency_key copy) (py ''recipient_type'') w) (\<lambda>kind.
     bindR (asserts (py_eq kind (PStr (py ''Group''))) '''') (\<lambda>_.
     bindR (peer_delivery nt (h_idempotency_key copy) (py ''recipient'') w) (\<lambda>recipient.
     bindR (asserts (py_eq recipient (PStr GROUP)) '''') (\<lambda>_.
     bindR (peer_delivery nt (h_idempotency_key primary) (py ''pdfs'') w) (\<lambda>sent.
     bindR (peer_delivery nt (h_idempotency_key copy) (py ''pdfs'') w) (\<lambda>copied.
       asserts (py_eq sent copied) '''')))))))"

definition check_copy_run :: "frappe \<Rightarrow> bool \<Rightarrow> 'w native \<Rightarrow> history \<Rightarrow> pystr \<Rightarrow> ('w, unit) act" where
  "check_copy_run fr enabled nt primary copy_name =
     bindA (reads (native_history nt copy_name)) (\<lambda>copy.
     bindA (reads (\<lambda>_. asserts (h_status copy = Queued) ''Primary did not release its separate copy job'')) (\<lambda>_.
     bindA (run_worker fr enabled nt copy_name None) (\<lambda>_.
     bindA (reads (native_history nt copy_name)) (\<lambda>copy.
       reads (check_sent_copy nt primary copy)))))"

definition copy_name :: "stored \<times> stored option \<Rightarrow> exn + pystr" where
  "copy_name result =
     (case snd result of None \<Rightarrow> Inl (Exn KeyError (py ''group_copy'') False) | Some c \<Rightarrow> Inr (sd_name c))"

definition check_delivery :: "frappe \<Rightarrow> bool \<Rightarrow> 'w native \<Rightarrow> stored \<times> stored option \<Rightarrow> bool \<Rightarrow> ('w, history) act" where
  "check_delivery fr enabled nt result expected_group =
     (let name = sd_name (fst result) in
      bindA (reads (native_history nt name)) (\<lambda>primary.
      bindA (reads (\<lambda>_. asserts (h_status primary = Queued) '''')) (\<lambda>_.
      bindA (if expected_group
             then bindA (reads (\<lambda>_. copy_name result)) (\<lambda>c. bindA (reads (check_queued_pair nt name primary c)) (\<lambda>_. ret ()))
             else ret ()) (\<lambda>_.
      bindA (run_worker fr enabled nt name None) (\<lambda>_.
      bindA (reads (native_history nt name)) (\<lambda>primary.
      bindA (reads (\<lambda>_. asserts (terminal (h_status primary)) ''Native primary worker did not confirm submission'')) (\<lambda>_.
      bindA (if expected_group
             then bindA (reads (\<lambda>_. copy_name result)) (\<lambda>c. check_copy_run fr enabled nt primary c)
             else reads (\<lambda>_. asserts (snd result = None) '''')) (\<lambda>_. ret primary))))))))"

section \<open>What the queue is known to do\<close>

text \<open>
  A queue of this site's deliveries: a job that waits is found under its id, and a worker takes the
  first job, runs the delivery that the id names, and records how it ended. The jobs that the run
  committed are behind the others then. This is said of queues without a repeated id.
\<close>

definition queued_job :: "job \<Rightarrow> rq_job" where
  "queued_job j = \<lparr>jb_id = j_job_id j, jb_site = PStr FIXTURE_SITE, jb_method = PStr PROCESS_METHOD,
     jb_message_name = j_message_name j\<rparr>"

definition new_jobs :: "bench \<Rightarrow> bench \<Rightarrow> rq_job list" where
  "new_jobs b b' = map queued_job (drop (length (s_jobs (bn_site b))) (s_jobs (bn_site b')))"

definition finds_waiting :: "'w native \<Rightarrow> bool" where
  "finds_waiting nt \<longleftrightarrow>
     (\<forall>w j. distinct (map jb_id (rq_jobs (nt_rq nt) w)) \<and> j \<in> set (rq_jobs (nt_rq nt) w) \<longrightarrow>
        rq_get_job (nt_rq nt) (jb_id j) w = Some j \<and> rq_status (nt_rq nt) j w = py ''queued'')"

definition runs_deliveries :: "frappe \<Rightarrow> (nat \<Rightarrow> int) \<Rightarrow> 'w native \<Rightarrow> bool" where
  "runs_deliveries fr clock nt \<longleftrightarrow>
     (\<forall>w j js r b. rq_jobs (nt_rq nt) w = queued_job j # js
        \<and> worker_run fr clock (j_message_name j) (nt_bench nt w) = (r, b)
        \<and> distinct (map jb_id (queued_job j # js @ new_jobs (nt_bench nt w) b)) \<longrightarrow>
        (\<exists>w'. rq_work (nt_rq nt) w = (Inr (), w') \<and> nt_bench nt w' = b
           \<and> rq_jobs (nt_rq nt) w' = js @ new_jobs (nt_bench nt w) b
           \<and> rq_status (nt_rq nt) (queued_job j) w'
               = (case r of Inr _ \<Rightarrow> py ''finished'' | Inl _ \<Rightarrow> py ''failed'')))"

text \<open>A commit of the harness: the site and the peer are as given, its new jobs wait behind the others.\<close>

definition commits :: "'w native \<Rightarrow> bool" where
  "commits nt \<longleftrightarrow>
     (\<forall>w b. distinct (map jb_id (rq_jobs (nt_rq nt) w @ new_jobs (nt_bench nt w) b)) \<longrightarrow>
        nt_bench nt (nt_commit nt b w) = b
        \<and> rq_jobs (nt_rq nt) (nt_commit nt b w) = rq_jobs (nt_rq nt) w @ new_jobs (nt_bench nt w) b)"

text \<open>The command runs the function in a process, whose code is 0 when it returned.\<close>

definition executes_worker :: "frappe \<Rightarrow> bool \<Rightarrow> 'w native \<Rightarrow> bool" where
  "executes_worker fr enabled nt \<longleftrightarrow>
     (\<forall>id w. list_all plain_char id \<longrightarrow>
        nt_execute nt WORKER_ONCE (worker_arguments id) w =
          (case worker_once fr enabled (nt_rq nt) id w of (Inr _, w') \<Rightarrow> (Inr 0, w') | (Inl _, w') \<Rightarrow> (Inr 1, w')))"

text \<open>The queue, the workers and the command of the harness do what they are documented to do, on
  the disposable site.\<close>

definition native_works :: "frappe \<Rightarrow> bool \<Rightarrow> (nat \<Rightarrow> int) \<Rightarrow> 'w native \<Rightarrow> bool" where
  "native_works fr enabled clock nt \<longleftrightarrow>
     finds_waiting nt \<and> runs_deliveries fr clock nt \<and> commits nt \<and> executes_worker fr enabled nt
     \<and> require_fixture_site fr enabled = Inr ()"

text \<open>A delivery whose job is the only one that waits.\<close>

lemma run_only_job:
  assumes works: "native_works fr enabled clock nt" and id: "run_job_id n attempt = j_job_id j" and plain: "list_all plain_char (j_job_id j)"
    and jobs: "rq_jobs (nt_rq nt) w = [queued_job j]"
    and run: "worker_run fr clock (j_message_name j) (nt_bench nt w) = (Inr (), b)"
    and new: "distinct (map jb_id (queued_job j # new_jobs (nt_bench nt w) b))"
  obtains w' where "run_worker fr enabled nt n attempt w = (Inr (), w')" "nt_bench nt w' = b"
    and "rq_jobs (nt_rq nt) w' = new_jobs (nt_bench nt w) b"
proof -
  have finds: "finds_waiting nt" and runs: "runs_deliveries fr clock nt" and exec: "executes_worker fr enabled nt"
    and site: "require_fixture_site fr enabled = Inr ()"
    using works by (simp_all add: native_works_def)
  let ?j = "queued_job j"
  obtain w' where w': "rq_work (nt_rq nt) w = (Inr (), w')" "nt_bench nt w' = b"
    "rq_jobs (nt_rq nt) w' = new_jobs (nt_bench nt w) b" "rq_status (nt_rq nt) ?j w' = py ''finished''"
    using runs [unfolded runs_deliveries_def, rule_format, of w j "[]" "Inr ()" b] jobs run new by auto
  have job_id: "run_job_id n attempt = jb_id ?j" by (simp add: id queued_job_def)
  have found: "rq_get_job (nt_rq nt) (jb_id ?j) w = Some ?j" "rq_status (nt_rq nt) ?j w = py ''queued''"
    using finds jobs unfolding finds_waiting_def by auto
  have target: "worker_target (nt_rq nt) (jb_id ?j) w = Inr ?j"
    using found jobs by (simp add: worker_target_def queued_job_def BACKLOG_def)
  have loop: "worker_loop (nt_rq nt) ?j (Suc m) w = (Inr (), w')" for m
    using w'(1,4) jobs by (simp add: bindA_def reads_def ret_def) (simp add: queued_job_def)
  have "BACKLOG = Suc 49" by (simp add: BACKLOG_def)
  then have "worker_loop (nt_rq nt) ?j BACKLOG w = (Inr (), w')" using loop [of 49] by (simp only:)
  with target have "worker_once fr enabled (nt_rq nt) (run_job_id n attempt) w = (Inr (), w')"
    using site by (simp add: worker_once_def bindA_def reads_def job_id)
  moreover have "list_all plain_char (run_job_id n attempt)"
    using plain by (simp add: id)
  ultimately have "nt_execute nt WORKER_ONCE (worker_arguments (run_job_id n attempt)) w = (Inr 0, w')"
    using exec by (simp add: executes_worker_def)
  then have "run_worker fr enabled nt n attempt w = (Inr (), w')"
    using site by (simp add: run_worker_def bindA_def reads_def ret_def)
  then show thesis using that w' by blast
qed

lemma worker_job_id:
  "run_job_id n None = j_job_id (worker_job n)" "j_message_name (worker_job n) = n"
  "queued_job (copy_job n) = queued_job (worker_job n)"
  by (simp_all add: expected_jobs queued_job_def worker_job_def copy_job_def)

lemma worker_job_ids: "j_job_id (worker_job m) = j_job_id (worker_job n) \<longleftrightarrow> m = n"
  by (simp add: worker_job_def)

lemma worker_job_plain: "list_all plain_char (j_job_id (worker_job n)) = list_all plain_char n"
  by (simp add: worker_job_def) (simp add: py_def plain_ascii)

section \<open>What the peer has then\<close>

text \<open>The request of a record has arrived: for whom, with which text and which file.\<close>

definition arrived :: "bench \<Rightarrow> history \<Rightarrow> string \<Rightarrow> pystr \<Rightarrow> pystr \<Rightarrow> pdf list \<Rightarrow> bool" where
  "arrived b h kind recipient message pdfs \<longleftrightarrow>
     (\<exists>e. lookup (p_deliveries (bn_peer b)) (PStr (h_idempotency_key h)) = Some (PDict e)
        \<and> map_of e (py ''recipient_type'') = Some (PStr (py kind)) \<and> map_of e (py ''recipient'') = Some (PStr recipient)
        \<and> map_of e (py ''text'') = Some (PStr message) \<and> map_of e (py ''pdfs'') = Some (PList (map pdf_value pdfs)))"

lemma payload_arrived:
  assumes "lookup (p_deliveries (bn_peer b)) (PStr (h_idempotency_key h)) = Some (send_payload fr h' st pdfs g)"
    and "identity_of h' = identity_of h"
  shows "arrived b h (if is_group h then ''Group'' else ''Individual'') (h_recipient h) (h_message_text h) pdfs"
  using assms payload_of_identity [OF assms(2)]
  by (auto simp: arrived_def send_payload_def site_payload_def recipient_kind_text_def is_group_def
      split: option.splits recipient_kind.splits)

lemma peer_delivery_arrived:
  assumes "arrived (nt_bench nt w) h kind recipient message pdfs"
  shows "peer_delivery nt (h_idempotency_key h) (py ''recipient_type'') w = Inr (PStr (py kind))"
    "peer_delivery nt (h_idempotency_key h) (py ''recipient'') w = Inr (PStr recipient)"
    "peer_delivery nt (h_idempotency_key h) (py ''pdfs'') w = Inr (PList (map pdf_value pdfs))"
  using assms by (auto simp: arrived_def peer_delivery_def)

text \<open>Both runs, as the harness looks at them.\<close>

lemma pair_runs:
  assumes ready: "undisturbed fr clock d number s p c t P"
  obtains b1 b2 h h' k k' g where "queued_pair fr d number s t (sd_name p) (sd_name c) h k g"
    and "worker_run fr clock (sd_name p) \<lparr>bn_site = t, bn_peer = P\<rparr> = (Inr (), b1)"
    and "row_get (s_history (bn_site b1)) (sd_name p) = Some h'" "submitted_row h h'"
      "row_get (s_history (bn_site b1)) (sd_name c) = Some (k\<lparr>h_status := Queued\<rparr>)"
      "s_jobs (bn_site b1) = s_jobs t @ [copy_job (sd_name c)]"
    and "worker_run fr clock (sd_name c) b1 = (Inr (), b2)" "s_jobs (bn_site b2) = s_jobs (bn_site b1)"
    and "row_get (s_history (bn_site b2)) (sd_name p) = Some h'"
      "row_get (s_history (bn_site b2)) (sd_name c) = Some k'" "submitted_row k k'" "is_group k'" "\<not> is_group h'"
      "\<forall>n. n \<noteq> sd_name p \<and> n \<noteq> sd_name c \<longrightarrow> row_get (s_history (bn_site b2)) n = row_get (s_history s) n"
    and "arrived b2 h' ''Individual'' number (dr_message d) (snapshot_pdfs fr d)"
      "arrived b2 k' ''Group'' g (dr_message d) (snapshot_pdfs fr d)"
proof -
  obtain b1 b2 h h' k k' g where pair: "queued_pair fr d number s t (sd_name p) (sd_name c) h k g"
    and one: "worker_run fr clock (sd_name p) \<lparr>bn_site = t, bn_peer = P\<rparr> = (Inr (), b1)"
      "row_get (s_history (bn_site b1)) (sd_name p) = Some h'" "submitted_row h h'"
      "row_get (s_history (bn_site b1)) (sd_name c) = Some (k\<lparr>h_status := Queued\<rparr>)"
      "s_jobs (bn_site b1) = s_jobs t @ [copy_job (sd_name c)]"
    and two: "worker_run fr clock (sd_name c) b1 = (Inr (), b2)" "s_jobs (bn_site b2) = s_jobs (bn_site b1)"
      "row_get (s_history (bn_site b2)) (sd_name p) = Some h'"
      "row_get (s_history (bn_site b2)) (sd_name c) = Some k'" "submitted_row k k'"
      "\<forall>n. n \<noteq> sd_name p \<and> n \<noteq> sd_name c \<longrightarrow> row_get (s_history (bn_site b2)) n = row_get (s_history s) n"
    and sent: "lookup (p_deliveries (bn_peer b2)) (PStr (h_idempotency_key h))
        = Some (send_payload fr h (s_settings s) (snapshot_pdfs fr d) (py ''Baileys''))"
      "lookup (p_deliveries (bn_peer b2)) (PStr (h_idempotency_key k))
        = Some (send_payload fr k (s_settings s) (snapshot_pdfs fr d) (py ''Baileys''))"
    by (rule both_runs [OF ready])
  have rows: "row_of fr (s_settings s) d number None h" "row_of fr (s_settings s) d g (Some (sd_name p)) k"
    using pair by (simp_all add: queued_pair_def)
  note original = row_of_original [OF rows(1)] and copy = row_of_copy [OF rows(2)]
    and message = row_of_source [OF rows(1)] row_of_source [OF rows(2)]
  have id: "identity_of h' = identity_of h" "identity_of k' = identity_of k"
    using one(3) two(5) by (simp_all add: submitted_row_def)
  then have fields: "h_idempotency_key h' = h_idempotency_key h" "h_idempotency_key k' = h_idempotency_key k"
    "h_recipient h' = number" "h_recipient k' = g" "h_message_text h' = dr_message d" "h_message_text k' = dr_message d"
    "\<not> is_group h'" "is_group k'"
    using original copy message by (simp_all add: identity_of_def content_of_def is_group_def)
  have "arrived b2 h' ''Individual'' number (dr_message d) (snapshot_pdfs fr d)"
    "arrived b2 k' ''Group'' g (dr_message d) (snapshot_pdfs fr d)"
    using payload_arrived [of b2 h' fr h] payload_arrived [of b2 k' fr k] sent id fields by simp_all
  then show thesis
    by (intro that [OF pair one two(1-5) fields(8,7) two(6)])
qed

section \<open>The check of a delivery\<close>

lemma queued_pair_checks:
  assumes "queued_pair fr d number s t p c h k g" and "bn_site (nt_bench nt w) = t"
  shows "native_history nt p w = Inr h" "h_status h = Queued" "check_queued_pair nt p h c w = Inr k"
proof -
  note q = assms(1) [unfolded queued_pair_def]
  show row: "native_history nt p w = Inr h" using q assms(2) by (simp add: native_history_def get_history_def)
  show "h_status h = Queued" using q row_of_original [of fr "s_settings s" d number h] by simp
  have "check_snapshot nt p h w = Inr ()" "check_snapshot nt c k w = Inr ()"
    using q assms(2) by (auto simp: check_snapshot_def own_snapshot_def snapshot_of_def asserts_def)
  moreover have "h_pdf_sha256 h = h_pdf_sha256 k" using q by (simp add: content_of_def)
  moreover have "native_history nt c w = Inr k" using q assms(2) by (simp add: native_history_def get_history_def)
  moreover have "h_status k = Waiting_for_Primary" "h_copy_of k = Some p"
    using q row_of_copy [of fr "s_settings s" d g p k] by simp_all
  ultimately show "check_queued_pair nt p h c w = Inr k"
    using q by (simp add: check_queued_pair_def asserts_def)
qed

text \<open>Both runs in the harness: what the queue, the site and the peer hold after each.\<close>

lemma native_pair_runs:
  assumes ready: "undisturbed fr clock d number s p c t P" and works: "native_works fr enabled clock nt"
    and plain: "list_all plain_char (sd_name p)" "list_all plain_char (sd_name c)"
    and bench: "nt_bench nt w = \<lparr>bn_site = t, bn_peer = P\<rparr>"
    and jobs: "rq_jobs (nt_rq nt) w = [queued_job (worker_job (sd_name p))]"
  obtains h h' k k' g w1 w2 where "queued_pair fr d number s t (sd_name p) (sd_name c) h k g"
    and "run_worker fr enabled nt (sd_name p) None w = (Inr (), w1)" "run_worker fr enabled nt (sd_name c) None w1 = (Inr (), w2)"
    and "native_history nt (sd_name p) w1 = Inr h'" "native_history nt (sd_name c) w1 = Inr (k\<lparr>h_status := Queued\<rparr>)"
      "submitted_row h h'" "native_history nt (sd_name c) w2 = Inr k'" "submitted_row k k'" "is_group k'"
    and "native_history nt (sd_name p) w2 = Inr h'" "rq_jobs (nt_rq nt) w2 = []" "\<not> is_group h'"
    and "\<forall>n. n \<noteq> sd_name p \<and> n \<noteq> sd_name c \<longrightarrow> row_get (s_history (bn_site (nt_bench nt w2))) n = row_get (s_history s) n"
    and "arrived (nt_bench nt w2) h' ''Individual'' number (dr_message d) (snapshot_pdfs fr d)"
      "arrived (nt_bench nt w2) k' ''Group'' g (dr_message d) (snapshot_pdfs fr d)"
proof -
  obtain b1 b2 h h' k k' g where q: "queued_pair fr d number s t (sd_name p) (sd_name c) h k g"
    and one: "worker_run fr clock (sd_name p) \<lparr>bn_site = t, bn_peer = P\<rparr> = (Inr (), b1)"
      "row_get (s_history (bn_site b1)) (sd_name p) = Some h'" "submitted_row h h'"
      "row_get (s_history (bn_site b1)) (sd_name c) = Some (k\<lparr>h_status := Queued\<rparr>)"
      "s_jobs (bn_site b1) = s_jobs t @ [copy_job (sd_name c)]"
    and two: "worker_run fr clock (sd_name c) b1 = (Inr (), b2)" "s_jobs (bn_site b2) = s_jobs (bn_site b1)"
      "row_get (s_history (bn_site b2)) (sd_name p) = Some h'"
      "row_get (s_history (bn_site b2)) (sd_name c) = Some k'" "submitted_row k k'" "is_group k'" "\<not> is_group h'"
      "\<forall>n. n \<noteq> sd_name p \<and> n \<noteq> sd_name c \<longrightarrow> row_get (s_history (bn_site b2)) n = row_get (s_history s) n"
    and sent: "arrived b2 h' ''Individual'' number (dr_message d) (snapshot_pdfs fr d)"
      "arrived b2 k' ''Group'' g (dr_message d) (snapshot_pdfs fr d)"
    by (rule pair_runs [OF ready])
  have other: "sd_name c \<noteq> sd_name p" using q by (auto simp: queued_pair_def)
  have new1: "new_jobs (nt_bench nt w) b1 = [queued_job (worker_job (sd_name c))]"
    using one(5) by (simp add: new_jobs_def bench worker_job_id)
  have ids: "distinct (map jb_id [queued_job (worker_job (sd_name p)), queued_job (worker_job (sd_name c))])"
    using other by (simp add: queued_job_def worker_job_ids)
  obtain w1 where w1: "run_worker fr enabled nt (sd_name p) None w = (Inr (), w1)" "nt_bench nt w1 = b1"
    "rq_jobs (nt_rq nt) w1 = [queued_job (worker_job (sd_name c))]"
    by (rule run_only_job [OF works worker_job_id(1) _ jobs, of b1])
       (use plain one(1) ids in \<open>simp_all add: worker_job_plain worker_job_id bench new1 [unfolded bench]\<close>)
  have new2: "new_jobs (nt_bench nt w1) b2 = []" using two(2) by (simp add: new_jobs_def w1(2))
  obtain w2 where w2: "run_worker fr enabled nt (sd_name c) None w1 = (Inr (), w2)" "nt_bench nt w2 = b2"
    "rq_jobs (nt_rq nt) w2 = []"
    by (rule run_only_job [OF works worker_job_id(1) _ w1(3), of b2])
       (use plain two(1) in \<open>simp_all add: worker_job_plain worker_job_id w1(2) new2 [unfolded w1(2)]\<close>)
  show thesis
    by (rule that [OF q w1(1) w2(1) _ _ one(3) _ two(5,6) _ w2(3) two(7)])
       (use one two sent in \<open>simp_all add: native_history_def get_history_def w1(2) w2(2)\<close>)
qed

text \<open>What \<open>check_delivery\<close> looks at in between is as it should be.\<close>

lemma check_delivery_runs:
  assumes ready: "undisturbed fr clock d number s p c t P" and works: "native_works fr enabled clock nt"
    and group: "configured_group fr (s_settings s) (opt_value (dr_company d)) s = Inr (Some GROUP)"
    and plain: "list_all plain_char (sd_name p)" "list_all plain_char (sd_name c)"
    and bench: "nt_bench nt w = \<lparr>bn_site = t, bn_peer = P\<rparr>"
    and jobs: "rq_jobs (nt_rq nt) w = [queued_job (worker_job (sd_name p))]"
  obtains h' k' w2 where "check_delivery fr enabled nt (p, Some c) True w = (Inr h', w2)"
    and "h_status h' = Submitted_to_WhatsApp" "\<not> is_group h'" "native_history nt (sd_name p) w2 = Inr h'"
    and "native_history nt (sd_name c) w2 = Inr k'" "h_status k' = Submitted_to_WhatsApp" "rq_jobs (nt_rq nt) w2 = []"
    and "\<forall>n. n \<noteq> sd_name p \<and> n \<noteq> sd_name c \<longrightarrow> row_get (s_history (bn_site (nt_bench nt w2))) n = row_get (s_history s) n"
proof -
  obtain h h' k k' g w1 w2 where q: "queued_pair fr d number s t (sd_name p) (sd_name c) h k g"
    and runs: "run_worker fr enabled nt (sd_name p) None w = (Inr (), w1)" "run_worker fr enabled nt (sd_name c) None w1 = (Inr (), w2)"
    and rows: "native_history nt (sd_name p) w1 = Inr h'" "native_history nt (sd_name c) w1 = Inr (k\<lparr>h_status := Queued\<rparr>)"
      "submitted_row h h'" "native_history nt (sd_name c) w2 = Inr k'" "submitted_row k k'" "is_group k'"
      "native_history nt (sd_name p) w2 = Inr h'" "rq_jobs (nt_rq nt) w2 = []" "\<not> is_group h'"
      "\<forall>n. n \<noteq> sd_name p \<and> n \<noteq> sd_name c \<longrightarrow> row_get (s_history (bn_site (nt_bench nt w2))) n = row_get (s_history s) n"
    and sent: "arrived (nt_bench nt w2) h' ''Individual'' number (dr_message d) (snapshot_pdfs fr d)"
      "arrived (nt_bench nt w2) k' ''Group'' g (dr_message d) (snapshot_pdfs fr d)"
    by (rule native_pair_runs [OF ready works plain bench jobs])
  have g: "g = GROUP" using q group by (auto simp: queued_pair_def)
  have done_: "terminal (h_status h')" "terminal (h_status k')" "h_status h' = Submitted_to_WhatsApp" "h_status k' = Submitted_to_WhatsApp"
    using rows(3,5) by (simp_all add: submitted_row_def terminal_def)
  have "check_sent_copy nt h' k' w2 = Inr ()"
    using peer_delivery_arrived [OF sent(1)] peer_delivery_arrived [OF sent(2)] done_(2)
    by (simp add: check_sent_copy_def asserts_def g py_eq_refl)
  then have "check_copy_run fr enabled nt h' (sd_name c) w1 = (Inr (), w2)"
    using rows runs(2) by (simp add: check_copy_run_def bindA_def reads_def asserts_def)
  then have "check_delivery fr enabled nt (p, Some c) True w = (Inr h', w2)"
    using queued_pair_checks [OF q, of nt w] runs(1) rows(1) done_(1) bench
    by (simp add: check_delivery_def Let_def bindA_def reads_def ret_def asserts_def copy_name_def)
  then show thesis by (rule that [OF _ done_(3) rows(9,7,4) done_(4) rows(8,10)])
qed

section \<open>Properties\<close>

text \<open>C16. A delivery and its group copy arrive. After a document or a report was accepted and queued
  with its copy, and nothing stands in the way, the run of the original's job and then the run of the
  copy's job both return; both records end submitted, the copy still names the original, and the peer
  holds two deliveries: the original for the customer's number, the copy for the group configured for
  the company, both with the accepted text and the one PDF that was rendered.\<close>

theorem document_and_copy_arrive:
  assumes "undisturbed fr clock d number s p c t P"
  shows "\<exists>b1 b2 h k g. worker_run fr clock (sd_name p) \<lparr>bn_site = t, bn_peer = P\<rparr> = (Inr (), b1)
    \<and> worker_run fr clock (sd_name c) b1 = (Inr (), b2)
    \<and> row_get (s_history (bn_site b2)) (sd_name p) = Some h \<and> h_status h = Submitted_to_WhatsApp
    \<and> row_get (s_history (bn_site b2)) (sd_name c) = Some k \<and> h_status k = Submitted_to_WhatsApp
    \<and> h_copy_of k = Some (sd_name p)
    \<and> configured_group fr (s_settings s) (opt_value (dr_company d)) s = Inr (Some g)
    \<and> arrived b2 h ''Individual'' number (dr_message d) [(fr_file_name fr (dr_filename d), b64encode (dr_pdf d))]
    \<and> arrived b2 k ''Group'' g (dr_message d) [(fr_file_name fr (dr_filename d), b64encode (dr_pdf d))]"
proof -
  obtain b1 b2 h h' k k' g where q: "queued_pair fr d number s t (sd_name p) (sd_name c) h k g"
    and runs: "worker_run fr clock (sd_name p) \<lparr>bn_site = t, bn_peer = P\<rparr> = (Inr (), b1)"
      "worker_run fr clock (sd_name c) b1 = (Inr (), b2)"
    and rows: "row_get (s_history (bn_site b2)) (sd_name p) = Some h'" "submitted_row h h'"
      "row_get (s_history (bn_site b2)) (sd_name c) = Some k'" "submitted_row k k'"
    and sent: "arrived b2 h' ''Individual'' number (dr_message d) (snapshot_pdfs fr d)"
      "arrived b2 k' ''Group'' g (dr_message d) (snapshot_pdfs fr d)"
    by (rule pair_runs [OF assms])
  have "h_copy_of k' = Some (sd_name p)"
    using q rows(4) row_of_copy [of fr "s_settings s" d g "sd_name p" k]
    by (simp add: queued_pair_def submitted_row_def identity_of_def)
  then show ?thesis
    using q runs rows sent unfolding queued_pair_def submitted_row_def snapshot_pdfs_def by blast
qed

text \<open>The acceptance check of a delivery passes on the model. Where a delivery to the fixture
  group was queued with its copy and nothing stands in the way, and the queue and the workers do what
  they are documented to do, \<open>check_delivery\<close> returns the submitted original: no assertion fails, both
  jobs were run, the queue is empty and both records are submitted.\<close>

theorem check_delivery_passes:
  assumes ready: "undisturbed fr clock d number s p c t P"
    and group: "configured_group fr (s_settings s) (opt_value (dr_company d)) s = Inr (Some GROUP)"
    and works: "native_works fr enabled clock nt"
    and plain: "list_all plain_char (sd_name p)" "list_all plain_char (sd_name c)"
    and bench: "nt_bench nt w = \<lparr>bn_site = t, bn_peer = P\<rparr>"
    and jobs: "rq_jobs (nt_rq nt) w = [queued_job (worker_job (sd_name p))]"
  shows "\<exists>h w'. check_delivery fr enabled nt (p, Some c) True w = (Inr h, w')
    \<and> h_status h = Submitted_to_WhatsApp \<and> rq_jobs (nt_rq nt) w' = []
    \<and> (\<exists>k. native_history nt (sd_name c) w' = Inr k \<and> h_status k = Submitted_to_WhatsApp)"
  using check_delivery_runs [OF ready works group plain bench jobs] by metis

section \<open>A run of it\<close>

text \<open>The example site as the disposable site, with the bundled transport, a nonce per request, and
  the fixture group for its company.\<close>

definition live_frappe :: frappe where
  "live_frappe = demo_frappe\<lparr>fr_site := FIXTURE_SITE, fr_sha256 := (\<lambda>_. []), fr_transport_providers := [],
     fr_nonce := (\<lambda>n. replicate (Suc n) 110)\<rparr>"

definition live_row :: company_group where
  "live_row = \<lparr>g_company = py ''Co'', g_enabled = True, g_group_id = PStr GROUP, g_group_name = py ''Synthetic company group''\<rparr>"

definition live_site :: site where
  "live_site = demo_site\<lparr>s_settings := demo_settings\<lparr>st_company_groups := [live_row]\<rparr>\<rparr>"

definition live_clock :: "nat \<Rightarrow> int" where
  "live_clock n = 6000000"

definition live_original :: stored where
  "live_original = \<lparr>sd_name = demo_name 2, sd_status = Queued\<rparr>"

definition live_copy :: stored where
  "live_copy = \<lparr>sd_name = demo_name 6, sd_status = Waiting_for_Primary\<rparr>"

definition live_delivery :: delivery_request where
  "live_delivery = demo_request\<lparr>dr_message := py ''Synthetic document copy''\<rparr>"

definition live_stored :: site where
  "live_stored = after (store_delivery live_frappe live_delivery (py ''+12025550123'')) live_site"

lemma live_fields:
  "fr_site live_frappe = FIXTURE_SITE" "fr_nonce live_frappe n = replicate (Suc n) 110" "fr_sha256 live_frappe b = []"
  "fr_transport_providers live_frappe = []" "fr_hmac live_frappe k b = []" "fr_epoch live_frappe n = 5"
  "fr_hash live_frappe = demo_name" "fr_name live_frappe = demo_name" "fr_file_name live_frappe f = f"
  "fr_listing live_frappe ns = ns" "fr_enqueue live_frappe j = None" "fr_user_enabled live_frappe u"
  "fr_key_file live_frappe = Some peer_key"
  by (simp_all add: live_frappe_def) (simp_all add: demo_frappe_def peer_key_def)

lemma live_site_fields:
  "s_user live_site = py ''ann''" "st_enabled (s_settings live_site)" "s_history live_site = []" "s_files live_site = []"
  "s_ticks live_site = 0" "s_jobs live_site = []"
  by (simp_all add: live_site_def demo_site_fields) (simp add: demo_settings_def)

lemma live_unaffected:
  "fr_roles live_frappe = fr_roles demo_frappe" "fr_doc live_frappe = fr_doc demo_frappe" "fr_can live_frappe = fr_can demo_frappe"
  "fr_customer_contacts live_frappe = fr_customer_contacts demo_frappe" "fr_print live_frappe = fr_print demo_frappe"
  "fr_print_format_rows live_frappe = fr_print_format_rows demo_frappe"
  "fr_print_format_has_disabled live_frappe = fr_print_format_has_disabled demo_frappe"
  "fr_document_providers live_frappe = fr_document_providers demo_frappe"
  "fr_doctype_exists live_frappe = fr_doctype_exists demo_frappe"
  by (simp_all add: live_frappe_def)

lemma live_request: "document_request live_frappe = document_request demo_frappe"
  by (unfold document_request_def [abs_def] require_sender_def [abs_def] can_send_def [abs_def] is_manager_def [abs_def] get_roles_def [abs_def]
      validate_document_def [abs_def] document_adapter_def [abs_def] document_adapters_def [abs_def] check_permission_def [abs_def]
      numbers_of_party_def [abs_def] customer_numbers_def [abs_def] validate_print_format_def [abs_def] print_formats_def [abs_def]
      validate_selected_template_def [abs_def] get_doc_def [abs_def]
      add_address_def [abs_def] add_contact_def [abs_def] contact_names_def [abs_def] live_unaffected, rule refl)

lemma live_invoice:
  assumes "s_user s = py ''ann''" "st_enabled (s_settings s)"
  shows "document_request live_frappe (py ''Sales Invoice'') (py ''INV-1'') (py ''+12025550123'') (py ''Standard'')
      (py ''Synthetic document copy'') (py ''v1'') [] s = Inr (live_delivery, py ''+12025550123'')"
proof -
  have "check_message (py ''Synthetic document copy'') = Inr (py ''Synthetic document copy'')"
    by (simp add: check_message_Inr_iff py_def strip_def is_space_def)
  from demo_accepted_with [OF assms this demo_number(1), of "py ''Standard''"] show ?thesis by (simp add: live_request live_delivery_def)
qed

lemma live_accepted: "accepted_delivery live_frappe live_site live_delivery (py ''+12025550123'')"
  using live_invoice [of live_site] live_site_fields unfolding accepted_delivery_def by blast

lemma live_group: "configured_group live_frappe (s_settings live_site) (opt_value (dr_company live_delivery)) live_site = Inr (Some GROUP)"
proof -
  have "company_check live_frappe live_site (PStr (py ''Co'')) = Inr ()"
    by (simp add: company_check_Inr_iff live_unaffected) (simp add: demo_frappe_def demo_doc_def)
  moreover have "group_id (PStr GROUP) = Inr GROUP"
    unfolding group_id_def GROUP_def by (simp add: matches_group_def py_def is_ascii_digit_def digit_run_def Let_def)
  ultimately show ?thesis
    by (simp add: configured_group_def live_site_def live_row_def demo_settings_def live_delivery_def demo_request_def opt_value_def)
qed

lemma live_queued:
  "store_delivery live_frappe live_delivery (py ''+12025550123'') live_site = (Inr (live_original, Some live_copy), live_stored)"
proof -
  have "demo_name m \<noteq> []" "demo_name m = demo_name n \<longleftrightarrow> m = n" for m n
    by (simp_all add: demo_name_def)
  then have fresh: "fresh_pair live_frappe live_site (s_ticks live_site)"
    by (simp add: fresh_pair_def fresh_names_def live_fields live_site_fields key_taken_def)
  have request: "request_ok live_delivery" by (simp add: request_ok_def live_delivery_def demo_request_def nonempty_def)
  obtain t where "store_delivery live_frappe live_delivery (py ''+12025550123'') live_site = (Inr (live_original, Some live_copy), t)"
    using store_delivery_succeeds [OF fresh request live_site_fields(2) live_group, of "py ''+12025550123''"]
    by (auto simp: live_fields live_site_fields live_original_def live_copy_def numeral_2_eq_2)
  then show ?thesis by (simp add: live_stored_def)
qed

lemma live_line: "line_works live_frappe live_clock \<lparr>bn_site = t, bn_peer = new_capture peer_key\<rparr>"
proof -
  have "strip_bytes (replicate 32 65) = replicate 32 65" by (simp add: strip_bytes_def byte_space_def numeral_eq_Suc)
  then have "secret live_frappe = Inr peer_key" by (simp add: secret_def live_fields peer_key_def Let_def)
  moreover have "clocks_agree live_frappe n 6000000" for n
    by (simp add: clocks_agree_def live_fields str_of_int_def digits_of_nat.simps [of 5])
  moreover have "inj (fr_nonce live_frappe)" by (rule injI) (metis live_fields(2) length_replicate nat.inject)
  ultimately show ?thesis
    by (simp add: line_works_def hex_digests_def live_fields new_capture_def live_clock_def fresh_nonce_def
        list_all_iff)
qed

lemma live_undisturbed:
  "undisturbed live_frappe live_clock live_delivery (py ''+12025550123'') live_site live_original live_copy live_stored (new_capture peer_key)"
proof -
  have "get_transport live_frappe LINKED_DEVICE = Inr linked_device"
    by (simp add: get_transport_def transport_registry_def live_fields build_transports_def)
       (simp add: BUILTIN_TRANSPORTS_def LINKED_DEVICE_def linked_device_def bundled_sender_def)
  moreover have "plain_delivery live_frappe live_delivery"
    by (simp add: plain_delivery_def live_fields live_delivery_def demo_request_def demo_name_def list_all_iff)
       (simp add: py_def plain_ascii pdf_header_def startswith_def)
  moreover have "peer_of_site (new_capture peer_key) live_site"
    by (simp add: peer_of_site_def new_capture_def lookup_def)
  ultimately show ?thesis
    using live_accepted live_queued live_line
    by (simp add: undisturbed_def prepared_def lists_all_def live_fields not_copied_def live_site_fields new_capture_def)
qed

theorem document_and_copy_arrive_witness:
  "\<exists>b1 b2 h k. worker_run live_frappe live_clock (demo_name 2) \<lparr>bn_site = live_stored, bn_peer = new_capture peer_key\<rparr> = (Inr (), b1)
    \<and> worker_run live_frappe live_clock (demo_name 6) b1 = (Inr (), b2)
    \<and> arrived b2 h ''Individual'' (py ''+12025550123'') (py ''Synthetic document copy'') [(py ''Sales Invoice-INV-1.pdf'', b64encode (py ''%PDF-1''))]
    \<and> arrived b2 k ''Group'' GROUP (py ''Synthetic document copy'') [(py ''Sales Invoice-INV-1.pdf'', b64encode (py ''%PDF-1''))]"
  using document_and_copy_arrive [OF live_undisturbed] live_group
  by (fastforce simp: live_original_def live_copy_def live_fields live_delivery_def demo_request_def)

text \<open>A queue of jobs, with those that finished; the command reads its arguments back.\<close>

type_synonym live_world = "bench \<times> rq_job list \<times> pystr list"

definition live_work :: "frappe \<Rightarrow> live_world \<Rightarrow> (exn + unit) \<times> live_world" where
  "live_work fr w =
     (case w of
        (_, [], _) \<Rightarrow> (Inr (), w)
      | (b, j # js, finished) \<Rightarrow>
          (case worker_run fr live_clock (jb_message_name j) b of
             (r, b') \<Rightarrow> (Inr (), (b', js @ new_jobs b b', case r of Inl _ \<Rightarrow> removeAll (jb_id j) finished | Inr _ \<Rightarrow> jb_id j # finished))))"

definition live_rq :: "frappe \<Rightarrow> live_world rq" where
  "live_rq fr = \<lparr>rq_jobs = (\<lambda>(_, js, _). js), rq_get_job = (\<lambda>n (_, js, _). find (\<lambda>j. jb_id j = n) js),
     rq_status = (\<lambda>j (_, js, finished). if jb_id j \<in> jb_id ` set js then py ''queued''
        else if jb_id j \<in> set finished then py ''finished'' else py ''failed''),
     rq_work = live_work fr\<rparr>"

definition live_execute :: "frappe \<Rightarrow> pystr \<Rightarrow> pystr \<Rightarrow> (live_world, int) act" where
  "live_execute fr f arguments w =
     (case json_loads arguments of
        Inr (PDict [(_, PStr job_id)]) \<Rightarrow>
          (case worker_once fr True (live_rq fr) job_id w of (Inr _, w') \<Rightarrow> (Inr 0, w') | (Inl _, w') \<Rightarrow> (Inr 1, w'))
      | _ \<Rightarrow> (Inr 2, w))"

definition live_native :: "frappe \<Rightarrow> live_world native" where
  "live_native fr = \<lparr>nt_rq = live_rq fr, nt_bench = fst,
     nt_commit = (\<lambda>b' (b, js, finished). (b', js @ new_jobs b b', finished)), nt_execute = live_execute fr\<rparr>"

lemma live_native_works:
  assumes "fr_site fr = FIXTURE_SITE"
  shows "native_works fr True live_clock (live_native fr)"
proof -
  have "find (\<lambda>i. jb_id i = jb_id j) js = Some j" if "distinct (map jb_id js)" "j \<in> set js" for j js
    using that by (induction js) auto
  then have finds: "finds_waiting (live_native fr)"
    by (auto simp: finds_waiting_def live_native_def live_rq_def)
  have runs: "runs_deliveries fr live_clock (live_native fr)"
    unfolding runs_deliveries_def
  proof (intro allI impI, elim conjE)
    fix w j js r b
    assume jobs: "rq_jobs (nt_rq (live_native fr)) w = queued_job j # js"
      and run: "worker_run fr live_clock (j_message_name j) (nt_bench (live_native fr) w) = (r, b)"
      and ids: "distinct (map jb_id (queued_job j # js @ new_jobs (nt_bench (live_native fr) w) b))"
    obtain b0 f where w: "w = (b0, queued_job j # js, f)"
      using jobs by (cases w) (auto simp: live_native_def live_rq_def)
    have "jb_message_name (queued_job j) = j_message_name j" by (simp add: queued_job_def)
    then show "\<exists>w'. rq_work (nt_rq (live_native fr)) w = (Inr (), w') \<and> nt_bench (live_native fr) w' = b
        \<and> rq_jobs (nt_rq (live_native fr)) w' = js @ new_jobs (nt_bench (live_native fr) w) b
        \<and> rq_status (nt_rq (live_native fr)) (queued_job j) w'
            = (case r of Inl _ \<Rightarrow> py ''failed'' | Inr _ \<Rightarrow> py ''finished'')"
      using run ids by (auto simp: live_native_def live_rq_def live_work_def w split: sum.splits)
  qed
  have commits: "commits (live_native fr)"
    by (auto simp: commits_def live_native_def live_rq_def)
  have "executes_worker fr True (live_native fr)"
    unfolding executes_worker_def
  proof (intro allI impI)
    fix id w assume plain: "list_all plain_char id"
    have "json_ok True (PDict [(py ''job_id'', PStr id)])"
      using plain by (simp add: char_ok_plain [abs_def]) (simp add: py_def plain_ascii)
    then have "json_loads (worker_arguments id) = Inr (PDict [(py ''job_id'', PStr id)])"
      unfolding worker_arguments_def by (intro json_loads_dumps [OF style_ok_used(1)]) (simp add: default_style_def)
    then show "nt_execute (live_native fr) WORKER_ONCE (worker_arguments id) w =
        (case worker_once fr True (nt_rq (live_native fr)) id w of (Inl _, w') \<Rightarrow> (Inr 1, w') | (Inr _, w') \<Rightarrow> (Inr 0, w'))"
      by (simp add: live_native_def live_execute_def split: prod.splits sum.splits)
  qed
  with finds runs commits show ?thesis using assms by (simp add: native_works_def require_fixture_site_def)
qed

theorem check_delivery_passes_witness:
  "\<exists>h w'. check_delivery live_frappe True (live_native live_frappe) (live_original, Some live_copy) True
       (\<lparr>bn_site = live_stored, bn_peer = new_capture peer_key\<rparr>, [queued_job (worker_job (demo_name 2))], []) = (Inr h, w')
     \<and> h_status h = Submitted_to_WhatsApp \<and> fst (snd w') = []"
proof -
  have names: "list_all plain_char (sd_name live_original)" "list_all plain_char (sd_name live_copy)"
    by (simp_all add: live_original_def live_copy_def demo_name_def list_all_iff plain_ascii)
  show ?thesis
    using check_delivery_passes [OF live_undisturbed live_group live_native_works [OF live_fields(1)] names,
        of "(\<lparr>bn_site = live_stored, bn_peer = new_capture peer_key\<rparr>, [queued_job (worker_job (demo_name 2))], [])"]
    by (fastforce simp: live_native_def live_rq_def live_original_def)
qed

end
