(* ===== verification/Refusals.thy ===== *)
theory Refusals
  imports Live_Delivery
begin

text \<open>
  A copy that the peer refuses: its run fails, the original stays out, and the copy is tried again
  by itself when it is due, unless the peer could not say what became of it.
\<close>

section \<open>The refusal\<close>

definition refusal :: "bool \<Rightarrow> exn" where
  "refusal uncertain = Exn WhatsAppGatewayError (py ''Synthetic provider failure'') uncertain"

text \<open>The peer after a refused request: counted, not recorded.\<close>

definition refused :: "pystr \<Rightarrow> pystr \<Rightarrow> capture \<Rightarrow> capture" where
  "refused nonce key p =
     (counted (PStr key) (p\<lparr>p_nonces := nonce # p_nonces p\<rparr>))\<lparr>p_group_failures := p_group_failures p - 1\<rparr>"

lemma refused_fields [simp]:
  "p_deliveries (refused nonce key p) = p_deliveries p" "p_nonces (refused nonce key p) = nonce # p_nonces p"
  "p_key (refused nonce key p) = p_key p" "p_group_failures (refused nonce key p) = p_group_failures p - 1"
  "p_uncertain (refused nonce key p) = p_uncertain p"
  by (simp_all add: refused_def counted_def)

definition refusal_answer :: "bool \<Rightarrow> pyval" where
  "refusal_answer uncertain =
     PDict [(py ''error'', PStr (py ''Synthetic provider failure'')), (py ''reconciliation_required'', PBool uncertain)]"

lemma read_refusal: "read_response 400 (json_dumps default_style (refusal_answer u)) = Inl (refusal u)"
proof -
  have "json_ok True (refusal_answer u)" by (simp add: refusal_answer_def py_def char_ok_def)
  moreover have "gateway_error (refusal_answer u) = refusal u"
    by (simp add: gateway_error_def refusal_answer_def response_get_def dget_def refusal_def py_str_def or_else_def)
  ultimately show ?thesis by (simp add: read_reply)
qed

lemma serve_refused:
  assumes "dget d (py ''tenant_id'') = PStr FIXTURE_SITE" and key: "map_of d (py ''idempotency_key'') = Some (PStr k)"
    and group: "dget d (py ''recipient_type'') = PStr (py ''Group'')" "p_group_failures p \<noteq> 0"
  shows "serve (py ''/v1/send'') (PDict d) p = (Inr (400, refusal_answer (p_uncertain p)),
      (counted (PStr k) p)\<lparr>p_group_failures := p_group_failures p - 1\<rparr>)"
proof -
  have id: "delivery_id d = Inr (PStr k)" using key by (simp add: delivery_id_def hashable_key_def)
  have state: "p_group_failures (counted (PStr k) p) = p_group_failures p" "p_uncertain (counted (PStr k) p) = p_uncertain p"
    by (simp_all add: counted_def)
  have paths: "py ''/v1/send'' \<noteq> py ''/v1/groups''" "py ''/v1/send'' \<noteq> py ''/v1/status''" by simp_all
  have "serve_send d p = (Inr (400, refusal_answer (p_uncertain p)),
      (counted (PStr k) p)\<lparr>p_group_failures := p_group_failures p - 1\<rparr>)"
    by (simp add: serve_send_def bindA_def reads_def modifies_def ret_def id state group refusal_answer_def)
  then show ?thesis using assms(1) paths by (simp add: serve_def)
qed

lemma refused_send:
  assumes "tr_gateway_provider t = Some g"
    and "hex_digests fr" and "secret fr = Inr (p_key p)" and "fr_site fr = FIXTURE_SITE"
    and "clocks_agree fr (s_ticks s) now" and "fresh_nonce fr (s_ticks s) p"
    and peer: "\<And>q. fr_peer fr (s_ticks s) q = fst (do_POST fr now q p)"
    and ok: "json_ok True (send_payload fr h st pdfs g)"
    and "is_group h" and "p_group_failures p \<noteq> 0"
  shows "\<exists>q. send_via_bundled_gateway fr h st pdfs t s
      = (Inl (refusal (p_uncertain p)), s\<lparr>s_ticks := Suc (s_ticks s), s_wire := s_wire s @ [Http q]\<rparr>)
    \<and> snd (do_POST fr now q p) = refused (fr_nonce fr (s_ticks s)) (h_idempotency_key h) p"
proof -
  let ?v = "send_payload fr h st pdfs g"
  have path: "list_all plain_char (py ''/v1/send'')" by (simp add: py_def plain_ascii)
  obtain q where q: "build_request fr (s_ticks s) (py ''/v1/send'') ?v = Inr q" "loads_body (rq_body q) = Inr ?v"
    "rq_path q = py ''/v1/send''" "list_all (\<lambda>c. c < 128) (rq_signature q)" "rq_nonce q = fr_nonce fr (s_ticks s)"
    using honest_request_built [OF assms(2,3) ok _ path] assms(6) by (auto simp: fresh_nonce_def)
  let ?p = "p\<lparr>p_nonces := rq_nonce q # p_nonces p\<rparr>"
  have served: "handle fr now q p = serve (py ''/v1/send'') ?v ?p"
    using honest_request_served [OF q(1,2) assms(3,5,6) q(4)] q(3) by simp
  obtain d where d: "?v = PDict d" by (simp add: send_payload_def site_payload_def)
  note fields = send_payload_fields [OF d]
  have "dget d (py ''recipient_type'') = PStr (py ''Group'')"
    unfolding fields(4) using assms(9) by (simp add: recipient_kind_text_def is_group_def)
  then have "serve (py ''/v1/send'') (PDict d) ?p
      = (Inr (400, refusal_answer (p_uncertain p)), refused (rq_nonce q) (h_idempotency_key h) p)"
    using serve_refused [of d "h_idempotency_key h" ?p] fields assms(4,10) by (simp add: refused_def)
  with served d q(5) have post: "do_POST fr now q p = (Response 400 (json_dumps default_style (refusal_answer (p_uncertain p))),
      refused (fr_nonce fr (s_ticks s)) (h_idempotency_key h) p)" by (simp add: do_POST_def)
  have "send_via_bundled_gateway fr h st pdfs t s
      = (Inl (refusal (p_uncertain p)), s\<lparr>s_ticks := Suc (s_ticks s), s_wire := s_wire s @ [Http q]\<rparr>)"
    using q(1) by (simp add: send_via_bundled_gateway_def assms(1) act_iff peer post read_refusal)
  with post show ?thesis by auto
qed

section \<open>The run that fails\<close>

definition refused_row :: "bool \<Rightarrow> int \<Rightarrow> history \<Rightarrow> history \<Rightarrow> bool" where
  "refused_row uncertain now h h' \<longleftrightarrow>
     h_status h' = Failed \<and> identity_of h' = identity_of h \<and> h_max_retries h' = h_max_retries h
     \<and> h_retry_count h' = h_retry_count h + 1 \<and> h_reconciliation_required h' = uncertain
     \<and> h_next_retry_at h' = (if \<not> uncertain \<and> h_retry_count h + 1 < attempt_limit h
          then Some (now + retry_delay (h_retry_count h + 1) * usec) else None)"

text \<open>An attempt that stops leaves a failed record, and whatever went out before it did.\<close>

lemma attempt_stops:
  assumes row: "row_get (s_history s) n = Some h" "attemptable h s (fr_clock fr (s_ticks s))" "references_ok h"
    and stops: "try_send fr n (started h (fr_clock fr (s_ticks s))) (trying fr n h s)
      = (Inl e, (trying fr n h s)\<lparr>s_ticks := m, s_wire := w\<rparr>)"
  shows "\<exists>h' k. refused_row (exn_reconcile e) (fr_clock fr m) h h' \<and> m \<le> k \<and>
    process_outbound_message fr n s = (Inr (), put_history n h' (s\<lparr>s_ticks := k, s_wire := w\<rparr>))"
proof -
  let ?d = "started h (fr_clock fr (s_ticks s))"
  let ?s2 = "(trying fr n h s)\<lparr>s_ticks := m, s_wire := w\<rparr>"
  obtain h' k where k: "m \<le> k" and failed: "attempt_failed fr ?d e ?s2 = (Inr h', ?s2\<lparr>s_ticks := k\<rparr>)"
    and h': "refused_row (exn_reconcile e) (fr_clock fr m) h h'" and same: "identity_of h' = identity_of ?d" "references_ok h' = references_ok ?d"
  proof -
    let ?again = "\<not> exn_reconcile e \<and> h_retry_count h + 1 < attempt_limit h"
    have "\<exists>h'. attempt_failed fr ?d e ?s2 = (Inr h', ?s2\<lparr>s_ticks := if ?again then Suc m else m\<rparr>)
        \<and> refused_row (exn_reconcile e) (fr_clock fr m) h h' \<and> identity_of h' = identity_of ?d \<and> references_ok h' = references_ok ?d"
      by (cases ?again)
         (auto simp: attempt_failed_def Let_def bindA_def now_datetime_def tick_def ret_def refused_row_def started_def
            identity_of_def content_of_def attempt_limit_def references_ok_def split: reference_kind.split)
    then show thesis using that [of "if ?again then Suc m else m"] by auto
  qed
  have open_: "\<not> terminal (h_status h')" using h' by (simp add: refused_row_def terminal_def)
  have "save_history n h' (?s2\<lparr>s_ticks := k\<rparr>) = (Inr (), put_history n h' (?s2\<lparr>s_ticks := k\<rparr>))"
    by (rule save_history_runs [of _ _ ?d]) (use row(3) same open_ in simp_all)
  moreover have "release_if_original fr n h' = ret ()" using open_ by (simp add: release_if_original_def)
  ultimately have "process_outbound_message fr n s = (Inr (), put_history n h' (?s2\<lparr>s_ticks := k\<rparr>))"
    unfolding attempt_runs [OF row] using stops failed by (simp add: bindA_def catchA_def ret_def)
  moreover have "put_history n h' (?s2\<lparr>s_ticks := k\<rparr>) = put_history n h' (s\<lparr>s_ticks := k, s_wire := w\<rparr>)"
    by (simp add: put_history_def row_put_def trying_def)
  ultimately show ?thesis using h' k by auto
qed

lemma attempt_refused:
  assumes ok: "sendable fr n h pdfs s"
    and sent: "send_via_bundled_gateway fr (started h (fr_clock fr (s_ticks s))) (s_settings s) pdfs linked_device (trying fr n h s)
      = (Inl (refusal u), (trying fr n h s)\<lparr>s_ticks := Suc (Suc (s_ticks s)), s_wire := s_wire s @ [Http q]\<rparr>)"
  shows "\<exists>h' k. refused_row u (fr_clock fr (s_ticks s + 2)) h h' \<and> s_ticks s + 2 \<le> k \<and>
    process_outbound_message fr n s = (Inr (), put_history n h' (s\<lparr>s_ticks := k, s_wire := s_wire s @ [Http q]\<rparr>))"
proof -
  have stop: "try_send fr n (started h (fr_clock fr (s_ticks s))) (trying fr n h s)
      = (Inl (refusal u), (trying fr n h s)\<lparr>s_ticks := s_ticks s + 2, s_wire := s_wire s @ [Http q]\<rparr>)"
    using sent unfolding attempt_sends [OF ok] bindA_def by simp
  have row: "row_get (s_history s) n = Some h" "attemptable h s (fr_clock fr (s_ticks s))" "references_ok h"
    using ok by (simp_all add: sendable_def)
  have "exn_reconcile (refusal u) = u" by (simp add: refusal_def)
  with attempt_stops [OF row stop] show ?thesis by simp
qed

text \<open>A copy whose sender may no longer send it: nothing goes out.\<close>

lemma worker_denied:
  assumes row: "row_get (s_history (bn_site b)) n = Some h" "attemptable h (bn_site b) (fr_clock fr (s_ticks (bn_site b)))" "references_ok h"
    and group: "is_group h"
    and lost: "check_authority fr (s_settings (bn_site b)) h ((bn_site b)\<lparr>s_user := h_owner h\<rparr>) \<noteq> Inr ()"
  obtains h' t where "worker_run fr clock n b = (Inr (), \<lparr>bn_site = t, bn_peer = bn_peer b\<rparr>)"
    and "row_get (s_history t) n = Some h'" "h_status h' = Failed"
    and "\<forall>m. m \<noteq> n \<longrightarrow> row_get (s_history t) m = row_get (s_history (bn_site b)) m" "s_jobs t = s_jobs (bn_site b)"
proof -
  let ?s = "bn_site b"
  let ?fr = "connected fr (clock (s_ticks ?s)) (bn_peer b)"
  let ?d = "started h (fr_clock fr (s_ticks ?s))" and ?s1 = "trying ?fr n h ?s"
  have "outcome (validate_copy fr ?d (s_settings ?s)) ?s1 \<noteq> Inr True"
  proof
    assume "outcome (validate_copy fr ?d (s_settings ?s)) ?s1 = Inr True"
    then have "check_authority fr (s_settings ?s) h (?s1\<lparr>s_user := h_owner h\<rparr>) = Inr ()"
      using validate_copy_True(4) check_authority_started by (fastforce simp: started_def)
    moreover have "check_authority fr (s_settings ?s) h (?s1\<lparr>s_user := h_owner h\<rparr>) = check_authority fr (s_settings ?s) h (?s\<lparr>s_user := h_owner h\<rparr>)"
      by (rule check_authority_cong) simp_all
    ultimately show False using lost by simp
  qed
  then obtain e where "outcome (check_copy ?fr ?d (s_settings ?s)) ?s1 = Inl e"
    using group by (cases "outcome (validate_copy fr ?d (s_settings ?s)) ?s1") (auto simp: check_copy_eq is_group_started)
  then obtain e where "try_send ?fr n ?d ?s1 = (Inl e, ?s1)"
    by (cases "check_enabled (s_settings ?s)") (auto simp: try_send_eq)
  moreover have "?s1 = ?s1\<lparr>s_ticks := Suc (s_ticks ?s), s_wire := s_wire ?s\<rparr>" by (simp add: trying_def put_history_def)
  ultimately have stop: "try_send ?fr n (started h (fr_clock ?fr (s_ticks ?s))) ?s1
      = (Inl e, ?s1\<lparr>s_ticks := Suc (s_ticks ?s), s_wire := s_wire ?s\<rparr>)" by (simp only: connected_fields)
  have row': "attemptable h ?s (fr_clock ?fr (s_ticks ?s))" using row(2) by simp
  obtain h' k where h': "refused_row (exn_reconcile e) (fr_clock fr (Suc (s_ticks ?s))) h h'"
    and run: "process_outbound_message ?fr n ?s = (Inr (), put_history n h' (?s\<lparr>s_ticks := k, s_wire := s_wire ?s\<rparr>))"
    using attempt_stops [OF row(1) row' row(3) stop] unfolding connected_fields by blast
  let ?t = "put_history n h' (?s\<lparr>s_ticks := k, s_wire := s_wire ?s\<rparr>)"
  have "worker_run fr clock n b = (Inr (), \<lparr>bn_site = ?t, bn_peer = bn_peer b\<rparr>)"
    by (simp add: worker_run_def on_bench_def Let_def run)
  moreover have "h_status h' = Failed" using h' unfolding refused_row_def by blast
  ultimately show thesis by (intro that [of ?t h']) (simp_all add: put_history_def)
qed

lemma worker_refused:
  assumes line: "line_works fr clock b" and ok: "sendable fr n h pdfs (bn_site b)" and group: "is_group h"
    and unwilling: "p_group_failures (bn_peer b) \<noteq> 0"
  obtains h' t where "worker_run fr clock n b = (Inr (), \<lparr>bn_site = t,
       bn_peer = refused (fr_nonce fr (Suc (s_ticks (bn_site b)))) (h_idempotency_key h) (bn_peer b)\<rparr>)"
    and "refused_row (p_uncertain (bn_peer b)) (fr_clock fr (s_ticks (bn_site b) + 2)) h h'"
    and "row_get (s_history t) n = Some h'" "\<forall>m. m \<noteq> n \<longrightarrow> row_get (s_history t) m = row_get (s_history (bn_site b)) m"
    and "s_ticks (bn_site b) + 2 \<le> s_ticks t" "s_jobs t = s_jobs (bn_site b)" "s_settings t = s_settings (bn_site b)" "s_files t = s_files (bn_site b)"
proof -
  let ?s = "bn_site b" and ?p = "bn_peer b" and ?now = "clock (s_ticks (bn_site b))"
  let ?fr = "connected fr ?now ?p" and ?d = "started h (fr_clock fr (s_ticks ?s))" and ?st = "s_settings ?s"
  let ?s1 = "trying ?fr n h ?s"
  have "json_ok True (send_payload ?fr ?d ?st pdfs (py ''Baileys''))"
    using payload_ok [of fr h pdfs] line ok by (simp add: line_works_def started_payload sendable_def)
  then obtain q where q: "send_via_bundled_gateway ?fr ?d ?st pdfs linked_device ?s1
      = (Inl (refusal (p_uncertain ?p)), ?s1\<lparr>s_ticks := Suc (s_ticks ?s1), s_wire := s_wire ?s1 @ [Http q]\<rparr>)"
    "snd (do_POST fr ?now q ?p) = refused (fr_nonce fr (Suc (s_ticks ?s))) (h_idempotency_key h) ?p"
    using refused_send [of linked_device "py ''Baileys''" ?fr ?p ?s1 ?now ?d ?st pdfs] line group unwilling
    by (auto simp: linked_device_def line_works_def started_payload is_group_started)
  obtain h' k where h': "refused_row (p_uncertain ?p) (fr_clock fr (s_ticks ?s + 2)) h h'" and k: "s_ticks ?s + 2 \<le> k"
    and run: "process_outbound_message ?fr n ?s = (Inr (), put_history n h' (?s\<lparr>s_ticks := k, s_wire := s_wire ?s @ [Http q]\<rparr>))"
    using attempt_refused [of ?fr n h pdfs ?s "p_uncertain ?p" q] ok q(1) by auto
  let ?t = "put_history n h' (?s\<lparr>s_ticks := k, s_wire := s_wire ?s @ [Http q]\<rparr>)"
  have "worker_run fr clock n b = (Inr (), \<lparr>bn_site = ?t,
      bn_peer = refused (fr_nonce fr (Suc (s_ticks ?s))) (h_idempotency_key h) ?p\<rparr>)"
    using q(2) by (simp add: worker_run_def on_bench_def Let_def run)
  then show thesis by (rule that [OF _ h']) (use k in \<open>simp_all add: put_history_def\<close>)
qed

section \<open>The next pass of the scheduler\<close>

text \<open>Nothing else of the site waits for its turn.\<close>

definition at_rest :: "history \<Rightarrow> bool" where
  "at_rest h \<longleftrightarrow> \<not> releasable (h_status h) \<and> (h_status h = Failed \<longrightarrow> h_next_retry_at h = None)"

lemma no_names: "\<forall>n h. row_get (s_history s) n = Some h \<longrightarrow> \<not> p h \<Longrightarrow> history_names fr p s = []"
  using history_names_row [of _ fr p s] by (cases "history_names fr p s") (simp, metis list.set_intros(1))

lemma retry_one:
  assumes all: "lists_all fr" and row: "row_get (s_history s) n = Some x" and due: "is_due (fr_clock fr (s_ticks s)) x"
    and rest: "\<forall>m h. m \<noteq> n \<and> row_get (s_history s) m = Some h \<longrightarrow> at_rest h"
    and left: "h_retry_count x < attempt_limit x"
    and taken: "fr_enqueue fr (retry_job \<lparr>due_name = n, due_retry_count = h_retry_count x, due_max_retries = h_max_retries x\<rparr>) = None"
  shows "retry_due_messages fr s = (Inr (), (put_history n (x\<lparr>h_status := Queued, h_next_retry_at := None\<rparr>)
    (s\<lparr>s_ticks := Suc (s_ticks s)\<rparr>))\<lparr>s_jobs := s_jobs s
       @ [retry_job \<lparr>due_name = n, due_retry_count = h_retry_count x, due_max_retries = h_max_retries x\<rparr>]\<rparr>)"
proof -
  let ?due = "\<lparr>due_name = n, due_retry_count = h_retry_count x, due_max_retries = h_max_retries x\<rparr>"
  let ?s = "s\<lparr>s_ticks := Suc (s_ticks s)\<rparr>"
  have failed: "\<not> releasable (h_status x)" using due by (simp add: is_due_def releasable_def)
  have none: "\<forall>m h. row_get (s_history s) m = Some h \<longrightarrow> \<not> (is_group h \<and> releasable (h_status h))"
  proof (intro allI impI)
    fix m h assume "row_get (s_history s) m = Some h"
    then show "\<not> (is_group h \<and> releasable (h_status h))"
      using rest row failed by (cases "m = n") (auto simp: at_rest_def)
  qed
  have parents: "waiting_parents fr s = []"
    unfolding waiting_parents_def no_names [OF none] by (simp add: dict_fromkeys_def)
  have "set (history_names fr (is_due (fr_clock fr (s_ticks s))) ?s) = {n}"
  proof (rule set_eqI)
    fix m
    have "\<not> is_due now h" if "at_rest h" for now h using that by (auto simp: at_rest_def is_due_def split: option.splits)
    then show "m \<in> set (history_names fr (is_due (fr_clock fr (s_ticks s))) ?s) \<longleftrightarrow> m \<in> {n}"
      using listed [OF all, of m "is_due (fr_clock fr (s_ticks s))" ?s] row due rest by (cases "m = n") auto
  qed
  moreover have "distinct (history_names fr (is_due (fr_clock fr (s_ticks s))) ?s)" by (simp add: history_names_def)
  ultimately have names: "history_names fr (is_due (fr_clock fr (s_ticks s))) ?s = [n]" by (rule distinct_single)
  have rows: "due_rows fr (fr_clock fr (s_ticks s)) ?s = [?due]"
    unfolding due_rows_def names using row by (simp add: List.map_filter_simps)
  have "retry_row fr ?due ?s = (Inr (), (put_history n (x\<lparr>h_status := Queued, h_next_retry_at := None\<rparr>) ?s)\<lparr>s_jobs := s_jobs s @ [retry_job ?due]\<rparr>)"
  proof -
    have open_: "\<not> max 1 (due_max_retries ?due + 1) \<le> due_retry_count ?due" using left unfolding attempt_limit_def by auto
    then show ?thesis
      unfolding retry_row_def if_not_P [OF open_] using taken row by (simp add: bindA_def set_history_def modifies_def catchA_def enqueue_def put_history_def)
  qed
  then show ?thesis
    by (simp add: retry_due_messages_def bindA_def reads_def parents now_datetime_def tick_def rows ret_def)
qed

lemma connected_retry [simp]: "retry_due_messages (connected fr now p) = retry_due_messages fr"
  by (unfold retry_due_messages_def [abs_def] waiting_parents_def [abs_def] recover_parent_def [abs_def] due_rows_def [abs_def]
      retry_row_def [abs_def] history_names_def [abs_def] enqueue_def [abs_def] now_datetime_def [abs_def] connected_fields connected_release, rule refl)

end
