(* ===== verification/Stages.thy ===== *)
theory Stages
  imports Acceptance Refusals
begin

text \<open>
  Stages of \<open>validate\<close> in \<open>group_acceptance.py\<close>, with the steps the harness takes itself
  between the runs of the workers: forged requests are denied, an original that is out is not sent
  again, a copy that failed is tried again alone, a copy is not sent once its sender lost the right to,
  a company whose group is disabled gets no copy, and a copy whose outcome is unknown is not replayed.
\<close>

section \<open>What the harness does itself\<close>

text \<open>An operation on the site, by the harness; its jobs and records are there for the next worker.\<close>

definition in_parent :: "frappe \<Rightarrow> (nat \<Rightarrow> int) \<Rightarrow> 'w native \<Rightarrow> (frappe \<Rightarrow> (site, 'a) act) \<Rightarrow> ('w, 'a) act" where
  "in_parent fr clock nt operation w =
     (case on_bench fr clock operation (nt_bench nt w) of
        (Inl e, _) \<Rightarrow> (Inl e, w)
      | (Inr x, b) \<Rightarrow> (Inr x, nt_commit nt b w))"

definition set_peer :: "'w native \<Rightarrow> (capture \<Rightarrow> capture) \<Rightarrow> ('w, unit) act" where
  "set_peer nt f = modifies (\<lambda>w. nt_commit nt ((nt_bench nt w)\<lparr>bn_peer := f (bn_peer (nt_bench nt w))\<rparr>) w)"

definition peer_attempts :: "'w native \<Rightarrow> pystr \<Rightarrow> 'w \<Rightarrow> exn + int" where
  "peer_attempts nt key w =
     (case lookup (p_attempts (bn_peer (nt_bench nt w))) (PStr key) of
        None \<Rightarrow> Inl (Exn KeyError key False)
      | Some n \<Rightarrow> Inr n)"

text \<open>Equality of two dictionaries of counts.\<close>

definition same_counts :: "(pyval \<times> int) list \<Rightarrow> (pyval \<times> int) list \<Rightarrow> bool" where
  "same_counts a b \<longleftrightarrow> length a = length b \<and> list_all (\<lambda>(k, n). lookup b k = Some n) a"

section \<open>The stages\<close>

text \<open>What the sender asks for, and each stage begins with.\<close>

definition queue_invoice :: "frappe \<Rightarrow> (nat \<Rightarrow> int) \<Rightarrow> 'w native \<Rightarrow> pystr \<Rightarrow> pystr \<Rightarrow> pystr \<Rightarrow> ('w, stored \<times> stored option) act" where
  "queue_invoice fr clock nt sender invoice modified =
     in_parent fr clock nt (\<lambda>fr. bindA (set_user sender) (\<lambda>_.
       queue_document fr (py ''Sales Invoice'') invoice (py ''+12025550123'') (py ''Standard'') (py ''Synthetic document copy'') modified []))"

text \<open>\<open>try: ... except c: ... else: raise AssertionError(m)\<close>; a missing document is a \<open>ValidationError\<close> of Frappe.\<close>

definition instance_of :: "exn_class \<Rightarrow> exn \<Rightarrow> bool" where
  "instance_of c e \<longleftrightarrow> exn_class e = c \<or> (c = ValidationError \<and> exn_class e = DoesNotExistError)"

definition expects :: "exn_class \<Rightarrow> string \<Rightarrow> (site, 'a) act \<Rightarrow> (site, unit) act" where
  "expects c m operation s =
     (case operation s of
        (Inl e, t) \<Rightarrow> (if instance_of c e then Inr () else Inl e, t)
      | (Inr _, t) \<Rightarrow> (Inl (assertion m), t))"

definition forged_recipient :: "frappe \<Rightarrow> pystr \<Rightarrow> pystr \<Rightarrow> pystr \<Rightarrow> (site, unit) act" where
  "forged_recipient fr invoice modified recipient =
     expects ValidationError ''A caller-selected group was accepted as a customer number''
       (queue_document fr (py ''Sales Invoice'') invoice recipient (py ''Standard'') (py ''Synthetic forged recipient'') modified [])"

definition company_filters :: "pystr \<Rightarrow> pystr \<Rightarrow> pyval" where
  "company_filters company customer =
     PDict [(py ''company'', PStr company), (py ''party'', PList [PStr customer]), (py ''party_type'', PStr (py ''Customer''))]"

definition forged_denials :: "frappe \<Rightarrow> pystr \<Rightarrow> pystr \<Rightarrow> pystr \<Rightarrow> pystr \<Rightarrow> (site, unit) act" where
  "forged_denials fr invoice modified other customer =
     bindA (reads (\<lambda>s. Inr (length (s_history s)))) (\<lambda>count.
     bindA (foldA (forged_recipient fr invoice modified) [GROUP, OTHER_GROUP]) (\<lambda>_.
     bindA (expects PermissionError ''Report preparation accepted a forbidden Company''
       (reads (\<lambda>s. prepare_report fr s (py ''Accounts Receivable'') (company_filters other customer)))) (\<lambda>_.
       reads (\<lambda>s. asserts (length (s_history s) = count) ''Denied requests created delivery records''))))"

definition completed_primary :: "frappe \<Rightarrow> bool \<Rightarrow> (nat \<Rightarrow> int) \<Rightarrow> 'w native \<Rightarrow> ('w, stored \<times> stored option) act \<Rightarrow> ('w, unit) act" where
  "completed_primary fr enabled clock nt queue =
     bindA queue (\<lambda>result.
     bindA (check_delivery fr enabled nt result True) (\<lambda>primary.
     bindA (reads (\<lambda>w. Inr (length (p_deliveries (bn_peer (nt_bench nt w)))))) (\<lambda>before.
     bindA (in_parent fr clock nt (\<lambda>fr. process_outbound_message fr (sd_name (fst result)))) (\<lambda>_.
       reads (\<lambda>w. asserts (length (p_deliveries (bn_peer (nt_bench nt w))) = before) ''Completed primary was resent'')))))"

definition copy_only_retry :: "frappe \<Rightarrow> bool \<Rightarrow> (nat \<Rightarrow> int) \<Rightarrow> 'w native \<Rightarrow> ('w, stored \<times> stored option) act \<Rightarrow> ('w, unit) act" where
  "copy_only_retry fr enabled clock nt queue =
     bindA queue (\<lambda>result.
     bindA (run_worker fr enabled nt (sd_name (fst result)) None) (\<lambda>_.
     bindA (reads (native_history nt (sd_name (fst result)))) (\<lambda>primary.
     bindA (set_peer nt (\<lambda>p. p\<lparr>p_group_failures := 1\<rparr>)) (\<lambda>_.
     bindA (reads (\<lambda>_. copy_name result)) (\<lambda>name.
     bindA (run_worker fr enabled nt name None) (\<lambda>_.
     bindA (reads (native_history nt name)) (\<lambda>copy.
     bindA (reads (\<lambda>_. asserts (h_status copy = Failed \<and> h_next_retry_at copy \<noteq> None \<and> \<not> h_reconciliation_required copy) '''')) (\<lambda>_.
     bindA (in_parent fr clock nt (\<lambda>fr. bindA (now_datetime fr) (\<lambda>now.
        set_history name (\<lambda>h. h\<lparr>h_next_retry_at := Some (now - usec)\<rparr>)))) (\<lambda>_.
     bindA (in_parent fr clock nt retry_due_messages) (\<lambda>_.
     bindA (run_worker fr enabled nt name (Some (h_retry_count copy + 1))) (\<lambda>_.
     bindA (reads (native_history nt name)) (\<lambda>copy.
     bindA (reads (\<lambda>_. asserts (h_status copy = Submitted_to_WhatsApp) '''')) (\<lambda>_.
     bindA (reads (peer_attempts nt (h_idempotency_key primary))) (\<lambda>first.
     bindA (reads (peer_attempts nt (h_idempotency_key copy))) (\<lambda>second.
       reads (\<lambda>_. asserts (first = 1 \<and> second = 2) ''''))))))))))))))))"

text \<open>
  After the original went out the roles of the sender are changed: the framework answers as \<open>fr'\<close> from
  then on, and \<open>nt'\<close> are its workers.
\<close>

definition sender_revocation ::
  "frappe \<Rightarrow> frappe \<Rightarrow> bool \<Rightarrow> 'w native \<Rightarrow> 'w native \<Rightarrow> ('w, stored \<times> stored option) act \<Rightarrow> ('w, unit) act" where
  "sender_revocation fr fr' enabled nt nt' queue =
     bindA queue (\<lambda>result.
     bindA (run_worker fr enabled nt (sd_name (fst result)) None) (\<lambda>_.
     bindA (reads (\<lambda>w. Inr (length (p_deliveries (bn_peer (nt_bench nt' w)))))) (\<lambda>before.
     bindA (reads (\<lambda>_. copy_name result)) (\<lambda>name.
     bindA (run_worker fr' enabled nt' name None) (\<lambda>_.
     bindA (reads (native_history nt' name)) (\<lambda>denied.
       reads (\<lambda>w. asserts (h_status denied = Failed
         \<and> length (p_deliveries (bn_peer (nt_bench nt' w))) = before) '''')))))))"

definition source_revocation ::
  "frappe \<Rightarrow> frappe \<Rightarrow> bool \<Rightarrow> 'w native \<Rightarrow> 'w native \<Rightarrow> ('w, stored \<times> stored option) act \<Rightarrow> ('w, unit) act" where
  "source_revocation fr fr' enabled nt nt' queue =
     bindA queue (\<lambda>result.
     bindA (run_worker fr enabled nt (sd_name (fst result)) None) (\<lambda>_.
     bindA (reads (\<lambda>w. Inr (p_attempts (bn_peer (nt_bench nt' w))))) (\<lambda>before.
     bindA (reads (\<lambda>_. copy_name result)) (\<lambda>name.
     bindA (run_worker fr' enabled nt' name None) (\<lambda>_.
     bindA (reads (native_history nt' name)) (\<lambda>denied.
     bindA (reads (\<lambda>_. asserts (h_status denied = Failed) '''')) (\<lambda>_.
       reads (\<lambda>w. asserts (same_counts (p_attempts (bn_peer (nt_bench nt' w))) before)
         ''Source Read/Print revocation still reached transport''))))))))"

text \<open>\<open>settings.company_groups[0].enabled = 0\<close>\<close>

definition disable_first :: "settings \<Rightarrow> exn + settings" where
  "disable_first st =
     (case st_company_groups st of
        [] \<Rightarrow> raise IndexError ''list index out of range''
      | row # rows \<Rightarrow> Inr (st\<lparr>st_company_groups := row\<lparr>g_enabled := False\<rparr> # rows\<rparr>))"

definition disabled_copy :: "frappe \<Rightarrow> bool \<Rightarrow> (nat \<Rightarrow> int) \<Rightarrow> 'w native \<Rightarrow> ('w, stored \<times> stored option) act \<Rightarrow> ('w, unit) act" where
  "disabled_copy fr enabled clock nt queue =
     bindA (in_parent fr clock nt (\<lambda>fr. bindA (reads (\<lambda>s. disable_first (s_settings s))) (save_settings fr))) (\<lambda>_.
     bindA queue (\<lambda>result.
     bindA (check_delivery fr enabled nt result False) (\<lambda>_. ret ())))"

definition uncertain_copy :: "frappe \<Rightarrow> bool \<Rightarrow> (nat \<Rightarrow> int) \<Rightarrow> 'w native \<Rightarrow> ('w, stored \<times> stored option) act \<Rightarrow> ('w, unit) act" where
  "uncertain_copy fr enabled clock nt queue =
     bindA queue (\<lambda>result.
     bindA (run_worker fr enabled nt (sd_name (fst result)) None) (\<lambda>_.
     bindA (set_peer nt (\<lambda>p. p\<lparr>p_group_failures := 1, p_uncertain := True\<rparr>)) (\<lambda>_.
     bindA (reads (\<lambda>_. copy_name result)) (\<lambda>name.
     bindA (run_worker fr enabled nt name None) (\<lambda>_.
     bindA (reads (native_history nt name)) (\<lambda>uncertain.
     bindA (reads (\<lambda>_. asserts (h_status uncertain = Failed \<and> h_reconciliation_required uncertain
        \<and> h_next_retry_at uncertain = None) '''')) (\<lambda>_.
     bindA (reads (\<lambda>w. Inr (p_attempts (bn_peer (nt_bench nt w))))) (\<lambda>before.
     bindA (in_parent fr clock nt (\<lambda>fr. process_outbound_message fr name)) (\<lambda>_.
       reads (\<lambda>w. asserts (same_counts (p_attempts (bn_peer (nt_bench nt w))) before) ''Uncertain copy was replayed''))))))))))"

section \<open>Steps of the harness\<close>

lemma commit_runs:
  assumes "native_works fr enabled clock nt" and "new_jobs (nt_bench nt w) b = js"
    and "distinct (map jb_id (rq_jobs (nt_rq nt) w @ js))"
  shows "nt_bench nt (nt_commit nt b w) = b" "rq_jobs (nt_rq nt) (nt_commit nt b w) = rq_jobs (nt_rq nt) w @ js"
proof -
  have "commits nt" using assms(1) by (simp add: native_works_def)
  from this [unfolded commits_def, rule_format, of w b] assms(2,3)
  show "nt_bench nt (nt_commit nt b w) = b" "rq_jobs (nt_rq nt) (nt_commit nt b w) = rq_jobs (nt_rq nt) w @ js" by blast+
qed

lemma set_peer_runs:
  assumes "native_works fr enabled clock nt" and "distinct (map jb_id (rq_jobs (nt_rq nt) w))"
  obtains w' where "set_peer nt f w = (Inr (), w')" "rq_jobs (nt_rq nt) w' = rq_jobs (nt_rq nt) w"
    and "nt_bench nt w' = (nt_bench nt w)\<lparr>bn_peer := f (bn_peer (nt_bench nt w))\<rparr>"
proof -
  let ?b = "(nt_bench nt w)\<lparr>bn_peer := f (bn_peer (nt_bench nt w))\<rparr>"
  have "new_jobs (nt_bench nt w) ?b = []" by (simp add: new_jobs_def)
  from commit_runs [OF assms(1) this]
  have "nt_bench nt (nt_commit nt ?b w) = ?b" "rq_jobs (nt_rq nt) (nt_commit nt ?b w) = rq_jobs (nt_rq nt) w"
    using assms(2) by simp_all
  then show thesis by (intro that [of "nt_commit nt ?b w"]) (simp_all add: set_peer_def modifies_def)
qed

lemma in_parent_runs:
  assumes works: "native_works fr enabled clock nt" and bench: "nt_bench nt w = \<lparr>bn_site = s, bn_peer = p\<rparr>"
    and run: "operation (connected fr (clock (s_ticks s)) p) s = (Inr x, t)" and quiet: "s_wire t = s_wire s"
    and jobs: "s_jobs t = s_jobs s @ js" and ids: "distinct (map jb_id (rq_jobs (nt_rq nt) w @ map queued_job js))"
  obtains w' where "in_parent fr clock nt operation w = (Inr x, w')" "nt_bench nt w' = \<lparr>bn_site = t, bn_peer = p\<rparr>"
    and "rq_jobs (nt_rq nt) w' = rq_jobs (nt_rq nt) w @ map queued_job js"
proof -
  let ?b = "\<lparr>bn_site = t, bn_peer = p\<rparr>"
  have "on_bench fr clock operation (nt_bench nt w) = (Inr x, ?b)"
    using run quiet by (simp add: bench on_bench_def Let_def)
  moreover have "new_jobs (nt_bench nt w) ?b = map queued_job js" using jobs by (simp add: bench new_jobs_def)
  note commit_runs [OF works this ids]
  ultimately show thesis by (intro that [of "nt_commit nt ?b w"]) (simp_all add: in_parent_def)
qed

text \<open>What the sender queues is stored, and its job waits.\<close>

lemma queue_invoice_runs:
  assumes works: "native_works fr enabled clock nt" and bench: "nt_bench nt w = \<lparr>bn_site = s0, bn_peer = P\<rparr>"
    and idle: "rq_jobs (nt_rq nt) w = []"
    and request: "document_request fr (py ''Sales Invoice'') invoice (py ''+12025550123'') (py ''Standard'')
        (py ''Synthetic document copy'') modified [] (s0\<lparr>s_user := sender\<rparr>) = Inr (d, number)"
    and stored: "store_delivery fr d number (s0\<lparr>s_user := sender\<rparr>) = (Inr (p, c), t)"
    and taken: "fr_enqueue fr (worker_job (sd_name p)) = None"
  obtains w0 where "queue_invoice fr clock nt sender invoice modified w = (Inr (p, c), w0)"
    and "nt_bench nt w0 = \<lparr>bn_site = t, bn_peer = P\<rparr>" "rq_jobs (nt_rq nt) w0 = [queued_job (worker_job (sd_name p))]"
proof -
  let ?ask = "\<lambda>fr. bindA (set_user sender) (\<lambda>_. queue_document fr (py ''Sales Invoice'') invoice (py ''+12025550123'')
      (py ''Standard'') (py ''Synthetic document copy'') modified [])"
  have run: "?ask (connected fr (clock (s_ticks s0)) P) s0 = (Inr (p, c), t)"
    using request stored by (simp add: bindA_def reads_def set_user_def modifies_def queue_document_def)
  have quiet: "s_wire t = s_wire s0" "s_jobs t = s_jobs s0 @ [worker_job (sd_name p)]"
    using store_delivery_jobs [OF stored taken] by simp_all
  have ids: "distinct (map jb_id (rq_jobs (nt_rq nt) w @ map queued_job [worker_job (sd_name p)]))" using idle by simp
  obtain w0 where "in_parent fr clock nt ?ask w = (Inr (p, c), w0)" "nt_bench nt w0 = \<lparr>bn_site = t, bn_peer = P\<rparr>"
    "rq_jobs (nt_rq nt) w0 = rq_jobs (nt_rq nt) w @ map queued_job [worker_job (sd_name p)]"
    by (rule in_parent_runs [OF works bench, where operation = ?ask, OF run quiet ids])
  then show thesis by (intro that) (simp_all add: queue_invoice_def idle)
qed

text \<open>The original's run, for the stages in which the copy's run is different.\<close>

lemma original_native_run:
  assumes ready: "prepared fr clock d number s p c t P" and works: "native_works fr enabled clock nt"
    and plain: "list_all plain_char (sd_name p)" and bench: "nt_bench nt w = \<lparr>bn_site = t, bn_peer = P\<rparr>"
    and jobs: "rq_jobs (nt_rq nt) w = [queued_job (worker_job (sd_name p))]"
  obtains h k g h' t1 P1 w1 where "queued_pair fr d number s t (sd_name p) (sd_name c) h k g"
    and "copy_released fr clock d s (sd_name p) (sd_name c) t P h h' k t1 P1"
    and "run_worker fr enabled nt (sd_name p) None w = (Inr (), w1)" "nt_bench nt w1 = \<lparr>bn_site = t1, bn_peer = P1\<rparr>"
    and "rq_jobs (nt_rq nt) w1 = [queued_job (worker_job (sd_name c))]" "native_history nt (sd_name p) w1 = Inr h'"
proof -
  obtain h k g h' t1 P1 where q: "queued_pair fr d number s t (sd_name p) (sd_name c) h k g"
    and run: "worker_run fr clock (sd_name p) \<lparr>bn_site = t, bn_peer = P\<rparr> = (Inr (), \<lparr>bn_site = t1, bn_peer = P1\<rparr>)"
    and rel: "copy_released fr clock d s (sd_name p) (sd_name c) t P h h' k t1 P1"
    by (rule original_run [OF ready])
  have other: "sd_name c \<noteq> sd_name p" using q by (auto simp: queued_pair_def)
  have new: "new_jobs (nt_bench nt w) \<lparr>bn_site = t1, bn_peer = P1\<rparr> = [queued_job (worker_job (sd_name c))]"
    using rel by (simp add: copy_released_def new_jobs_def bench worker_job_id)
  have ids: "distinct (map jb_id [queued_job (worker_job (sd_name p)), queued_job (worker_job (sd_name c))])"
    using other by (simp add: queued_job_def worker_job_ids)
  obtain w1 where w1: "run_worker fr enabled nt (sd_name p) None w = (Inr (), w1)" "nt_bench nt w1 = \<lparr>bn_site = t1, bn_peer = P1\<rparr>"
    "rq_jobs (nt_rq nt) w1 = [queued_job (worker_job (sd_name c))]"
    by (rule run_only_job [OF works worker_job_id(1) _ jobs, of "\<lparr>bn_site = t1, bn_peer = P1\<rparr>"])
       (use plain run ids in \<open>simp_all add: worker_job_plain worker_job_id bench new [unfolded bench]\<close>)
  show thesis
    by (rule that [OF q rel w1]) (use rel in \<open>simp add: copy_released_def native_history_def get_history_def w1(2)\<close>)
qed

section \<open>The peer's counts\<close>

lemma counted_attempts:
  "lookup (p_attempts (counted (PStr key) p)) (PStr key') =
     (if key' = key then Some ((case lookup (p_attempts p) (PStr key) of None \<Rightarrow> 0 | Some n \<Rightarrow> n) + 1)
      else lookup (p_attempts p) (PStr key'))"
proof (cases "key' = key")
  case False
  then have "\<not> py_eq (PStr key) (PStr key')" by simp
  then show ?thesis using False by (simp add: counted_def lookup_store_other)
qed (simp add: counted_def)

lemma attempts_recorded: "p_attempts (recorded nonce key v p) = p_attempts (counted (PStr key) p)"
  by (simp add: recorded_def counted_def)

lemma attempts_refused: "p_attempts (refused nonce key p) = p_attempts (counted (PStr key) p)"
  by (simp add: refused_def counted_def)

text \<open>Nothing was attempted for a record that does not exist yet.\<close>

definition attempts_of_site :: "capture \<Rightarrow> site \<Rightarrow> bool" where
  "attempts_of_site p s \<longleftrightarrow> (\<forall>key. lookup (p_attempts p) (PStr key) = None \<or> has_key key s)"

section \<open>The refused copy\<close>

lemma line_on:
  assumes line: "line_works fr clock b" and key: "p_key p = p_key (bn_peer b)" and later: "s_ticks (bn_site b) \<le> s_ticks t"
    and nonces: "set (p_nonces p) \<subseteq> set (p_nonces (bn_peer b)) \<union> fr_nonce fr ` {..< s_ticks t}"
  shows "line_works fr clock \<lparr>bn_site = t, bn_peer = p\<rparr>"
proof -
  have "fr_nonce fr n \<notin> set (p_nonces p)" if "s_ticks t \<le> n" for n
  proof
    assume "fr_nonce fr n \<in> set (p_nonces p)"
    then consider "fr_nonce fr n \<in> set (p_nonces (bn_peer b))" | m where "m < s_ticks t" "fr_nonce fr n = fr_nonce fr m"
      using nonces by auto
    then show False
      using line that later by cases (auto simp: line_works_def fresh_nonce_def dest: injD)
  qed
  then show ?thesis using line key later by (auto simp: line_works_def fresh_nonce_def)
qed

text \<open>The run of the copy, when the peer was told to refuse the next one.\<close>

lemma copy_refused_run:
  assumes ready: "prepared fr clock d number s p c t P" and works: "native_works fr enabled clock nt"
    and plain: "list_all plain_char (sd_name c)" and q: "queued_pair fr d number s t (sd_name p) (sd_name c) h k g"
    and rel: "copy_released fr clock d s (sd_name p) (sd_name c) t P h h' k t1 P1"
    and bench: "nt_bench nt w = \<lparr>bn_site = t1, bn_peer = P2\<rparr>"
    and peer: "p_key P2 = p_key P1" "p_nonces P2 = p_nonces P1" "p_group_failures P2 \<noteq> 0"
    and jobs: "rq_jobs (nt_rq nt) w = [queued_job (worker_job (sd_name c))]"
  obtains x now t2 w' where "run_worker fr enabled nt (sd_name c) None w = (Inr (), w')" "rq_jobs (nt_rq nt) w' = []"
    and "nt_bench nt w' = \<lparr>bn_site = t2, bn_peer = refused (fr_nonce fr (Suc (s_ticks t1))) (h_idempotency_key k) P2\<rparr>"
    and "refused_row (p_uncertain P2) now (k\<lparr>h_status := Queued\<rparr>) x" "row_get (s_history t2) (sd_name c) = Some x"
    and "\<forall>n. n \<noteq> sd_name c \<longrightarrow> row_get (s_history t2) n = row_get (s_history t1) n"
    and "s_ticks t1 + 2 \<le> s_ticks t2" "s_settings t2 = s_settings t1" "s_files t2 = s_files t1"
proof -
  let ?k = "k\<lparr>h_status := Queued\<rparr>"
  have accepted: "accepted_delivery fr s d number" and d: "plain_delivery fr d" and enabled: "fr_user_enabled fr (s_user s)"
    and transport: "get_transport fr LINKED_DEVICE = Inr linked_device"
    using ready by (simp_all add: prepared_def)
  have line1: "line_works fr clock \<lparr>bn_site = t1, bn_peer = P1\<rparr>" and rows: "row_get (s_history t1) (sd_name p) = Some h'"
      "submitted_row h h'" "row_get (s_history t1) (sd_name c) = Some ?k"
    and kept: "s_settings t1 = s_settings s" "s_files t1 = s_files t"
    using rel unfolding copy_released_def by blast+
  have line: "line_works fr clock \<lparr>bn_site = t1, bn_peer = P2\<rparr>" by (rule line_on [OF line1]) (use peer in auto)
  have site: "fr_site fr = FIXTURE_SITE" using line by (simp add: line_works_def)
  have id: "identity_of ?k = identity_of k" by (simp add: identity_of_def content_of_def)
  have copy: "is_group k" "h_retry_count k = 0" "\<not> h_reconciliation_required k"
    using row_of_copy [of fr "s_settings s" d g "sd_name p" k] q by (auto simp: queued_pair_def)
  have ok: "sendable fr (sd_name c) ?k (snapshot_pdfs fr d) t1"
    by (rule copy_sendable [OF q d accepted enabled transport site rows kept id]) (use copy in \<open>simp_all add: attempt_limit_def\<close>)
  have group: "is_group ?k" using copy(1) by (simp add: is_group_def)
  obtain x t2 where run: "worker_run fr clock (sd_name c) \<lparr>bn_site = t1, bn_peer = P2\<rparr> = (Inr (), \<lparr>bn_site = t2,
       bn_peer = refused (fr_nonce fr (Suc (s_ticks t1))) (h_idempotency_key k) P2\<rparr>)"
    and x: "refused_row (p_uncertain P2) (fr_clock fr (s_ticks t1 + 2)) ?k x" "row_get (s_history t2) (sd_name c) = Some x"
      "\<forall>n. n \<noteq> sd_name c \<longrightarrow> row_get (s_history t2) n = row_get (s_history t1) n"
      "s_ticks t1 + 2 \<le> s_ticks t2" "s_settings t2 = s_settings t1" "s_files t2 = s_files t1"
    and quiet: "s_jobs t2 = s_jobs t1"
    by (rule worker_refused [OF line, of "sd_name c" ?k]) (use ok group peer(3) in auto)
  have new: "new_jobs (nt_bench nt w) \<lparr>bn_site = t2, bn_peer = refused (fr_nonce fr (Suc (s_ticks t1))) (h_idempotency_key k) P2\<rparr> = []"
    using quiet by (simp add: new_jobs_def bench)
  obtain w' where "run_worker fr enabled nt (sd_name c) None w = (Inr (), w')" "rq_jobs (nt_rq nt) w' = []"
    "nt_bench nt w' = \<lparr>bn_site = t2, bn_peer = refused (fr_nonce fr (Suc (s_ticks t1))) (h_idempotency_key k) P2\<rparr>"
    by (rule run_only_job [OF works worker_job_id(1) _ jobs, of "\<lparr>bn_site = t2, bn_peer = refused (fr_nonce fr (Suc (s_ticks t1))) (h_idempotency_key k) P2\<rparr>"])
       (use plain run new in \<open>simp_all add: worker_job_plain worker_job_id bench\<close>)
  then show thesis by (rule that) (use x in simp_all)
qed

section \<open>The copy's turn comes again\<close>

text \<open>The harness sets the time of the retry back and runs a pass of the scheduler.\<close>

definition due_of :: "pystr \<Rightarrow> history \<Rightarrow> due_row" where
  "due_of n h = \<lparr>due_name = n, due_retry_count = h_retry_count h, due_max_retries = h_max_retries h\<rparr>"

lemma retry_pass_run:
  assumes works: "native_works fr enabled clock nt" and bench: "nt_bench nt w = \<lparr>bn_site = t, bn_peer = p\<rparr>"
    and jobs: "rq_jobs (nt_rq nt) w = []" and mono: "mono (fr_clock fr)" and all: "lists_all fr"
    and taken: "\<forall>j. fr_enqueue fr j = None"
    and row: "row_get (s_history t) c = Some x" "h_status x = Failed" "\<not> h_reconciliation_required x" "h_retry_count x < attempt_limit x"
    and rest: "\<forall>m h. m \<noteq> c \<and> row_get (s_history t) m = Some h \<longrightarrow> at_rest h"
  obtains w1 w2 t' where "in_parent fr clock nt (\<lambda>fr. bindA (now_datetime fr) (\<lambda>now.
        set_history c (\<lambda>h. h\<lparr>h_next_retry_at := Some (now - usec)\<rparr>))) w = (Inr (), w1)"
    and "in_parent fr clock nt retry_due_messages w1 = (Inr (), w2)"
    and "nt_bench nt w2 = \<lparr>bn_site = t', bn_peer = p\<rparr>" "rq_jobs (nt_rq nt) w2 = [queued_job (retry_job (due_of c x))]"
    and "row_get (s_history t') c = Some (x\<lparr>h_status := Queued, h_next_retry_at := None\<rparr>)"
    and "\<forall>m. m \<noteq> c \<longrightarrow> row_get (s_history t') m = row_get (s_history t) m"
    and "s_settings t' = s_settings t" "s_files t' = s_files t" "s_ticks t \<le> s_ticks t'"
proof -
  let ?x = "x\<lparr>h_next_retry_at := Some (fr_clock fr (s_ticks t) - usec)\<rparr>"
  let ?t1 = "put_history c ?x (t\<lparr>s_ticks := Suc (s_ticks t)\<rparr>)"
  let ?reset = "\<lambda>fr. bindA (now_datetime fr) (\<lambda>now. set_history c (\<lambda>h. h\<lparr>h_next_retry_at := Some (now - usec)\<rparr>))"
  have run: "?reset (connected fr (clock (s_ticks t)) p) t = (Inr (), ?t1)"
    using row(1) by (simp add: bindA_def now_datetime_def tick_def set_history_def modifies_def put_history_def)
  have state: "s_wire ?t1 = s_wire t" "s_jobs ?t1 = s_jobs t @ []" by (simp_all add: put_history_def)
  have ids: "distinct (map jb_id (rq_jobs (nt_rq nt) w @ map queued_job []))" using jobs by simp
  obtain w1 where w1: "in_parent fr clock nt ?reset w = (Inr (), w1)" "nt_bench nt w1 = \<lparr>bn_site = ?t1, bn_peer = p\<rparr>"
    and "rq_jobs (nt_rq nt) w1 = rq_jobs (nt_rq nt) w @ map queued_job []"
    by (rule in_parent_runs [OF works bench, where operation = ?reset, OF run state ids])
  then have w1jobs: "rq_jobs (nt_rq nt) w1 = []" using jobs by simp
  let ?due = "due_of c ?x"
  let ?t2 = "(put_history c (?x\<lparr>h_status := Queued, h_next_retry_at := None\<rparr>) (?t1\<lparr>s_ticks := Suc (s_ticks ?t1)\<rparr>))
    \<lparr>s_jobs := s_jobs ?t1 @ [retry_job ?due]\<rparr>"
  have "fr_clock fr (s_ticks t) \<le> fr_clock fr (Suc (s_ticks t))" using mono by (simp add: monoD)
  then have due: "is_due (fr_clock fr (s_ticks ?t1)) ?x" using row(2,3) by (simp add: is_due_def put_history_def usec_def)
  have pass: "retry_due_messages fr ?t1 = (Inr (), ?t2)"
    unfolding due_of_def
  proof (rule retry_one [OF all _ due])
    show "row_get (s_history ?t1) c = Some ?x" by (simp add: put_history_def)
    show "\<forall>m h. m \<noteq> c \<and> row_get (s_history ?t1) m = Some h \<longrightarrow> at_rest h" using rest by (simp add: put_history_def)
    show "h_retry_count ?x < attempt_limit ?x" using row(4) by (simp add: attempt_limit_def)
  qed (use taken in blast)
  then have run2: "retry_due_messages (connected fr (clock (s_ticks ?t1)) p) ?t1 = (Inr (), ?t2)" by simp
  have state2: "s_wire ?t2 = s_wire ?t1" "s_jobs ?t2 = s_jobs ?t1 @ [retry_job ?due]" by (simp_all add: put_history_def)
  have ids2: "distinct (map jb_id (rq_jobs (nt_rq nt) w1 @ map queued_job [retry_job ?due]))" using w1jobs by simp
  obtain w2 where w2: "in_parent fr clock nt retry_due_messages w1 = (Inr (), w2)" "nt_bench nt w2 = \<lparr>bn_site = ?t2, bn_peer = p\<rparr>"
    and jobs2: "rq_jobs (nt_rq nt) w2 = rq_jobs (nt_rq nt) w1 @ map queued_job [retry_job ?due]"
    by (rule in_parent_runs [OF works w1(2), where operation = retry_due_messages, OF run2 state2 ids2])
  have "?due = due_of c x" by (simp add: due_of_def)
  then have "rq_jobs (nt_rq nt) w2 = [queued_job (retry_job (due_of c x))]" using jobs2 w1jobs by simp
  then show thesis
    by (rule that [OF w1(1) w2(1,2)]) (simp_all add: put_history_def)
qed

text \<open>Then its worker runs it again, and the peer takes it.\<close>

lemma retried_copy_run:
  assumes works: "native_works fr enabled clock nt" and plain: "list_all plain_char c"
    and bench: "nt_bench nt w = \<lparr>bn_site = t, bn_peer = p\<rparr>" and jobs: "rq_jobs (nt_rq nt) w = [queued_job (retry_job (due_of c y))]"
    and line: "line_works fr clock \<lparr>bn_site = t, bn_peer = p\<rparr>" and ok: "sendable fr c x pdfs t" and group: "is_group x"
    and willing: "p_group_failures p = 0" and new: "lookup (p_deliveries p) (PStr (h_idempotency_key x)) = None"
  obtains w' t' k where "run_worker fr enabled nt c (Some (h_retry_count y + 1)) w = (Inr (), w')"
    and "nt_bench nt w' = \<lparr>bn_site = t', bn_peer = recorded (fr_nonce fr (Suc (s_ticks t))) (h_idempotency_key x)
          (send_payload fr x (s_settings t) pdfs (py ''Baileys'')) p\<rparr>"
    and "rq_jobs (nt_rq nt) w' = []" "native_history nt c w' = Inr k" "submitted_row x k"
proof -
  let ?p = "recorded (fr_nonce fr (Suc (s_ticks t))) (h_idempotency_key x) (send_payload fr x (s_settings t) pdfs (py ''Baileys'')) p"
  obtain t' k where run: "worker_run fr clock c \<lparr>bn_site = t, bn_peer = p\<rparr> = (Inr (), \<lparr>bn_site = t', bn_peer = ?p\<rparr>)"
    and k: "row_get (s_history t') c = Some k" "submitted_row x k" and quiet: "s_jobs t' = s_jobs t"
    by (rule copy_run [OF line ok group willing new])
  have id: "run_job_id c (Some (h_retry_count y + 1)) = j_job_id (retry_job (due_of c y))"
    using expected_jobs(2) [of "due_of c y" c] by (simp add: due_of_def)
  have count: "list_all plain_char (str_of_int i)" for i
    using digits_plain by (simp add: str_of_int_def plain_ascii)
  have "list_all plain_char (j_job_id (retry_job (due_of c y)))"
    using plain count by (simp add: retry_job_def due_of_def) (simp add: py_def plain_ascii)
  moreover have "new_jobs (nt_bench nt w) \<lparr>bn_site = t', bn_peer = ?p\<rparr> = []" using quiet by (simp add: new_jobs_def bench)
  ultimately obtain w' where w': "run_worker fr enabled nt c (Some (h_retry_count y + 1)) w = (Inr (), w')"
    "nt_bench nt w' = \<lparr>bn_site = t', bn_peer = ?p\<rparr>" "rq_jobs (nt_rq nt) w' = []"
    by - (rule run_only_job [OF works id _ jobs, of "\<lparr>bn_site = t', bn_peer = ?p\<rparr>"],
          use run in \<open>simp_all add: bench retry_job_def due_of_def\<close>)
  then show thesis by (rule that) (use k w'(2) in \<open>simp_all add: native_history_def get_history_def\<close>)
qed

end
