(* ===== verification/Stage_Checks.thy ===== *)
theory Stage_Checks
  imports Stages
begin

text \<open>
  The stages of \<open>group_acceptance.py\<close> pass on the model: the runs of the original and of the copy in
  each, what the harness finds between them, and one run of every stage on the example site.
\<close>

section \<open>A delivery that nothing stands in the way of\<close>

text \<open>\<open>queue_invoice\<close> stored the delivery with its copy, and its job is the only one that waits.\<close>

definition just_queued ::
  "frappe \<Rightarrow> bool \<Rightarrow> (nat \<Rightarrow> int) \<Rightarrow> 'w native \<Rightarrow> ('w, stored \<times> stored option) act \<Rightarrow> delivery_request \<Rightarrow> pystr
    \<Rightarrow> site \<Rightarrow> stored \<Rightarrow> stored \<Rightarrow> site \<Rightarrow> capture \<Rightarrow> 'w \<Rightarrow> bool" where
  "just_queued fr enabled clock nt queue d number s p c t P w \<longleftrightarrow>
     prepared fr clock d number s p c t P \<and> native_works fr enabled clock nt
     \<and> list_all plain_char (sd_name p) \<and> list_all plain_char (sd_name c)
     \<and> (case queue w of
          (Inr result, w0) \<Rightarrow> result = (p, Some c) \<and> nt_bench nt w0 = \<lparr>bn_site = t, bn_peer = P\<rparr>
            \<and> rq_jobs (nt_rq nt) w0 = [queued_job (worker_job (sd_name p))]
        | (Inl _, _) \<Rightarrow> False)"

lemma just_queuedD:
  assumes "just_queued fr enabled clock nt queue d number s p c t P w"
  obtains w0 where "prepared fr clock d number s p c t P" "native_works fr enabled clock nt"
    "list_all plain_char (sd_name p)" "list_all plain_char (sd_name c)" "queue w = (Inr (p, Some c), w0)"
    "nt_bench nt w0 = \<lparr>bn_site = t, bn_peer = P\<rparr>" "rq_jobs (nt_rq nt) w0 = [queued_job (worker_job (sd_name p))]"
  using assms by (auto simp: just_queued_def split: prod.splits sum.splits)

section \<open>Dictionaries of counts\<close>

definition distinct_keys :: "(pyval \<times> 'a) list \<Rightarrow> bool" where
  "distinct_keys = sorted_wrt (\<lambda>(j, _) (k, _). \<not> py_eq j k)"

lemma store_keys: "\<forall>(j, _) \<in> set t. \<not> py_eq i j \<Longrightarrow> \<not> py_eq i k \<Longrightarrow> \<forall>(j, _) \<in> set (store k v t). \<not> py_eq i j"
  by (induction t) (auto split: if_splits)

lemma distinct_keys_store: "distinct_keys t \<Longrightarrow> distinct_keys (store k v t)"
proof (induction t)
  case (Cons x t)
  obtain j w where x: "x = (j, w)" by (cases x)
  have "\<not> py_eq j k \<Longrightarrow> \<forall>(i, _) \<in> set (store k v t). \<not> py_eq j i"
    by (rule store_keys) (use Cons.prems in \<open>auto simp: distinct_keys_def x\<close>)
  then show ?case using Cons by (auto simp: distinct_keys_def x)
qed (simp add: distinct_keys_def)

lemma same_counts_refl: "distinct_keys t \<Longrightarrow> same_counts t t"
proof -
  have "\<forall>(k, n) \<in> set t. lookup t k = Some n" if "distinct_keys t" using that
  proof (induction t)
    case (Cons x t)
    obtain j w where x: "x = (j, w)" by (cases x)
    have "\<forall>(k, n) \<in> set t. lookup t k = Some n \<and> \<not> py_eq j k" using Cons by (auto simp: distinct_keys_def x)
    then show ?case by (auto simp: lookup_def x py_eq_refl)
  qed simp
  then show "distinct_keys t \<Longrightarrow> same_counts t t" by (auto simp: same_counts_def list_all_iff)
qed

section \<open>An original that is out\<close>

lemma settled_idle:
  assumes "row_get (s_history s) n = Some h" "terminal (h_status h)"
    and none: "\<forall>m x. row_get (s_history s) m = Some x \<and> h_copy_of x = Some n \<longrightarrow> \<not> releasable (h_status x)"
  shows "process_outbound_message fr n s = (Inr (), s)"
proof -
  have "history_names fr (\<lambda>x. h_copy_of x = Some n \<and> releasable (h_status x)) s = []"
    by (rule no_names) (use none in blast)
  then have "release_if_original fr n h s = (Inr (), s)"
    by (simp add: release_if_original_def release_waiting_copies_def bindA_def reads_def ret_def)
  then show ?thesis
    using assms(1,2) by (simp add: process_outbound_message_def bindA_def reads_def get_history_def)
qed

lemma stopped_idle:
  assumes "row_get (s_history s) n = Some h" "h_status h = Failed" "h_reconciliation_required h"
  shows "process_outbound_message fr n s = (Inr (), s)"
  using assms by (simp add: process_outbound_message_def bindA_def reads_def get_history_def terminal_def ret_def)

text \<open>What does nothing on the site changes nothing else.\<close>

lemma in_parent_idle:
  assumes works: "native_works fr enabled clock nt" and ids: "distinct (map jb_id (rq_jobs (nt_rq nt) w))"
    and run: "\<And>fr. operation fr (bn_site (nt_bench nt w)) = (Inr x, bn_site (nt_bench nt w))"
  obtains w' where "in_parent fr clock nt operation w = (Inr x, w')" "nt_bench nt w' = nt_bench nt w"
    and "rq_jobs (nt_rq nt) w' = rq_jobs (nt_rq nt) w"
proof -
  obtain s p where bench: "nt_bench nt w = \<lparr>bn_site = s, bn_peer = p\<rparr>" by (cases "nt_bench nt w")
  have still: "operation (connected fr (clock (s_ticks s)) p) s = (Inr x, s)" using run by (simp add: bench)
  show thesis
    by (rule in_parent_runs [OF works bench, where operation = operation, OF still refl, of "[]"])
       (use ids in \<open>auto simp: bench intro: that\<close>)
qed

lemma completed_primary_runs:
  assumes queued: "just_queued fr enabled clock nt queue d number s p c t P w" and willing: "p_group_failures P = 0"
    and group: "configured_group fr (s_settings s) (opt_value (dr_company d)) s = Inr (Some GROUP)"
  obtains w' h k where "completed_primary fr enabled clock nt queue w = (Inr (), w')" "rq_jobs (nt_rq nt) w' = []"
    and "native_history nt (sd_name p) w' = Inr h" "h_status h = Submitted_to_WhatsApp"
    and "native_history nt (sd_name c) w' = Inr k" "h_status k = Submitted_to_WhatsApp"
proof -
  obtain w0 where ready: "prepared fr clock d number s p c t P" and works: "native_works fr enabled clock nt"
    and plain: "list_all plain_char (sd_name p)" "list_all plain_char (sd_name c)" and queue: "queue w = (Inr (p, Some c), w0)"
    and bench: "nt_bench nt w0 = \<lparr>bn_site = t, bn_peer = P\<rparr>" and jobs: "rq_jobs (nt_rq nt) w0 = [queued_job (worker_job (sd_name p))]"
    by (rule just_queuedD [OF queued])
  have calm: "undisturbed fr clock d number s p c t P" using ready willing by (simp add: undisturbed_def)
  obtain h' k' w2 where check: "check_delivery fr enabled nt (p, Some c) True w0 = (Inr h', w2)"
    and h': "h_status h' = Submitted_to_WhatsApp" "\<not> is_group h'" "native_history nt (sd_name p) w2 = Inr h'"
    and k': "native_history nt (sd_name c) w2 = Inr k'" "h_status k' = Submitted_to_WhatsApp" and empty: "rq_jobs (nt_rq nt) w2 = []"
    and rest: "\<forall>n. n \<noteq> sd_name p \<and> n \<noteq> sd_name c \<longrightarrow> row_get (s_history (bn_site (nt_bench nt w2))) n = row_get (s_history s) n"
    by (rule check_delivery_runs [OF calm works group plain bench jobs])
  let ?s = "bn_site (nt_bench nt w2)"
  have rows: "row_get (s_history ?s) (sd_name p) = Some h'" "row_get (s_history ?s) (sd_name c) = Some k'"
    using h'(3) k'(1) by (simp_all add: native_history_def get_history_Inr_iff)
  have none: "\<not> releasable (h_status x)" if "row_get (s_history ?s) m = Some x" "h_copy_of x = Some (sd_name p)" for m x
  proof -
    have "m = sd_name p \<or> m = sd_name c" using that rest ready by (auto simp: prepared_def not_copied_def)
    then show ?thesis using that(1) rows h'(1) k'(2) by (auto simp: releasable_def)
  qed
  have idle: "process_outbound_message fr (sd_name p) ?s = (Inr (), ?s)" for fr
    by (rule settled_idle [OF rows(1)]) (use h'(1) none in \<open>auto simp: terminal_def\<close>)
  obtain w3 where w3: "in_parent fr clock nt (\<lambda>fr. process_outbound_message fr (sd_name p)) w2 = (Inr (), w3)"
    "nt_bench nt w3 = nt_bench nt w2" "rq_jobs (nt_rq nt) w3 = rq_jobs (nt_rq nt) w2"
    by (rule in_parent_idle [OF works, of w2 "\<lambda>fr. process_outbound_message fr (sd_name p)" "()"]) (use empty idle in auto)
  have "completed_primary fr enabled clock nt queue w = (Inr (), w3)"
    using queue check w3 by (simp add: completed_primary_def bindA_def reads_def asserts_def)
  then show thesis using that [of w3 h' k'] w3(2,3) empty h' k' by (simp add: native_history_def)
qed

section \<open>The first two runs of the other stages\<close>

text \<open>The original is out, the harness told the peer to refuse one group message, and the copy ran.\<close>

lemma copy_refused_stage:
  assumes queued: "just_queued fr enabled clock nt queue d number s p c t P w"
    and f: "\<forall>q. p_key (f q) = p_key q \<and> p_nonces (f q) = p_nonces q \<and> p_deliveries (f q) = p_deliveries q
      \<and> p_attempts (f q) = p_attempts q \<and> p_group_failures (f q) = 1"
  obtains w0 w1 w1' w2 h h' k g x now t1 t2 P1 where "queue w = (Inr (p, Some c), w0)"
    and "queued_pair fr d number s t (sd_name p) (sd_name c) h k g"
    and "copy_released fr clock d s (sd_name p) (sd_name c) t P h h' k t1 P1"
    and "run_worker fr enabled nt (sd_name p) None w0 = (Inr (), w1)" "native_history nt (sd_name p) w1 = Inr h'"
    and "set_peer nt f w1 = (Inr (), w1')"
    and "run_worker fr enabled nt (sd_name c) None w1' = (Inr (), w2)" "rq_jobs (nt_rq nt) w2 = []"
    and "nt_bench nt w2 = \<lparr>bn_site = t2, bn_peer = refused (fr_nonce fr (Suc (s_ticks t1))) (h_idempotency_key k) (f P1)\<rparr>"
    and "refused_row (p_uncertain (f P1)) now (k\<lparr>h_status := Queued\<rparr>) x" "native_history nt (sd_name c) w2 = Inr x"
    and "\<forall>n. n \<noteq> sd_name c \<longrightarrow> row_get (s_history t2) n = row_get (s_history t1) n"
    and "s_ticks t1 + 2 \<le> s_ticks t2" "s_settings t2 = s_settings t1" "s_files t2 = s_files t1"
proof -
  obtain w0 where ready: "prepared fr clock d number s p c t P" and works: "native_works fr enabled clock nt"
    and plain: "list_all plain_char (sd_name p)" "list_all plain_char (sd_name c)" and queue: "queue w = (Inr (p, Some c), w0)"
    and bench: "nt_bench nt w0 = \<lparr>bn_site = t, bn_peer = P\<rparr>" and jobs: "rq_jobs (nt_rq nt) w0 = [queued_job (worker_job (sd_name p))]"
    by (rule just_queuedD [OF queued])
  obtain h k g h' t1 P1 w1 where q: "queued_pair fr d number s t (sd_name p) (sd_name c) h k g"
    and rel: "copy_released fr clock d s (sd_name p) (sd_name c) t P h h' k t1 P1"
    and one: "run_worker fr enabled nt (sd_name p) None w0 = (Inr (), w1)" "nt_bench nt w1 = \<lparr>bn_site = t1, bn_peer = P1\<rparr>"
      "rq_jobs (nt_rq nt) w1 = [queued_job (worker_job (sd_name c))]" "native_history nt (sd_name p) w1 = Inr h'"
    by (rule original_native_run [OF ready works plain(1) bench jobs])
  obtain w1' where set: "set_peer nt f w1 = (Inr (), w1')" "rq_jobs (nt_rq nt) w1' = [queued_job (worker_job (sd_name c))]"
    "nt_bench nt w1' = \<lparr>bn_site = t1, bn_peer = f P1\<rparr>"
    by (rule set_peer_runs [OF works, of w1 f]) (use one in simp_all)
  obtain x now t2 w2 where two: "run_worker fr enabled nt (sd_name c) None w1' = (Inr (), w2)" "rq_jobs (nt_rq nt) w2 = []"
    "nt_bench nt w2 = \<lparr>bn_site = t2, bn_peer = refused (fr_nonce fr (Suc (s_ticks t1))) (h_idempotency_key k) (f P1)\<rparr>"
    and x: "refused_row (p_uncertain (f P1)) now (k\<lparr>h_status := Queued\<rparr>) x" "row_get (s_history t2) (sd_name c) = Some x"
    and rest: "\<forall>n. n \<noteq> sd_name c \<longrightarrow> row_get (s_history t2) n = row_get (s_history t1) n"
      "s_ticks t1 + 2 \<le> s_ticks t2" "s_settings t2 = s_settings t1" "s_files t2 = s_files t1"
    by (rule copy_refused_run [OF ready works plain(2) q rel set(3) _ _ _ set(2)]) (use f in simp_all)
  have "native_history nt (sd_name c) w2 = Inr x" using x(2) by (simp add: native_history_def get_history_def two(3))
  then show thesis by (rule that [OF queue q rel one(1,4) set(1) two x(1) _ rest])
qed

text \<open>The copy whose outcome is unknown is left alone.\<close>

lemma uncertain_copy_runs:
  assumes queued: "just_queued fr enabled clock nt queue d number s p c t P w" and keys: "distinct_keys (p_attempts P)"
  obtains w' x where "uncertain_copy fr enabled clock nt queue w = (Inr (), w')" "rq_jobs (nt_rq nt) w' = []"
    and "native_history nt (sd_name c) w' = Inr x" "h_status x = Failed" "h_reconciliation_required x"
proof -
  let ?f = "\<lambda>q. q\<lparr>p_group_failures := 1, p_uncertain := True\<rparr> :: capture"
  have works: "native_works fr enabled clock nt" using queued by (simp add: just_queued_def)
  obtain w0 w1 w1' w2 h h' k g x now t1 t2 P1 where queue: "queue w = (Inr (p, Some c), w0)"
    and rel: "copy_released fr clock d s (sd_name p) (sd_name c) t P h h' k t1 P1"
    and runs: "run_worker fr enabled nt (sd_name p) None w0 = (Inr (), w1)" "set_peer nt ?f w1 = (Inr (), w1')"
      "run_worker fr enabled nt (sd_name c) None w1' = (Inr (), w2)" "rq_jobs (nt_rq nt) w2 = []"
    and bench: "nt_bench nt w2 = \<lparr>bn_site = t2, bn_peer = refused (fr_nonce fr (Suc (s_ticks t1))) (h_idempotency_key k) (?f P1)\<rparr>"
    and x: "refused_row (p_uncertain (?f P1)) now (k\<lparr>h_status := Queued\<rparr>) x" "native_history nt (sd_name c) w2 = Inr x"
    by (rule copy_refused_stage [OF queued, of ?f]) simp_all
  have row: "row_get (s_history t2) (sd_name c) = Some x" "h_status x = Failed" "h_reconciliation_required x" "h_next_retry_at x = None"
    using x by (simp_all add: native_history_def bench get_history_Inr_iff refused_row_def)
  have idle: "process_outbound_message fr (sd_name c) t2 = (Inr (), t2)" for fr by (rule stopped_idle [OF row(1-3)])
  obtain w3 where w3: "in_parent fr clock nt (\<lambda>fr. process_outbound_message fr (sd_name c)) w2 = (Inr (), w3)"
    "nt_bench nt w3 = nt_bench nt w2" "rq_jobs (nt_rq nt) w3 = rq_jobs (nt_rq nt) w2"
    by (rule in_parent_idle [OF works, of w2 "\<lambda>fr. process_outbound_message fr (sd_name c)" "()"]) (use runs(4) idle bench in auto)
  have "p_attempts P1 = p_attempts (counted (PStr (h_idempotency_key h)) P)"
    using rel by (simp add: copy_released_def attempts_recorded)
  then have "distinct_keys (p_attempts (bn_peer (nt_bench nt w2)))"
    using keys by (simp add: bench attempts_refused counted_def distinct_keys_store)
  then have "same_counts (p_attempts (bn_peer (nt_bench nt w2))) (p_attempts (bn_peer (nt_bench nt w2)))"
    by (rule same_counts_refl)
  then have "uncertain_copy fr enabled clock nt queue w = (Inr (), w3)"
    using queue runs x(2) row w3 by (simp add: uncertain_copy_def bindA_def reads_def asserts_def copy_name_def)
  then show thesis using that [of w3 x] w3(2,3) runs(4) x(2) row by (simp add: native_history_def)
qed

text \<open>The copy that failed is tried again, without its original.\<close>

lemma refused_copy_rests:
  assumes rel: "copy_released fr clock d s p c t P h h' k t1 P1" and calm: "\<forall>n h. row_get (s_history s) n = Some h \<longrightarrow> at_rest h"
    and rest: "\<forall>n. n \<noteq> c \<longrightarrow> row_get (s_history t2) n = row_get (s_history t1) n"
  shows "\<forall>m h. m \<noteq> c \<and> row_get (s_history t2) m = Some h \<longrightarrow> at_rest h"
proof (intro allI impI)
  fix m x assume m: "m \<noteq> c \<and> row_get (s_history t2) m = Some x"
  then have "row_get (s_history t1) m = Some x" using rest by metis
  then show "at_rest x"
    using m rel calm by (cases "m = p") (auto simp: copy_released_def submitted_row_def at_rest_def releasable_def)
qed

lemma refused_copy_counts:
  assumes rel: "copy_released fr clock d s p c t P h h' k t1 P1" and q: "queued_pair fr d number s t p c h k g"
    and counts: "attempts_of_site P s" and P4: "p_attempts P4 = p_attempts (counted (PStr (h_idempotency_key k)) P3)"
    and P3: "p_attempts P3 = p_attempts (counted (PStr (h_idempotency_key k)) P2)" and P2: "p_attempts P2 = p_attempts P1"
  shows "lookup (p_attempts P4) (PStr (h_idempotency_key h)) = Some 1" "lookup (p_attempts P4) (PStr (h_idempotency_key k)) = Some 2"
proof -
  have same: "p_attempts (counted i a) = p_attempts (counted i b)" if "p_attempts a = p_attempts b" for i and a b :: capture
    using that by (simp add: counted_def)
  have P1: "p_attempts P1 = p_attempts (counted (PStr (h_idempotency_key h)) P)"
    using rel by (simp add: copy_released_def attempts_recorded)
  have none: "lookup (p_attempts P) (PStr (h_idempotency_key h)) = None" "lookup (p_attempts P) (PStr (h_idempotency_key k)) = None"
    and other: "h_idempotency_key h \<noteq> h_idempotency_key k"
    using counts q by (auto simp: attempts_of_site_def queued_pair_def)
  show "lookup (p_attempts P4) (PStr (h_idempotency_key h)) = Some 1" "lookup (p_attempts P4) (PStr (h_idempotency_key k)) = Some 2"
    using none other by (simp_all add: P4 P3 P2 P1 counted_attempts)
qed

lemma refused_copy_retried:
  assumes ready: "prepared fr clock d number s p c t P" and works: "native_works fr enabled clock nt" and plain: "list_all plain_char (sd_name c)"
    and q: "queued_pair fr d number s t (sd_name p) (sd_name c) h k g"
    and rel: "copy_released fr clock d s (sd_name p) (sd_name c) t P h h' k t1 P1"
    and bench: "nt_bench nt w = \<lparr>bn_site = t2, bn_peer = P2\<rparr>" and jobs: "rq_jobs (nt_rq nt) w = []"
    and peer: "p_key P2 = p_key P1" "p_nonces P2 = fr_nonce fr (Suc (s_ticks t1)) # p_nonces P1" "p_deliveries P2 = p_deliveries P1"
      "p_group_failures P2 = 0"
    and row: "row_get (s_history t2) (sd_name c) = Some x" "h_status x = Failed" "\<not> h_reconciliation_required x" "h_retry_count x < attempt_limit x"
      "identity_of x = identity_of k"
    and rest: "\<forall>n. n \<noteq> sd_name c \<longrightarrow> row_get (s_history t2) n = row_get (s_history t1) n"
      "s_ticks t1 + 2 \<le> s_ticks t2" "s_settings t2 = s_settings t1" "s_files t2 = s_files t1"
    and calm: "\<forall>n h. row_get (s_history s) n = Some h \<longrightarrow> at_rest h"
    and taken: "\<forall>j. fr_enqueue fr j = None" and mono: "mono (fr_clock fr)"
  obtains w1 w2 w3 k' where "in_parent fr clock nt (\<lambda>fr. bindA (now_datetime fr) (\<lambda>now.
        set_history (sd_name c) (\<lambda>h. h\<lparr>h_next_retry_at := Some (now - usec)\<rparr>))) w = (Inr (), w1)"
    and "in_parent fr clock nt retry_due_messages w1 = (Inr (), w2)"
    and "run_worker fr enabled nt (sd_name c) (Some (h_retry_count x + 1)) w2 = (Inr (), w3)" "rq_jobs (nt_rq nt) w3 = []"
    and "native_history nt (sd_name c) w3 = Inr k'" "h_status k' = Submitted_to_WhatsApp" "h_idempotency_key k' = h_idempotency_key k"
    and "p_attempts (bn_peer (nt_bench nt w3)) = p_attempts (counted (PStr (h_idempotency_key k)) P2)"
proof -
  note r = rel [unfolded copy_released_def, THEN conjunct2]
  obtain w1 w2 t3 where again: "in_parent fr clock nt (\<lambda>fr. bindA (now_datetime fr) (\<lambda>now.
        set_history (sd_name c) (\<lambda>h. h\<lparr>h_next_retry_at := Some (now - usec)\<rparr>))) w = (Inr (), w1)"
      "in_parent fr clock nt retry_due_messages w1 = (Inr (), w2)" "nt_bench nt w2 = \<lparr>bn_site = t3, bn_peer = P2\<rparr>"
      "rq_jobs (nt_rq nt) w2 = [queued_job (retry_job (due_of (sd_name c) x))]"
    and t3: "row_get (s_history t3) (sd_name c) = Some (x\<lparr>h_status := Queued, h_next_retry_at := None\<rparr>)"
      "\<forall>m. m \<noteq> sd_name c \<longrightarrow> row_get (s_history t3) m = row_get (s_history t2) m"
      "s_settings t3 = s_settings t2" "s_files t3 = s_files t2" "s_ticks t2 \<le> s_ticks t3"
    by (rule retry_pass_run [OF works bench jobs mono _ taken row(1-4) refused_copy_rests [OF rel calm rest(1)]])
       (use ready in \<open>simp_all add: prepared_def\<close>)
  let ?x = "x\<lparr>h_status := Queued, h_next_retry_at := None\<rparr>"
  have other: "sd_name p \<noteq> sd_name c" using q by (auto simp: queued_pair_def)
  have parent: "row_get (s_history t3) (sd_name p) = Some h'" using r t3(2) rest(1) other by simp
  have same: "identity_of ?x = identity_of k" using row(5) by (simp add: identity_of_def content_of_def)
  have ok: "sendable fr (sd_name c) ?x (snapshot_pdfs fr d) t3"
  proof (rule copy_sendable [OF q])
    show "plain_delivery fr d" "accepted_delivery fr s d number" "fr_user_enabled fr (s_user s)"
      "get_transport fr LINKED_DEVICE = Inr linked_device" "fr_site fr = FIXTURE_SITE"
      using ready by (simp_all add: prepared_def line_works_def)
    show "row_get (s_history t3) (sd_name p) = Some h'" "row_get (s_history t3) (sd_name c) = Some ?x" by (fact parent, fact t3(1))
    show "h_retry_count ?x < attempt_limit ?x" using row(4) by (simp add: attempt_limit_def)
  qed (use r t3 rest row(3) same in simp_all)
  have line: "line_works fr clock \<lparr>bn_site = t3, bn_peer = P2\<rparr>"
    by (rule line_on [of fr clock "\<lparr>bn_site = t1, bn_peer = P1\<rparr>"]) (use r t3(5) rest(2) peer in auto)
  have group: "is_group ?x" "h_idempotency_key ?x = h_idempotency_key k"
    using payload_identity(5,6) [OF same] q row_of_copy [of fr "s_settings s" d g "sd_name p" k] by (simp_all add: queued_pair_def)
  have none: "lookup (p_deliveries P2) (PStr (h_idempotency_key ?x)) = None" using r group(2) peer(3) by simp
  obtain w3 t4 k' where sent: "run_worker fr enabled nt (sd_name c) (Some (h_retry_count x + 1)) w2 = (Inr (), w3)"
      "nt_bench nt w3 = \<lparr>bn_site = t4, bn_peer = recorded (fr_nonce fr (Suc (s_ticks t3))) (h_idempotency_key ?x)
          (send_payload fr ?x (s_settings t3) (snapshot_pdfs fr d) (py ''Baileys'')) P2\<rparr>"
      "rq_jobs (nt_rq nt) w3 = []" "native_history nt (sd_name c) w3 = Inr k'" "submitted_row ?x k'"
    by (rule retried_copy_run [OF works plain again(3,4) line ok group(1) peer(4) none])
  show thesis
    by (rule that [OF again(1,2) sent(1,3,4)])
       (use sent(2,5) group(2) in \<open>simp_all add: submitted_row_def identity_of_def content_of_def attempts_recorded\<close>)
qed

lemma copy_only_retry_runs:
  assumes queued: "just_queued fr enabled clock nt queue d number s p c t P w" and sure: "\<not> p_uncertain P"
    and calm: "\<forall>n h. row_get (s_history s) n = Some h \<longrightarrow> at_rest h" and retries: "0 < cint_opt (st_maximum_retries (s_settings s))"
    and taken: "\<forall>j. fr_enqueue fr j = None" and mono: "mono (fr_clock fr)" and counts: "attempts_of_site P s"
  obtains w' k' where "copy_only_retry fr enabled clock nt queue w = (Inr (), w')" "rq_jobs (nt_rq nt) w' = []"
    and "native_history nt (sd_name c) w' = Inr k'" "h_status k' = Submitted_to_WhatsApp" "peer_attempts nt (h_idempotency_key k') w' = Inr 2"
proof -
  let ?f = "\<lambda>q. q\<lparr>p_group_failures := 1\<rparr> :: capture"
  have ready: "prepared fr clock d number s p c t P" and works: "native_works fr enabled clock nt" and plain: "list_all plain_char (sd_name c)"
    using queued by (simp_all add: just_queued_def)
  obtain w0 w1 w1' w2 h h' k g x now t1 t2 P1 where queue: "queue w = (Inr (p, Some c), w0)"
    and q: "queued_pair fr d number s t (sd_name p) (sd_name c) h k g"
    and rel: "copy_released fr clock d s (sd_name p) (sd_name c) t P h h' k t1 P1"
    and runs: "run_worker fr enabled nt (sd_name p) None w0 = (Inr (), w1)" "native_history nt (sd_name p) w1 = Inr h'"
      "set_peer nt ?f w1 = (Inr (), w1')"
      "run_worker fr enabled nt (sd_name c) None w1' = (Inr (), w2)" "rq_jobs (nt_rq nt) w2 = []"
    and bench: "nt_bench nt w2 = \<lparr>bn_site = t2, bn_peer = refused (fr_nonce fr (Suc (s_ticks t1))) (h_idempotency_key k) (?f P1)\<rparr>"
    and x: "refused_row (p_uncertain (?f P1)) now (k\<lparr>h_status := Queued\<rparr>) x" "native_history nt (sd_name c) w2 = Inr x"
    and rest: "\<forall>n. n \<noteq> sd_name c \<longrightarrow> row_get (s_history t2) n = row_get (s_history t1) n"
      "s_ticks t1 + 2 \<le> s_ticks t2" "s_settings t2 = s_settings t1" "s_files t2 = s_files t1"
    by (rule copy_refused_stage [OF queued, of ?f]) simp_all
  have sure1: "\<not> p_uncertain P1" using rel sure by (simp add: copy_released_def recorded_def counted_def)
  have k: "h_retry_count k = 0" "h_max_retries k = cint_opt (st_maximum_retries (s_settings s))"
    using q row_of_copy [of fr "s_settings s" d g "sd_name p" k] by (auto simp: queued_pair_def row_of_def new_history_def)
  have row: "row_get (s_history t2) (sd_name c) = Some x" "h_status x = Failed" "\<not> h_reconciliation_required x"
    "h_retry_count x < attempt_limit x" "identity_of x = identity_of k" and later: "h_next_retry_at x \<noteq> None"
    using x k retries sure1
    by (simp_all add: native_history_def bench get_history_Inr_iff refused_row_def attempt_limit_def identity_of_def content_of_def)
  obtain w3 w4 w5 k' where again: "in_parent fr clock nt (\<lambda>fr. bindA (now_datetime fr) (\<lambda>now.
        set_history (sd_name c) (\<lambda>h. h\<lparr>h_next_retry_at := Some (now - usec)\<rparr>))) w2 = (Inr (), w3)"
      "in_parent fr clock nt retry_due_messages w3 = (Inr (), w4)"
      "run_worker fr enabled nt (sd_name c) (Some (h_retry_count x + 1)) w4 = (Inr (), w5)" "rq_jobs (nt_rq nt) w5 = []"
    and k': "native_history nt (sd_name c) w5 = Inr k'" "h_status k' = Submitted_to_WhatsApp" "h_idempotency_key k' = h_idempotency_key k"
    and peer: "p_attempts (bn_peer (nt_bench nt w5)) = p_attempts (counted (PStr (h_idempotency_key k))
        (refused (fr_nonce fr (Suc (s_ticks t1))) (h_idempotency_key k) (?f P1)))"
    by (rule refused_copy_retried [OF ready works plain q rel bench runs(5) _ _ _ _ row rest calm taken mono]) simp_all
  have "h_idempotency_key h' = h_idempotency_key h"
    using rel by (simp add: copy_released_def submitted_row_def identity_of_def content_of_def)
  moreover have counted: "lookup (p_attempts (bn_peer (nt_bench nt w5))) (PStr (h_idempotency_key h)) = Some 1"
      "lookup (p_attempts (bn_peer (nt_bench nt w5))) (PStr (h_idempotency_key k)) = Some 2"
    by (rule refused_copy_counts [OF rel q counts peer, of "?f P1"]; simp add: attempts_refused)+
  ultimately have "copy_only_retry fr enabled clock nt queue w = (Inr (), w5)"
    using queue runs x(2) row(2,3) later again(1-3) k'
    by (simp add: copy_only_retry_def bindA_def reads_def asserts_def copy_name_def peer_attempts_def)
  then show thesis by (rule that [OF _ again(4) k'(1,2)]) (use counted k' in \<open>simp add: peer_attempts_def\<close>)
qed

section \<open>Properties\<close>


text \<open>C19. A copy that failed is tried again alone. Where the peer refuses the copy once and knows that
  nothing went out, at least one retry is allowed, the clock does not run back, no other delivery of the
  site waits, and jobs can be queued, the stage \<open>copy_only_scheduler_retry\<close> passes: the copy's first run
  leaves it failed with a time for the next one, the scheduler queues it when that time is reached, and
  its second run delivers it. The peer saw the original once and the copy twice.\<close>

theorem copy_is_retried_alone:
  assumes "just_queued fr enabled clock nt queue d number s p c t P w" and "\<not> p_uncertain P"
    and "\<forall>n h. row_get (s_history s) n = Some h \<longrightarrow> at_rest h" and "0 < cint_opt (st_maximum_retries (s_settings s))"
    and "\<forall>j. fr_enqueue fr j = None" and "mono (fr_clock fr)" and "attempts_of_site P s"
  shows "\<exists>w' k. copy_only_retry fr enabled clock nt queue w = (Inr (), w') \<and> rq_jobs (nt_rq nt) w' = []
    \<and> native_history nt (sd_name c) w' = Inr k \<and> h_status k = Submitted_to_WhatsApp
    \<and> peer_attempts nt (h_idempotency_key k) w' = Inr 2"
  using copy_only_retry_runs [OF assms] by metis

text \<open>C20. A copy whose outcome is unknown is never replayed. Where the peer refuses the copy and cannot
  say what became of it, the stage \<open>uncertain_copy_reconciliation_no_replay\<close> passes: the copy's run leaves
  it failed and waiting for reconciliation, with no time for another, and processing it again reaches
  the peer with nothing.\<close>

theorem uncertain_copy_is_left_alone:
  assumes "just_queued fr enabled clock nt queue d number s p c t P w" and "distinct_keys (p_attempts P)"
  shows "\<exists>w' k. uncertain_copy fr enabled clock nt queue w = (Inr (), w') \<and> rq_jobs (nt_rq nt) w' = []
    \<and> native_history nt (sd_name c) w' = Inr k \<and> h_status k = Failed \<and> h_reconciliation_required k"
  using uncertain_copy_runs [OF assms] by metis

section \<open>A run of each\<close>

definition live_start :: live_world where
  "live_start = (\<lparr>bn_site = live_site, bn_peer = new_capture peer_key\<rparr>, [], [])"

definition live_queue :: "(live_world, stored \<times> stored option) act" where
  "live_queue = queue_invoice live_frappe live_clock (live_native live_frappe) (py ''ann'') (py ''INV-1'') (py ''v1'')"

lemma live_just_queued:
  "just_queued live_frappe True live_clock (live_native live_frappe) live_queue live_delivery (py ''+12025550123'') live_site
     live_original live_copy live_stored (new_capture peer_key) live_start"
proof -
  note works = live_native_works [OF live_fields(1)]
  have names: "list_all plain_char (sd_name live_original)" "list_all plain_char (sd_name live_copy)"
    by (simp_all add: live_original_def live_copy_def demo_name_def list_all_iff plain_ascii)
  have start: "nt_bench (live_native live_frappe) live_start = \<lparr>bn_site = live_site, bn_peer = new_capture peer_key\<rparr>"
    "rq_jobs (nt_rq (live_native live_frappe)) live_start = []"
    by (simp_all add: live_start_def live_native_def live_rq_def)
  have user: "live_site\<lparr>s_user := py ''ann''\<rparr> = live_site" using live_site_fields(1) by (metis site.surjective site.update_convs(1))
  have request: "document_request live_frappe (py ''Sales Invoice'') (py ''INV-1'') (py ''+12025550123'') (py ''Standard'')
      (py ''Synthetic document copy'') (py ''v1'') [] (live_site\<lparr>s_user := py ''ann''\<rparr>) = Inr (live_delivery, py ''+12025550123'')"
    by (rule live_invoice) (simp_all add: live_site_fields)
  have stored: "store_delivery live_frappe live_delivery (py ''+12025550123'') (live_site\<lparr>s_user := py ''ann''\<rparr>)
      = (Inr (live_original, Some live_copy), live_stored)" using live_queued by (simp add: user)
  have "fr_enqueue live_frappe (worker_job (sd_name live_original)) = None" by (rule live_fields)
  then obtain w where "live_queue live_start = (Inr (live_original, Some live_copy), w)"
    "nt_bench (live_native live_frappe) w = \<lparr>bn_site = live_stored, bn_peer = new_capture peer_key\<rparr>"
    "rq_jobs (nt_rq (live_native live_frappe)) w = [queued_job (worker_job (sd_name live_original))]"
    using queue_invoice_runs [OF works start request stored] unfolding live_queue_def by metis
  then show ?thesis using live_undisturbed works names by (simp add: just_queued_def undisturbed_def)
qed


theorem copy_is_retried_alone_witness:
  "\<exists>w' k. copy_only_retry live_frappe True live_clock (live_native live_frappe) live_queue live_start = (Inr (), w')
     \<and> rq_jobs (live_rq live_frappe) w' = [] \<and> native_history (live_native live_frappe) (demo_name 6) w' = Inr k \<and> h_status k = Submitted_to_WhatsApp
     \<and> peer_attempts (live_native live_frappe) (h_idempotency_key k) w' = Inr 2"
proof -
  have "mono (fr_clock live_frappe)" by (simp add: live_frappe_def demo_frappe_def mono_def)
  moreover have "0 < cint_opt (st_maximum_retries (s_settings live_site))"
    by (simp add: live_site_def demo_settings_def cint_opt_def)
  ultimately show ?thesis
    using copy_is_retried_alone [OF live_just_queued]
    by (simp add: new_capture_def live_native_def live_copy_def live_fields live_site_fields attempts_of_site_def lookup_def)
qed

theorem uncertain_copy_is_left_alone_witness:
  "\<exists>w' k. uncertain_copy live_frappe True live_clock (live_native live_frappe) live_queue live_start = (Inr (), w')
     \<and> rq_jobs (live_rq live_frappe) w' = [] \<and> native_history (live_native live_frappe) (demo_name 6) w' = Inr k \<and> h_status k = Failed
     \<and> h_reconciliation_required k"
  using uncertain_copy_is_left_alone [OF live_just_queued]
  by (simp add: new_capture_def live_native_def live_copy_def distinct_keys_def)

end
