(* ===== verification/Denials.thy ===== *)
theory Denials
  imports Stage_Checks
begin

text \<open>
  The stages of \<open>group_acceptance.py\<close> in which something is refused: a group in place of a customer's
  number, a report of another company, and the copy of a sender who lost the role or the source.
\<close>

section \<open>Forged requests\<close>

lemma forged_numbers:
  "normalize_number (Some GROUP) = throw ''Enter a valid international WhatsApp number including the country code.''"
  "normalize_number (Some OTHER_GROUP) = throw ''Enter a valid international WhatsApp number including the country code.''"
  by (simp_all add: normalize_number_def GROUP_def OTHER_GROUP_def py_def strip_def is_space_def Let_def is_separator_def
     startswith_def matches_number_def is_decimal_def nd_zeros_def)

text \<open>All that is checked before the recipient passed for the customer's number.\<close>

lemma forged_request:
  assumes "document_request fr dt n r pf m sm mt s = Inr x" and "normalize_number (Some r') = Inl e"
  shows "document_request fr dt n r' pf' m' sm mt' s = Inl e"
proof -
  obtain d number where x: "x = (d, number)" by (cases x)
  obtain doc adapter party numbers q where "require_sender fr s = Inr ()" "validate_document fr s dt n = Inr (doc, adapter)"
    "b_modified doc = sm" "a_party_field adapter = Some party" "numbers_of_party fr s (field doc (Some party)) = Inr numbers"
    using assms(1) unfolding x by (rule document_request_Inr)
  then show ?thesis using assms(2) by (simp add: document_request_def required_def check_recipient_def)
qed

lemma forged_recipient_denied:
  assumes "document_request fr (py ''Sales Invoice'') invoice r pf m modified [] s = Inr x" and "g = GROUP \<or> g = OTHER_GROUP"
  shows "forged_recipient fr invoice modified g s = (Inr (), s)"
proof -
  obtain t where "normalize_number (Some g) = throw t" using assms(2) forged_numbers by auto
  then show ?thesis
    using forged_request [OF assms(1)]
    by (simp add: forged_recipient_def expects_def refused_document instance_of_def)
qed

lemma forbidden_company:
  assumes own: "prepare_report fr s (py ''Accounts Receivable'') (company_filters company customer) = Inr x"
    and builtin: "fr_report_providers fr = []"
    and other: "fr_doc fr (py ''Company'') other \<noteq> None" "\<not> fr_can fr (s_user s) (py ''read'') (py ''Company'') (Some other)"
  shows "\<exists>e. prepare_report fr s (py ''Accounts Receivable'') (company_filters other customer) = Inl e \<and> exn_class e = PermissionError"
proof -
  have adapter: "report_adapter fr (py ''Accounts Receivable'') = Inr (map_of DEFAULT_REPORT_ADAPTERS (py ''Accounts Receivable''))"
    by (simp add: report_adapter_def report_adapters_def builtin external_registry_def)
  obtain a where a: "map_of DEFAULT_REPORT_ADAPTERS (py ''Accounts Receivable'') = Some a" "a \<noteq> no_adapter"
    "a_customer_filter a = Some (py ''party'')" "a_customer_filter_type a = Some (py ''list'')" "a_party_type_filter a = Some (py ''party_type'')"
    "a_required_party_type a = Some (py ''Customer'')" "a_company_filter a = Some (py ''company'')"
    by (simp add: DEFAULT_REPORT_ADAPTERS_def no_adapter_def)
  obtain st y where sender: "require_sender fr s = Inr ()" "enabled_settings s = Inr st"
    and valid: "validate_report fr s (py ''Accounts Receivable'') (company_filters company customer) = Inr y"
    using own by (auto simp: prepare_report_def bindR_Inr_iff)
  obtain d where y: "y = (a, d, customer, snd (snd (snd y)))" and report: "\<exists>r. fr_doc fr (py ''Report'') (py ''Accounts Receivable'') = Some r
      \<and> may_run fr s (py ''Accounts Receivable'') r"
    and customer: "customer \<noteq> []" "fr_doc fr (py ''Customer'') customer \<noteq> None" "fr_can fr (s_user s) (py ''read'') (py ''Customer'') (Some customer)"
    using valid adapter a
    by (cases y) (auto simp: validate_report_Inr_iff company_filters_def read_filters_def report_adapter_Inr_iff one_customer_cases dget_def)
  let ?d = "[(py ''company'', PStr other), (py ''party'', PList [PStr customer]), (py ''party_type'', PStr (py ''Customer''))]"
  have keys: "py ''party'' \<noteq> py ''company''" "py ''party_type'' \<noteq> py ''company''" "py ''party_type'' \<noteq> py ''party''" by simp_all
  have one: "one_customer (dget ?d (py ''party'')) = Inr customer" "dget ?d (py ''party_type'') = PStr (py ''Customer'')"
    using customer(1) keys by (simp_all add: dget_def one_customer_cases)
  have shape: "shape_filters (Some (py ''list'')) (py ''party'') customer ?d = Inr ?d"
    using keys by (simp add: shape_filters_def dset_def)
  have "dget ?d (py ''company'') = PStr other" by (simp add: dget_def)
  then have "\<exists>m. report_company fr s (Some (py ''company'')) ?d = deny m"
    using other by (auto simp: report_company_def present_def get_doc_def check_permission_def)
  then obtain m where "report_company fr s (Some (py ''company'')) ?d = deny m" by blast
  then have "validate_report fr s (py ''Accounts Receivable'') (company_filters other customer) = deny m"
    using adapter a report one shape customer(2,3)
    by (auto simp: validate_report_def company_filters_def read_filters_def get_doc_def check_permission_def required_def present_def opt_value_def)
  then show ?thesis using sender by (simp add: prepare_report_def)
qed

lemma forged_denials_pass:
  assumes invoice: "document_request fr (py ''Sales Invoice'') invoice r pf m modified [] s = Inr x"
    and own: "prepare_report fr s (py ''Accounts Receivable'') (company_filters company customer) = Inr y"
    and builtin: "fr_report_providers fr = []"
    and other: "fr_doc fr (py ''Company'') other \<noteq> None" "\<not> fr_can fr (s_user s) (py ''read'') (py ''Company'') (Some other)"
  shows "forged_denials fr invoice modified other customer s = (Inr (), s)"
proof -
  obtain e where e: "prepare_report fr s (py ''Accounts Receivable'') (company_filters other customer) = Inl e" "exn_class e = PermissionError"
    using forbidden_company [OF own builtin other] by blast
  then have "expects PermissionError ''Report preparation accepted a forbidden Company''
      (reads (\<lambda>s. prepare_report fr s (py ''Accounts Receivable'') (company_filters other customer))) s = (Inr (), s)"
    by (simp add: expects_def reads_def instance_of_def)
  then show ?thesis
    using forged_recipient_denied [OF invoice] by (simp add: forged_denials_def bindA_def reads_def ret_def asserts_def)
qed

section \<open>Authority that was lost\<close>

text \<open>The sender has no sender role any more, or may no longer read and print the document.\<close>

definition authority_lost :: "frappe \<Rightarrow> delivery_request \<Rightarrow> site \<Rightarrow> bool" where
  "authority_lost fr d s \<longleftrightarrow>
     require_sender fr s \<noteq> Inr ()
     \<or> (dr_reference_type d = Document
        \<and> (\<forall>dt n x. dr_reference_doctype d = Some dt \<longrightarrow> dr_reference_name d = Some n \<longrightarrow> validate_document fr s dt n \<noteq> Inr x))"

lemma lost_authority:
  assumes "authority_lost fr d s" and row: "row_of fr' st' d r c k" and "h_owner k = s_user s"
    and "s_settings t = s_settings s"
  shows "check_authority fr st (k\<lparr>h_status := x\<rparr>) (t\<lparr>s_user := h_owner (k\<lparr>h_status := x\<rparr>)\<rparr>) \<noteq> Inr ()"
proof
  let ?k = "k\<lparr>h_status := x\<rparr>" and ?t = "t\<lparr>s_user := h_owner (k\<lparr>h_status := x\<rparr>)\<rparr>"
  assume "check_authority fr st ?k ?t = Inr ()"
  then have "require_sender fr ?t = Inr ()" and source: "check_source fr ?k ?t = Inr ()"
    by (auto simp: check_authority_def bindR_Inr_iff if_throw_Inr_iff)
  moreover have user: "s_user ?t = s_user s" using assms(3) by simp
  ultimately have "require_sender fr s = Inr ()" using require_sender_cong [OF user] by simp
  then have document: "dr_reference_type d = Document" and
    lost: "\<forall>dt n x. dr_reference_doctype d = Some dt \<longrightarrow> dr_reference_name d = Some n \<longrightarrow> validate_document fr s dt n \<noteq> Inr x"
    using assms(1) by (auto simp: authority_lost_def)
  have parts: "h_reference_type ?k = Document" "h_reference_doctype ?k = dr_reference_doctype d" "h_reference_name ?k = dr_reference_name d"
    using row_of_source [OF row] document by simp_all
  obtain dt n v where names: "dr_reference_doctype d = Some dt" "dr_reference_name d = Some n" and "validate_document fr ?t dt n = Inr v"
    using source by (auto simp: check_source_def parts check_document_source_def bindR_Inr_iff split: option.splits)
  moreover have "s_settings ?t = s_settings s" using assms(4) by simp
  ultimately show False using lost validate_document_cong [OF user] by (cases v) auto
qed

section \<open>The copy of a sender who lost it\<close>

text \<open>The workers after the change read and write the same bench and the same queue.\<close>

definition same_bench :: "'w native \<Rightarrow> 'w native \<Rightarrow> bool" where
  "same_bench nt nt' \<longleftrightarrow> nt_bench nt' = nt_bench nt \<and> rq_jobs (nt_rq nt') = rq_jobs (nt_rq nt)"

lemma revoked_copy_runs:
  assumes queued: "just_queued fr enabled clock nt queue d number s p c t P w"
    and works': "native_works fr' enabled clock nt'" and same: "same_bench nt nt'" and lost: "authority_lost fr' d s"
  obtains w0 w1 w2 x where "queue w = (Inr (p, Some c), w0)" "run_worker fr enabled nt (sd_name p) None w0 = (Inr (), w1)"
    and "run_worker fr' enabled nt' (sd_name c) None w1 = (Inr (), w2)" "native_history nt' (sd_name c) w2 = Inr x" "h_status x = Failed"
    and "bn_peer (nt_bench nt' w2) = bn_peer (nt_bench nt' w1)"
    and "\<exists>key. p_attempts (bn_peer (nt_bench nt' w1)) = p_attempts (counted (PStr key) P)"
proof -
  obtain w0 where ready: "prepared fr clock d number s p c t P" and works: "native_works fr enabled clock nt"
    and plain: "list_all plain_char (sd_name p)" "list_all plain_char (sd_name c)" and queue: "queue w = (Inr (p, Some c), w0)"
    and bench: "nt_bench nt w0 = \<lparr>bn_site = t, bn_peer = P\<rparr>" and jobs: "rq_jobs (nt_rq nt) w0 = [queued_job (worker_job (sd_name p))]"
    by (rule just_queuedD [OF queued])
  obtain h k g h' t1 P1 w1 where q: "queued_pair fr d number s t (sd_name p) (sd_name c) h k g"
    and rel: "copy_released fr clock d s (sd_name p) (sd_name c) t P h h' k t1 P1"
    and one: "run_worker fr enabled nt (sd_name p) None w0 = (Inr (), w1)" "nt_bench nt w1 = \<lparr>bn_site = t1, bn_peer = P1\<rparr>"
      "rq_jobs (nt_rq nt) w1 = [queued_job (worker_job (sd_name c))]"
    by (rule original_native_run [OF ready works plain(1) bench jobs])
  have bench': "nt_bench nt' w1 = \<lparr>bn_site = t1, bn_peer = P1\<rparr>" "rq_jobs (nt_rq nt') w1 = [queued_job (worker_job (sd_name c))]"
    using one(2,3) same by (simp_all add: same_bench_def)
  let ?k = "k\<lparr>h_status := Queued\<rparr>"
  have rows: "row_get (s_history t1) (sd_name c) = Some ?k" "row_get (s_history t1) (sd_name p) = Some h'" "submitted_row h h'"
    and settings: "s_settings t1 = s_settings s" and P1: "p_attempts P1 = p_attempts (counted (PStr (h_idempotency_key h)) P)"
    using rel by (auto simp: copy_released_def attempts_recorded)
  have copy: "is_group k" "h_copy_of k = Some (sd_name p)" "h_retry_count k = 0" "\<not> h_reconciliation_required k"
    using row_of_copy [of fr "s_settings s" d g "sd_name p" k] q by (auto simp: queued_pair_def)
  have group: "is_group ?k" using copy(1) by (simp add: is_group_def)
  have refs: "references_ok ?k" using q by (simp add: queued_pair_def references_ok_def split: reference_kind.splits)
  have can: "attemptable ?k t1 now" for now
    by (rule fresh_attemptable) (use copy rows in \<open>auto simp: original_pending_def submitted_row_def terminal_def\<close>)
  have denied: "check_authority fr' (s_settings t1) ?k (t1\<lparr>s_user := h_owner ?k\<rparr>) \<noteq> Inr ()"
    by (rule lost_authority [OF lost _ _ settings, of fr "s_settings s" g "Some (sd_name p)"]) (use q in \<open>simp_all add: queued_pair_def\<close>)
  obtain x t2 where two: "worker_run fr' clock (sd_name c) \<lparr>bn_site = t1, bn_peer = P1\<rparr> = (Inr (), \<lparr>bn_site = t2, bn_peer = P1\<rparr>)"
    "row_get (s_history t2) (sd_name c) = Some x" "h_status x = Failed" "s_jobs t2 = s_jobs t1"
    by (rule worker_denied [of "\<lparr>bn_site = t1, bn_peer = P1\<rparr>" "sd_name c" ?k fr' clock])
       (use rows(1) can refs group denied in auto)
  have new: "new_jobs (nt_bench nt' w1) \<lparr>bn_site = t2, bn_peer = P1\<rparr> = []" using two(4) by (simp add: new_jobs_def bench'(1))
  obtain w2 where w2: "run_worker fr' enabled nt' (sd_name c) None w1 = (Inr (), w2)" "nt_bench nt' w2 = \<lparr>bn_site = t2, bn_peer = P1\<rparr>"
    by (rule run_only_job [OF works' worker_job_id(1) _ bench'(2), of "\<lparr>bn_site = t2, bn_peer = P1\<rparr>"])
       (use plain(2) two(1) new in \<open>simp_all add: worker_job_plain worker_job_id bench'(1)\<close>)
  show thesis
    by (rule that [OF queue one(1) w2(1) _ two(3)])
       (use two(2) P1 in \<open>auto simp: native_history_def get_history_def w2(2) bench'(1)\<close>)
qed

lemma revocation_stages_pass:
  assumes queued: "just_queued fr enabled clock nt queue d number s p c t P w"
    and works': "native_works fr' enabled clock nt'" and same: "same_bench nt nt'" and lost: "authority_lost fr' d s"
    and keys: "distinct_keys (p_attempts P)"
  obtains w2 x where "sender_revocation fr fr' enabled nt nt' queue w = (Inr (), w2)"
    and "source_revocation fr fr' enabled nt nt' queue w = (Inr (), w2)"
    and "native_history nt' (sd_name c) w2 = Inr x" "h_status x = Failed"
proof -
  obtain w0 w1 w2 x key where runs: "queue w = (Inr (p, Some c), w0)" "run_worker fr enabled nt (sd_name p) None w0 = (Inr (), w1)"
    "run_worker fr' enabled nt' (sd_name c) None w1 = (Inr (), w2)"
    and x: "native_history nt' (sd_name c) w2 = Inr x" "h_status x = Failed"
    and peer: "bn_peer (nt_bench nt' w2) = bn_peer (nt_bench nt' w1)"
      "p_attempts (bn_peer (nt_bench nt' w1)) = p_attempts (counted (PStr key) P)"
    by (rule revoked_copy_runs [OF queued works' same lost]) blast
  have "same_counts (p_attempts (bn_peer (nt_bench nt' w1))) (p_attempts (bn_peer (nt_bench nt' w1)))"
    by (rule same_counts_refl) (use keys in \<open>simp add: peer(2) counted_def distinct_keys_store\<close>)
  then show thesis
    by (intro that [OF _ _ x])
       (use runs x peer(1) in \<open>simp_all add: sender_revocation_def source_revocation_def bindA_def reads_def asserts_def copy_name_def\<close>)
qed

section \<open>A delivery without a copy\<close>

lemma alone_run:
  assumes stored: "store_delivery fr d number s = (Inr (p, None), t)" and plain: "plain_delivery fr d" "list_all plain_char number"
    and provider: "st_provider (s_settings s) = LINKED_DEVICE" and transport: "get_transport fr LINKED_DEVICE = Inr linked_device"
    and line: "line_works fr clock \<lparr>bn_site = t, bn_peer = P\<rparr>" and peer: "peer_of_site P s" and only: "not_copied (sd_name p) s"
  obtains t1 P1 h h' where "row_get (s_history t) (sd_name p) = Some h" "h_status h = Queued"
    and "worker_run fr clock (sd_name p) \<lparr>bn_site = t, bn_peer = P\<rparr> = (Inr (), \<lparr>bn_site = t1, bn_peer = P1\<rparr>)"
    and "row_get (s_history t1) (sd_name p) = Some h'" "h_status h' = Submitted_to_WhatsApp" "s_jobs t1 = s_jobs t"
    and "not_copied (sd_name p) t1"
proof -
  let ?p = "sd_name p"
  obtain h where h: "stored_row fr d s t ?p h" "row_of fr (s_settings s) d number None h" and on: "st_enabled (s_settings s)"
    using store_delivery_Inr [OF stored] by (auto split: option.splits)
  have row: "row_get (s_history t) ?p = Some h" "s_settings t = s_settings s" "references_ok h"
    and rest: "\<forall>n. n \<noteq> ?p \<longrightarrow> row_get (s_history t) n = row_get (s_history s) n"
    using h(1) by (auto simp: stored_row_def)
  note fields = row_of_original [OF h(2)]
  have "\<not> has_key (h_idempotency_key h) s" using h(1) has_key_taken by (auto simp: stored_row_def)
  then have new: "lookup (p_deliveries P) (PStr (h_idempotency_key h)) = None" using peer by (auto simp: peer_of_site_def)
  have ok: "sendable fr ?p h (snapshot_pdfs fr d) t"
  proof -
    have "attemptable h t (fr_clock fr (s_ticks t))"
      by (rule fresh_attemptable) (use fields in \<open>simp_all add: original_pending_def\<close>)
    moreover have "pdf_payload fr ?p h t = Inr (snapshot_pdfs fr d)" by (rule snapshot_payload [OF h(1) plain(1)]) simp
    moreover have "texts_plain fr h (snapshot_pdfs fr d)"
      by (rule row_texts_plain [OF h(2) plain]) (use line in \<open>simp add: line_works_def\<close>)
    moreover have "h_provider h = LINKED_DEVICE" using row_of_source [OF h(2)] provider by simp
    ultimately show ?thesis using row on fields transport snapshot_pdfs_sent [OF plain(1)] by (simp add: sendable_def)
  qed
  obtain h' q where h': "submitted_row h h'" and run: "worker_run fr clock ?p \<lparr>bn_site = t, bn_peer = P\<rparr> =
      (Inr (), \<lparr>bn_site = after (release_if_original fr ?p h') (sent_site ?p h' q t),
         bn_peer = recorded (fr_nonce fr (Suc (s_ticks t))) (h_idempotency_key h)
           (send_payload fr h (s_settings t) (snapshot_pdfs fr d) (py ''Baileys'')) P\<rparr>)"
    using worker_sends [OF line, of ?p h "snapshot_pdfs fr d"] ok new fields by auto
  let ?t1 = "sent_site ?p h' q t"
  have rows: "row_get (s_history ?t1) n = (if n = ?p then Some h' else row_get (s_history s) n)" for n
    using rest by (simp add: sent_site_def)
  have "h_copy_of h = None" using h(2) by (auto simp: row_of_def new_history_def)
  then have "h_copy_of h' = None" using h' by (simp add: submitted_row_def identity_of_def)
  then have none: "not_copied ?p ?t1" using only by (auto simp: not_copied_def rows)
  then have "history_names fr (\<lambda>x. h_copy_of x = Some ?p \<and> releasable (h_status x)) ?t1 = []"
    by (intro no_names) (auto simp: not_copied_def)
  then have still: "after (release_if_original fr ?p h') ?t1 = ?t1"
    by (simp add: release_if_original_def release_waiting_copies_def bindA_def reads_def ret_def)
  show thesis
    by (rule that [OF row(1) _ run [unfolded still]]) (use fields h' [unfolded submitted_row_def] none rows [of ?p] in \<open>auto simp: sent_site_def put_history_def\<close>)
qed

lemma check_alone_runs:
  assumes works: "native_works fr enabled clock nt" and plain: "list_all plain_char (sd_name p)"
    and bench: "nt_bench nt w = \<lparr>bn_site = t, bn_peer = P\<rparr>" and jobs: "rq_jobs (nt_rq nt) w = [queued_job (worker_job (sd_name p))]"
    and row: "row_get (s_history t) (sd_name p) = Some h" "h_status h = Queued"
    and run: "worker_run fr clock (sd_name p) \<lparr>bn_site = t, bn_peer = P\<rparr> = (Inr (), \<lparr>bn_site = t1, bn_peer = P1\<rparr>)"
    and sent: "row_get (s_history t1) (sd_name p) = Some h'" "h_status h' = Submitted_to_WhatsApp" "s_jobs t1 = s_jobs t"
  obtains w1 where "check_delivery fr enabled nt (p, None) False w = (Inr h', w1)" "rq_jobs (nt_rq nt) w1 = []"
    and "nt_bench nt w1 = \<lparr>bn_site = t1, bn_peer = P1\<rparr>"
proof -
  have new: "new_jobs (nt_bench nt w) \<lparr>bn_site = t1, bn_peer = P1\<rparr> = []" using sent(3) by (simp add: new_jobs_def bench)
  obtain w1 where w1: "run_worker fr enabled nt (sd_name p) None w = (Inr (), w1)" "nt_bench nt w1 = \<lparr>bn_site = t1, bn_peer = P1\<rparr>"
    "rq_jobs (nt_rq nt) w1 = []"
    by (rule run_only_job [OF works worker_job_id(1) _ jobs, of "\<lparr>bn_site = t1, bn_peer = P1\<rparr>"])
       (use plain run new in \<open>simp_all add: worker_job_plain worker_job_id bench\<close>)
  have "check_delivery fr enabled nt (p, None) False w = (Inr h', w1)"
    using w1(1) row sent
    by (simp add: check_delivery_def Let_def bindA_def reads_def ret_def asserts_def native_history_def get_history_def bench w1(2) terminal_def)
  then show thesis by (rule that [OF _ w1(3,2)])
qed

section \<open>A group that was disabled\<close>

lemma disabling:
  assumes one: "st_company_groups (s_settings s) = [row]" and st: "disable_first (s_settings s) = Inr st"
    and saved: "save_settings fr st s = (Inr (), s1)"
  shows "s1 = s\<lparr>s_settings := s_settings s1\<rparr>" "st_provider (s_settings s1) = st_provider (s_settings s)"
    "configured_group fr' (s_settings s1) company s' = Inr None"
proof -
  have st': "st = (s_settings s)\<lparr>st_company_groups := [row\<lparr>g_enabled := False\<rparr>]\<rparr>" using st one by (simp add: disable_first_def)
  have off: "enabled_rows (clamp_settings st) = []" "st_company_groups (clamp_settings st) = [row\<lparr>g_enabled := False\<rparr>]"
    by (simp_all add: enabled_rows_def clamp_settings_def st')
  obtain st1 v where checked: "validate_settings fr (Some (s_settings s)) (clamp_settings st) s = (Inr st1, v)"
    and s1: "s1 = v\<lparr>s_settings := st1\<rparr>"
    using saved by (auto simp: save_settings_def validate_settings_doc_def bindA_Inr_iff reads_iff modifies_iff fails_iff split: if_splits)
  have "v = s \<and> st_company_groups st1 = [row\<lparr>g_enabled := False\<rparr>] \<and> st_provider st1 = st_provider st"
    using checked off
    by (auto simp: validate_settings_def bindA_Inr_iff reads_iff ret_iff bindR_Inr_iff check_row_def clamp_settings_def split: if_splits)
  then show "s1 = s\<lparr>s_settings := s_settings s1\<rparr>" "st_provider (s_settings s1) = st_provider (s_settings s)"
    "configured_group fr' (s_settings s1) company s' = Inr None"
    by (simp_all add: s1 st' configured_group_def)
qed

lemma connected_saving:
  assumes "enabled_rows (clamp_settings st) = []"
  shows "save_settings (connected fr now p) st = save_settings fr st"
proof -
  have guard: "settings_guard (connected fr now p) = settings_guard fr"
    by (unfold settings_guard_def [abs_def] company_check_def [abs_def] check_permission_def [abs_def] get_doc_def [abs_def]
        connected_fields, rule refl)
  have "validate_settings_doc (connected fr now p) b st = validate_settings_doc fr b st" for b
    using assms by (simp add: validate_settings_doc_def validate_settings_def guard)
  then show ?thesis by (simp add: save_settings_def)
qed

text \<open>The bench before the stage: the transport works, one company has a group, and no job waits.\<close>

definition before_disabling ::
  "frappe \<Rightarrow> bool \<Rightarrow> (nat \<Rightarrow> int) \<Rightarrow> 'w native \<Rightarrow> site \<Rightarrow> capture \<Rightarrow> 'w \<Rightarrow> bool" where
  "before_disabling fr enabled clock nt s P w \<longleftrightarrow>
     native_works fr enabled clock nt \<and> nt_bench nt w = \<lparr>bn_site = s, bn_peer = P\<rparr> \<and> rq_jobs (nt_rq nt) w = []
     \<and> (\<exists>row. st_company_groups (s_settings s) = [row]) \<and> st_provider (s_settings s) = LINKED_DEVICE
     \<and> get_transport fr LINKED_DEVICE = Inr linked_device \<and> line_works fr clock \<lparr>bn_site = s, bn_peer = P\<rparr>
     \<and> peer_of_site P s \<and> (\<forall>j. fr_enqueue fr j = None)"

lemma disabled_copy_runs:
  assumes before: "before_disabling fr enabled clock nt s0 P w"
    and st: "disable_first (s_settings s0) = Inr st" "save_settings fr st s0 = (Inr (), s1)"
    and request: "document_request fr (py ''Sales Invoice'') invoice (py ''+12025550123'') (py ''Standard'')
        (py ''Synthetic document copy'') modified [] (s1\<lparr>s_user := sender\<rparr>) = Inr (d, number)"
    and plain: "plain_delivery fr d" "list_all plain_char (fr_name fr (s_ticks s0 + 2))" and invoice: "invoice \<noteq> []"
    and fresh: "fresh_names fr s0 (s_ticks s0)" and only: "not_copied (fr_name fr (s_ticks s0 + 2)) s0"
  obtains w' h where "disabled_copy fr enabled clock nt (queue_invoice fr clock nt sender invoice modified) w = (Inr (), w')"
    and "rq_jobs (nt_rq nt) w' = []" "native_history nt (fr_name fr (s_ticks s0 + 2)) w' = Inr h" "h_status h = Submitted_to_WhatsApp"
    and "not_copied (fr_name fr (s_ticks s0 + 2)) (bn_site (nt_bench nt w'))"
proof -
  note b = before [unfolded before_disabling_def]
  have works: "native_works fr enabled clock nt" and bench: "nt_bench nt w = \<lparr>bn_site = s0, bn_peer = P\<rparr>"
    and idle: "rq_jobs (nt_rq nt) w = []" and line: "line_works fr clock \<lparr>bn_site = s0, bn_peer = P\<rparr>" using b by simp_all
  obtain row where row: "st_company_groups (s_settings s0) = [row]" using b by blast
  note off = disabling [OF row st]
  let ?p = "fr_name fr (s_ticks s0 + 2)" and ?s = "s1\<lparr>s_user := sender\<rparr>"
  have s1: "s_ticks s1 = s_ticks s0" "s_history s1 = s_history s0" "s_files s1 = s_files s0" "s_wire s1 = s_wire s0" "s_jobs s1 = s_jobs s0"
    by (subst off(1), simp)+
  let ?save = "\<lambda>fr. bindA (reads (\<lambda>s. disable_first (s_settings s))) (save_settings fr)"
  have rows: "enabled_rows (clamp_settings st) = []"
    using st(1) row by (auto simp: disable_first_def enabled_rows_def clamp_settings_def)
  have save: "?save (connected fr (clock (s_ticks s0)) P) s0 = (Inr (), s1)"
    using st by (simp add: bindA_def reads_def connected_saving [OF rows])
  have quiet: "s_wire s1 = s_wire s0" "s_jobs s1 = s_jobs s0 @ []" using s1 by simp_all
  have ids: "distinct (map jb_id (rq_jobs (nt_rq nt) w @ map queued_job []))" using idle by simp
  obtain w1 where w1: "in_parent fr clock nt ?save w = (Inr (), w1)" "nt_bench nt w1 = \<lparr>bn_site = s1, bn_peer = P\<rparr>"
    and "rq_jobs (nt_rq nt) w1 = rq_jobs (nt_rq nt) w @ map queued_job []"
    by (rule in_parent_runs [OF works bench, where operation = ?save, OF save quiet ids])
  then have idle1: "rq_jobs (nt_rq nt) w1 = []" using idle by simp
  have ok: "request_ok d" "st_enabled (s_settings ?s)"
  proof -
    obtain doc a where "validate_document fr ?s (py ''Sales Invoice'') invoice = Inr (doc, a)" "dr_reference_type d = Document"
      "dr_reference_doctype d = Some (py ''Sales Invoice'')" "dr_reference_name d = Some invoice"
      using request by (rule document_request_Inr)
    then show "request_ok d" "st_enabled (s_settings ?s)"
      using invoice by (auto simp: request_ok_def nonempty_def dest: validate_document_Inr(7))
  qed
  have fresh': "fresh_names fr ?s (s_ticks ?s)" using fresh by (simp add: fresh_names_def s1 key_taken_def)
  have "group_of_delivery fr d None ?s = Inr (s_settings ?s, None)" using ok(2) off(3) by (simp add: group_of_original)
  from store_one_succeeds [OF fresh' ok(1) this, of number] obtain t
    where one: "store_one fr d number None ?s = (Inr (\<lparr>sd_name = ?p, sd_status = Queued\<rparr>, None), t)" and adds: "adds_only fr ?s t"
    by (auto simp: s1)
  let ?r = "\<lparr>sd_name = ?p, sd_status = Queued\<rparr>"
  have stored: "store_delivery fr d number ?s = (Inr (?r, None), t)" using one by (simp add: store_delivery_def bindA_def ret_def)
  have taken: "fr_enqueue fr (worker_job (sd_name ?r)) = None" using b by blast
  obtain w2 where w2: "queue_invoice fr clock nt sender invoice modified w1 = (Inr (?r, None), w2)" "nt_bench nt w2 = \<lparr>bn_site = t, bn_peer = P\<rparr>"
    "rq_jobs (nt_rq nt) w2 = [queued_job (worker_job (sd_name ?r))]"
    by (rule queue_invoice_runs [OF works w1(2) idle1 request stored taken])
  have line2: "line_works fr clock \<lparr>bn_site = t, bn_peer = P\<rparr>"
    by (rule line_on [OF line]) (use adds in \<open>auto simp: adds_only_def s1\<close>)
  have number: "list_all plain_char number"
    by (rule accepted_number_plain [of fr ?s d]) (use request in \<open>auto simp: accepted_delivery_def\<close>)
  have peer: "peer_of_site P ?s" using b by (simp add: peer_of_site_def has_key_def s1)
  have alone: "not_copied (sd_name ?r) ?s" using only by (simp add: not_copied_def s1)
  have provider: "st_provider (s_settings ?s) = LINKED_DEVICE" and transport: "get_transport fr LINKED_DEVICE = Inr linked_device"
    using b off(2) by simp_all
  obtain t1 P1 h h' where run: "row_get (s_history t) (sd_name ?r) = Some h" "h_status h = Queued"
    "worker_run fr clock (sd_name ?r) \<lparr>bn_site = t, bn_peer = P\<rparr> = (Inr (), \<lparr>bn_site = t1, bn_peer = P1\<rparr>)"
    "row_get (s_history t1) (sd_name ?r) = Some h'" "h_status h' = Submitted_to_WhatsApp" "s_jobs t1 = s_jobs t"
    and none: "not_copied (sd_name ?r) t1"
    by (rule alone_run [OF stored plain(1) number provider transport line2 peer alone])
  obtain w3 where w3: "check_delivery fr enabled nt (?r, None) False w2 = (Inr h', w3)" "rq_jobs (nt_rq nt) w3 = []"
    "nt_bench nt w3 = \<lparr>bn_site = t1, bn_peer = P1\<rparr>"
    by (rule check_alone_runs [OF works _ w2(2,3) run]) (use plain(2) in simp)
  have "disabled_copy fr enabled clock nt (queue_invoice fr clock nt sender invoice modified) w = (Inr (), w3)"
    using w1(1) w2(1) w3(1) unfolding disabled_copy_def by (simp add: bindA_def ret_def)
  then show thesis
    by (rule that [OF _ w3(2)]) (use run(4,5) none in \<open>simp_all add: native_history_def get_history_def w3(3)\<close>)
qed

section \<open>Properties\<close>

text \<open>C22. Forged requests are denied. Where the sender may send an invoice to its customer, and may
  prepare the receivables report of one company but not read another, the stage
  \<open>forged_and_cross_company_denials\<close> passes: the group and the other group are refused as recipients
  with a validation error, the report of the other company with a permission error, and the site is
  what it was.\<close>

theorem forged_requests_are_denied:
  assumes "document_request fr (py ''Sales Invoice'') invoice r pf m modified [] s = Inr x"
    and "prepare_report fr s (py ''Accounts Receivable'') (company_filters company customer) = Inr y"
    and "fr_report_providers fr = []" and "fr_doc fr (py ''Company'') other \<noteq> None"
    and "\<not> fr_can fr (s_user s) (py ''read'') (py ''Company'') (Some other)"
  shows "forged_denials fr invoice modified other customer s = (Inr (), s)"
  by (rule forged_denials_pass [OF assms])

text \<open>C21. A sender who lost the right to send gets no copy. When the original went out, and then the
  sender's role or the right to the document is taken away, the stages \<open>sender_revocation_before_copy\<close>
  and \<open>source_revocation_before_copy\<close> pass: the job of the copy, which was queued before, leaves a
  failed record, and the peer is reached by nothing.\<close>

theorem revoked_sender_gets_no_copy:
  assumes "just_queued fr enabled clock nt queue d number s p c t P w"
    and "native_works fr' enabled clock nt'" and "same_bench nt nt'" and "authority_lost fr' d s"
    and "distinct_keys (p_attempts P)"
  shows "\<exists>w' k. sender_revocation fr fr' enabled nt nt' queue w = (Inr (), w')
    \<and> source_revocation fr fr' enabled nt nt' queue w = (Inr (), w')
    \<and> native_history nt' (sd_name c) w' = Inr k \<and> h_status k = Failed"
  using revocation_stages_pass [OF assms] by metis


section \<open>A run of each\<close>

theorem forged_requests_are_denied_witness:
  "forged_denials demo_frappe (py ''INV-1'') (py ''v1'') (py ''Other'') (py ''ACME'') demo_site = (Inr (), demo_site)"
proof -
  have on: "s_user demo_site = py ''ann''" "st_enabled (s_settings demo_site)"
    by (simp_all add: demo_site_def demo_settings_def)
  have report: "\<exists>y. prepare_report demo_frappe demo_site (py ''Accounts Receivable'') (company_filters (py ''Co'') (py ''ACME'')) = Inr y"
  proof -
    have found: "report_adapter demo_frappe (py ''Accounts Receivable'') = Inr (map_of DEFAULT_REPORT_ADAPTERS (py ''Accounts Receivable''))"
      by (simp add: report_adapter_def report_adapters_def external_registry_def demo_frappe_def)
    have docs: "get_doc demo_frappe (py ''Report'') (py ''Accounts Receivable'') = Inr demo_plain"
      "get_doc demo_frappe (py ''Customer'') (py ''ACME'') = Inr demo_customer"
      "get_doc demo_frappe (py ''Company'') (py ''Co'') = Inr demo_plain"
      by (simp_all add: get_doc_def demo_frappe_def demo_doc_def)
    have may: "may_run demo_frappe s n demo_plain" "check_permission demo_frappe s p dt (py ''ACME'') = Inr ()"
      "check_permission demo_frappe s p dt (py ''Co'') = Inr ()" for s n p dt
      by (simp_all add: may_run_def check_permission_def demo_frappe_def)
    let ?d = "[(py ''company'', PStr (py ''Co'')), (py ''party'', PList [PStr (py ''ACME'')]), (py ''party_type'', PStr (py ''Customer''))]"
    have d: "dget ?d (py ''party'') = PList [PStr (py ''ACME'')]" "dget ?d (py ''company'') = PStr (py ''Co'')"
      "dget ?d (py ''party_type'') = PStr (py ''Customer'')" "one_customer (PList [PStr (py ''ACME'')]) = Inr (py ''ACME'')"
      "shape_filters (Some (py ''list'')) (py ''party'') (py ''ACME'') ?d = Inr ?d"
      by (simp_all add: dget_def one_customer_def sole_value_def nonempty_text_def shape_filters_def dset_def)
    have "\<exists>a. validate_report demo_frappe demo_site (py ''Accounts Receivable'') (PDict ?d) = Inr (a, ?d, py ''ACME'', py ''Co'')
        \<and> a_default_message a \<noteq> None"
      by (simp add: validate_report_def found docs may d DEFAULT_REPORT_ADAPTERS_def no_adapter_def present_def required_def report_company_def opt_value_def)
    moreover have "configured_group demo_frappe (s_settings demo_site) v demo_site = Inr None" for v
      by (simp add: configured_group_def demo_site_def demo_settings_def)
    moreover have "\<exists>y. bindR (render_templates demo_frappe (template_rows demo_site dt n v m) ctx) (\<lambda>ts. Inr (f ts)) = Inr y"
      for dt n v m ctx and f :: "rendered_template list \<Rightarrow> prepared"
    proof -
      have render: "fr_render demo_frappe t c = Inr []" for t c by (simp add: demo_frappe_def)
      have row: "\<exists>x. render_row demo_frappe ctx r = Inr x" for r by (simp add: render_row_def render)
      have "\<exists>ts. foldR (\<lambda>row out. bindR (render_row demo_frappe ctx row) (\<lambda>r. Inr (out @ [r]))) rows acc = Inr ts" for rows acc
      proof (induction rows arbitrary: acc)
        case (Cons r rows)
        then show ?case using row [of r] by auto
      qed simp
      then obtain ts where "render_templates demo_frappe (template_rows demo_site dt n v m) ctx = Inr ts"
        unfolding render_templates_def by blast
      then show ?thesis by simp
    qed
    ultimately show ?thesis
      using demo_sender [OF on(1)] on(2)
      by (auto simp: prepare_report_def company_filters_def enabled_settings_def docs demo_numbers required_def)
  qed
  have other: "fr_report_providers demo_frappe = []" "fr_doc demo_frappe (py ''Company'') (py ''Other'') \<noteq> None"
    "\<not> fr_can demo_frappe (s_user demo_site) (py ''read'') (py ''Company'') (Some (py ''Other''))"
    by (simp_all add: demo_frappe_def demo_doc_def)
  from report obtain y where "prepare_report demo_frappe demo_site (py ''Accounts Receivable'') (company_filters (py ''Co'') (py ''ACME'')) = Inr y" ..
  then show ?thesis by (rule forged_requests_are_denied [OF demo_accepted [OF on] _ other])
qed

definition demoted :: frappe where
  "demoted = live_frappe\<lparr>fr_roles := \<lambda>_. []\<rparr>"

theorem revoked_sender_gets_no_copy_witness:
  "\<exists>w' k. sender_revocation live_frappe demoted True (live_native live_frappe) (live_native demoted) live_queue live_start = (Inr (), w')
    \<and> native_history (live_native demoted) (demo_name 6) w' = Inr k \<and> h_status k = Failed"
proof -
  have "native_works demoted True live_clock (live_native demoted)"
    by (rule live_native_works) (simp add: demoted_def live_fields)
  moreover have "same_bench (live_native live_frappe) (live_native demoted)"
    by (simp add: same_bench_def live_native_def live_rq_def)
  moreover have "require_sender demoted live_site \<noteq> Inr ()"
    by (simp add: require_sender_Inr_iff can_send_def is_manager_def get_roles_def demoted_def live_site_fields)
  then have "authority_lost demoted live_delivery live_site" by (simp add: authority_lost_def)
  moreover have "distinct_keys (p_attempts (new_capture peer_key))" by (simp add: new_capture_def distinct_keys_def)
  ultimately show ?thesis
    using revoked_sender_gets_no_copy [OF live_just_queued]
    by (fastforce simp: live_copy_def)
qed

definition without_group :: site where
  "without_group = live_site\<lparr>s_settings := clamp_settings (demo_settings\<lparr>st_company_groups := [live_row\<lparr>g_enabled := False\<rparr>]\<rparr>)\<rparr>"


end
