(* ===== verification/Report_Stage.thy ===== *)
theory Report_Stage
  imports Denials Diagnostics Example_Report
begin

text \<open>
  The stage of \<open>group_acceptance.py\<close> that sends a report: \<open>report_pdf_queue_and_native_rq_workers\<close>.
  The sender may only read the entries the report depends on, the framework's own report is bound to
  the one customer, and the report and its group copy arrive.
\<close>

section \<open>The stage\<close>

definition RECEIVABLE :: pystr where
  "RECEIVABLE = py ''Accounts Receivable''"

definition receivable_filters :: "pystr \<Rightarrow> pystr \<Rightarrow> pystr \<Rightarrow> (pystr \<times> pyval) list" where
  "receivable_filters company customer today =
     [(py ''company'', PStr company), (py ''party'', PList [PStr customer]), (py ''party_type'', PStr (py ''Customer'')),
      (py ''report_date'', PStr today), (py ''ageing_based_on'', PStr (py ''Due Date'')), (py ''range'', PStr (py ''30, 60, 90, 120''))]"

definition may_only_read :: "frappe \<Rightarrow> pystr \<Rightarrow> pystr \<Rightarrow> bool" where
  "may_only_read fr user doctype \<longleftrightarrow>
     fr_can fr user (py ''read'') doctype None
     \<and> \<not> list_ex (\<lambda>action. fr_can fr user action doctype None) [py ''create'', py ''write'', py ''submit'', py ''cancel'', py ''delete'']"

text \<open>\<open>json.loads(record.report_filters)['party']\<close>\<close>

definition stored_party :: "history \<Rightarrow> exn + pyval" where
  "stored_party h =
     (case h_report_filters h of
        None \<Rightarrow> raise TypeError ''the JSON object must be str, bytes or bytearray''
      | Some t \<Rightarrow> bindR (json_loads t) (\<lambda>v. item v ''party''))"

text \<open>
  The report of ERPNext is outside: \<open>conditions\<close> is what it asks its query for with given filters, and
  \<open>condition\<close> what asking for one party looks like, both as text.
\<close>

definition report_stage ::
  "frappe \<Rightarrow> bool \<Rightarrow> (nat \<Rightarrow> int) \<Rightarrow> 'w native \<Rightarrow> ((pystr \<times> pyval) list \<Rightarrow> exn + pystr list) \<Rightarrow> (pystr \<Rightarrow> pystr)
    \<Rightarrow> pystr \<Rightarrow> pystr \<Rightarrow> pystr \<Rightarrow> ('w, unit) act" where
  "report_stage fr enabled clock nt conditions condition company customer today =
     (let filters = PDict (receivable_filters company customer today) in
      bindA (reads (\<lambda>w. asserts (may_only_read fr (s_user (bn_site (nt_bench nt w))) (py ''Journal Entry'')) '''')) (\<lambda>_.
      bindA (reads (\<lambda>w. validate_report fr (bn_site (nt_bench nt w)) RECEIVABLE filters)) (\<lambda>(_, normalized, _).
      bindA (reads (\<lambda>_. bindR (conditions normalized) (\<lambda>asked.
        asserts (condition customer \<in> set asked) ''Native report did not bind the validated customer to its query''))) (\<lambda>_.
      bindA (in_parent fr clock nt (\<lambda>fr. queue_report fr RECEIVABLE filters (py ''+12025550123'') (py ''Synthetic report copy'') [])) (\<lambda>result.
      bindA (reads (native_history nt (sd_name (fst result)))) (\<lambda>h.
      bindA (reads (\<lambda>_. bindR (stored_party h) (\<lambda>party. asserts (py_eq party (PList [PStr customer])) ''''))) (\<lambda>_.
      bindA (check_delivery fr enabled nt result True) (\<lambda>_. ret ()))))))))"

section \<open>It passes\<close>

lemma connected_report_outside [simp]:
  "fr_report_run (connected fr now p) = fr_report_run fr" "fr_renderer (connected fr now p) = fr_renderer fr"
  "fr_html_pdf (connected fr now p) = fr_html_pdf fr" "fr_money (connected fr now p) = fr_money fr" "fr_escape (connected fr now p) = fr_escape fr"
  by (simp_all add: connected_def)

lemma connected_report_request [simp]: "report_request (connected fr now p) = report_request fr"
  by (unfold report_request_def [abs_def] require_sender_def [abs_def] can_send_def [abs_def] is_manager_def [abs_def] get_roles_def [abs_def]
      validate_report_def [abs_def] report_adapter_def [abs_def] report_adapters_def [abs_def] may_run_def [abs_def]
      report_company_def [abs_def] check_permission_def [abs_def] customer_numbers_def [abs_def]
      validate_selected_template_def [abs_def] get_doc_def [abs_def] report_pdf_def [abs_def] registered_renderer_def [abs_def]
      table_html_def [abs_def] add_address_def [abs_def] add_contact_def [abs_def] contact_names_def [abs_def]
      connected_fields connected_outside connected_report_outside, rule refl)

lemma report_queued_runs:
  assumes works: "native_works fr enabled clock nt" and bench: "nt_bench nt w = \<lparr>bn_site = s, bn_peer = P\<rparr>"
    and idle: "rq_jobs (nt_rq nt) w = []"
    and request: "report_request fr n f r m mt s = Inr (d, number)"
    and stored: "store_delivery fr d number s = (Inr (p, c), t)" and taken: "fr_enqueue fr (worker_job (sd_name p)) = None"
  obtains w0 where "in_parent fr clock nt (\<lambda>fr. queue_report fr n f r m mt) w = (Inr (p, c), w0)"
    and "nt_bench nt w0 = \<lparr>bn_site = t, bn_peer = P\<rparr>" "rq_jobs (nt_rq nt) w0 = [queued_job (worker_job (sd_name p))]"
proof -
  let ?ask = "\<lambda>fr. queue_report fr n f r m mt"
  have run: "?ask (connected fr (clock (s_ticks s)) P) s = (Inr (p, c), t)"
    using request stored by (simp add: bindA_def reads_def queue_report_def)
  have quiet: "s_wire t = s_wire s" "s_jobs t = s_jobs s @ [worker_job (sd_name p)]"
    using store_delivery_jobs [OF stored taken] by simp_all
  have ids: "distinct (map jb_id (rq_jobs (nt_rq nt) w @ map queued_job [worker_job (sd_name p)]))" using idle by simp
  obtain w0 where "in_parent fr clock nt ?ask w = (Inr (p, c), w0)" "nt_bench nt w0 = \<lparr>bn_site = t, bn_peer = P\<rparr>"
    "rq_jobs (nt_rq nt) w0 = rq_jobs (nt_rq nt) w @ map queued_job [worker_job (sd_name p)]"
    by (rule in_parent_runs [OF works bench, where operation = ?ask, OF run quiet ids])
  then show thesis by (intro that) (simp_all add: idle)
qed

text \<open>The built-in adapter keeps the customer as a list, so the validated filters are the given ones.\<close>

lemma receivable_validated:
  assumes valid: "validate_report fr s RECEIVABLE (PDict (receivable_filters company customer today)) = Inr (a, d, c, co)"
    and builtin: "fr_report_providers fr = []"
  shows "d = receivable_filters company customer today"
proof -
  have found: "report_adapters fr = Inr (map_of DEFAULT_REPORT_ADAPTERS)"
    using builtin by (simp add: report_adapters_def external_registry_def)
  have adapter: "a_customer_filter a = Some (py ''party'')" "a_customer_filter_type a = Some (py ''list'')"
    using valid unfolding validate_report_Inr_iff found by (auto simp: RECEIVABLE_def DEFAULT_REPORT_ADAPTERS_def)
  have party: "dget (receivable_filters company customer today) (py ''party'') = PList [PStr customer]"
    by (simp add: receivable_filters_def dget_def py_def)
  have "one_customer (PList [PStr customer]) = Inr c"
    and shape: "shape_filters (Some (py ''list'')) (py ''party'') c (receivable_filters company customer today) = Inr d"
    using valid unfolding validate_report_Inr_iff by (auto simp: adapter party)
  then have "c = customer" by (simp add: one_customer_cases)
  then show ?thesis using shape by (simp add: shape_filters_def dset_def receivable_filters_def py_def)
qed

lemma report_request_filters:
  assumes "report_request fr RECEIVABLE (PDict (receivable_filters company customer today)) r m mt s = Inr (d, number)"
    and "fr_report_providers fr = []"
  obtains a c co where "validate_report fr s RECEIVABLE (PDict (receivable_filters company customer today))
      = Inr (a, receivable_filters company customer today, c, co)"
    and "dr_report_filters d = Some (json_dumps compact_style (PDict (receivable_filters company customer today)))"
proof -
  obtain a fs c co where valid: "validate_report fr s RECEIVABLE (PDict (receivable_filters company customer today)) = Inr (a, fs, c, co)"
    and kept: "dr_report_filters d = Some (json_dumps compact_style (PDict fs))"
    using assms(1) by (auto simp: report_request_def res_iff)
  show thesis using that valid kept receivable_validated [OF valid assms(2)] by simp
qed

lemma stored_party_of_filters:
  assumes "h_report_filters h = Some (json_dumps compact_style (PDict (receivable_filters company customer today)))"
    and "json_ok False (PDict (receivable_filters company customer today))"
  shows "stored_party h = Inr (PList [PStr customer])"
proof -
  have "json_loads (json_dumps compact_style (PDict (receivable_filters company customer today)))
      = Inr (PDict (receivable_filters company customer today))"
    by (rule json_loads_dumps [OF style_ok_used(2)]) (use assms(2) in \<open>simp add: compact_style_def\<close>)
  then show ?thesis by (simp add: stored_party_def assms(1) item_def receivable_filters_def py_def)
qed

text \<open>What the stage finds: a sender with the right to send and read only, a report whose query is bound to
  the customer, and a delivery of it that nothing stands in the way of.\<close>

definition report_ready ::
  "frappe \<Rightarrow> bool \<Rightarrow> (nat \<Rightarrow> int) \<Rightarrow> 'w native \<Rightarrow> ((pystr \<times> pyval) list \<Rightarrow> exn + pystr list) \<Rightarrow> (pystr \<Rightarrow> pystr)
    \<Rightarrow> pystr \<Rightarrow> pystr \<Rightarrow> pystr \<Rightarrow> delivery_request \<Rightarrow> pystr \<Rightarrow> site \<Rightarrow> stored \<Rightarrow> stored \<Rightarrow> site \<Rightarrow> capture \<Rightarrow> 'w \<Rightarrow> bool" where
  "report_ready fr enabled clock nt conditions condition company customer today d number s p c t P w \<longleftrightarrow>
     nt_bench nt w = \<lparr>bn_site = s, bn_peer = P\<rparr> \<and> rq_jobs (nt_rq nt) w = [] \<and> native_works fr enabled clock nt
     \<and> may_only_read fr (s_user s) (py ''Journal Entry'') \<and> fr_report_providers fr = []
     \<and> (case conditions (receivable_filters company customer today) of Inl _ \<Rightarrow> False | Inr asked \<Rightarrow> condition customer \<in> set asked)
     \<and> json_ok False (PDict (receivable_filters company customer today))
     \<and> report_request fr RECEIVABLE (PDict (receivable_filters company customer today)) (py ''+12025550123'')
         (py ''Synthetic report copy'') [] s = Inr (d, number)
     \<and> undisturbed fr clock d number s p c t P \<and> fr_enqueue fr (worker_job (sd_name p)) = None
     \<and> configured_group fr (s_settings s) (opt_value (dr_company d)) s = Inr (Some GROUP)
     \<and> list_all plain_char (sd_name p) \<and> list_all plain_char (sd_name c)"

lemma report_stage_runs:
  assumes ready: "report_ready fr enabled clock nt conditions condition company customer today d number s p c t P w"
  obtains w' h k where "report_stage fr enabled clock nt conditions condition company customer today w = (Inr (), w')"
    and "rq_jobs (nt_rq nt) w' = []" "native_history nt (sd_name p) w' = Inr h" "h_status h = Submitted_to_WhatsApp"
    and "native_history nt (sd_name c) w' = Inr k" "h_status k = Submitted_to_WhatsApp"
proof -
  let ?filters = "receivable_filters company customer today"
  obtain asked where bench: "nt_bench nt w = \<lparr>bn_site = s, bn_peer = P\<rparr>" and idle: "rq_jobs (nt_rq nt) w = []"
    and works: "native_works fr enabled clock nt" and may: "may_only_read fr (s_user s) (py ''Journal Entry'')"
    and asked: "conditions ?filters = Inr asked" "condition customer \<in> set asked"
    and request: "report_request fr RECEIVABLE (PDict ?filters) (py ''+12025550123'') (py ''Synthetic report copy'') [] s = Inr (d, number)"
    and calm: "undisturbed fr clock d number s p c t P" and taken: "fr_enqueue fr (worker_job (sd_name p)) = None"
    and group: "configured_group fr (s_settings s) (opt_value (dr_company d)) s = Inr (Some GROUP)"
    and plain: "list_all plain_char (sd_name p)" "list_all plain_char (sd_name c)"
    and builtin: "fr_report_providers fr = []" and json: "json_ok False (PDict ?filters)"
    using ready by (auto simp: report_ready_def split: sum.splits)
  obtain a cu co where valid: "validate_report fr s RECEIVABLE (PDict ?filters) = Inr (a, ?filters, cu, co)"
    and kept: "dr_report_filters d = Some (json_dumps compact_style (PDict ?filters))"
    by (rule report_request_filters [OF request builtin])
  have ready': "prepared fr clock d number s p c t P" using calm by (simp add: undisturbed_def)
  then have stored: "store_delivery fr d number s = (Inr (p, Some c), t)" and fine: "plain_delivery fr d" by (simp_all add: prepared_def)
  obtain w0 where queue: "in_parent fr clock nt (\<lambda>fr. queue_report fr RECEIVABLE (PDict ?filters) (py ''+12025550123'')
        (py ''Synthetic report copy'') []) w = (Inr (p, Some c), w0)"
    and bench0: "nt_bench nt w0 = \<lparr>bn_site = t, bn_peer = P\<rparr>" and jobs: "rq_jobs (nt_rq nt) w0 = [queued_job (worker_job (sd_name p))]"
    by (rule report_queued_runs [OF works bench idle request stored taken])
  obtain h k g where q: "queued_pair fr d number s t (sd_name p) (sd_name c) h k g" by (rule stored_pair [OF stored fine])
  have row: "native_history nt (sd_name p) w0 = Inr h"
    using q by (simp add: queued_pair_def native_history_def bench0 get_history_def)
  have "h_report_filters h = dr_report_filters d" using q row_of_source by (auto simp: queued_pair_def)
  then have party: "stored_party h = Inr (PList [PStr customer])" using stored_party_of_filters [OF _ json] kept by simp
  obtain h' k' w2 where check: "check_delivery fr enabled nt (p, Some c) True w0 = (Inr h', w2)"
    and out: "h_status h' = Submitted_to_WhatsApp" "native_history nt (sd_name p) w2 = Inr h'"
      "native_history nt (sd_name c) w2 = Inr k'" "h_status k' = Submitted_to_WhatsApp" "rq_jobs (nt_rq nt) w2 = []"
    by (rule check_delivery_runs [OF calm works group plain bench0 jobs])
  have "report_stage fr enabled clock nt conditions condition company customer today w = (Inr (), w2)"
    using queue row party check
    by (simp add: report_stage_def Let_def bindA_def reads_def asserts_def bench may valid asked py_eq_refl ret_def)
  then show thesis by (rule that [OF _ out(5,2,1,3,4)])
qed

section \<open>A run of it\<close>

text \<open>The example site, whose sender may read journal entries and do nothing else with them, sends the
  receivables of its customer.\<close>

definition report_frappe :: frappe where
  "report_frappe = live_frappe\<lparr>fr_can := (\<lambda>_ action dt name. name \<noteq> Some (py ''Other'')
     \<and> (dt = py ''Journal Entry'' \<longrightarrow> action = py ''read''))\<rparr>"

definition demo_receivable :: "(pystr \<times> pyval) list" where
  "demo_receivable = receivable_filters (py ''Co'') (py ''ACME'') (py ''2026-01-01'')"

definition receivable_delivery :: delivery_request where
  "receivable_delivery = \<lparr>dr_reference_type = Report, dr_company = Some (py ''Co''),
     dr_reference_doctype = None, dr_reference_name = None, dr_report_name = Some RECEIVABLE,
     dr_report_filters = Some (json_dumps compact_style (PDict demo_receivable)),
     dr_message_template = None, dr_print_format = None, dr_source_modified = None,
     dr_message = py ''Synthetic report copy'', dr_pdf = py ''%PDF-1'', dr_filename = pdf_name RECEIVABLE\<rparr>"

definition receivable_stored :: site where
  "receivable_stored = after (store_delivery report_frappe receivable_delivery (py ''+12025550123'')) live_site"

definition demo_condition :: "pystr \<Rightarrow> pystr" where
  "demo_condition customer = py ''party IN ('' @ customer @ py '')''"

definition demo_conditions :: "(pystr \<times> pyval) list \<Rightarrow> exn + pystr list" where
  "demo_conditions filters =
     (case dget filters (py ''party'') of PList [PStr customer] \<Rightarrow> Inr [demo_condition customer] | _ \<Rightarrow> Inr [])"

lemma report_fields:
  "fr_can report_frappe u a dt n \<longleftrightarrow> n \<noteq> Some (py ''Other'') \<and> (dt = py ''Journal Entry'' \<longrightarrow> a = py ''read'')"
  by (simp add: report_frappe_def)

lemma report_unaffected:
  "fr_site report_frappe = FIXTURE_SITE" "fr_nonce report_frappe n = replicate (Suc n) 110" "fr_sha256 report_frappe b = []"
  "fr_transport_providers report_frappe = []" "fr_hmac report_frappe k b = []" "fr_epoch report_frappe n = 5"
  "fr_hash report_frappe = demo_name" "fr_name report_frappe = demo_name" "fr_file_name report_frappe f = f"
  "fr_listing report_frappe ns = ns" "fr_enqueue report_frappe j = None" "fr_user_enabled report_frappe u"
  "fr_key_file report_frappe = Some peer_key" "fr_report_providers report_frappe = []" "fr_roles report_frappe = fr_roles demo_frappe"
  "fr_doc report_frappe = demo_doc" "fr_report_permitted report_frappe u rp" "fr_customer_contacts report_frappe c = []"
  "fr_report_run report_frappe rp fs = Inr ([], [])" "fr_renderer report_frappe r rp fs = Inr None" "fr_html_pdf report_frappe h = py ''%PDF-1''"
  by (simp_all add: report_frappe_def live_fields live_unaffected) (simp_all add: live_frappe_def demo_frappe_def)

lemma report_sender: "s_user s = py ''ann'' \<Longrightarrow> require_sender report_frappe s = Inr ()"
  using demo_sender [of s]
  by (simp add: require_sender_Inr_iff can_send_def is_manager_def get_roles_def report_unaffected)

definition receivable_adapter :: adapter where
  "receivable_adapter = the (map_of DEFAULT_REPORT_ADAPTERS RECEIVABLE)"

lemma receivable_found: "report_adapter report_frappe RECEIVABLE = Inr (Some receivable_adapter)"
  by (simp add: report_adapter_def report_adapters_def external_registry_def report_unaffected)
     (simp add: receivable_adapter_def RECEIVABLE_def DEFAULT_REPORT_ADAPTERS_def)

lemma receivable_fields:
  "a_customer_filter receivable_adapter = Some (py ''party'')" "a_customer_filter_type receivable_adapter = Some (py ''list'')"
  "a_party_type_filter receivable_adapter = Some (py ''party_type'')" "a_required_party_type receivable_adapter = Some (py ''Customer'')"
  "a_company_filter receivable_adapter = Some (py ''company'')"
  "a_pdf_renderer receivable_adapter = None" "receivable_adapter \<noteq> no_adapter"
  by (simp_all add: receivable_adapter_def RECEIVABLE_def DEFAULT_REPORT_ADAPTERS_def no_adapter_def)

lemma receivable_valid:
  "validate_report report_frappe s RECEIVABLE (PDict demo_receivable) = Inr (receivable_adapter, demo_receivable, py ''ACME'', py ''Co'')"
proof -
  have docs: "get_doc report_frappe (py ''Report'') RECEIVABLE = Inr demo_plain"
    "get_doc report_frappe (py ''Customer'') (py ''ACME'') = Inr demo_customer"
    "get_doc report_frappe (py ''Company'') (py ''Co'') = Inr demo_plain"
    by (simp_all add: get_doc_def report_unaffected demo_doc_def)
  have may: "may_run report_frappe s RECEIVABLE demo_plain"
    by (simp add: may_run_def report_fields report_unaffected text_field_def demo_plain_def dget_def as_text_def py_def)
  have checks: "check_permission report_frappe s (py ''read'') dt (py ''ACME'') = Inr ()" "check_permission report_frappe s (py ''read'') dt (py ''Co'') = Inr ()" for dt
    by (simp_all add: check_permission_def report_fields py_def)
  have given: "dget demo_receivable (py ''party'') = PList [PStr (py ''ACME'')]" "dget demo_receivable (py ''company'') = PStr (py ''Co'')"
    "dget demo_receivable (py ''party_type'') = PStr (py ''Customer'')"
    "one_customer (PList [PStr (py ''ACME'')]) = Inr (py ''ACME'')"
    by (simp_all add: demo_receivable_def receivable_filters_def dget_def one_customer_def sole_value_def nonempty_text_def py_def)
  have shape: "shape_filters (Some (py ''list'')) (py ''party'') (py ''ACME'') demo_receivable = Inr demo_receivable"
    by (simp add: shape_filters_def demo_receivable_def receivable_filters_def dset_def py_def)
  show ?thesis
    using receivable_fields(7)
    by (simp add: validate_report_def receivable_found docs may checks receivable_fields present_def required_def given shape
        report_company_def opt_value_def)
qed

lemma receivable_accepted:
  assumes "s_user s = py ''ann''" "st_enabled (s_settings s)"
  shows "report_request report_frappe RECEIVABLE (PDict demo_receivable) (py ''+12025550123'') (py ''Synthetic report copy'') [] s
    = Inr (receivable_delivery, py ''+12025550123'')"
proof -
  have message: "check_message (py ''Synthetic report copy'') = Inr (py ''Synthetic report copy'')"
    by (simp add: check_message_Inr_iff py_def strip_def is_space_def)
  have on: "enabled_settings s = Inr (s_settings s)" using assms(2) by (simp add: enabled_settings_def)
  have numbers: "customer_numbers report_frappe s (py ''ACME'')
      = Inr [\<lparr>rc_value = py ''+12025550123'', rc_label = py ''+12025550123'' @ [32, 8212, 32] @ py ''Customer''\<rparr>]"
    by (simp add: customer_numbers_def get_doc_def report_unaffected demo_doc_def check_permission_def report_fields
      customer_own_numbers_def demo_customer_def has_field_def text_field_def dget_def as_text_def add_number_def demo_number
      contact_names_def link_field_def dict_fromkeys_def add_address_def)
  have pdf: "report_pdf report_frappe RECEIVABLE demo_receivable = Inr (py ''%PDF-1'')"
    by (simp add: report_pdf_def registered_renderer_def receivable_found receivable_fields present_def table_html_def report_unaffected)
  show ?thesis
    by (simp add: report_request_def report_sender [OF assms(1)] on receivable_valid numbers check_recipient_def
        demo_number message validate_selected_template_def pdf receivable_delivery_def)
qed

lemma receivable_group:
  "configured_group report_frappe (s_settings live_site) (opt_value (dr_company receivable_delivery)) live_site = Inr (Some GROUP)"
proof -
  have "company_check report_frappe live_site (PStr (py ''Co'')) = Inr ()"
    by (simp add: company_check_Inr_iff report_unaffected report_fields demo_doc_def py_def)
  moreover have "group_id (PStr GROUP) = Inr GROUP"
    unfolding group_id_def GROUP_def by (simp add: matches_group_def py_def is_ascii_digit_def digit_run_def Let_def)
  ultimately show ?thesis
    by (simp add: configured_group_def live_site_def live_row_def demo_settings_def receivable_delivery_def opt_value_def)
qed

lemma receivable_queued:
  "store_delivery report_frappe receivable_delivery (py ''+12025550123'') live_site = (Inr (live_original, Some live_copy), receivable_stored)"
proof -
  have "demo_name m \<noteq> []" "demo_name m = demo_name n \<longleftrightarrow> m = n" for m n
    by (simp_all add: demo_name_def)
  then have fresh: "fresh_pair report_frappe live_site (s_ticks live_site)"
    by (simp add: fresh_pair_def fresh_names_def report_unaffected live_site_fields key_taken_def)
  have request: "request_ok receivable_delivery" by (simp add: request_ok_def receivable_delivery_def nonempty_def RECEIVABLE_def py_def)
  obtain t where "store_delivery report_frappe receivable_delivery (py ''+12025550123'') live_site = (Inr (live_original, Some live_copy), t)"
    using store_delivery_succeeds [OF fresh request live_site_fields(2) receivable_group, of "py ''+12025550123''"]
    by (auto simp: report_unaffected live_site_fields live_original_def live_copy_def numeral_2_eq_2)
  then show ?thesis by (simp add: receivable_stored_def)
qed

lemma receivable_json: "json_ok False (PDict demo_receivable)"
  by (simp add: demo_receivable_def receivable_filters_def char_ok_def py_def)

lemma receivable_undisturbed:
  "undisturbed report_frappe live_clock receivable_delivery (py ''+12025550123'') live_site live_original live_copy receivable_stored
     (new_capture peer_key)"
proof -
  have "filters_storable report_frappe live_site RECEIVABLE (PDict demo_receivable)"
    using receivable_json by (simp add: filters_storable_def receivable_valid receivable_fields py_def)
  then have "accepted_delivery report_frappe live_site receivable_delivery (py ''+12025550123'')"
    using receivable_accepted [OF live_site_fields(1,2)] unfolding accepted_delivery_def by blast
  moreover have "get_transport report_frappe LINKED_DEVICE = Inr linked_device"
    by (simp add: get_transport_def transport_registry_def report_unaffected build_transports_def)
       (simp add: BUILTIN_TRANSPORTS_def LINKED_DEVICE_def linked_device_def bundled_sender_def)
  moreover have "plain_delivery report_frappe receivable_delivery"
    by (simp add: plain_delivery_def report_unaffected receivable_delivery_def demo_name_def list_all_iff)
       (simp add: py_def plain_ascii pdf_header_def startswith_def pdf_name_def replace_char_def RECEIVABLE_def)
  moreover have "peer_of_site (new_capture peer_key) live_site"
    by (simp add: peer_of_site_def new_capture_def lookup_def)
  moreover have "line_works report_frappe live_clock \<lparr>bn_site = receivable_stored, bn_peer = new_capture peer_key\<rparr>"
  proof -
    have "strip_bytes (replicate 32 65) = replicate 32 65" by (simp add: strip_bytes_def byte_space_def numeral_eq_Suc)
    then have "secret report_frappe = Inr peer_key" by (simp add: secret_def report_unaffected peer_key_def Let_def)
    moreover have "clocks_agree report_frappe n 6000000" for n
      by (simp add: clocks_agree_def report_unaffected str_of_int_def digits_of_nat.simps [of 5])
    moreover have "inj (fr_nonce report_frappe)" by (rule injI) (metis report_unaffected(2) length_replicate nat.inject)
    ultimately show ?thesis
      by (simp add: line_works_def hex_digests_def report_unaffected new_capture_def live_clock_def fresh_nonce_def list_all_iff)
  qed
  ultimately show ?thesis
    using receivable_queued
    by (simp add: undisturbed_def prepared_def lists_all_def report_unaffected not_copied_def live_site_fields new_capture_def)
qed

section \<open>Properties\<close>

text \<open>C17. A report and its group copy arrive. Where the sender may read journal entries and do nothing else with
  them, the report of the framework is bound to the customer, the report was accepted and nothing stands
  in the way of its delivery, the stage \<open>report_pdf_queue_and_native_rq_workers\<close> passes: the filters it
  validates name the one customer, those stored with the record read back the same, the original and the
  copy are sent, and no job is left.\<close>

theorem report_and_copy_arrive:
  assumes "report_ready fr enabled clock nt conditions condition company customer today d number s p c t P w"
  shows "\<exists>w' h k. report_stage fr enabled clock nt conditions condition company customer today w = (Inr (), w')
    \<and> rq_jobs (nt_rq nt) w' = [] \<and> native_history nt (sd_name p) w' = Inr h \<and> h_status h = Submitted_to_WhatsApp
    \<and> native_history nt (sd_name c) w' = Inr k \<and> h_status k = Submitted_to_WhatsApp"
  using report_stage_runs [OF assms] by metis

definition receivable_start :: live_world where
  "receivable_start = (\<lparr>bn_site = live_site, bn_peer = new_capture peer_key\<rparr>, [], [])"

theorem report_and_copy_arrive_witness:
  "\<exists>w' h k. report_stage report_frappe True live_clock (live_native report_frappe) demo_conditions demo_condition
       (py ''Co'') (py ''ACME'') (py ''2026-01-01'') receivable_start = (Inr (), w')
     \<and> rq_jobs (live_rq report_frappe) w' = []
     \<and> native_history (live_native report_frappe) (demo_name 2) w' = Inr h \<and> h_status h = Submitted_to_WhatsApp
     \<and> native_history (live_native report_frappe) (demo_name 6) w' = Inr k \<and> h_status k = Submitted_to_WhatsApp"
proof -
  have names: "list_all plain_char (sd_name live_original)" "list_all plain_char (sd_name live_copy)"
    by (simp_all add: live_original_def live_copy_def demo_name_def list_all_iff plain_ascii)
  have "demo_conditions demo_receivable = Inr [demo_condition (py ''ACME'')]"
    by (simp add: demo_conditions_def demo_receivable_def receivable_filters_def dget_def py_def)
  moreover have "may_only_read report_frappe u (py ''Journal Entry'')" for u
    by (simp add: may_only_read_def report_fields py_def)
  moreover have "native_works report_frappe True live_clock (live_native report_frappe)"
    by (rule live_native_works [OF report_unaffected(1)])
  moreover have "nt_bench (live_native report_frappe) receivable_start = \<lparr>bn_site = live_site, bn_peer = new_capture peer_key\<rparr>"
    "rq_jobs (nt_rq (live_native report_frappe)) receivable_start = []"
    by (simp_all add: live_native_def live_rq_def receivable_start_def)
  ultimately have "report_ready report_frappe True live_clock (live_native report_frappe) demo_conditions demo_condition
       (py ''Co'') (py ''ACME'') (py ''2026-01-01'') receivable_delivery (py ''+12025550123'') live_site live_original live_copy
       receivable_stored (new_capture peer_key) receivable_start"
    using names receivable_json receivable_accepted [OF live_site_fields(1,2)] receivable_undisturbed receivable_group
    unfolding report_ready_def demo_receivable_def by (simp add: report_unaffected)
  from report_and_copy_arrive [OF this] show ?thesis by (simp add: live_native_def live_original_def live_copy_def)
qed

end
