(* ===== verification/Enabled_Stage.thy ===== *)
theory Enabled_Stage
  imports Stages Installation_Checks
begin

text \<open>
  The stage \<open>enabled_configuration_and_repeated_migration\<close> of \<open>group_acceptance.py\<close>: the group of the
  fixture company is enabled, the site lists the groups of the peer, another company has none, and
  two migrations leave the rows of the mapping as they were.
\<close>

section \<open>The stage\<close>

definition enable_fixture :: "settings \<Rightarrow> exn + settings" where
  "enable_fixture st =
     (case st_company_groups st of
        [] \<Rightarrow> raise IndexError ''list index out of range''
      | row # rows \<Rightarrow> Inr (st\<lparr>st_enabled := True, st_maximum_retries := Some 1, st_require_submitted_documents := False,
          st_company_groups := row\<lparr>g_enabled := True\<rparr> # rows\<rparr>))"

definition first_row :: "settings \<Rightarrow> exn + company_group" where
  "first_row st =
     (case st_company_groups st of [] \<Rightarrow> raise IndexError ''list index out of range'' | row # _ \<Rightarrow> Inr row)"

definition enable_and_list :: "pystr \<Rightarrow> pystr \<Rightarrow> frappe \<Rightarrow> (site, settings) act" where
  "enable_and_list company other fr =
     bindA (reads (\<lambda>s. enable_fixture (s_settings s))) (\<lambda>st.
     bindA (save_settings fr st) (\<lambda>_.
     bindA (reads (\<lambda>s. bindR (first_row (s_settings s)) (\<lambda>row. asserts (g_group_id row = PStr GROUP) ''''))) (\<lambda>_.
     bindA (list_groups fr (PStr company)) (\<lambda>groups.
     bindA (reads (\<lambda>_. asserts (list_ex (\<lambda>(g, _). g = GROUP) groups) '''')) (\<lambda>_.
     bindA (reads (\<lambda>s. bindR (first_row (s_settings s)) (\<lambda>row. asserts (g_enabled row) ''''))) (\<lambda>_.
     bindA (reads (\<lambda>s. bindR (configured_group fr (s_settings s) (PStr other) s) (\<lambda>g. asserts (g = None) ''''))) (\<lambda>_.
       reads (\<lambda>s. Inr (s_settings s)))))))))"

text \<open>The rows with the names the framework gave them, which are outside.\<close>

definition mapping_rows :: "pystr list \<Rightarrow> settings \<Rightarrow> (pystr \<times> pystr \<times> pyval \<times> bool) list" where
  "mapping_rows names st =
     map (\<lambda>(n, row). (n, g_company row, g_group_id row, g_enabled row)) (zip names (st_company_groups st))"

text \<open>\<open>migrate\<close> is \<open>bench --site integration.local migrate\<close>, in a process of its own.\<close>

definition enabled_stage ::
  "frappe \<Rightarrow> (nat \<Rightarrow> int) \<Rightarrow> 'w native \<Rightarrow> ('w \<Rightarrow> pystr list) \<Rightarrow> ('w, unit) act \<Rightarrow> pystr \<Rightarrow> pystr \<Rightarrow> ('w, unit) act" where
  "enabled_stage fr clock nt names migrate company other =
     bindA (in_parent fr clock nt (enable_and_list company other)) (\<lambda>st.
     bindA (reads (\<lambda>w. Inr (mapping_rows (names w) st))) (\<lambda>snapshot.
     bindA migrate (\<lambda>_.
     bindA migrate (\<lambda>_.
       reads (\<lambda>w. asserts (snapshot = mapping_rows (names w) (s_settings (bn_site (nt_bench nt w)))) '''')))))"

section \<open>The peer lists its groups\<close>

definition fixture_groups :: "pystr rows" where
  "fixture_groups = [(GROUP, py ''Synthetic company group''), (OTHER_GROUP, py ''Synthetic other group'')]"

definition groups_answer :: pyval where
  "groups_answer = PDict [(py ''groups'', PList
     [PDict [(py ''id'', PStr GROUP), (py ''name'', PStr (py ''Synthetic company group''))],
      PDict [(py ''id'', PStr OTHER_GROUP), (py ''name'', PStr (py ''Synthetic other group''))]])]"

text \<open>The line to the peer works for the request with the number \<open>n\<close>.\<close>

definition line_open :: "frappe \<Rightarrow> int \<Rightarrow> capture \<Rightarrow> nat \<Rightarrow> bool" where
  "line_open fr now p n \<longleftrightarrow>
     hex_digests fr \<and> secret fr = Inr (p_key p) \<and> fr_site fr = FIXTURE_SITE \<and> clocks_agree fr n now \<and> fresh_nonce fr n p"

lemma fixture_group_ids: "group_id (PStr GROUP) = Inr GROUP" "group_id (PStr OTHER_GROUP) = Inr OTHER_GROUP"
  by (simp_all add: group_id_def GROUP_def OTHER_GROUP_def matches_group_def py_def is_ascii_digit_def digit_run_def Let_def)

lemma groups_read: "read_groups groups_answer = Inr fixture_groups"
proof -
  have other: "GROUP \<noteq> OTHER_GROUP" by (simp add: GROUP_def OTHER_GROUP_def py_def)
  show ?thesis
    using other by (simp add: read_groups_def groups_answer_def response_get_def dget_def joined_row_def fixture_group_ids
        or_empty_def or_else_def py_str_def fixture_groups_def row_put_def py_def)
qed

lemma groups_answer_read: "read_response 200 (json_dumps default_style groups_answer) = Inr groups_answer"
proof -
  have "json_ok True groups_answer"
    by (simp add: groups_answer_def GROUP_def OTHER_GROUP_def char_ok_plain [abs_def]) (simp add: py_def plain_ascii)
  then have "json_loads (json_dumps default_style groups_answer) = Inr groups_answer"
    by (intro json_loads_dumps [OF style_ok_used(1)]) (simp add: default_style_def)
  moreover have "json_dumps default_style groups_answer \<noteq> []" by (simp add: groups_answer_def Let_def)
  ultimately show ?thesis by (simp add: read_response_def)
qed

lemma peer_lists_groups:
  assumes line: "line_open fr now p (s_ticks s)"
  shows "\<exists>t. joined_groups (connected fr now p) s = (Inr fixture_groups, t) \<and> s_settings t = s_settings s
    \<and> s_user t = s_user s \<and> s_ticks t = Suc (s_ticks s) \<and> s_jobs t = s_jobs s \<and> s_templates t = s_templates s"
proof -
  let ?v = "PDict [(py ''tenant_id'', PStr FIXTURE_SITE)]"
  have same: "build_request (connected fr now p) = build_request fr"
    by (unfold build_request_def [abs_def] secret_def [abs_def] connected_fields, rule refl)
  have payload: "site_payload (connected fr now p) [] = ?v" using line by (simp add: site_payload_def line_open_def)
  have "json_ok True ?v" by (simp add: FIXTURE_SITE_def char_ok_plain [abs_def]) (simp add: py_def plain_ascii)
  moreover have "list_all plain_char (py ''/v1/groups'')" by (simp add: py_def plain_ascii)
  ultimately obtain q where q: "build_request fr (s_ticks s) (py ''/v1/groups'') ?v = Inr q" "loads_body (rq_body q) = Inr ?v"
    "rq_path q = py ''/v1/groups''" "list_all (\<lambda>c. c < 128) (rq_signature q)"
    using line honest_request_built [of fr "p_key p" ?v "s_ticks s" "py ''/v1/groups''"] by (auto simp: line_open_def fresh_nonce_def)
  have "handle fr now q p = serve (rq_path q) ?v (p\<lparr>p_nonces := rq_nonce q # p_nonces p\<rparr>)"
    by (rule honest_request_served [OF q(1,2)]) (use line q(4) in \<open>simp_all add: line_open_def\<close>)
  also have "\<dots> = (Inr (200, groups_answer), p\<lparr>p_nonces := rq_nonce q # p_nonces p\<rparr>)"
    by (simp add: serve_def q(3) dget_def groups_answer_def ret_def)
  finally have "fst (do_POST fr now q p) = Response 200 (json_dumps default_style groups_answer)"
    by (simp add: do_POST_def)
  then have "gateway_request (connected fr now p) (py ''/v1/groups'') (site_payload (connected fr now p) []) default_timeout s
      = (Inr groups_answer, s\<lparr>s_ticks := Suc (s_ticks s), s_wire := s_wire s @ [Http q]\<rparr>)"
    by (simp add: gateway_request_iff same payload q(1) groups_answer_read)
  then show ?thesis by (simp add: joined_groups_def bindA_def reads_def groups_read)
qed

section \<open>It passes\<close>

text \<open>The fixture row is the only one and disabled; who acts may change the settings and read the company.\<close>

definition fixture_ready :: "frappe \<Rightarrow> pystr \<Rightarrow> pystr \<Rightarrow> site \<Rightarrow> bool" where
  "fixture_ready fr company other s \<longleftrightarrow>
     (case st_company_groups (s_settings s) of
        [row] \<Rightarrow> g_company row = company \<and> g_group_id row = PStr GROUP \<and> \<not> g_enabled row
      | _ \<Rightarrow> False)
     \<and> st_provider (s_settings s) = LINKED_DEVICE \<and> company \<noteq> other
     \<and> fr_can fr (s_user s) (py ''write'') SETTINGS None \<and> company_check fr s (PStr company) = Inr ()"

lemma company_check_same_user: "s_user t = s_user s \<Longrightarrow> company_check fr t v = company_check fr s v"
proof -
  assume "s_user t = s_user s"
  then have "check_permission fr t = check_permission fr s" by (simp add: check_permission_def fun_eq_iff)
  then show ?thesis by (cases v) (simp_all add: company_check_def)
qed

lemma company_check_connected [simp]: "company_check (connected fr now p) = company_check fr"
  by (unfold company_check_def [abs_def] check_permission_def [abs_def] get_doc_def [abs_def] connected_fields, rule refl)

lemma fixture_saved:
  assumes ready: "fixture_ready fr company other s" and line: "line_open fr now p (s_ticks s)"
    and row: "st_company_groups (s_settings s) = [row]" and st: "enable_fixture (s_settings s) = Inr st"
  shows "\<exists>t. save_settings (connected fr now p) st s = (Inr (), t)
    \<and> st_company_groups (s_settings t) = [row\<lparr>g_enabled := True, g_group_name := py ''Synthetic company group''\<rparr>]
    \<and> st_provider (s_settings t) = LINKED_DEVICE \<and> s_user t = s_user s \<and> s_ticks t = Suc (s_ticks s)
    \<and> s_jobs t = s_jobs s \<and> s_templates t = s_templates s"
proof -
  have fixture: "g_company row = company" "g_group_id row = PStr GROUP" "\<not> g_enabled row" "st_provider (s_settings s) = LINKED_DEVICE"
    "company_check fr s (PStr company) = Inr ()"
    using ready row by (simp_all add: fixture_ready_def)
  have saved: "st_company_groups st = [row\<lparr>g_enabled := True\<rparr>]" "st_provider st = LINKED_DEVICE"
    using st row fixture(4) by (auto simp: enable_fixture_def)
  let ?st = "clamp_settings st"
  have clamped: "st_company_groups ?st = [row\<lparr>g_enabled := True\<rparr>]" "st_provider ?st = LINKED_DEVICE"
    using saved by (simp_all add: clamp_settings_def)
  have changed: "changed_companies (Some (s_settings s)) ?st = [company]"
    using fixture(1,3) by (simp add: changed_companies_def group_state_def companies_def row saved clamped dict_fromkeys_def)
  have guard: "settings_guard (connected fr now p) (Some (s_settings s)) ?st s = Inr ()"
    using changed fixture(5) by (simp add: settings_guard_def companies_def saved clamped)
  obtain t where t: "joined_groups (connected fr now p) s = (Inr fixture_groups, t)" "s_user t = s_user s"
    "s_ticks t = Suc (s_ticks s)" "s_jobs t = s_jobs s" "s_templates t = s_templates s"
    using peer_lists_groups [OF line] by blast
  have checked: "check_row fixture_groups (row\<lparr>g_enabled := True\<rparr>)
      = Inr (row\<lparr>g_enabled := True, g_group_name := py ''Synthetic company group''\<rparr>)"
    using fixture(2) by (simp add: check_row_def fixture_group_ids fixture_groups_def row_get_def)
  have "LINKED_DEVICE \<in> set PROVIDERS" by (simp add: LINKED_DEVICE_def PROVIDERS_def)
  then show ?thesis
    using t
    by (simp add: saved save_settings_def bindA_def reads_def validate_settings_doc_def validate_settings_def guard changed
        enabled_rows_def clamped checked ret_def modifies_def)
qed

lemma listing_runs:
  assumes "line_open fr now p (s_ticks s)" and "fr_can fr (s_user s) (py ''write'') SETTINGS None"
    and "company_check fr s (PStr company) = Inr ()" and "st_provider (s_settings s) = LINKED_DEVICE"
  shows "\<exists>t. list_groups (connected fr now p) (PStr company) s = (Inr fixture_groups, t) \<and> s_settings t = s_settings s
    \<and> s_user t = s_user s \<and> s_jobs t = s_jobs s \<and> s_templates t = s_templates s"
proof -
  have "map (\<lambda>(key, name). (key, if name = [] then py ''Unnamed group'' else name)) fixture_groups = fixture_groups"
    by (simp add: fixture_groups_def py_def)
  then show ?thesis
    using peer_lists_groups [OF assms(1)] assms(2-) by (auto simp: list_groups_def bindA_def reads_def ret_def)
qed

lemma enable_and_list_runs:
  assumes ready: "fixture_ready fr company other s"
    and line: "line_open fr now p (s_ticks s)" "line_open fr now p (Suc (s_ticks s))"
    and row: "st_company_groups (s_settings s) = [row]"
  shows "\<exists>t. enable_and_list company other (connected fr now p) s = (Inr (s_settings t), t)
    \<and> st_company_groups (s_settings t) = [row\<lparr>g_enabled := True, g_group_name := py ''Synthetic company group''\<rparr>]
    \<and> s_jobs t = s_jobs s \<and> s_templates t = s_templates s"
proof -
  obtain st where st: "enable_fixture (s_settings s) = Inr st" using row by (simp add: enable_fixture_def)
  obtain t where t: "save_settings (connected fr now p) st s = (Inr (), t)"
    "st_company_groups (s_settings t) = [row\<lparr>g_enabled := True, g_group_name := py ''Synthetic company group''\<rparr>]"
    "st_provider (s_settings t) = LINKED_DEVICE" "s_user t = s_user s" "s_ticks t = Suc (s_ticks s)"
    "s_jobs t = s_jobs s" "s_templates t = s_templates s"
    using fixture_saved [OF ready line(1) row st] by blast
  have fixture: "g_group_id row = PStr GROUP" "g_company row = company" "company \<noteq> other"
    using ready row by (simp_all add: fixture_ready_def)
  obtain u where u: "list_groups (connected fr now p) (PStr company) t = (Inr fixture_groups, u)" "s_settings u = s_settings t"
    "s_jobs u = s_jobs t" "s_templates u = s_templates t"
  proof -
    have "company_check fr t (PStr company) = Inr ()"
      using ready t(4) company_check_same_user [of t s fr] by (simp add: fixture_ready_def)
    then show thesis
      using that listing_runs [of fr now p t company] line(2) ready t(3-5) by (auto simp: fixture_ready_def)
  qed
  have listed: "list_ex (\<lambda>(g, _). g = GROUP) fixture_groups" by (simp add: fixture_groups_def)
  have none: "configured_group (connected fr now p) (s_settings t) (PStr other) u = Inr None"
    using fixture(2,3) by (simp add: configured_group_def t(2))
  have "enable_and_list company other (connected fr now p) s = (Inr (s_settings u), u)"
    using u by (simp add: enable_and_list_def bindA_def reads_def st t(1,2) first_row_def asserts_def fixture(1) listed none)
  then show ?thesis using u t by auto
qed

text \<open>A migration runs the hook \<open>after_migrate\<close> on the committed site and keeps the rows and their names.\<close>

definition migrates :: "frappe \<Rightarrow> 'w native \<Rightarrow> ('w \<Rightarrow> pystr list) \<Rightarrow> ('w, unit) act \<Rightarrow> bool" where
  "migrates fr nt names migrate \<longleftrightarrow>
     (\<forall>w t. after_migrate fr (bn_site (nt_bench nt w)) = (Inr (), t) \<longrightarrow>
        (\<exists>w'. migrate w = (Inr (), w') \<and> names w' = names w \<and> bn_site (nt_bench nt w') = t))"

lemma enabled_stage_runs:
  assumes works: "native_works fr enabled clock nt" and migrates: "migrates fr nt names migrate"
    and bench: "nt_bench nt w = \<lparr>bn_site = s, bn_peer = p\<rparr>" and ids: "distinct (map jb_id (rq_jobs (nt_rq nt) w))"
    and ready: "fixture_ready fr company other s" and templates: "no_rival_default (s_templates s)" "row_wf (s_templates s)"
    and line: "line_open fr (clock (s_ticks s)) p (s_ticks s)" "line_open fr (clock (s_ticks s)) p (Suc (s_ticks s))"
  obtains w' row where "enabled_stage fr clock nt names migrate company other w = (Inr (), w')"
    and "st_company_groups (s_settings (bn_site (nt_bench nt w'))) = [row]"
    and "g_company row = company" "g_group_id row = PStr GROUP" "g_enabled row"
proof -
  obtain row where row: "st_company_groups (s_settings s) = [row]" and fixture: "g_company row = company" "g_group_id row = PStr GROUP"
    using ready by (auto simp: fixture_ready_def split: list.splits)
  let ?row = "row\<lparr>g_enabled := True, g_group_name := py ''Synthetic company group''\<rparr>"
  obtain t where t: "enable_and_list company other (connected fr (clock (s_ticks s)) p) s = (Inr (s_settings t), t)"
    "st_company_groups (s_settings t) = [?row]" "s_jobs t = s_jobs s" "s_templates t = s_templates s"
    using enable_and_list_runs [OF ready line row] by blast
  obtain b where b: "on_bench fr clock (enable_and_list company other) (nt_bench nt w) = (Inr (s_settings t), b)" "bn_site b = t"
    by (simp add: bench on_bench_def t(1))
  have new: "new_jobs (nt_bench nt w) b = []" by (simp add: new_jobs_def bench b(2) t(3))
  let ?w = "nt_commit nt b w"
  have first: "in_parent fr clock nt (enable_and_list company other) w = (Inr (s_settings t), ?w)"
    using b(1) by (simp add: in_parent_def)
  have site: "bn_site (nt_bench nt ?w) = t" using commit_runs(1) [OF works new] ids b(2) by simp
  obtain u where u: "after_migrate fr t = (Inr (), u)" "after_migrate fr u = (Inr (), u)"
    using migration_settles [of t fr] templates(1) t(4) by auto
  have kept: "s_settings u = s_settings t"
    using keeps_result [OF keeps_after_migrate u(1)] templates(2) t(4) by (simp add: templates_wf_def)
  obtain w1 where w1: "migrate ?w = (Inr (), w1)" "names w1 = names ?w" "bn_site (nt_bench nt w1) = u"
    using migrates u(1) site unfolding migrates_def by metis
  obtain w2 where w2: "migrate w1 = (Inr (), w2)" "names w2 = names w1" "bn_site (nt_bench nt w2) = u"
    using migrates u(2) w1(3) unfolding migrates_def by metis
  have "enabled_stage fr clock nt names migrate company other w = (Inr (), w2)"
    using w1 w2 by (simp add: enabled_stage_def bindA_def reads_def first asserts_def kept)
  moreover have "st_company_groups (s_settings (bn_site (nt_bench nt w2))) = [?row]" by (simp add: w2(3) kept t(2))
  moreover have "g_company ?row = company" "g_group_id ?row = PStr GROUP" "g_enabled ?row" by (simp_all add: fixture)
  ultimately show thesis by (rule that)
qed

end
