(* ===== verification/Fixture.thy ===== *)
theory Fixture
  imports Harness Diagnostics
begin

text \<open>
  \<open>setup_documents\<close> of \<open>group_acceptance.py\<close>: the documents, roles, permissions and users the
  acceptance run works with. Everything it does is a call to the framework; the state is the list of
  the calls that were answered, and any answers are possible.
\<close>

section \<open>Calls to the framework\<close>

text \<open>
  \<open>frappe.get_doc(doctype, name)\<close>, inserting a document, \<open>frappe.db.exists\<close>, \<open>frappe.db.get_value\<close>,
  \<open>get_root_of\<close>, \<open>add_permission(doctype, role, ptype)\<close>, saving a document with some fields changed,
  \<open>frappe.get_all\<close> of one field, \<open>frappe.clear_cache\<close>, a random token, \<open>update_password\<close>,
  \<open>date.today()\<close>, and the commit. A document is the dictionary of its fields; a date is its text.
\<close>

datatype fixture_call =
    Get_Doc pystr pyval
  | Insert pystr "(pystr \<times> pyval) list"
  | Exists pystr pystr
  | Get_Value pystr "(pystr \<times> pyval) list" pystr
  | Get_Root pystr
  | Add_Permission pystr pyval pystr
  | Save pystr pyval "(pystr \<times> pyval) list"
  | Get_All pystr "(pystr \<times> pyval) list" pystr
  | Clear_Cache pystr
  | New_Token
  | Set_Password pyval pyval
  | Today
  | Commit

text \<open>\<open>desk calls call\<close>: the answer to a call after other calls.\<close>

type_synonym desk = "fixture_call list \<Rightarrow> fixture_call \<Rightarrow> exn + pyval"
type_synonym 'a preparing = "(fixture_call list, 'a) act"

definition ask :: "desk \<Rightarrow> fixture_call \<Rightarrow> pyval preparing" where
  "ask desk call calls =
     (case desk calls call of Inl e \<Rightarrow> (Inl e, calls) | Inr v \<Rightarrow> (Inr v, calls @ [call]))"

text \<open>\<open>document.name\<close> and other fields.\<close>

definition attribute :: "pyval \<Rightarrow> string \<Rightarrow> exn + pyval" where
  "attribute v name =
     (case v of
        PDict d \<Rightarrow> (case map_of d (py name) of None \<Rightarrow> Inl (Exn AttributeError (py name) False) | Some w \<Rightarrow> Inr w)
      | _ \<Rightarrow> Inl (Exn AttributeError (py name) False))"

definition insert_named :: "desk \<Rightarrow> pystr \<Rightarrow> (pystr \<times> pyval) list \<Rightarrow> pyval preparing" where
  "insert_named desk doctype entries = bindA (ask desk (Insert doctype entries)) (\<lambda>doc. reads (\<lambda>_. attribute doc ''name''))"

abbreviation ptext :: "string \<Rightarrow> pyval" where
  "ptext t \<equiv> PStr (py t)"

section \<open>The records\<close>

definition fixture_tree_leaf :: "frappe \<Rightarrow> bool \<Rightarrow> desk \<Rightarrow> pystr \<Rightarrow> pystr \<Rightarrow> pystr \<Rightarrow> pystr \<Rightarrow> pyval preparing" where
  "fixture_tree_leaf fr enabled desk doctype field_name parent_field name =
     bindA (reads (\<lambda>_. require_fixture_site fr enabled)) (\<lambda>_.
     bindA (ask desk (Get_Root doctype)) (\<lambda>root.
     bindA (if truthy root then ret root
            else insert_named desk doctype [(field_name, PStr (name @ py '' Root'')), (py ''is_group'', PInt 1)]) (\<lambda>root.
       insert_named desk doctype [(field_name, PStr name), (parent_field, root), (py ''is_group'', PInt 0)])))"

definition other_company :: "desk \<Rightarrow> pyval preparing" where
  "other_company desk =
     ask desk (Insert (py ''Company'') [(py ''company_name'', ptext ''WhatsApp Other Fixture Company''), (py ''abbr'', ptext ''WOF''),
       (py ''default_currency'', ptext ''USD''), (py ''country'', ptext ''United States'')])"

definition calendar :: "desk \<Rightarrow> pyval preparing" where
  "calendar desk =
     bindA (ask desk (Exists (py ''UOM'') (py ''Unit''))) (\<lambda>there.
     bindA (if truthy there then ret PNone else ask desk (Insert (py ''UOM'') [(py ''uom_name'', ptext ''Unit'')])) (\<lambda>_.
     bindA (ask desk Today) (\<lambda>today.
     bindA (reads (\<lambda>_. case today of PStr t \<Rightarrow> Inr (take 4 t) | _ \<Rightarrow> raise TypeError ''date'')) (\<lambda>year.
     bindA (ask desk (Exists (py ''Fiscal Year'') year)) (\<lambda>there.
     bindA (if truthy there then ret PNone
            else ask desk (Insert (py ''Fiscal Year'') [(py ''year'', PStr year), (py ''year_start_date'', PStr (year @ py ''-01-01'')),
                   (py ''year_end_date'', PStr (year @ py ''-12-31''))])) (\<lambda>_.
       ret today))))))"

definition customer_document :: "desk \<Rightarrow> pyval \<Rightarrow> pyval \<Rightarrow> pyval preparing" where
  "customer_document desk customer_group territory =
     ask desk (Insert (py ''Customer'') [(py ''customer_name'', ptext ''WhatsApp Synthetic Customer''),
       (py ''customer_type'', ptext ''Company''), (py ''customer_group'', customer_group), (py ''territory'', territory),
       (py ''mobile_no'', ptext ''+12025550123'')])"

definition item_document :: "desk \<Rightarrow> pyval \<Rightarrow> pyval preparing" where
  "item_document desk item_group =
     ask desk (Insert (py ''Item'') [(py ''item_code'', ptext ''WHATSAPP-FIXTURE-ITEM''), (py ''item_name'', ptext ''Synthetic delivery fixture''),
       (py ''item_group'', item_group), (py ''stock_uom'', ptext ''Unit''), (py ''is_stock_item'', PInt 0)])"

definition income_account :: "desk \<Rightarrow> pyval \<Rightarrow> pyval preparing" where
  "income_account desk company_name =
     bindA (ask desk (Get_Value (py ''Account'') [(py ''company'', company_name), (py ''account_type'', ptext ''Income Account''),
         (py ''is_group'', PInt 0)] (py ''name''))) (\<lambda>account.
       if truthy account then ret account
       else ask desk (Get_Value (py ''Account'') [(py ''company'', company_name), (py ''root_type'', ptext ''Income''),
         (py ''is_group'', PInt 0)] (py ''name'')))"

text \<open>A rate of 12.34 is the text of the number here: \<open>pyval\<close> has no fractions.\<close>

definition invoice_fields :: "pyval \<Rightarrow> pyval \<Rightarrow> pyval \<Rightarrow> pyval \<Rightarrow> pyval \<Rightarrow> pyval \<Rightarrow> exn + (pystr \<times> pyval) list" where
  "invoice_fields company customer item_doc income price_list today =
     bindR (attribute company ''name'') (\<lambda>company_name. bindR (attribute customer ''name'') (\<lambda>customer_name.
     bindR (attribute company ''default_currency'') (\<lambda>currency. bindR (attribute price_list ''name'') (\<lambda>list_name.
     bindR (attribute price_list ''currency'') (\<lambda>list_currency. bindR (attribute company ''default_receivable_account'') (\<lambda>receivable.
     bindR (attribute item_doc ''name'') (\<lambda>item_name. bindR (attribute company ''cost_center'') (\<lambda>cost_center.
       Inr [(py ''company'', company_name), (py ''customer'', customer_name), (py ''posting_date'', today), (py ''due_date'', today),
         (py ''currency'', currency), (py ''conversion_rate'', PInt 1), (py ''selling_price_list'', list_name),
         (py ''price_list_currency'', list_currency), (py ''plc_conversion_rate'', PInt 1), (py ''debit_to'', receivable),
         (py ''items'', PList [PDict [(py ''item_code'', item_name), (py ''qty'', PInt 1), (py ''rate'', ptext ''12.34''),
            (py ''income_account'', income), (py ''cost_center'', cost_center)]])]))))))))"

definition invoice_documents :: "frappe \<Rightarrow> bool \<Rightarrow> desk \<Rightarrow> pyval \<Rightarrow> (pyval \<times> pyval) preparing" where
  "invoice_documents fr enabled desk company =
     bindA (fixture_tree_leaf fr enabled desk (py ''Customer Group'') (py ''customer_group_name'') (py ''parent_customer_group'')
         (py ''WhatsApp Fixture Customers'')) (\<lambda>customer_group.
     bindA (fixture_tree_leaf fr enabled desk (py ''Territory'') (py ''territory_name'') (py ''parent_territory'')
         (py ''WhatsApp Fixture Territory'')) (\<lambda>territory.
     bindA (fixture_tree_leaf fr enabled desk (py ''Item Group'') (py ''item_group_name'') (py ''parent_item_group'')
         (py ''WhatsApp Fixture Items'')) (\<lambda>item_group.
     bindA (calendar desk) (\<lambda>today.
     bindA (customer_document desk customer_group territory) (\<lambda>customer.
     bindA (item_document desk item_group) (\<lambda>item_doc.
     bindA (reads (\<lambda>_. attribute company ''name'')) (\<lambda>company_name.
     bindA (income_account desk company_name) (\<lambda>income.
     bindA (reads (\<lambda>_. attribute company ''default_currency'')) (\<lambda>currency.
     bindA (ask desk (Insert (py ''Price List'') [(py ''price_list_name'', ptext ''Synthetic delivery prices''),
         (py ''currency'', currency), (py ''selling'', PInt 1), (py ''buying'', PInt 0), (py ''enabled'', PInt 1)])) (\<lambda>price_list.
     bindA (reads (\<lambda>_. invoice_fields company customer item_doc income price_list today)) (\<lambda>entries.
     bindA (ask desk (Insert (py ''Sales Invoice'') entries)) (\<lambda>invoice.
       ret (customer, invoice)))))))))))))"

section \<open>Roles and users\<close>

text \<open>\<open>add_permission(target, role, ptype='read')\<close>, then the permission with other flags.\<close>

definition grant :: "desk \<Rightarrow> pyval \<Rightarrow> (pystr \<Rightarrow> (pystr \<times> pyval) list) \<Rightarrow> pystr \<Rightarrow> (fixture_call list, unit) act" where
  "grant desk role flags target =
     bindA (ask desk (Add_Permission target role (py ''read''))) (\<lambda>name.
     bindA (ask desk (Get_Doc (py ''Custom DocPerm'') name)) (\<lambda>_.
     bindA (ask desk (Save (py ''Custom DocPerm'') name (flags target))) (\<lambda>_. ret ())))"

definition grant_report :: "desk \<Rightarrow> pyval \<Rightarrow> pystr \<Rightarrow> (fixture_call list, unit) act" where
  "grant_report desk role target =
     bindA (grant desk role (\<lambda>_. [(py ''print'', PInt 1), (py ''report'', PInt 1)]) target) (\<lambda>_.
     bindA (ask desk (Clear_Cache target)) (\<lambda>_. ret ()))"

definition insert_user :: "desk \<Rightarrow> string \<Rightarrow> string \<Rightarrow> pyval \<Rightarrow> string \<Rightarrow> pyval preparing" where
  "insert_user desk email first_name role label =
     insert_named desk (py ''User'') [(py ''email'', ptext email), (py ''first_name'', ptext first_name), (py ''enabled'', PInt 1),
       (py ''send_welcome_email'', PInt 0), (py ''user_type'', ptext ''System User''),
       (py ''roles'', PList [PDict [(py ''role'', role)], PDict [(py ''role'', ptext label)]])]"

text \<open>The user is confined to the one company and gets a random password.\<close>

definition confine_user :: "desk \<Rightarrow> pyval \<Rightarrow> pyval \<Rightarrow> pyval preparing" where
  "confine_user desk user company_name =
     bindA (ask desk (Insert (py ''User Permission'') [(py ''user'', user), (py ''allow'', ptext ''Company''),
       (py ''for_value'', company_name), (py ''apply_to_all_doctypes'', PInt 1)])) (\<lambda>_.
     bindA (ask desk New_Token) (\<lambda>password.
     bindA (ask desk (Set_Password user password)) (\<lambda>_. ret password)))"

text \<open>\<open>[{'role': row.role} for row in report.roles] + [{'role': role.name}]\<close>\<close>

fun role_rows :: "pyval list \<Rightarrow> exn + pyval list" where
  "role_rows [] = Inr []"
| "role_rows (row # rows) =
     bindR (attribute row ''role'') (\<lambda>r. bindR (role_rows rows) (\<lambda>rs. Inr (PDict [(py ''role'', r)] # rs)))"

definition report_roles :: "pyval \<Rightarrow> pyval \<Rightarrow> exn + pyval" where
  "report_roles report role =
     bindR (attribute report ''roles'') (\<lambda>rows.
       case rows of
         PList rows \<Rightarrow> bindR (role_rows rows) (\<lambda>rs. Inr (PList (rs @ [PDict [(py ''role'', role)]])))
       | _ \<Rightarrow> raise TypeError ''object is not iterable'')"

definition fixture_sender :: "desk \<Rightarrow> pyval \<Rightarrow> (pyval \<times> pyval) preparing" where
  "fixture_sender desk company_name =
     bindA (insert_named desk (py ''Role'') [(py ''role_name'', ptext ''Synthetic company report reader''), (py ''desk_access'', PInt 1)]) (\<lambda>role.
     bindA (foldA (grant_report desk role) [py ''Company'', py ''Customer'', py ''Sales Invoice'', py ''Account'', py ''GL Entry'']) (\<lambda>_.
     bindA (ask desk (Add_Permission (py ''Journal Entry'') role (py ''read''))) (\<lambda>_.
     bindA (ask desk (Clear_Cache (py ''Journal Entry''))) (\<lambda>_.
     bindA (ask desk (Get_Doc (py ''Report'') (ptext ''Accounts Receivable''))) (\<lambda>report.
     bindA (reads (\<lambda>_. attribute report ''name'')) (\<lambda>report_name.
     bindA (reads (\<lambda>_. report_roles report role)) (\<lambda>roles.
     bindA (ask desk (Insert (py ''Custom Role'') [(py ''report'', report_name), (py ''roles'', roles)])) (\<lambda>_.
     bindA (insert_user desk ''group.sender@example.invalid'' ''Synthetic Sender'' role ''ERPNext WhatsApp Sender'') (\<lambda>user.
     bindA (confine_user desk user company_name) (\<lambda>password. ret (user, password)))))))))))"

text \<open>The editor's role may write the settings; the managers' label no longer may.\<close>

definition editor_flags :: "pystr \<Rightarrow> (pystr \<times> pyval) list" where
  "editor_flags target = [(py ''write'', PInt (if target = SETTINGS then 1 else 0))]"

definition withdraw_write :: "desk \<Rightarrow> pyval \<Rightarrow> (fixture_call list, unit) act" where
  "withdraw_write desk name =
     bindA (ask desk (Get_Doc (py ''Custom DocPerm'') name)) (\<lambda>_.
     bindA (ask desk (Save (py ''Custom DocPerm'') name [(py ''write'', PInt 0)])) (\<lambda>_. ret ()))"

definition fixture_editor :: "desk \<Rightarrow> pyval \<Rightarrow> (pyval \<times> pyval) preparing" where
  "fixture_editor desk company_name =
     bindA (insert_named desk (py ''Role'') [(py ''role_name'', ptext ''Synthetic settings writer''), (py ''desk_access'', PInt 1)]) (\<lambda>role.
     bindA (foldA (grant desk role editor_flags) [py ''Company'', SETTINGS]) (\<lambda>_.
     bindA (ask desk (Get_All (py ''Custom DocPerm'') [(py ''parent'', PStr SETTINGS), (py ''role'', ptext ''ERPNext WhatsApp Manager'')] (py ''name''))) (\<lambda>names.
     bindA (reads (\<lambda>_. case names of PList ns \<Rightarrow> Inr ns | _ \<Rightarrow> raise TypeError ''object is not iterable'')) (\<lambda>names.
     bindA (foldA (withdraw_write desk) names) (\<lambda>_.
     bindA (ask desk (Clear_Cache SETTINGS)) (\<lambda>_.
     bindA (insert_user desk ''group.editor@example.invalid'' ''Synthetic Editor'' role ''ERPNext WhatsApp Manager'') (\<lambda>editor.
     bindA (confine_user desk editor company_name) (\<lambda>password. ret (editor, password)))))))))"

definition setup_documents ::
  "frappe \<Rightarrow> bool \<Rightarrow> desk \<Rightarrow> (pyval \<times> pyval \<times> pyval \<times> pyval \<times> (pyval \<times> pyval) \<times> (pyval \<times> pyval)) preparing" where
  "setup_documents fr enabled desk =
     bindA (reads (\<lambda>_. require_fixture_site fr enabled)) (\<lambda>_.
     bindA (ask desk (Get_Doc (py ''Company'') (ptext ''WhatsApp Fixture Company''))) (\<lambda>company.
     bindA (other_company desk) (\<lambda>other.
     bindA (invoice_documents fr enabled desk company) (\<lambda>(customer, invoice).
     bindA (reads (\<lambda>_. attribute company ''name'')) (\<lambda>company_name.
     bindA (fixture_sender desk company_name) (\<lambda>sender.
     bindA (fixture_editor desk company_name) (\<lambda>editor.
     bindA (ask desk Commit) (\<lambda>_. ret (company, other, customer, invoice, sender, editor)))))))))"

section \<open>Least privilege\<close>

text \<open>Every call is one of a kind, whatever the framework answers.\<close>

definition only_calls :: "(fixture_call \<Rightarrow> bool) \<Rightarrow> 'a preparing \<Rightarrow> bool" where
  "only_calls P m \<longleftrightarrow> (\<forall>calls r calls'. m calls = (r, calls') \<longrightarrow> (\<exists>new. calls' = calls @ new \<and> list_all P new))"

lemma only_callsD: "only_calls P m \<Longrightarrow> m calls = (r, calls') \<Longrightarrow> \<exists>new. calls' = calls @ new \<and> list_all P new"
  by (auto simp: only_calls_def)

lemma only_calls_ask: "P call \<Longrightarrow> only_calls P (ask desk call)"
  by (auto simp: only_calls_def ask_def split: sum.splits)

lemma only_calls_stay: "only_calls P (reads f)" "only_calls P (ret x)"
  by (auto simp: only_calls_def reads_def ret_def)

lemma only_calls_bindA: "only_calls P m \<Longrightarrow> (\<And>x. only_calls P (f x)) \<Longrightarrow> only_calls P (bindA m f)"
  unfolding only_calls_def bindA_def by (fastforce split: prod.splits sum.splits)

lemma only_calls_if: "only_calls P m \<Longrightarrow> only_calls P n \<Longrightarrow> only_calls P (if b then m else n)"
  by simp

lemma only_calls_foldA: "(\<And>x. x \<in> set xs \<Longrightarrow> only_calls P (f x)) \<Longrightarrow> only_calls P (foldA f xs)"
  by (induction xs) (auto intro: only_calls_bindA only_calls_stay)

lemmas only_calls_intros = only_calls_bindA only_calls_stay only_calls_ask only_calls_if only_calls_foldA

text \<open>Permissions are added for reading, and then only printing, reporting and, for the settings, writing
  are set; no permission is inserted past \<open>add_permission\<close>, and no user gets the label of a system
  manager.\<close>

definition flags_within :: "string list \<Rightarrow> (pystr \<times> pyval) list \<Rightarrow> bool" where
  "flags_within names changes \<longleftrightarrow> set (map fst changes) \<subseteq> set (map py names)"

definition restrained :: "string list \<Rightarrow> fixture_call \<Rightarrow> bool" where
  "restrained names call \<longleftrightarrow>
     (case call of
        Add_Permission _ _ ptype \<Rightarrow> ptype = py ''read''
      | Save doctype _ changes \<Rightarrow> doctype = py ''Custom DocPerm'' \<and> flags_within names changes
      | Insert doctype _ \<Rightarrow> doctype \<noteq> py ''Custom DocPerm''
      | _ \<Rightarrow> True)"

lemma restrained_simps [simp]:
  "restrained names (Get_Doc d n)" "restrained names (Exists d n')" "restrained names (Get_Value d f x)"
  "restrained names (Get_Root d)" "restrained names (Get_All d f x)" "restrained names (Clear_Cache d)"
  "restrained names New_Token" "restrained names (Set_Password u v)" "restrained names Today" "restrained names Commit"
  "restrained names (Add_Permission d role ptype) \<longleftrightarrow> ptype = py ''read''"
  "restrained names (Save d n changes) \<longleftrightarrow> d = py ''Custom DocPerm'' \<and> flags_within names changes"
  "restrained names (Insert d entries) \<longleftrightarrow> d \<noteq> py ''Custom DocPerm''"
  by (simp_all add: restrained_def)

lemma restrained_insert_named [intro]: "d \<noteq> py ''Custom DocPerm'' \<Longrightarrow> only_calls (restrained names) (insert_named desk d entries)"
  unfolding insert_named_def by (intro only_calls_intros) simp_all

lemma restrained_grant:
  "flags_within names (flags target) \<Longrightarrow> only_calls (restrained names) (grant desk role flags target)"
  unfolding grant_def by (intro only_calls_intros) simp_all

lemma restrained_users:
  "only_calls (restrained names) (insert_user desk email first_name role label)"
  "only_calls (restrained names) (confine_user desk user company_name)"
  unfolding insert_user_def confine_user_def
  by ((intro only_calls_intros restrained_insert_named; simp add: py_def)+)

lemma sender_restrained: "only_calls (restrained [''print'', ''report'']) (fixture_sender desk company_name)"
proof -
  have "only_calls (restrained [''print'', ''report'']) (grant_report desk role target)" for role target
    unfolding grant_report_def
    by (intro only_calls_intros restrained_grant) (simp_all add: flags_within_def)
  then show ?thesis
    unfolding fixture_sender_def
    by (intro only_calls_intros restrained_insert_named restrained_users) (simp_all add: py_def case_prod_beta)
qed

lemma editor_restrained: "only_calls (restrained [''write'']) (fixture_editor desk company_name)"
proof -
  have "only_calls (restrained [''write'']) (withdraw_write desk name)" for name
    unfolding withdraw_write_def by (intro only_calls_intros) (simp_all add: flags_within_def)
  then show ?thesis
    unfolding fixture_editor_def
    by (intro only_calls_intros restrained_insert_named restrained_users restrained_grant)
       (simp_all add: py_def flags_within_def editor_flags_def)
qed

lemma restrained_mono: "set ns \<subseteq> set ms \<Longrightarrow> only_calls (restrained ns) m \<Longrightarrow> only_calls (restrained ms) m"
proof -
  assume "set ns \<subseteq> set ms"
  then have "py ` set ns \<subseteq> py ` set ms" by blast
  then have "flags_within ns changes \<Longrightarrow> flags_within ms changes" for changes
    unfolding flags_within_def set_map by (rule subset_trans [rotated])
  then have "restrained ns call \<Longrightarrow> restrained ms call" for call
    by (auto simp: restrained_def split: fixture_call.splits)
  then show "only_calls (restrained ns) m \<Longrightarrow> only_calls (restrained ms) m"
    unfolding only_calls_def by (meson list.pred_mono_strong)
qed

lemma documents_restrained: "only_calls (restrained names) (invoice_documents fr enabled desk company)"
proof -
  have leaf: "only_calls (restrained names) (fixture_tree_leaf fr enabled desk d f p n)" if "d \<noteq> py ''Custom DocPerm''" for d f p n
    unfolding fixture_tree_leaf_def using that
    by (intro only_calls_intros restrained_insert_named) (simp_all add: only_calls_ask)
  have "only_calls (restrained names) (calendar desk)"
    unfolding calendar_def by (intro only_calls_intros) (simp_all add: py_def)
  moreover have "only_calls (restrained names) (income_account desk n)" for n
    unfolding income_account_def by (intro only_calls_intros) simp_all
  ultimately show ?thesis
    unfolding invoice_documents_def customer_document_def item_document_def
    by (intro only_calls_intros leaf) (simp_all add: py_def)
qed

theorem setup_is_restrained:
  assumes "setup_documents fr enabled desk [] = (r, calls)"
  shows "list_all (restrained [''print'', ''report'', ''write'']) calls"
proof -
  let ?only = "\<lambda>m. only_calls (restrained [''print'', ''report'', ''write'']) m"
  have "?only (setup_documents fr enabled desk)"
    unfolding setup_documents_def other_company_def case_prod_beta
    by (intro only_calls_intros documents_restrained
        restrained_mono [OF _ sender_restrained] restrained_mono [OF _ editor_restrained]) (simp_all add: py_def)
  then show ?thesis using assms unfolding only_calls_def by fastforce
qed

end
