(* ===== verification/Release.thy ===== *)
theory Release
  imports Pytext Phone
begin

text \<open>
  The release scripts: \<open>build-release-manifest.py\<close>, which writes down what a release consists of,
  and \<open>scan-public-history.py\<close>, which looks for secrets in the history of the repository.
\<close>

section \<open>The release manifest\<close>

text \<open>\<open>v\d+\.\d+\.\d+\<close>: the digits are those of Unicode.\<close>

fun dotted_numbers :: "nat \<Rightarrow> pystr \<Rightarrow> bool" where
  "dotted_numbers n s =
     (let digits = takeWhile is_decimal s; rest = dropWhile is_decimal s
      in digits \<noteq> [] \<and>
         (case n of 0 \<Rightarrow> rest = [] | Suc m \<Rightarrow> (case rest of [] \<Rightarrow> False | c # t \<Rightarrow> c = 46 \<and> dotted_numbers m t)))"

declare dotted_numbers.simps [simp del]

definition release_tag :: "pystr \<Rightarrow> bool" where
  "release_tag s \<longleftrightarrow> (case s of [] \<Rightarrow> False | c # t \<Rightarrow> c = 118 \<and> dotted_numbers 2 t)"

definition hex_char :: "nat \<Rightarrow> bool" where
  "hex_char c \<longleftrightarrow> (48 \<le> c \<and> c \<le> 57) \<or> (97 \<le> c \<and> c \<le> 102)"

definition source_commit :: "pystr \<Rightarrow> bool" where
  "source_commit s \<longleftrightarrow> length s = 40 \<and> list_all hex_char s"

text \<open>\<open>[a-z0-9_.-]\<close>.\<close>

definition image_char :: "nat \<Rightarrow> bool" where
  "image_char c \<longleftrightarrow> (97 \<le> c \<and> c \<le> 122) \<or> (48 \<le> c \<and> c \<le> 57) \<or> c = 95 \<or> c = 46 \<or> c = 45"

definition pinned_image :: "pystr \<Rightarrow> bool" where
  "pinned_image s \<longleftrightarrow>
     startswith s (py ''ghcr.io/'') \<and>
     (let t = drop 8 s; owner = takeWhile image_char t; u = dropWhile image_char t;
          name = takeWhile image_char (drop 1 u); digest = dropWhile image_char (drop 1 u)
      in owner \<noteq> [] \<and> startswith u (py ''/'') \<and> name \<noteq> [] \<and> startswith digest (py ''@sha256:'')
         \<and> length (drop 8 digest) = 64 \<and> list_all hex_char (drop 8 digest))"

text \<open>\<open>Path(filename).name\<close>.\<close>

fun path_parts :: "pystr \<Rightarrow> pystr \<Rightarrow> pystr list" where
  "path_parts part [] = [rev part]"
| "path_parts part (c # s) = (if c = 47 then rev part # path_parts [] s else path_parts (c # part) s)"

definition path_name :: "pystr \<Rightarrow> pystr" where
  "path_name filename =
     (case rev [p \<leftarrow> path_parts [] filename. p \<noteq> [] \<and> p \<noteq> py ''.''] of [] \<Rightarrow> [] | p # _ \<Rightarrow> p)"

text \<open>The disk: the content of every regular file. \<open>sha\<close> is SHA-256 in hexadecimal digits.\<close>

type_synonym disk = "pystr \<Rightarrow> nat list option"

definition asset :: "(nat list \<Rightarrow> pystr) \<Rightarrow> nat list \<Rightarrow> pyval" where
  "asset sha content = PDict [(py ''sha256'', PStr (sha content)), (py ''size'', PInt (int (length content)))]"

definition add_asset ::
  "(nat list \<Rightarrow> pystr) \<Rightarrow> disk \<Rightarrow> pystr \<Rightarrow> (pystr \<times> pyval) list \<Rightarrow> exn + (pystr \<times> pyval) list" where
  "add_asset sha disk filename assets =
     (case disk filename of
        None \<Rightarrow> Inl (Exn SystemExit (py ''missing release asset: '' @ filename) False)
      | Some content \<Rightarrow> Inr (dset assets (path_name filename) (asset sha content)))"

definition manifest :: "pystr \<Rightarrow> pystr \<Rightarrow> pystr \<Rightarrow> (pystr \<times> pyval) list \<Rightarrow> pyval" where
  "manifest tag commit gateway_image assets =
     PDict [(py ''schema_version'', PInt 1), (py ''release'', PStr (if startswith tag (py ''v'') then drop 1 tag else tag)),
       (py ''source_commit'', PStr commit), (py ''gateway_image'', PStr gateway_image), (py ''assets'', PDict assets)]"

text \<open>\<open>json.dumps(value, indent=2, sort_keys=True)\<close>.\<close>

definition line_start :: "nat \<Rightarrow> pystr" where
  "line_start depth = 10 # replicate (2 * depth) 32"

function json_pretty :: "nat \<Rightarrow> pyval \<Rightarrow> pystr" where
  "json_pretty depth (PList xs) =
     (if xs = [] then py ''[]''
      else [91] @ line_start (Suc depth) @ join (44 # line_start (Suc depth)) (map (json_pretty (Suc depth)) xs)
             @ line_start depth @ [93])"
| "json_pretty depth (PDict d) =
     (if d = [] then py ''{}''
      else [123] @ line_start (Suc depth)
             @ join (44 # line_start (Suc depth))
                 (map (\<lambda>(k, t). json_string True k @ py '': '' @ t)
                   (sort_key fst (map (\<lambda>(k, v). (k, json_pretty (Suc depth) v)) d)))
             @ line_start depth @ [125])"
| "json_pretty depth PNone = py ''null''"
| "json_pretty depth (PBool b) = (if b then py ''true'' else py ''false'')"
| "json_pretty depth (PInt i) = str_of_int i"
| "json_pretty depth (PStr s) = json_string True s"
  by pat_completeness auto
termination
  by (relation "measure (size \<circ> snd)")
    (auto simp: less_Suc_eq_le intro: size_list_estimation' [OF _ order_refl] elim!: size_list_estimation')

text \<open>\<open>main\<close>: the arguments after the script's name; the text of \<open>release-manifest.json\<close>.\<close>

definition exits :: "string \<Rightarrow> exn + 'a" where
  "exits m = raise SystemExit m"

definition release_manifest :: "(nat list \<Rightarrow> pystr) \<Rightarrow> disk \<Rightarrow> pystr list \<Rightarrow> exn + pystr" where
  "release_manifest sha disk args =
     (case args of
        tag # commit # gateway_image # filename # filenames \<Rightarrow>
          (if \<not> release_tag tag then exits ''invalid semantic release tag''
           else if \<not> source_commit commit then exits ''invalid source commit''
           else if \<not> pinned_image gateway_image then exits ''gateway image is not digest-pinned''
           else bindR (foldR (add_asset sha disk) (sort (filename # filenames)) []) (\<lambda>assets.
             Inr (json_pretty 0 (manifest tag commit gateway_image assets) @ [10])))
      | _ \<Rightarrow> exits ''usage: build-release-manifest.py <tag> <commit> <gateway-image@digest> <asset>...'')"

section \<open>The scan of the history\<close>

text \<open>The lower case of a character as far as it is an ASCII letter; under \<open>re.IGNORECASE\<close> the
  letters i, k and s also match U+0130, U+0131, U+212A and U+017F.\<close>

definition fold_case :: "nat \<Rightarrow> nat" where
  "fold_case c =
     (if 65 \<le> c \<and> c \<le> 90 then c + 32 else if c = 304 \<or> c = 305 then 105
      else if c = 8490 then 107 else if c = 383 then 115 else c)"

text \<open>A match of a literal, given in lower case, at the start of a text: what follows it.\<close>

definition literal :: "string \<Rightarrow> pystr \<Rightarrow> pystr option" where
  "literal l s = (if map fold_case (take (length l) s) = py l then Some (drop (length l) s) else None)"

definition is_literal :: "string \<Rightarrow> pystr \<Rightarrow> bool" where
  "is_literal l s \<longleftrightarrow> literal l s \<noteq> None"

text \<open>\<open>search\<close>: a match at some position.\<close>

fun search :: "(pystr \<Rightarrow> bool) \<Rightarrow> pystr \<Rightarrow> bool" where
  "search p [] = p []"
| "search p (c # s) = (p (c # s) \<or> search p s)"

definition private_key :: "pystr \<Rightarrow> bool" where
  "private_key s \<longleftrightarrow>
     (case literal ''begin '' s of
        None \<Rightarrow> False
      | Some t \<Rightarrow> list_ex (\<lambda>l. is_literal (l @ ''private key'') t) [''rsa '', ''openssh '', ''ec '', ''''])"

text \<open>\<open>name\s*[:=]\<close>.\<close>

definition assignment :: "string \<Rightarrow> pystr \<Rightarrow> bool" where
  "assignment l s \<longleftrightarrow>
     (case literal l s of
        None \<Rightarrow> False
      | Some t \<Rightarrow> (case dropWhile is_space t of [] \<Rightarrow> False | c # _ \<Rightarrow> c = 58 \<or> c = 61))"

definition deployment_host :: "pystr \<Rightarrow> bool" where
  "deployment_host s \<longleftrightarrow>
     list_ex (\<lambda>l. is_literal (l @ ''.private.example'') s) [''tenant'', ''customer'', ''production'']"

definition PATTERNS :: "(string \<times> (pystr \<Rightarrow> bool)) list" where
  "PATTERNS =
     [(''private key material'', private_key),
      (''AWS secret assignment'', assignment ''aws_secret_access_key''),
      (''generic client secret assignment'', assignment ''client_secret''),
      (''private deployment hostname'', deployment_host)]"

text \<open>\<open>main\<close>, given the output of \<open>git log\<close>.\<close>

definition scan_history :: "pystr \<Rightarrow> exn + unit" where
  "scan_history history =
     (let failures = map fst (filter (\<lambda>(_, p). search p history) PATTERNS)
      in if failures \<noteq> []
         then Inl (Exn SystemExit (py ''public-history scan failed: '' @ join (py '', '') (map py failures)) False)
         else Inr ())"

end
