(* ===== verification/Release_Checks.thy ===== *)
theory Release_Checks
  imports Release "HOL-Library.Multiset"
begin

text \<open>
  The properties of the release scripts: the manifest describes exactly the files it was given, in
  whatever order, and the scan finds exactly the texts its patterns describe.
\<close>

section \<open>The manifest\<close>

lemma add_asset_step:
  assumes "add_asset sha disk f assets = Inr assets'"
  shows "\<exists>c. disk f = Some c \<and> map_of assets' = (map_of assets)(path_name f \<mapsto> asset sha c)"
  using assms by (auto simp: add_asset_def dset_def update_conv split: option.splits)

lemma add_assets:
  assumes "foldR (add_asset sha disk) files assets = Inr assets'" and "distinct (map path_name files)"
  shows "(\<forall>f \<in> set files. \<exists>c. disk f = Some c \<and> map_of assets' (path_name f) = Some (asset sha c))
    \<and> (\<forall>n. n \<notin> path_name ` set files \<longrightarrow> map_of assets' n = map_of assets n)"
  using assms
proof (induction files arbitrary: assets)
  case Nil
  then show ?case by simp
next
  case (Cons f files)
  then obtain mid where mid: "add_asset sha disk f assets = Inr mid" "foldR (add_asset sha disk) files mid = Inr assets'"
    by (auto simp: bindR_Inr_iff)
  obtain c where c: "disk f = Some c" "map_of mid = (map_of assets)(path_name f \<mapsto> asset sha c)"
    using add_asset_step [OF mid(1)] by blast
  have "path_name f \<notin> path_name ` set files" using Cons.prems(2) by simp
  then show ?case using Cons.IH [OF mid(2)] Cons.prems(2) c by auto
qed

lemma sort_same: "mset xs = mset ys \<Longrightarrow> sort xs = sort (ys :: 'a :: linorder list)"
  by (metis properties_for_sort mset_sort sorted_sort)

text \<open>A manifest is written only for a well-formed tag and commit and an image pinned by its digest,
  and only if every file is there. When no two files have the same name it lists, under its name,
  the digest and the size of every file and nothing else; the order of the files does not matter.\<close>

theorem manifest_describes_files:
  assumes "release_manifest sha disk (tag # commit # gateway_image # files) = Inr out"
    and "distinct (map path_name files)" and "mset files' = mset files"
  shows "release_tag tag \<and> source_commit commit \<and> pinned_image gateway_image
    \<and> (\<exists>assets. out = json_pretty 0 (manifest tag commit gateway_image assets) @ [10]
         \<and> (\<forall>f \<in> set files. \<exists>c. disk f = Some c \<and> map_of assets (path_name f) = Some (asset sha c))
         \<and> fst ` set assets = path_name ` set files)
    \<and> release_manifest sha disk (tag # commit # gateway_image # files') = Inr out"
proof -
  obtain f fs where files: "files = f # fs" using assms(1) by (cases files) (auto simp: release_manifest_def exits_def)
  have "files' \<noteq> []" using assms(3) files by auto
  then obtain f' fs' where files': "files' = f' # fs'" by (cases files') auto
  have sorts: "sort (f' # fs') = sort (f # fs)" using sort_same [OF assms(3)] files files' by simp
  obtain assets where ok: "release_tag tag" "source_commit commit" "pinned_image gateway_image"
    "foldR (add_asset sha disk) (sort (f # fs)) [] = Inr assets"
    "out = json_pretty 0 (manifest tag commit gateway_image assets) @ [10]"
    using assms(1) unfolding files
    by (auto simp: release_manifest_def exits_def bindR_Inr_iff simp del: sort_key_simps split: if_splits)
  have "distinct (map path_name (sort files))"
    using assms(2) by (simp add: distinct_map)
  with ok(4) have each: "\<forall>f \<in> set (sort files). \<exists>c. disk f = Some c \<and> map_of assets (path_name f) = Some (asset sha c)"
    "\<forall>n. n \<notin> path_name ` set (sort files) \<longrightarrow> map_of assets n = None"
    using add_assets [of sha disk "sort files" "[]" assets] by (simp_all add: files del: sort_key_simps)
  have "n \<in> fst ` set assets \<longleftrightarrow> n \<in> path_name ` set files" for n
  proof (cases "n \<in> path_name ` set files")
    case True
    then have "map_of assets n \<noteq> None" using each(1) by auto
    then show ?thesis using True by (simp only: map_of_eq_None_iff not_not)
  next
    case False
    then have "map_of assets n = None" using each(2) by simp
    then show ?thesis using False by (simp only: map_of_eq_None_iff)
  qed
  then have "fst ` set assets = path_name ` set files" by blast
  moreover have "release_manifest sha disk (tag # commit # gateway_image # files') = Inr out"
    using ok sorts by (simp add: files' release_manifest_def del: sort_key_simps)
  ultimately show ?thesis using ok each(1) by auto
qed

text \<open>Two files of a release.\<close>

definition release_disk :: disk where
  "release_disk f =
     (if f = py ''dist/b.zip'' then Some [1, 2, 3] else if f = py ''dist/a.tar'' then Some [] else None)"

theorem manifest_describes_files_witness:
  "\<exists>out. release_manifest (\<lambda>_. []) release_disk
      [py ''v1.2.3'', replicate 40 97, py ''ghcr.io/o/n@sha256:'' @ replicate 64 48, py ''dist/b.zip'', py ''dist/a.tar'']
     = Inr out
   \<and> release_manifest (\<lambda>_. []) release_disk
      [py ''v1.2.3'', replicate 40 97, py ''ghcr.io/o/n@sha256:'' @ replicate 64 48, py ''dist/a.tar'', py ''dist/b.zip'']
     = Inr out"
proof -
  let ?image = "py ''ghcr.io/o/n@sha256:'' @ replicate 64 48"
  have tag: "release_tag (py ''v1.2.3'')"
    by (simp add: release_tag_def py_def dotted_numbers.simps is_decimal_def nd_zeros_def numeral_2_eq_2)
  have commit: "source_commit (replicate 40 97)" by (simp add: source_commit_def hex_char_def list_all_iff)
  have image: "pinned_image ?image"
    by (simp add: pinned_image_def py_def startswith_def image_char_def hex_char_def list_all_iff eval_nat_numeral)
  have sorted: "sort [py ''dist/b.zip'', py ''dist/a.tar''] = [py ''dist/a.tar'', py ''dist/b.zip'']"
    by (simp add: py_def)
  obtain out where "release_manifest (\<lambda>_. []) release_disk [py ''v1.2.3'', replicate 40 97, ?image, py ''dist/b.zip'', py ''dist/a.tar''] = Inr out"
    by (simp add: release_manifest_def tag commit image sorted add_asset_def release_disk_def del: sort_key_simps)
  moreover have "distinct (map path_name [py ''dist/b.zip'', py ''dist/a.tar''])" by (simp add: path_name_def py_def)
  ultimately show ?thesis
    using manifest_describes_files [where files = "[py ''dist/b.zip'', py ''dist/a.tar'']"
      and files' = "[py ''dist/a.tar'', py ''dist/b.zip'']"] by auto
qed

section \<open>The scan\<close>

lemma search_iff: "search p s \<longleftrightarrow> (\<exists>u t. s = u @ t \<and> p t)"
proof (induction s)
  case Nil
  then show ?case by simp
next
  case (Cons c s)
  have "(\<exists>u t. c # s = u @ t \<and> p t) \<longleftrightarrow> p (c # s) \<or> (\<exists>u t. s = u @ t \<and> p t)"
    by (auto simp: Cons_eq_append_conv)
  then show ?case using Cons by simp
qed

lemma literal_iff: "literal l s = Some t \<longleftrightarrow> (\<exists>v. s = v @ t \<and> map fold_case v = py l)"
proof
  assume "literal l s = Some t"
  then show "\<exists>v. s = v @ t \<and> map fold_case v = py l"
    by (intro exI [of _ "take (length l) s"]) (auto simp: literal_def split: if_splits)
next
  assume "\<exists>v. s = v @ t \<and> map fold_case v = py l"
  then obtain v where v: "s = v @ t" "map fold_case v = py l" by blast
  then have "length v = length l" by (metis length_map length_py)
  then show "literal l s = Some t" using v by (simp add: literal_def)
qed

text \<open>The texts the patterns describe, letter case aside.\<close>

definition key_header :: "pystr \<Rightarrow> bool" where
  "key_header v \<longleftrightarrow>
     (\<exists>kind \<in> {''rsa '', ''openssh '', ''ec '', ''''}. map fold_case v = py (''begin '' @ kind @ ''private key''))"

definition secret_assignment :: "pystr \<Rightarrow> bool" where
  "secret_assignment v \<longleftrightarrow>
     (\<exists>name space c. v = name @ space @ [c] \<and> list_all is_space space \<and> (c = 58 \<or> c = 61)
        \<and> (map fold_case name = py ''aws_secret_access_key'' \<or> map fold_case name = py ''client_secret''))"

definition private_host :: "pystr \<Rightarrow> bool" where
  "private_host v \<longleftrightarrow>
     (\<exists>who \<in> {''tenant'', ''customer'', ''production''}. map fold_case v = py (who @ ''.private.example''))"

definition secret_text :: "pystr \<Rightarrow> bool" where
  "secret_text v \<longleftrightarrow> key_header v \<or> secret_assignment v \<or> private_host v"

lemma is_literal_iff: "is_literal l s \<longleftrightarrow> (\<exists>v t. s = v @ t \<and> map fold_case v = py l)"
  using literal_iff [of l s] by (auto simp: is_literal_def)

lemma py_append: "py (a @ b) = py a @ py b"
  by (simp add: py_def)

lemma literal_then:
  "(case literal l s of None \<Rightarrow> False | Some t \<Rightarrow> is_literal k t) \<longleftrightarrow>
     (\<exists>v t. s = v @ t \<and> map fold_case v = py (l @ k))"
proof -
  have "(case literal l s of None \<Rightarrow> False | Some t \<Rightarrow> is_literal k t) \<longleftrightarrow>
      (\<exists>v w t. s = v @ w @ t \<and> map fold_case v = py l \<and> map fold_case w = py k)"
    using literal_iff [of l s] by (cases "literal l s") (auto simp: is_literal_iff)
  also have "\<dots> \<longleftrightarrow> (\<exists>v t. s = v @ t \<and> map fold_case v = py (l @ k))"
  proof
    assume "\<exists>v w t. s = v @ w @ t \<and> map fold_case v = py l \<and> map fold_case w = py k"
    then obtain v w t where "s = (v @ w) @ t" "map fold_case (v @ w) = py (l @ k)" by (auto simp: py_append)
    then show "\<exists>v t. s = v @ t \<and> map fold_case v = py (l @ k)" by blast
  next
    assume "\<exists>v t. s = v @ t \<and> map fold_case v = py (l @ k)"
    then obtain v t where "s = v @ t" "map fold_case v = py l @ py k" by (auto simp: py_append)
    then obtain a b where "s = a @ b @ t" "map fold_case a = py l" "map fold_case b = py k"
      by (auto simp: map_eq_append_conv)
    then show "\<exists>v w t. s = v @ w @ t \<and> map fold_case v = py l \<and> map fold_case w = py k" by blast
  qed
  finally show ?thesis .
qed

lemma private_key_iff: "private_key s \<longleftrightarrow> (\<exists>v t. s = v @ t \<and> key_header v)"
proof -
  have "private_key s \<longleftrightarrow> (\<exists>kind \<in> {''rsa '', ''openssh '', ''ec '', ''''}.
      case literal ''begin '' s of None \<Rightarrow> False | Some t \<Rightarrow> is_literal (kind @ ''private key'') t)"
    by (cases "literal ''begin '' s") (auto simp: private_key_def)
  then show ?thesis unfolding literal_then key_header_def by blast
qed

lemma assignment_iff:
  "assignment l s \<longleftrightarrow> (\<exists>name space c t. s = name @ space @ c # t \<and> map fold_case name = py l
     \<and> list_all is_space space \<and> (c = 58 \<or> c = 61))"
proof -
  have spaces: "(case dropWhile is_space t of [] \<Rightarrow> False | c # _ \<Rightarrow> c = 58 \<or> c = 61) \<longleftrightarrow>
      (\<exists>space c u. t = space @ c # u \<and> list_all is_space space \<and> (c = 58 \<or> c = 61))" for t
  proof
    assume a: "case dropWhile is_space t of [] \<Rightarrow> False | c # _ \<Rightarrow> c = 58 \<or> c = 61"
    then obtain c u where "dropWhile is_space t = c # u" "c = 58 \<or> c = 61" by (auto split: list.splits)
    then show "\<exists>space c u. t = space @ c # u \<and> list_all is_space space \<and> (c = 58 \<or> c = 61)"
      by (intro exI [of _ "takeWhile is_space t"]) (metis list_all_iff set_takeWhileD takeWhile_dropWhile_id)
  next
    assume "\<exists>space c u. t = space @ c # u \<and> list_all is_space space \<and> (c = 58 \<or> c = 61)"
    then show "case dropWhile is_space t of [] \<Rightarrow> False | c # _ \<Rightarrow> c = 58 \<or> c = 61"
      by (auto simp: list_all_iff dropWhile_append is_space_def)
  qed
  then show ?thesis
    using literal_iff [of l s] by (cases "literal l s") (auto simp: assignment_def)
qed

lemma secret_assignment_iff:
  "(\<exists>v w. s = v @ w \<and> secret_assignment v) \<longleftrightarrow>
     assignment ''aws_secret_access_key'' s \<or> assignment ''client_secret'' s"
proof
  assume "\<exists>v w. s = v @ w \<and> secret_assignment v"
  then obtain name space c w where "s = name @ space @ c # w" "list_all is_space space" "c = 58 \<or> c = 61"
    "map fold_case name = py ''aws_secret_access_key'' \<or> map fold_case name = py ''client_secret''"
    by (auto simp: secret_assignment_def)
  then show "assignment ''aws_secret_access_key'' s \<or> assignment ''client_secret'' s"
    unfolding assignment_iff by blast
next
  assume "assignment ''aws_secret_access_key'' s \<or> assignment ''client_secret'' s"
  then obtain name space c w where v: "s = (name @ space @ [c]) @ w" "list_all is_space space" "c = 58 \<or> c = 61"
    "map fold_case name = py ''aws_secret_access_key'' \<or> map fold_case name = py ''client_secret''"
    unfolding assignment_iff by auto
  then have "secret_assignment (name @ space @ [c])" unfolding secret_assignment_def by blast
  with v(1) show "\<exists>v w. s = v @ w \<and> secret_assignment v" by blast
qed

lemma deployment_host_iff: "deployment_host s \<longleftrightarrow> (\<exists>v t. s = v @ t \<and> private_host v)"
  by (auto simp: deployment_host_def is_literal_iff private_host_def)

text \<open>The scan passes exactly the histories in which no secret occurs: no private key header, no
  assignment to one of the two secret names, with any white space before the sign, and no private
  host name, in whatever letter case.\<close>

theorem scan_passes_iff:
  "scan_history history = Inr () \<longleftrightarrow> (\<nexists>u v w. history = u @ v @ w \<and> secret_text v)"
proof -
  have part: "(\<exists>v w. s = v @ w \<and> secret_assignment v) \<longleftrightarrow> assignment ''aws_secret_access_key'' s \<or> assignment ''client_secret'' s" for s
    by (rule secret_assignment_iff)
  have "(\<exists>v w. s = v @ w \<and> secret_text v) \<longleftrightarrow> (\<exists>v w. s = v @ w \<and> key_header v)
      \<or> (\<exists>v w. s = v @ w \<and> secret_assignment v) \<or> (\<exists>v w. s = v @ w \<and> private_host v)" for s
    unfolding secret_text_def by blast
  then have each: "private_key s \<or> assignment ''aws_secret_access_key'' s \<or> assignment ''client_secret'' s \<or> deployment_host s
      \<longleftrightarrow> (\<exists>v w. s = v @ w \<and> secret_text v)" for s
    by (simp only: part private_key_iff deployment_host_iff disj_assoc)
  have "scan_history history = Inr () \<longleftrightarrow>
      \<not> (search private_key history \<or> search (assignment ''aws_secret_access_key'') history
         \<or> search (assignment ''client_secret'') history \<or> search deployment_host history)"
    by (auto simp: scan_history_def PATTERNS_def)
  also have "\<dots> \<longleftrightarrow> \<not> (\<exists>u s. history = u @ s \<and>
      (private_key s \<or> assignment ''aws_secret_access_key'' s \<or> assignment ''client_secret'' s \<or> deployment_host s))"
    unfolding search_iff by blast
  also have "\<dots> \<longleftrightarrow> \<not> (\<exists>u s. history = u @ s \<and> (\<exists>v w. s = v @ w \<and> secret_text v))"
    unfolding each ..
  also have "\<dots> \<longleftrightarrow> (\<nexists>u v w. history = u @ v @ w \<and> secret_text v)" by blast
  finally show ?thesis .
qed

end
