(* ===== verification/Hooks.thy ===== *)
theory Hooks
  imports Outbound Templates Permissions
begin

text \<open>
  \<open>hooks.py\<close>: the table of names by which the framework finds what it calls: after installing and
  migrating, every minute, and to guard the delivery history. The names are those of the modelled
  entry points, and every name of the table is one of them.
\<close>

record hook_table =
  hk_after_install :: pystr
  hk_after_migrate :: pystr
  hk_query_conditions :: "(pystr \<times> pystr) list"
  hk_has_permission :: "(pystr \<times> pystr) list"
  hk_cron :: "(pystr \<times> pystr list) list"

definition app_hooks :: hook_table where
  "app_hooks = \<lparr>
     hk_after_install = py ''erpnext_whatsapp_connection.install.after_install'',
     hk_after_migrate = py ''erpnext_whatsapp_connection.install.after_migrate'',
     hk_query_conditions = [(py ''ERPNext WhatsApp Delivery History'',
        py ''erpnext_whatsapp_connection.permissions.outbound_message_query_conditions'')],
     hk_has_permission = [(py ''ERPNext WhatsApp Delivery History'',
        py ''erpnext_whatsapp_connection.permissions.outbound_message_has_permission'')],
     hk_cron = [(py ''*/1 * * * *'', [py ''erpnext_whatsapp_connection.outbound.scheduled_maintenance''])]\<rparr>"

text \<open>What a name without arguments stands for.\<close>

definition hooked :: "frappe \<Rightarrow> pystr \<Rightarrow> (site, unit) act option" where
  "hooked fr path =
     map_of [(py ''erpnext_whatsapp_connection.install.after_install'', after_install fr),
       (py ''erpnext_whatsapp_connection.install.after_migrate'', after_migrate fr),
       (py ''erpnext_whatsapp_connection.outbound.scheduled_maintenance'', scheduled_maintenance fr)] path"

text \<open>A minute of the scheduler: the jobs that the table lists for every minute, each in its own
  transaction, whatever becomes of the others.\<close>

fun run_hooked :: "frappe \<Rightarrow> pystr list \<Rightarrow> site \<Rightarrow> site" where
  "run_hooked fr [] s = s"
| "run_hooked fr (path # paths) s =
     run_hooked fr paths (case hooked fr path of None \<Rightarrow> s | Some job \<Rightarrow> after (transaction job) s)"

definition every_minute :: "frappe \<Rightarrow> site \<Rightarrow> site" where
  "every_minute fr = run_hooked fr (concat (map snd (hk_cron app_hooks)))"

lemma hooks_resolve:
  "hooked fr (hk_after_install app_hooks) = Some (after_install fr)"
  "hooked fr (hk_after_migrate app_hooks) = Some (after_migrate fr)"
  "every_minute fr s = after (transaction (scheduled_maintenance fr)) s"
  by (simp_all add: hooked_def app_hooks_def every_minute_def py_def)

lemma history_is_guarded:
  "map_of (hk_query_conditions app_hooks) HISTORY_DOCTYPE \<noteq> None"
  "map_of (hk_has_permission app_hooks) HISTORY_DOCTYPE \<noteq> None"
  by (simp_all add: app_hooks_def HISTORY_DOCTYPE_def)

end
