(* ===== verification/Spec2Isabelle.thy ===== *)
theory Spec2Isabelle
  imports Contracts Copy_Contracts Iso_Times Peer_Contracts Installation_Checks Harness_Checks Browser_Run Report_Stage
    Enabled_Stage Fixture Release_Checks Hooks
begin

text \<open>
  A model of the ERPNext WhatsApp Connection add-on, the Python package
  \<open>src/erpnext_whatsapp_connection\<close>: it sends documents and reports of an ERPNext site to
  customers by WhatsApp, through a private gateway or a transport another app provides, with
  permission checks, a delivery history, retries, and opt-in copies to a group of the company.

  \<^bold>\<open>State.\<close> One record, \<^typ>\<open>site\<close>, is the site's database and surroundings: the session
  user, the settings, the delivery history, the private files, the message templates, the roles, the
  queued jobs, what went over the wire, and a tick that every clock, random value and fresh name
  advances. The rows of the history, the files and the templates are association lists by name
  (\<open>rows_store\<close> in Prelude gives their laws). Everything the framework and the outside world
  answer is a field of the record \<^typ>\<open>frappe\<close>, an argument of every operation: documents,
  permissions, the print and report engines, hooks of other apps, SHA-256 and HMAC, the peer on the
  socket, the job queue. No property assumes anything of it that its statement does not say.

  An operation is a function from the site to a result and a site (\<open>('s, 'a) act\<close>); an exception is
  a value of \<^typ>\<open>exn\<close>, with its Python class, its message and the flag
  \<open>reconciliation_required\<close>. A request or job runs in a \<open>transaction\<close>, which rolls the
  database back when an exception leaves it. A text is a list of code points (\<^typ>\<open>pystr\<close>), a
  dynamically typed value a \<^typ>\<open>pyval\<close>, an integer an \<^typ>\<open>int\<close>, as Python has them.

  \<^bold>\<open>Theories.\<close>
  \<^item> Prelude: texts, Python values, exceptions, actions and what they keep, tables.
  \<^item> Phone (\<open>_normalize_number\<close>, \<open>group_id\<close>, the gateway's own number check), Json, Pytext,
    Base64, Datetimes (\<open>datetime_utils.py\<close>): the texts that are read and written, with their round
    trips.
  \<^item> Site: the records. Permissions, Adapters, Transports, Gateway_Client: the files of these names.
    The three registries are interpretations of one locale, \<open>registry_overlay\<close>.
  \<^item> Sources, Reports, Report_Pdf, Delivery: \<open>api.py\<close>, from the checks to \<open>_store_delivery\<close>;
    Queueing: storing never stops half-way.
  \<^item> Delivery_History, Settings_Doc, Templates: the DocType controllers, and \<open>install.py\<close>.
  \<^item> Company_Groups, Outbound, Settings_Api: the files of these names. Attempts and Worker describe
    what the worker and the scheduler change, case by case; Releases and Copy_Contracts follow a
    group copy from its original to the queue, through the worker or, after a lost job, the scheduler.
  \<^item> Lifecycle: \<open>site_step\<close>, one transaction of a site (each whitelisted call, the worker, the
    scheduler, the webhook, saving settings or templates, migration), the states a fresh site
    can reach, and the locale \<open>inductive_invariant\<close>; Delivery_Bounds, Permanence and
    Configuration interpret it on the three invariants of the site, Guarantees draws conclusions.
  \<^item> Example, Example_Group, Example_Report: a small site on which the properties are run; Contracts:
    the properties of single components; Iso_Times: the timestamps the gateway writes; this theory:
    the properties of the whole.
  \<^item> Utf8, Peer, Peer_Contracts: the other end of the signed exchange, the protocol peer of
    \<open>group_acceptance.py\<close>, with equality of Python values, its time window, its nonces and its
    deliveries. The locale \<open>replay_guard\<close> is interpreted on it.
  \<^item> Installation, Installation_Checks: \<open>acceptance.py\<close> on top of \<open>install.py\<close>; when a migration
    completes, and that it leaves the settings alone.
  \<^item> Harness, Harness_Checks: the worker loop, the capture of the gateway and the evidence of
    \<open>group_acceptance.py\<close>, and \<open>scripts/verify-native-group-evidence.py\<close>.
  \<^item> Live_Delivery: the site and the protocol peer run together; a queued delivery goes out and so
    does its copy. Acceptance: \<open>run_worker\<close> and \<open>check_delivery\<close> of \<open>group_acceptance.py\<close> over
    a queue and its workers, and a run of them on the example site. Refusals: a copy the peer refuses,
    and the scheduler's pass that queues it again. Stages, Stage_Checks, Denials, Report_Stage,
    Enabled_Stage: nine stages of \<open>validate\<close>, composed of these runs, and that they pass: with a peer
    that refuses or cannot tell, with a sender who lost the role or the source, with forged requests,
    with the group disabled, with a report, and with the group enabled and the site migrated twice.
    Fixture: \<open>setup_documents\<close>, as the calls it makes to the framework, and the permissions they set.
  \<^item> Diagnostics: what \<open>group_browser_acceptance.py\<close> records of a browser's events; Browser_Driver:
    the commands it sends, with their answers and deadlines, and the server of \<open>native_http\<close>;
    Browser_Session: starting and stopping Chromium; Browser_Checks: \<open>validate_browser\<close>, the steps in
    the settings page and the requests that must be refused; Browser_Run: a run that passes, and what
    such runs show. The four loops interpret the locale \<open>deadline_loop\<close>.
  \<^item> Hooks: the handlers that \<open>hooks.py\<close> names.
  \<^item> Release, Release_Checks: \<open>scripts/build-release-manifest.py\<close> and
    \<open>scripts/scan-public-history.py\<close>.

  \<^bold>\<open>Bounds.\<close> The JSON reader recurses on fuel; twice the length of the text plus two is given,
  and \<open>reads_back_all\<close> shows that this is enough for every text the writer produces. ISO timestamps
  are read in the extended format the gateway writes. The worker loop of the harness runs at most 50
  times, as its source does; \<open>worker_reaches_delivery\<close> shows that this reaches any delivery of a
  backlog of at most 50. \<open>json_pretty\<close> recurses on the size of the value. The loops of Browser_Driver
  and Browser_Session that watch a clock are partial functions without fuel;
  \<open>browser_operations_return\<close>, \<open>native_http_returns\<close> and \<open>validate_browser_returns_always\<close> show that
  they return. All other recursion is structural.

  \<^bold>\<open>Not modelled.\<close> The Node gateway (\<open>src/gateway\<close>) is a service of its own and enters as the
  peer that answers requests; only its reading of a number is modelled, to compare it with the
  site's. Floating-point numbers do not occur in \<^typ>\<open>pyval\<close>. The HTTP transport over the Unix
  socket, the framework's print engine and the JavaScript of the pages are input and output; the
  scripts that \<open>validate_browser\<close> sends are text. Of \<open>validate\<close> in \<open>group_acceptance.py\<close> the frame
  around its stages is left out: the temporary directory, the threads of the peer and restoring the
  session user. The roles it changes between the stages are a change of the framework's answers, and
  what ERPNext makes of the documents of the fixture is outside the repository. Redis and RQ, the
  disk, the processes and \<open>git log\<close> are arguments. Command-line entry points
  (\<open>if __name__ == "__main__"\<close>) and the titles and assets in \<open>hooks.py\<close> are left out.
\<close>

section \<open>Deliveries over the life of a site\<close>

text \<open>C1. In every state a site can reach, a delivery has been submitted at most as often as it was
  attempted, and it is attempted at most as often as its own limit allows: no sequence of requests,
  duplicate or stale jobs, scheduler passes, rollbacks and delivery events makes the worker send
  one more.\<close>

theorem submissions_within_limit:
  assumes "reachable_site sha s" and "row_get (s_history s) n = Some h"
  shows "int (submissions (h_idempotency_key h) s) \<le> h_retry_count h \<and> h_retry_count h \<le> attempt_limit h"
  using attempts.invariant [OF assms(1)] assms(2) unfolding attempts_ok_def by blast

lemma demo_sent_row: "row_get (s_history demo_sent) (demo_name 2) = Some demo_sent_record"
  by (simp add: demo_sent_def row_get_def)

lemma demo_sent_key: "h_idempotency_key demo_sent_record = h_idempotency_key demo_record"
  by (simp add: demo_sent_record_def demo_attempt_fields)

lemma demo_submissions:
  "submissions (h_idempotency_key demo_record) demo_sent = 1"
  "submissions (h_idempotency_key demo_record) demo_queued = 0"
  by (simp_all add: submissions_def demo_sent_def demo_queued_fields)

theorem submissions_within_limit_witness:
  "1 \<le> h_retry_count demo_sent_record \<and> h_retry_count demo_sent_record \<le> attempt_limit demo_sent_record"
  using submissions_within_limit [OF demo_reachable(2) demo_sent_row]
  by (simp add: demo_sent_key demo_submissions)




lemma demo_queued_row: "row_get (s_history demo_queued) (demo_name 2) = Some demo_record"
  by (simp add: demo_queued_fields row_get_def)

lemma demo_attemptable: "attemptable demo_record demo_queued (fr_clock demo_frappe (s_ticks demo_queued))"
  by (simp add: attemptable_def demo_record_fields terminal_def original_pending_def is_copy_def nonempty_def
      attempt_limit_def backing_off_def)


text \<open>C4. A pass of the scheduler, with its retries and the delivery events of the gateway, sends
  nothing and changes of no record what it is about, how often it was attempted or whether it needs
  reconciliation.\<close>

theorem scheduler_sends_nothing:
  "submissions k (after (scheduled_maintenance fr) s) = submissions k s
   \<and> rows_view standing (after (scheduled_maintenance fr) s) = rows_view standing s"
proof -
  have "ledger standing (after (scheduled_maintenance fr) s) = ledger standing s"
    using keeps_ledger_scheduler [of fr] unfolding keeps_def same_def by blast
  then show ?thesis unfolding ledger_def by (metis prod.inject submission_counts_def)
qed

text \<open>C7. Over any further history of a site every delivery record stays, with the same source,
  content, recipient and retry limit; and one that needs reconciliation keeps needing it and is
  never attempted or submitted again.\<close>

theorem records_are_permanent:
  assumes "reachable_site sha s" and "(site_step sha)\<^sup>*\<^sup>* s t" and "row_get (s_history s) n = Some h"
  shows "\<exists>h'. row_get (s_history t) n = Some h' \<and> identity_of h' = identity_of h
    \<and> h_max_retries h' = h_max_retries h \<and> h_retry_count h \<le> h_retry_count h'
    \<and> (h_reconciliation_required h \<longrightarrow> h_reconciliation_required h' \<and> h_retry_count h' = h_retry_count h
        \<and> submissions (h_idempotency_key h) t = submissions (h_idempotency_key h) s)"
  using steady_history [OF attempts.invariant [OF assms(1)] assms(2)] assms(3)
  unfolding steady_def row_steady_def by blast

lemma demo_path: "(site_step (\<lambda>b. b))\<^sup>*\<^sup>* demo_queued demo_sent"
  using demo_steps(2) by (rule r_into_rtranclp)

theorem records_are_permanent_witness:
  "\<exists>t h'. site_step (\<lambda>b. b) demo_queued t \<and> row_get (s_history t) (demo_name 2) = Some h'
     \<and> identity_of h' = identity_of demo_record"
  using records_are_permanent [OF demo_reachable(1) demo_path demo_queued_row] demo_steps(2)
  by blast

text \<open>C8. A group copy never stands alone or disagrees: in every reachable state it names an original
  that is itself neither a copy nor for a group, and agrees with it in source, message, PDF
  checksum and sender.\<close>

theorem copies_agree_with_originals:
  assumes "reachable_site sha s" and "row_get (s_history s) n = Some c" and "is_group c \<or> is_copy c"
  shows "\<exists>p original. h_copy_of c = Some p \<and> row_get (s_history s) p = Some original
    \<and> \<not> is_group original \<and> \<not> is_copy original \<and> content_of c = content_of original"
  using records.invariant [OF assms(1)] assms(2,3) unfolding records_ok_def copies_ok_def by blast

theorem copies_agree_with_originals_witness:
  "\<exists>c p original. row_get (s_history demo_copied) (demo_name 7) = Some c \<and> is_group c
     \<and> h_copy_of c = Some p \<and> row_get (s_history demo_copied) p = Some original
     \<and> \<not> is_group original \<and> content_of c = content_of original"
  using demo_copy_row copies_agree_with_originals [OF demo_copied_reachable, of "demo_name 7"] by blast

text \<open>C9. The snapshot of a delivery is always there: every record of a reachable site names a private
  file attached to this record and no other, whose content has the recorded checksum.\<close>

theorem snapshots_are_kept:
  assumes "reachable_site sha s" and "row_get (s_history s) n = Some h"
  shows "\<exists>f file. h_pdf_file h = Some f \<and> row_get (s_files s) f = Some file
    \<and> f_attached_to_doctype file = HISTORY_DOCTYPE \<and> f_attached_to_name file = n
    \<and> f_is_private file \<and> h_pdf_sha256 h = Some (sha (f_content file))"
  using records.invariant [OF assms(1)] assms(2) unfolding records_ok_def snapshots_ok_def by blast

theorem snapshots_are_kept_witness:
  "\<exists>f file. h_pdf_file demo_sent_record = Some f \<and> row_get (s_files demo_sent) f = Some file
    \<and> f_attached_to_name file = demo_name 2 \<and> h_pdf_sha256 demo_sent_record = Some (f_content file)"
  using snapshots_are_kept [OF demo_reachable(2) demo_sent_row] by blast

text \<open>C10. In every reachable state a company has at most one group row, enabled rows exist only for
  the transport that can reach groups, every row's group ID is well formed, and no two enabled
  default templates compete for one target.\<close>

theorem configuration_is_unambiguous:
  assumes "reachable_site sha s"
  shows "distinct (companies (s_settings s))
    \<and> (enabled_rows (s_settings s) \<noteq> [] \<longrightarrow> st_provider (s_settings s) = LINKED_DEVICE)
    \<and> (\<forall>r \<in> set (st_company_groups (s_settings s)). \<exists>g. group_id (g_group_id r) = Inr g)
    \<and> one_default (s_templates s)"
  using config.invariant [OF assms] unfolding config_ok_def groups_ok_def by blast

theorem configuration_is_unambiguous_witness:
  "distinct (companies (s_settings demo_sent)) \<and> one_default (s_templates demo_sent)"
  using configuration_is_unambiguous [OF demo_reachable(2)] by blast

section \<open>Queueing a delivery\<close>

text \<open>C11. What \<open>queue_document\<close> stored was asked for by a signed-in user with a sender role who may
  read and print the document, on an enabled site, for the version of the document that was
  previewed (submitted, where the settings and the document type ask for it), to a canonical number
  of the document's own customer, with a message of 1 to 4096 characters; and the new record says
  exactly that, owned by the user.\<close>

theorem queued_document_authorised:
  assumes "queue_document fr dt n r pf m sm mt s = (Inr (p, c), t)"
  shows "s_user s \<noteq> py ''Guest'' \<and> can_send fr s None \<and> st_enabled (s_settings s)
    \<and> fr_can fr (s_user s) (py ''read'') dt (Some n) \<and> fr_can fr (s_user s) (py ''print'') dt (Some n)
    \<and> (\<exists>doc adapter party numbers number h.
         fr_doc fr dt n = Some doc \<and> b_modified doc = sm
         \<and> (st_require_submitted_documents (s_settings s) \<longrightarrow> a_require_submitted adapter \<longrightarrow>
              b_submittable doc \<longrightarrow> b_docstatus doc = 1)
         \<and> document_adapter fr dt = Inr (Some adapter) \<and> a_party_field adapter = Some party
         \<and> numbers_of_party fr s (field doc (Some party)) = Inr numbers
         \<and> normalize_number (Some r) = Inr number \<and> number \<in> set (map rc_value numbers)
         \<and> 1 \<le> length (strip m) \<and> length (strip m) \<le> 4096
         \<and> row_get (s_history s) (sd_name p) = None \<and> row_get (s_history t) (sd_name p) = Some h
         \<and> h_status h = Queued \<and> h_recipient h = number \<and> h_message_text h = strip m
         \<and> h_reference_type h = Document \<and> h_reference_doctype h = Some dt \<and> h_reference_name h = Some n
         \<and> h_source_modified h = Some sm \<and> h_owner h = s_user s)"
proof -
  from assms obtain d number where req: "document_request fr dt n r pf m sm mt s = Inr (d, number)"
    and store: "store_delivery fr d number s = (Inr (p, c), t)"
    by (auto simp: queue_document_Inr)
  from req obtain doc adapter party numbers q where r:
    "require_sender fr s = Inr ()" "validate_document fr s dt n = Inr (doc, adapter)"
    "b_modified doc = sm" "a_party_field adapter = Some party"
    "numbers_of_party fr s (field doc (Some party)) = Inr numbers"
    "check_recipient numbers r = Inr number" "check_message m = Inr (dr_message d)"
    "dr_reference_type d = Document" "dr_reference_doctype d = Some dt" "dr_reference_name d = Some n"
    "dr_source_modified d = Some sm"
    by (rule document_request_Inr)
  note doc = validate_document_Inr [OF r(2)]
  from store_delivery_Inr [OF store] obtain h u where
    "stored_row fr d s u (sd_name p) h" and row: "row_of fr (s_settings s) d number None h"
    and get: "row_get (s_history t) (sd_name p) = Some h" by blast
  then have fresh: "row_get (s_history s) (sd_name p) = None" "h_owner h = s_user s"
    by (simp_all add: stored_row_def)
  have h: "h_status h = Queued" "h_recipient h = number" "h_message_text h = dr_message d"
      "h_reference_type h = Document" "h_reference_doctype h = Some dt" "h_reference_name h = Some n"
      "h_source_modified h = Some sm"
    using row r(8-11) by (auto simp: row_of_def new_history_def)
  have "document_adapter fr dt = Inr (Some adapter)" using doc(2) by (simp add: document_adapter_Inr_iff)
  then show ?thesis
    using r(1,3-7) doc(1,3,4,7,8) fresh get h
    by (auto simp: require_sender_Inr_iff check_recipient_Inr_iff check_message_Inr_iff)
qed

theorem queued_document_authorised_witness:
  "fr_can demo_frappe (py ''ann'') (py ''print'') (py ''Sales Invoice'') (Some (py ''INV-1''))
   \<and> (\<exists>h. row_get (s_history demo_queued) (demo_name 2) = Some h \<and> h_message_text h = strip (py ''Hello''))"
  using queued_document_authorised [OF demo_stored [unfolded demo_queue_def]]
  by (auto simp: demo_site_fields)



text \<open>C13. With a group configured for the delivery's company, queueing stores exactly two records:
  the original, and a copy for that group and no other, which waits for the original and agrees
  with it in everything that is compared when it is sent. Without one it stores the original only.\<close>

theorem queued_copy_follows_configuration:
  assumes "store_delivery fr d r s = (Inr (p, c), t)"
  shows "\<exists>h g. configured_group fr (s_settings s) (opt_value (dr_company d)) s = Inr g
    \<and> row_get (s_history t) (sd_name p) = Some h \<and> h_recipient h = r \<and> h_status h = Queued
    \<and> (case g of
         None \<Rightarrow> c = None \<and> (\<forall>n. n \<noteq> sd_name p \<longrightarrow> row_get (s_history t) n = row_get (s_history s) n)
       | Some gid \<Rightarrow> \<exists>cr k. c = Some cr \<and> sd_name cr \<noteq> sd_name p
           \<and> row_get (s_history t) (sd_name cr) = Some k \<and> copy_matches h (sd_name p) gid k
           \<and> (\<forall>n. n \<noteq> sd_name p \<longrightarrow> n \<noteq> sd_name cr \<longrightarrow> row_get (s_history t) n = row_get (s_history s) n))"
proof -
  from store_delivery_Inr [OF assms] obtain h u g where
    one: "stored_row fr d s u (sd_name p) h" and row: "row_of fr (s_settings s) d r None h"
    and get: "row_get (s_history t) (sd_name p) = Some h"
    and conf: "configured_group fr (s_settings s) (opt_value (dr_company d)) s = Inr g"
    and two: "case g of
         None \<Rightarrow> c = None \<and> t = u
       | Some gid \<Rightarrow> \<exists>cr k. c = Some cr \<and> stored_row fr d u t (sd_name cr) k
           \<and> row_of fr (s_settings s) d gid (Some (sd_name p)) k \<and> copy_matches h (sd_name p) gid k"
    by blast
  have "h_recipient h = r" "h_status h = Queued" using row_of_original [OF row] by simp_all
  then show ?thesis
    using one get conf two by (cases g) (fastforce simp: stored_row_def)+
qed

theorem queued_copy_follows_configuration_witness:
  "\<exists>h k. row_get (s_history demo_copied) (demo_name 3) = Some h
     \<and> row_get (s_history demo_copied) (demo_name 7) = Some k \<and> copy_matches h (demo_name 3) demo_group k"
proof -
  have store: "store_delivery demo_frappe demo_request (py ''+12025550123'') demo_grouped =
      (Inr (\<lparr>sd_name = demo_name 3, sd_status = Queued\<rparr>,
        Some \<lparr>sd_name = demo_name 7, sd_status = Waiting_for_Primary\<rparr>), demo_copied)"
    by (rule demo_copy_stored)
  have "configured_group demo_frappe (s_settings demo_grouped) (opt_value (dr_company demo_request)) demo_grouped
      = Inr (Some demo_group)"
    by (simp add: demo_grouped_fields demo_request_def opt_value_def demo_group_found)
  with queued_copy_follows_configuration [OF store] show ?thesis by auto
qed





end
